(* ===== verification/Prelude.thy ===== *)
theory Prelude
  imports Complex_Main
begin

text \<open>
  Shared vocabulary of the GRANPIX model: the names of the model's types, the few
  JavaScript primitives whose behaviour the browser code relies on (the \<open>||\<close>
  default of a possibly missing string, \<open>String(x)\<close> of a missing value,
  \<open>Array.prototype.splice(i, 1)\<close>), and generic list lemmas that the component
  theories share.  The collection \<open>model_simps\<close> gathers the equations of the
  model's small operations that the component proofs unfold together.
\<close>

named_theorems model_simps "equations of the model's operations unfolded by component proofs"

type_synonym txid = string
  \<comment> \<open>a PIX transaction identifier (\<open>transacao_id\<close>), opaque and server-assigned\<close>

type_synonym money = real
  \<comment> \<open>currency values (\<open>preco\<close>, \<open>valor_total\<close>); JavaScript doubles read as exact reals\<close>

subsection \<open>JavaScript primitives\<close>

text \<open>\<open>s || d\<close> for a string field that may be absent: an absent or empty string
  is falsy and gives the default.\<close>

definition js_or_str :: "string option \<Rightarrow> string \<Rightarrow> string" where
  "js_or_str v d = (case v of Some s \<Rightarrow> (if s = [] then d else s) | None \<Rightarrow> d)"

text \<open>The truthiness of a string field that may be absent.\<close>

definition js_truthy_str :: "string option \<Rightarrow> bool" where
  "js_truthy_str v = (case v of Some s \<Rightarrow> s \<noteq> [] | None \<Rightarrow> False)"

text \<open>\<open>String(v)\<close>: an absent value prints as \<open>"undefined"\<close>.\<close>

definition js_str :: "string option \<Rightarrow> string" where
  "js_str v = (case v of Some s \<Rightarrow> s | None \<Rightarrow> ''undefined'')"

text \<open>\<open>xs.splice(i, 1)\<close>: a negative start counts from the end (clamped at 0), a
  start beyond the end removes nothing.\<close>

definition js_splice1 :: "'a list \<Rightarrow> int \<Rightarrow> 'a list" where
  "js_splice1 xs i =
     (let n = int (length xs);
          k = (if i < 0 then max (n + i) 0 else min i n)
      in take (nat k) xs @ drop (Suc (nat k)) xs)"

declare js_or_str_def [model_simps] js_truthy_str_def [model_simps] js_str_def [model_simps]

lemma js_or_str_truthy: "js_truthy_str v \<Longrightarrow> js_or_str v d = the v"
  by (auto simp: js_or_str_def js_truthy_str_def split: option.splits)

lemma js_splice1_in_range:
  assumes "0 \<le> i" "i < int (length xs)"
  shows "js_splice1 xs i = take (nat i) xs @ drop (Suc (nat i)) xs"
  using assms by (simp add: js_splice1_def)

lemma js_splice1_out_of_range:
  assumes "int (length xs) \<le> i"
  shows "js_splice1 xs i = xs"
  using assms by (simp add: js_splice1_def min_def)

lemma set_js_splice1: "set (js_splice1 xs i) \<subseteq> set xs"
  by (auto simp: js_splice1_def Let_def dest: in_set_takeD in_set_dropD)

lemma distinct_js_splice1: "distinct xs \<Longrightarrow> distinct (js_splice1 xs i)"
proof -
  assume d: "distinct xs"
  have "set (take k xs) \<inter> set (drop (Suc k) xs) = {}" for k
    using d set_take_disj_set_drop_if_distinct [of xs k "Suc k"] by simp
  with d show ?thesis
    by (simp add: js_splice1_def Let_def)
qed

subsection \<open>Lists\<close>

lemma sum_list_filter_split:
  fixes f :: "'a \<Rightarrow> 'b::comm_monoid_add"
  shows "sum_list (map f (filter P xs)) + sum_list (map f (filter (\<lambda>x. \<not> P x) xs))
         = sum_list (map f xs)"
  by (induction xs) (simp_all add: algebra_simps)

lemma find_append:
  "find P (xs @ ys) = (case find P xs of None \<Rightarrow> find P ys | Some x \<Rightarrow> Some x)"
  by (induction xs) auto

lemma find_Some_set: "find P xs = Some x \<Longrightarrow> x \<in> set xs \<and> P x"
  by (induction xs) (auto split: if_splits)

lemma count_list_replicate_other [simp]:
  "x \<noteq> y \<Longrightarrow> count_list (replicate n x) y = 0"
  by (induction n) auto

lemma count_list_replicate_same [simp]:
  "count_list (replicate n x) x = n"
  by (induction n) auto

text \<open>\<open>forEach((x, i) => ...)\<close> that ignores the index.\<close>

lemma map_enumerate_snd: "map (\<lambda>x. h (snd x)) (enumerate n xs) = map h xs"
  by (induction xs arbitrary: n) auto

end
