(* ===== verification/PixPoller.thy ===== *)
theory PixPoller
  imports Prelude
begin

text \<open>
  The status poller of one PIX payment, \<open>monitorarTransacaoPix\<close>
  (src/static/script.js, lines 2394--2474).  One call of the function creates a
  closure with the counter \<open>tentativas\<close> and a \<open>setInterval\<close> timer of 1 s; each
  timer tick increments the counter, gives up after \<open>maxTentativas = 120\<close>, and
  otherwise issues \<open>GET /api/transacao-pix/{id}\<close>; the continuation of that
  request reads the answer.  The closure is the record \<open>sessao_pix\<close>; the timer
  tick is \<open>tick_pix\<close>, the continuation is \<open>resposta_pix\<close>.  Both are the code's
  branches in its order.  The global effects of the closure (the registry
  \<open>pixPollings\<close>, the UI status text, the hand-off to the reconciler) are
  reported as outputs and applied by the system model of PixStore.

  \<open>poll_seq\<close> runs one session under the schedule the spec assumes: every answer
  arrives before the next tick.  The lemmas of this theory are the poller's
  contract under that schedule: the scenario of the spec, the bound on requests,
  the timeout, the silent stop on a non-OK answer, and that the poller always stops.
\<close>

definition max_tentativas :: nat where
  "max_tentativas = 120"

record corpo_tx =
  corpo_status :: "string option"
    \<comment> \<open>\<open>dados.status\<close>\<close>
  corpo_pago :: "bool option"
    \<comment> \<open>\<open>dados.pago\<close>; \<open>Some True\<close> is \<open>pago === true\<close>\<close>
  corpo_aninhado :: "(string option \<times> bool option) option"
    \<comment> \<open>\<open>dados.transacao\<close> with its \<open>status\<close> and \<open>pago\<close>\<close>

datatype resposta_http =
    RespNaoOk nat       \<comment> \<open>\<open>!resp.ok\<close>, with the HTTP status\<close>
  | RespOk corpo_tx     \<comment> \<open>a 2xx answer and its JSON body\<close>
  | RespExcecao         \<comment> \<open>\<open>fetch\<close> or \<open>resp.json()\<close> threw\<close>

abbreviation status_resp :: "string \<Rightarrow> resposta_http" where
  "status_resp st \<equiv> RespOk \<lparr>corpo_status = Some st, corpo_pago = None, corpo_aninhado = None\<rparr>"

record sessao_pix =
  sp_tx :: txid          \<comment> \<open>the closure's \<open>transacaoId\<close>\<close>
  tentativas :: nat      \<comment> \<open>the closure's counter\<close>
  ativo :: bool          \<comment> \<open>the interval has not been cleared\<close>

definition nova_sessao :: "txid \<Rightarrow> sessao_pix" where
  "nova_sessao tx = \<lparr>sp_tx = tx, tentativas = 0, ativo = True\<rparr>"

subsection \<open>Timer tick\<close>

datatype tick_out = TickExpirou | TickConsulta

definition tick_pix :: "sessao_pix \<Rightarrow> sessao_pix \<times> tick_out" where
  "tick_pix s =
     (let s1 = s\<lparr>tentativas := Suc (tentativas s)\<rparr>
      in if max_tentativas < tentativas s1 then (s1\<lparr>ativo := False\<rparr>, TickExpirou)
         else (s1, TickConsulta))"

subsection \<open>Continuation of a status request\<close>

text \<open>
  The outputs name what the continuation does besides changing the closure:
  \<open>RNaoEncontrada\<close> and \<open>RSubstituida\<close> stop silently, \<open>RAprovado\<close> shows
  "Pagamento confirmado" and calls \<open>processarCompraAposPagamento\<close>, \<open>RPendente n\<close>
  shows "Aguardando confirmacao... (n s)" with \<open>n = maxTentativas - tentativas\<close>
  computed on JavaScript numbers (so it may be negative), \<open>RRecusado\<close> shows
  "Pagamento nao realizado", \<open>RIgnorada\<close> is an unknown status (nothing happens),
  \<open>RErro\<close> is the \<open>catch\<close> that only logs.
\<close>

datatype resp_out =
    RNaoEncontrada | RSubstituida | RAprovado | RPendente int | RRecusado | RIgnorada | RErro

definition resposta_pix :: "txid option \<Rightarrow> sessao_pix \<Rightarrow> resposta_http \<Rightarrow> sessao_pix \<times> resp_out" where
  "resposta_pix atual s r =
     (case r of
        RespExcecao \<Rightarrow> (s, RErro)
      | RespNaoOk c \<Rightarrow> (s\<lparr>ativo := False\<rparr>, RNaoEncontrada)
      | RespOk j \<Rightarrow>
          (if atual \<noteq> Some (sp_tx s) then (s\<lparr>ativo := False\<rparr>, RSubstituida)
           else if corpo_status j = Some ''aprovado'' then (s\<lparr>ativo := False\<rparr>, RAprovado)
           else if corpo_status j = Some ''pendente''
             then (s, RPendente (int max_tentativas - int (tentativas s)))
           else if corpo_status j = Some ''recusado'' \<or> corpo_status j = Some ''cancelado''
             then (s\<lparr>ativo := False\<rparr>, RRecusado)
           else (s, RIgnorada)))"

subsection \<open>The sequential schedule\<close>

datatype saida = Consulta | Expirou | Resposta resp_out

fun poll_seq :: "txid option \<Rightarrow> sessao_pix \<Rightarrow> resposta_http list \<Rightarrow> sessao_pix \<times> saida list" where
  "poll_seq atual s [] = (s, [])"
| "poll_seq atual s (r # rs) =
     (if \<not> ativo s then (s, [])
      else (case tick_pix s of
              (s1, TickExpirou) \<Rightarrow> (s1, [Expirou])
            | (s1, TickConsulta) \<Rightarrow>
                (case resposta_pix atual s1 r of
                   (s2, ro) \<Rightarrow> (case poll_seq atual s2 rs of
                                 (s3, os) \<Rightarrow> (s3, Consulta # Resposta ro # os)))))"

text \<open>A response that neither ends nor changes the session.\<close>

definition resposta_continua :: "resposta_http \<Rightarrow> bool" where
  "resposta_continua r =
     (case r of
        RespNaoOk c \<Rightarrow> False
      | RespExcecao \<Rightarrow> True
      | RespOk j \<Rightarrow> corpo_status j \<notin> {Some ''aprovado'', Some ''recusado'', Some ''cancelado''})"

definition saida_continua :: "saida \<Rightarrow> bool" where
  "saida_continua x \<longleftrightarrow> x = Consulta \<or> x = Resposta RErro \<or> x = Resposta RIgnorada
                        \<or> (\<exists>n. x = Resposta (RPendente n))"

subsection \<open>Basic facts\<close>

lemma tick_pix_tx [simp]: "sp_tx (fst (tick_pix s)) = sp_tx s"
  by (simp add: tick_pix_def Let_def)

lemma tick_pix_tentativas [simp]: "tentativas (fst (tick_pix s)) = Suc (tentativas s)"
  by (simp add: tick_pix_def Let_def)

lemma tick_pix_consulta:
  "tentativas s < max_tentativas \<Longrightarrow>
   tick_pix s = (s\<lparr>tentativas := Suc (tentativas s)\<rparr>, TickConsulta)"
  by (simp add: tick_pix_def Let_def)

lemma tick_pix_expira:
  "max_tentativas \<le> tentativas s \<Longrightarrow>
   tick_pix s = (s\<lparr>tentativas := Suc (tentativas s), ativo := False\<rparr>, TickExpirou)"
  by (simp add: tick_pix_def Let_def)

lemma resposta_pix_tx [simp]: "sp_tx (fst (resposta_pix a s r)) = sp_tx s"
  by (simp add: resposta_pix_def split: resposta_http.split)

lemma resposta_pix_tentativas [simp]: "tentativas (fst (resposta_pix a s r)) = tentativas s"
  by (simp add: resposta_pix_def split: resposta_http.split)

lemma resposta_pix_continua:
  assumes "resposta_continua r"
  shows "fst (resposta_pix (Some (sp_tx s)) s r) = s
         \<and> saida_continua (Resposta (snd (resposta_pix (Some (sp_tx s)) s r)))"
  using assms
  by (auto simp: resposta_pix_def resposta_continua_def saida_continua_def
           split: resposta_http.splits)

lemma resposta_pix_nao_ok [simp]:
  "resposta_pix a s (RespNaoOk c) = (s\<lparr>ativo := False\<rparr>, RNaoEncontrada)"
  by (simp add: resposta_pix_def)

lemma poll_seq_inativo [simp]: "\<not> ativo s \<Longrightarrow> poll_seq a s rs = (s, [])"
  by (cases rs) auto

declare poll_seq.simps(2) [simp del]

lemma poll_seq_passo:
  assumes "ativo s" "tentativas s < max_tentativas"
  shows "poll_seq a s (r # rs) =
           (let s1 = s\<lparr>tentativas := Suc (tentativas s)\<rparr>;
                (s2, ro) = resposta_pix a s1 r;
                (s3, os) = poll_seq a s2 rs
            in (s3, Consulta # Resposta ro # os))"
  using assms by (simp add: poll_seq.simps(2) tick_pix_consulta split: prod.split)

lemma poll_seq_expira:
  assumes "ativo s" "max_tentativas \<le> tentativas s"
  shows "poll_seq a s (r # rs) = (s\<lparr>tentativas := Suc (tentativas s), ativo := False\<rparr>, [Expirou])"
  using assms by (simp add: poll_seq.simps(2) tick_pix_expira)

subsection \<open>Runs of continuing answers\<close>

lemma poll_seq_prefixo_continua:
  assumes "list_all resposta_continua ps" "tentativas s + length ps \<le> max_tentativas" "ativo s"
  shows "\<exists>os. poll_seq (Some (sp_tx s)) s (ps @ rs)
              = (case poll_seq (Some (sp_tx s)) (s\<lparr>tentativas := tentativas s + length ps\<rparr>) rs of
                   (s', os') \<Rightarrow> (s', os @ os'))
            \<and> count_list os Consulta = length ps \<and> list_all saida_continua os"
  using assms
proof (induction ps arbitrary: s)
  case Nil
  then show ?case by (auto split: prod.split)
next
  case (Cons p ps)
  let ?s1 = "s\<lparr>tentativas := Suc (tentativas s)\<rparr>"
  have cont: "resposta_continua p" and rest: "list_all resposta_continua ps"
    using Cons.prems(1) by simp_all
  have lt: "tentativas s < max_tentativas" using Cons.prems(2) by simp
  obtain ro where resp: "resposta_pix (Some (sp_tx s)) ?s1 p = (?s1, ro)"
    and out: "saida_continua (Resposta ro)"
    using resposta_pix_continua [OF cont, of ?s1] by (cases "resposta_pix (Some (sp_tx s)) ?s1 p") auto
  obtain os where IH: "poll_seq (Some (sp_tx s)) ?s1 (ps @ rs)
        = (case poll_seq (Some (sp_tx s)) (s\<lparr>tentativas := tentativas s + length (p # ps)\<rparr>) rs of
             (s', os') \<Rightarrow> (s', os @ os'))"
      and cnt: "count_list os Consulta = length ps" and all: "list_all saida_continua os"
    using Cons.IH [OF rest, of ?s1] Cons.prems(2,3) by auto
  have "poll_seq (Some (sp_tx s)) s ((p # ps) @ rs)
        = (case poll_seq (Some (sp_tx s)) (s\<lparr>tentativas := tentativas s + length (p # ps)\<rparr>) rs of
             (s', os') \<Rightarrow> (s', (Consulta # Resposta ro # os) @ os'))"
    using Cons.prems(3) lt resp IH
    by (simp add: poll_seq_passo split: prod.split)
  moreover have "saida_continua Consulta" by (simp add: saida_continua_def)
  ultimately show ?case
    using cnt all out by (intro exI [of _ "Consulta # Resposta ro # os"]) simp
qed

lemma saida_continua_nao_terminal:
  "list_all saida_continua os \<Longrightarrow>
   Resposta RAprovado \<notin> set os \<and> Resposta RRecusado \<notin> set os \<and> Expirou \<notin> set os"
  by (auto simp: list_all_iff saida_continua_def)

subsection \<open>The poller's contract\<close>

lemma poll_seq_pendentes_aprovado_gen:
  assumes "k + n < max_tentativas"
  shows "poll_seq (Some tx) \<lparr>sp_tx = tx, tentativas = k, ativo = True\<rparr>
           (replicate n (status_resp ''pendente'') @ status_resp ''aprovado'' # rs)
         = (\<lparr>sp_tx = tx, tentativas = Suc (k + n), ativo = False\<rparr>,
            concat (map (\<lambda>i. [Consulta, Resposta (RPendente (int max_tentativas - int i))])
                        [Suc k..<Suc (k + n)])
            @ [Consulta, Resposta RAprovado])"
  using assms
proof (induction n arbitrary: k)
  case 0
  then show ?case by (simp add: poll_seq_passo resposta_pix_def)
next
  case (Suc n)
  have "Suc k + n < max_tentativas" using Suc.prems by simp
  note IH = Suc.IH [OF this]
  have upt: "[Suc k..<Suc (Suc (k + n))] = Suc k # [Suc (Suc k)..<Suc (Suc (k + n))]"
    by (simp add: upt_conv_Cons del: upt_Suc)
  show ?case
    using Suc.prems IH by (simp add: poll_seq_passo resposta_pix_def upt del: upt_Suc)
qed

text \<open>C1. The spec's scenario, for any number of pending answers before the
  approval: with \<open>n\<close> answers "pendente" and then "aprovado", the poller issues
  \<open>n + 1\<close> requests, shows the waiting text \<open>n\<close> times with the seconds left
  (\<open>119, 118, ...\<close>), reports the approval once and stops its timer.\<close>

theorem poll_seq_pendentes_aprovado:
  assumes "n < max_tentativas"
  shows "poll_seq (Some tx) (nova_sessao tx)
           (replicate n (status_resp ''pendente'') @ status_resp ''aprovado'' # rs)
         = (\<lparr>sp_tx = tx, tentativas = Suc n, ativo = False\<rparr>,
            concat (map (\<lambda>i. [Consulta, Resposta (RPendente (int max_tentativas - int i))])
                        [1..<Suc n])
            @ [Consulta, Resposta RAprovado])"
  using poll_seq_pendentes_aprovado_gen [of 0 n tx rs] assms by (simp add: nova_sessao_def)

theorem poll_seq_pendentes_aprovado_witness:
  "2 < max_tentativas \<and>
   poll_seq (Some ''tx_1'') (nova_sessao ''tx_1'')
     (replicate 2 (status_resp ''pendente'') @ [status_resp ''aprovado''])
   = (\<lparr>sp_tx = ''tx_1'', tentativas = 3, ativo = False\<rparr>,
      [Consulta, Resposta (RPendente 119), Consulta, Resposta (RPendente 118),
       Consulta, Resposta RAprovado])"
  using poll_seq_pendentes_aprovado [of 2 "''tx_1''" "[]"]
  by (simp add: max_tentativas_def numeral_2_eq_2 upt_rec)

text \<open>C2. Timeout: when no answer ends the session (pending, unknown status or a
  failed request), the poller issues exactly \<open>maxTentativas\<close> requests, reports
  the timeout on the next tick and issues nothing after it.\<close>

theorem poll_seq_timeout:
  assumes "list_all resposta_continua rs" "max_tentativas < length rs"
  shows "\<exists>os. poll_seq (Some tx) (nova_sessao tx) rs
               = (\<lparr>sp_tx = tx, tentativas = Suc max_tentativas, ativo = False\<rparr>, os @ [Expirou])
             \<and> count_list os Consulta = max_tentativas
             \<and> Resposta RAprovado \<notin> set os \<and> Resposta RRecusado \<notin> set os"
proof -
  let ?ps = "take max_tentativas rs"
  obtain r rest where split: "drop max_tentativas rs = r # rest"
    using assms(2) by (cases "drop max_tentativas rs") auto
  have rs: "rs = ?ps @ r # rest" using split append_take_drop_id [of max_tentativas rs] by simp
  have ps: "list_all resposta_continua ?ps"
    using assms(1) by (auto simp: list_all_iff dest: in_set_takeD)
  have len: "length ?ps = max_tentativas"
    using assms(2) by simp
  obtain os where run: "poll_seq (Some tx) (nova_sessao tx) (?ps @ r # rest)
        = (case poll_seq (Some tx) ((nova_sessao tx)\<lparr>tentativas := max_tentativas\<rparr>) (r # rest) of
             (s', os') \<Rightarrow> (s', os @ os'))"
      and cnt: "count_list os Consulta = max_tentativas" and all: "list_all saida_continua os"
    using poll_seq_prefixo_continua [OF ps, of "nova_sessao tx" "r # rest"] len
    by (auto simp: nova_sessao_def)
  have "poll_seq (Some tx) ((nova_sessao tx)\<lparr>tentativas := max_tentativas\<rparr>) (r # rest)
        = (\<lparr>sp_tx = tx, tentativas = Suc max_tentativas, ativo = False\<rparr>, [Expirou])"
    by (simp add: poll_seq_expira nova_sessao_def)
  with run rs cnt all show ?thesis
    using saida_continua_nao_terminal [OF all] by auto
qed

theorem poll_seq_timeout_witness:
  "\<exists>os. poll_seq (Some ''tx_1'') (nova_sessao ''tx_1'') (replicate 121 (status_resp ''pendente''))
         = (\<lparr>sp_tx = ''tx_1'', tentativas = 121, ativo = False\<rparr>, os @ [Expirou])
       \<and> count_list os Consulta = 120
       \<and> Resposta RAprovado \<notin> set os \<and> Resposta RRecusado \<notin> set os"
proof -
  have "list_all resposta_continua (replicate 121 (status_resp ''pendente''))"
    by (simp add: list_all_iff resposta_continua_def)
  moreover have "max_tentativas < length (replicate 121 (status_resp ''pendente''))"
    by (simp add: max_tentativas_def)
  ultimately show ?thesis
    using poll_seq_timeout [of "replicate 121 (status_resp ''pendente'')" "''tx_1''"]
    by (simp add: max_tentativas_def)
qed

text \<open>C3. A non-OK answer (the transaction was deleted or is unknown) stops the
  poller silently: the run ends with that request, and neither approval, refusal
  nor timeout is reported.\<close>

theorem poll_seq_nao_ok_para:
  assumes "list_all resposta_continua ps" "length ps < max_tentativas"
  shows "\<exists>os. poll_seq (Some tx) (nova_sessao tx) (ps @ RespNaoOk c # rs)
               = (\<lparr>sp_tx = tx, tentativas = Suc (length ps), ativo = False\<rparr>,
                  os @ [Consulta, Resposta RNaoEncontrada])
             \<and> Resposta RAprovado \<notin> set os \<and> Resposta RRecusado \<notin> set os \<and> Expirou \<notin> set os"
proof -
  obtain os where run: "poll_seq (Some tx) (nova_sessao tx) (ps @ RespNaoOk c # rs)
        = (case poll_seq (Some tx) ((nova_sessao tx)\<lparr>tentativas := length ps\<rparr>) (RespNaoOk c # rs) of
             (s', os') \<Rightarrow> (s', os @ os'))"
      and all: "list_all saida_continua os"
    using poll_seq_prefixo_continua [OF assms(1), of "nova_sessao tx" "RespNaoOk c # rs"] assms(2)
    by (auto simp: nova_sessao_def)
  have "poll_seq (Some tx) ((nova_sessao tx)\<lparr>tentativas := length ps\<rparr>) (RespNaoOk c # rs)
        = (\<lparr>sp_tx = tx, tentativas = Suc (length ps), ativo = False\<rparr>,
           [Consulta, Resposta RNaoEncontrada])"
    using assms(2) by (simp add: poll_seq_passo nova_sessao_def)
  with run show ?thesis
    using saida_continua_nao_terminal [OF all] by auto
qed

theorem poll_seq_nao_ok_para_witness:
  "\<exists>os. poll_seq (Some ''tx_1'') (nova_sessao ''tx_1'')
           ([status_resp ''pendente''] @ RespNaoOk 404 # [status_resp ''aprovado''])
         = (\<lparr>sp_tx = ''tx_1'', tentativas = 2, ativo = False\<rparr>, os @ [Consulta, Resposta RNaoEncontrada])
       \<and> Resposta RAprovado \<notin> set os \<and> Resposta RRecusado \<notin> set os \<and> Expirou \<notin> set os"
proof -
  have "list_all resposta_continua [status_resp ''pendente'']"
    by (simp add: resposta_continua_def)
  moreover have "length [status_resp ''pendente''] < max_tentativas"
    by (simp add: max_tentativas_def)
  ultimately show ?thesis
    using poll_seq_nao_ok_para [of "[status_resp ''pendente'']" "''tx_1''" 404 "[status_resp ''aprovado'']"]
    by (simp add: numeral_2_eq_2)
qed

text \<open>Whatever the server answers, one poller issues at most
  \<open>maxTentativas - tentativas\<close> status requests.\<close>

theorem poll_seq_consultas_limite:
  "count_list (snd (poll_seq a s rs)) Consulta \<le> max_tentativas - tentativas s"
proof (induction rs arbitrary: s)
  case Nil
  then show ?case by simp
next
  case (Cons r rs)
  show ?case
  proof (cases "ativo s \<and> tentativas s < max_tentativas")
    case True
    let ?s1 = "s\<lparr>tentativas := Suc (tentativas s)\<rparr>"
    obtain s2 ro where r: "resposta_pix a ?s1 r = (s2, ro)" by (cases "resposta_pix a ?s1 r")
    obtain s3 os where rest: "poll_seq a s2 rs = (s3, os)" by (cases "poll_seq a s2 rs")
    have "tentativas s2 = Suc (tentativas s)"
      using resposta_pix_tentativas [of a ?s1 r] r by simp
    with Cons.IH [of s2] rest
    have "count_list os Consulta \<le> max_tentativas - Suc (tentativas s)" by simp
    with True r rest show ?thesis
      by (simp add: poll_seq_passo; linarith)
  next
    case False
    then show ?thesis by (cases "ativo s") (simp_all add: poll_seq_expira)
  qed
qed

text \<open>C5. The poller always stops: after more than \<open>maxTentativas - tentativas\<close>
  ticks its timer is cleared, whatever the answers were.\<close>

theorem poll_seq_sempre_para:
  "max_tentativas - tentativas s < length rs \<Longrightarrow> \<not> ativo (fst (poll_seq a s rs))"
proof (induction rs arbitrary: s)
  case Nil
  then show ?case by simp
next
  case (Cons r rs)
  show ?case
  proof (cases "ativo s \<and> tentativas s < max_tentativas")
    case True
    let ?s1 = "s\<lparr>tentativas := Suc (tentativas s)\<rparr>"
    obtain s2 ro where r: "resposta_pix a ?s1 r = (s2, ro)" by (cases "resposta_pix a ?s1 r")
    have t: "tentativas s2 = Suc (tentativas s)"
      using resposta_pix_tentativas [of a ?s1 r] r by simp
    obtain s3 os where rest: "poll_seq a s2 rs = (s3, os)" by (cases "poll_seq a s2 rs")
    have "\<not> ativo (fst (poll_seq a s2 rs))"
    proof (cases "ativo s2")
      case True
      have l: "length (r # rs) = Suc (length rs)" by simp
      from Cons.prems \<open>ativo s \<and> tentativas s < max_tentativas\<close> t l
      have "max_tentativas - tentativas s2 < length rs" by linarith
      then show ?thesis by (rule Cons.IH)
    next
      case False
      then show ?thesis by simp
    qed
    with True r rest show ?thesis
      by (simp add: poll_seq_passo)
  next
    case False
    then show ?thesis by (cases "ativo s") (simp_all add: poll_seq_expira)
  qed
qed

theorem poll_seq_sempre_para_witness:
  "max_tentativas - tentativas (nova_sessao ''tx_1'') < length (replicate 121 (status_resp ''pendente''))
   \<and> \<not> ativo (fst (poll_seq (Some ''tx_1'') (nova_sessao ''tx_1'') (replicate 121 (status_resp ''pendente''))))"
proof -
  have h: "max_tentativas - tentativas (nova_sessao ''tx_1'') < length (replicate 121 (status_resp ''pendente''))"
    by (simp add: max_tentativas_def nova_sessao_def)
  show ?thesis using h poll_seq_sempre_para [OF h] by simp
qed

end
