(* ===== verification/PixStore.thy ===== *)
theory PixStore
  imports PixPoller
begin

text \<open>
  The payment registry of the page and its pollers running concurrently.  The
  browser keeps three globals for the current payment: \<open>window.transacaoPixAtual\<close>,
  \<open>window.transacaoPixAtualDividido\<close> and \<open>window.compraPendentePix\<close>, and the
  registry \<open>pixPollings\<close> from transaction ids to interval handles
  (src/static/script.js, lines 2339--2392).  \<open>mostrarModalPix\<close> stops the poller
  of the current transaction, records the new one and starts
  \<open>monitorarTransacaoPix\<close>; \<open>confirmarPagamentoManual\<close> (lines 2522--2606) posts
  the manual confirmation.

  The event loop interleaves timer ticks of every live interval with the
  continuations of the requests in flight: \<open>setInterval\<close> does not wait for the
  previous request, so a tick may fire while earlier requests are pending and the
  answers may come back in any order.  The state \<open>pix_sys\<close> holds the globals, the
  closures of all pollers by handle, the requests in flight and the list of
  observable effects; \<open>passo_pix\<close> is one event of the loop and \<open>alcancavel\<close> the
  states reachable from page load.
\<close>

record compra_pix =
  cp_transacao_id :: "txid option"
  cp_tipo :: "string option"
  cp_item_id :: "string option"
  cp_carro_id :: "string option"

record dados_pix =
  dp_transacao_id :: txid
  dp_tipo_item :: "string option"
  dp_item_id :: "string option"
  dp_carro_id :: "string option"

datatype efeito =
    Requisicao nat                    \<comment> \<open>\<open>GET /api/transacao-pix/{id}\<close> by the poller with this handle\<close>
  | TelaAguardando int                \<comment> \<open>"Aguardando confirmacao... (n s)"\<close>
  | TelaExpirou                       \<comment> \<open>"Tempo limite expirado"\<close>
  | TelaRecusado                      \<comment> \<open>"Pagamento nao realizado"\<close>
  | TelaConfirmado txid               \<comment> \<open>"Pagamento confirmado" of this transaction\<close>
  | ProcessarCompra "compra_pix option" \<comment> \<open>call of \<open>processarCompraAposPagamento\<close>\<close>
  | PostConfirmarManual txid          \<comment> \<open>\<open>POST /api/confirmar-pagamento-manual\<close>\<close>
  | ToastErro                         \<comment> \<open>an error toast of the manual path\<close>
  | ManualConcluido                   \<comment> \<open>the manual path's success handling\<close>

record pix_sys =
  atual :: "txid option"              \<comment> \<open>\<open>window.transacaoPixAtual\<close>\<close>
  atual_dividido :: "txid option"     \<comment> \<open>\<open>window.transacaoPixAtualDividido\<close>\<close>
  pollings :: "txid \<Rightarrow> nat option"    \<comment> \<open>\<open>pixPollings\<close>\<close>
  sessoes :: "sessao_pix list"        \<comment> \<open>the poller closures, by interval handle\<close>
  em_voo :: "nat list"                \<comment> \<open>handles of the status requests in flight\<close>
  compra :: "compra_pix option"       \<comment> \<open>\<open>window.compraPendentePix\<close>\<close>
  eventos :: "efeito list"            \<comment> \<open>observable effects, oldest first\<close>

definition pix_inicial :: pix_sys where
  "pix_inicial = \<lparr>atual = None, atual_dividido = None, pollings = Map.empty, sessoes = [],
                  em_voo = [], compra = None, eventos = []\<rparr>"

subsection \<open>Operations\<close>

text \<open>\<open>clearInterval(h)\<close>: the closure with handle \<open>h\<close> gets no more ticks; an
  unknown handle is ignored.\<close>

definition parar_intervalo :: "nat \<Rightarrow> pix_sys \<Rightarrow> pix_sys" where
  "parar_intervalo h s = s\<lparr>sessoes := (sessoes s)[h := (sessoes s ! h)\<lparr>ativo := False\<rparr>]\<rparr>"

text \<open>The start of \<open>monitorarTransacaoPix(tx)\<close> (lines 2394--2404 and 2471--2474):
  clear the interval registered for \<open>tx\<close> (without deleting the entry), create the
  closure and register its handle.\<close>

definition monitorar_pix :: "txid \<Rightarrow> pix_sys \<Rightarrow> pix_sys" where
  "monitorar_pix tx s =
     (let s1 = (case pollings s tx of Some h \<Rightarrow> parar_intervalo h s | None \<Rightarrow> s)
      in s1\<lparr>sessoes := sessoes s1 @ [nova_sessao tx],
            pollings := (pollings s1)(tx \<mapsto> length (sessoes s1))\<rparr>)"

text \<open>\<open>mostrarModalPix(dadosPix)\<close> (lines 2341--2392): stop and unregister the
  poller of the current transaction, make the new one current, store the purchase
  data only when none with a \<open>tipo\<close> is stored, and start the poller.\<close>

definition mostrar_modal_pix :: "dados_pix \<Rightarrow> pix_sys \<Rightarrow> pix_sys" where
  "mostrar_modal_pix d s =
     (let tx = dp_transacao_id d;
          s1 = (case atual s of
                  Some a \<Rightarrow> (if a \<noteq> [] then (case pollings s a of
                                Some h \<Rightarrow> (parar_intervalo h s)\<lparr>pollings := (pollings s)(a := None)\<rparr>
                              | None \<Rightarrow> s) else s)
                | None \<Rightarrow> s);
          s2 = s1\<lparr>atual := Some tx, atual_dividido := Some tx\<rparr>;
          s3 = (if compra s2 = None \<or> \<not> js_truthy_str (cp_tipo (the (compra s2)))
                then s2\<lparr>compra := Some \<lparr>cp_transacao_id = Some tx, cp_tipo = dp_tipo_item d,
                                         cp_item_id = dp_item_id d, cp_carro_id = dp_carro_id d\<rparr>\<rparr>
                else s2)
      in monitorar_pix tx s3)"

text \<open>A timer tick of the interval with handle \<open>h\<close> (lines 2405--2417); only a
  live interval ticks.\<close>

definition tique_pix :: "nat \<Rightarrow> pix_sys \<Rightarrow> pix_sys option" where
  "tique_pix h s =
     (if h < length (sessoes s) \<and> ativo (sessoes s ! h) then
        (case tick_pix (sessoes s ! h) of
           (ss, TickExpirou) \<Rightarrow>
             Some (s\<lparr>sessoes := (sessoes s)[h := ss], pollings := (pollings s)(sp_tx ss := None),
                     eventos := eventos s @ [TelaExpirou]\<rparr>)
         | (ss, TickConsulta) \<Rightarrow>
             Some (s\<lparr>sessoes := (sessoes s)[h := ss], em_voo := em_voo s @ [h],
                     eventos := eventos s @ [Requisicao h]\<rparr>))
      else None)"

text \<open>The continuation of the \<open>i\<close>-th request in flight, run with the server's
  answer \<open>r\<close> (lines 2418--2468).  It reads the closure's current counter and the
  current globals; every stop clears the closure's own interval and deletes the
  registry entry of its transaction id, whatever handle that entry holds.\<close>

definition chega_pix :: "nat \<Rightarrow> resposta_http \<Rightarrow> pix_sys \<Rightarrow> pix_sys option" where
  "chega_pix i r s =
     (if i < length (em_voo s) then
        (let h = em_voo s ! i;
             tx = sp_tx (sessoes s ! h);
             (ss, ro) = resposta_pix (atual s) (sessoes s ! h) r;
             s1 = s\<lparr>em_voo := take i (em_voo s) @ drop (Suc i) (em_voo s),
                    sessoes := (sessoes s)[h := ss]\<rparr>
         in Some (case ro of
                    RNaoEncontrada \<Rightarrow> s1\<lparr>pollings := (pollings s)(tx := None)\<rparr>
                  | RSubstituida \<Rightarrow> s1\<lparr>pollings := (pollings s)(tx := None)\<rparr>
                  | RAprovado \<Rightarrow> s1\<lparr>pollings := (pollings s)(tx := None),
                                   eventos := eventos s @ [TelaConfirmado tx, ProcessarCompra (compra s)]\<rparr>
                  | RPendente n \<Rightarrow> s1\<lparr>eventos := eventos s @ [TelaAguardando n]\<rparr>
                  | RRecusado \<Rightarrow> s1\<lparr>pollings := (pollings s)(tx := None),
                                   eventos := eventos s @ [TelaRecusado]\<rparr>
                  | RIgnorada \<Rightarrow> s1
                  | RErro \<Rightarrow> s1))
      else None)"

text \<open>\<open>confirmarPagamentoManual()\<close> with the server's answer \<open>ok\<close> (\<open>resp.ok &&
  resultado.sucesso\<close>).  The transaction is \<open>transacaoPixAtualDividido ||
  transacaoPixAtual\<close>.  The code stops the poller through \<open>window.pixPollings\<close>,
  but \<open>pixPollings\<close> is a top-level \<open>const\<close> of a classic script, which creates no
  property of \<open>window\<close>: that lookup is \<open>undefined\<close> and nothing is stopped.\<close>

definition confirmar_manual :: "bool \<Rightarrow> pix_sys \<Rightarrow> pix_sys" where
  "confirmar_manual ok s =
     (let tx = (if js_truthy_str (atual_dividido s) then atual_dividido s else atual s);
          janela_pixPollings = (None :: (txid \<Rightarrow> nat option) option)
      in if \<not> js_truthy_str tx then s\<lparr>eventos := eventos s @ [ToastErro]\<rparr>
         else
           (let s1 = s\<lparr>eventos := eventos s @ [PostConfirmarManual (the tx)]\<rparr>
            in if \<not> ok then s1\<lparr>eventos := eventos s1 @ [ToastErro]\<rparr>
               else
                 (let s2 = (case janela_pixPollings of
                              Some m \<Rightarrow> (case m (the tx) of
                                           Some h \<Rightarrow> parar_intervalo h s1
                                         | None \<Rightarrow> s1)
                            | None \<Rightarrow> s1)
                  in s2\<lparr>eventos := eventos s2 @ [ManualConcluido]\<rparr>)))"

subsection \<open>Events and runs\<close>

datatype evento_pix =
    DefinirCompra compra_pix        \<comment> \<open>a caller stores \<open>window.compraPendentePix\<close>\<close>
  | AbrirPix dados_pix              \<comment> \<open>\<open>mostrarModalPix(dadosPix)\<close>\<close>
  | Tique nat                       \<comment> \<open>the interval with this handle fires\<close>
  | Chega nat resposta_http         \<comment> \<open>the i-th request in flight completes\<close>
  | ConfirmarManual bool            \<comment> \<open>\<open>confirmarPagamentoManual()\<close>\<close>

fun passo_pix :: "pix_sys \<Rightarrow> evento_pix \<Rightarrow> pix_sys option" where
  "passo_pix s (DefinirCompra c) = Some (s\<lparr>compra := Some c\<rparr>)"
| "passo_pix s (AbrirPix d) = Some (mostrar_modal_pix d s)"
| "passo_pix s (Tique h) = tique_pix h s"
| "passo_pix s (Chega i r) = chega_pix i r s"
| "passo_pix s (ConfirmarManual ok) = Some (confirmar_manual ok s)"

fun executa_pix :: "pix_sys \<Rightarrow> evento_pix list \<Rightarrow> pix_sys option" where
  "executa_pix s [] = Some s"
| "executa_pix s (e # es) = (case passo_pix s e of None \<Rightarrow> None | Some s' \<Rightarrow> executa_pix s' es)"

inductive alcancavel :: "pix_sys \<Rightarrow> bool" where
  inicio: "alcancavel pix_inicial"
| passo: "alcancavel s \<Longrightarrow> passo_pix s e = Some s' \<Longrightarrow> alcancavel s'"

subsection \<open>The invariant of the registry\<close>

text \<open>
  What the page keeps true between events: a registered handle belongs to a live
  poller of that very transaction; every request in flight belongs to a known
  poller; each poller has issued \<open>min tentativas maxTentativas\<close> requests; a
  live poller has ticked at most \<open>maxTentativas\<close> times.
\<close>

definition inv_registro :: "pix_sys \<Rightarrow> bool" where
  "inv_registro s \<longleftrightarrow> (\<forall>tx h. pollings s tx = Some h \<longrightarrow>
      h < length (sessoes s) \<and> sp_tx (sessoes s ! h) = tx \<and> ativo (sessoes s ! h))"

definition inv_voo :: "pix_sys \<Rightarrow> bool" where
  "inv_voo s \<longleftrightarrow> (\<forall>h \<in> set (em_voo s). h < length (sessoes s))"

definition inv_contagem :: "pix_sys \<Rightarrow> bool" where
  "inv_contagem s \<longleftrightarrow> (\<forall>h. count_list (eventos s) (Requisicao h)
      = (if h < length (sessoes s) then min (tentativas (sessoes s ! h)) max_tentativas else 0))"

definition inv_tentativas :: "pix_sys \<Rightarrow> bool" where
  "inv_tentativas s \<longleftrightarrow> (\<forall>ss \<in> set (sessoes s).
      tentativas ss \<le> Suc max_tentativas \<and> (ativo ss \<longrightarrow> tentativas ss \<le> max_tentativas))"

definition inv_pix :: "pix_sys \<Rightarrow> bool" where
  "inv_pix s \<longleftrightarrow> inv_registro s \<and> inv_voo s \<and> inv_contagem s \<and> inv_tentativas s"

abbreviation dados_peca :: "txid \<Rightarrow> dados_pix" where
  "dados_peca tx \<equiv> \<lparr>dp_transacao_id = tx, dp_tipo_item = Some ''peca'', dp_item_id = Some ''p7'',
                     dp_carro_id = None\<rparr>"

abbreviation compra_armazem :: "txid \<Rightarrow> compra_pix" where
  "compra_armazem tx \<equiv> \<lparr>cp_transacao_id = Some tx, cp_tipo = Some ''instalacao_armazem'',
                         cp_item_id = Some ''pl3'', cp_carro_id = Some ''c2''\<rparr>"

subsection \<open>Lemmas\<close>

lemmas pix_defs = mostrar_modal_pix_def monitorar_pix_def tique_pix_def chega_pix_def tick_pix_def
  resposta_pix_def nova_sessao_def parar_intervalo_def pix_inicial_def max_tentativas_def
  confirmar_manual_def

lemma executa_pix_alcancavel:
  "alcancavel s \<Longrightarrow> executa_pix s es = Some s' \<Longrightarrow> alcancavel s'"
proof (induction es arbitrary: s)
  case Nil
  then show ?case by simp
next
  case (Cons e es)
  then obtain s1 where "passo_pix s e = Some s1" and "executa_pix s1 es = Some s'"
    by (auto split: option.splits)
  with Cons show ?case by (blast intro: alcancavel.passo)
qed


lemmas inv_pix_defs = inv_pix_def inv_registro_def inv_voo_def inv_contagem_def inv_tentativas_def

lemma inv_pix_inicial: "inv_pix pix_inicial"
  by (simp add: inv_pix_defs pix_inicial_def)

lemma registro_unico:
  "inv_registro s \<Longrightarrow> pollings s a = Some h \<Longrightarrow> pollings s b = Some h \<Longrightarrow> a = b"
  unfolding inv_registro_def by metis

lemma inv_tentativas_update:
  assumes "inv_tentativas s" "tentativas ss \<le> Suc max_tentativas"
    "ativo ss \<Longrightarrow> tentativas ss \<le> max_tentativas"
  shows "inv_tentativas (s\<lparr>sessoes := (sessoes s)[h := ss]\<rparr>)"
  using assms set_update_subset_insert [of "sessoes s" h ss]
  unfolding inv_tentativas_def by auto

text \<open>Clearing the interval of a registered handle and unregistering it.\<close>

lemma inv_parar_registrado:
  assumes inv: "inv_pix s" and reg: "pollings s a = Some h"
  shows "inv_pix ((parar_intervalo h s)\<lparr>pollings := (pollings s)(a := None)\<rparr>)"
    (is "inv_pix ?s")
proof -
  from inv reg have h: "h < length (sessoes s)"
    by (auto simp: inv_pix_def inv_registro_def)
  have "inv_registro ?s"
    unfolding inv_registro_def
  proof (intro allI impI)
    fix tx h' assume p: "pollings ?s tx = Some h'"
    then have "tx \<noteq> a" "pollings s tx = Some h'" by (auto split: if_splits)
    moreover from this reg inv have "h' \<noteq> h"
      using registro_unico [of s tx h' a] by (auto simp: inv_pix_def)
    ultimately show "h' < length (sessoes ?s) \<and> sp_tx (sessoes ?s ! h') = tx \<and> ativo (sessoes ?s ! h')"
      using inv by (auto simp: inv_pix_def inv_registro_def parar_intervalo_def)
  qed
  moreover have "inv_voo ?s"
    using inv by (auto simp: inv_pix_def inv_voo_def parar_intervalo_def)
  moreover have "inv_contagem ?s"
    using inv h by (auto simp: inv_pix_def inv_contagem_def parar_intervalo_def nth_list_update)
  moreover have "inv_tentativas ?s"
  proof -
    have "inv_tentativas (s\<lparr>sessoes := (sessoes s)[h := (sessoes s ! h)\<lparr>ativo := False\<rparr>]\<rparr>)"
      using inv h by (intro inv_tentativas_update) (auto simp: inv_pix_def inv_tentativas_def)
    then show ?thesis by (simp add: inv_tentativas_def parar_intervalo_def)
  qed
  ultimately show ?thesis by (simp add: inv_pix_def)
qed


lemma inv_atualiza_sessao:
  assumes inv: "inv_pix s" and h: "h < length (sessoes s)"
    and tx: "sp_tx ss = sp_tx (sessoes s ! h)"
    and tent: "tentativas ss \<le> Suc max_tentativas" "ativo ss \<Longrightarrow> tentativas ss \<le> max_tentativas"
    and cont: "count_list novos (Requisicao h) + min (tentativas (sessoes s ! h)) max_tentativas
               = min (tentativas ss) max_tentativas"
    and outros: "\<And>h'. h' \<noteq> h \<Longrightarrow> count_list novos (Requisicao h') = 0"
    and voo: "set em \<subseteq> insert h (set (em_voo s))"
    and reg: "P = pollings s \<or> P = (pollings s)(sp_tx ss := None)"
    and reg_parado: "ativo (sessoes s ! h) \<Longrightarrow> \<not> ativo ss \<Longrightarrow> P = (pollings s)(sp_tx ss := None)"
  shows "inv_pix (s\<lparr>sessoes := (sessoes s)[h := ss], em_voo := em, pollings := P,
                    eventos := eventos s @ novos\<rparr>)" (is "inv_pix ?s")
proof -
  have "inv_registro ?s"
    unfolding inv_registro_def
  proof (intro allI impI)
    fix tx' h' assume p: "pollings ?s tx' = Some h'"
    then have old: "pollings s tx' = Some h'" using reg by (auto split: if_splits)
    with inv have o: "h' < length (sessoes s)" "sp_tx (sessoes s ! h') = tx'" "ativo (sessoes s ! h')"
      by (auto simp: inv_pix_def inv_registro_def)
    show "h' < length (sessoes ?s) \<and> sp_tx (sessoes ?s ! h') = tx' \<and> ativo (sessoes ?s ! h')"
    proof (cases "h' = h")
      case True
      have "ativo ss"
      proof (rule ccontr)
        assume "\<not> ativo ss"
        with reg_parado o(3) True have "P = (pollings s)(sp_tx ss := None)" by simp
        with p tx o(2) True show False by simp
      qed
      with True o tx show ?thesis by simp
    next
      case False
      with o show ?thesis by simp
    qed
  qed
  moreover have "inv_voo ?s"
    using inv h voo by (auto simp: inv_pix_def inv_voo_def)
  moreover have "inv_contagem ?s"
    using inv h cont outros by (auto simp: inv_pix_def inv_contagem_def nth_list_update)
  moreover have "inv_tentativas ?s"
  proof -
    have "inv_tentativas (s\<lparr>sessoes := (sessoes s)[h := ss]\<rparr>)"
      using inv tent by (intro inv_tentativas_update) (auto simp: inv_pix_def)
    then show ?thesis by (simp add: inv_tentativas_def)
  qed
  ultimately show ?thesis by (simp add: inv_pix_def)
qed

lemma inv_registrar_nova:
  assumes inv: "inv_pix s" and livre: "pollings s tx = None"
  shows "inv_pix (s\<lparr>sessoes := sessoes s @ [nova_sessao tx],
                    pollings := (pollings s)(tx \<mapsto> length (sessoes s))\<rparr>)"
    (is "inv_pix ?s")
proof -
  have "inv_registro ?s"
    unfolding inv_registro_def
  proof (intro allI impI)
    fix tx' h' assume p: "pollings ?s tx' = Some h'"
    show "h' < length (sessoes ?s) \<and> sp_tx (sessoes ?s ! h') = tx' \<and> ativo (sessoes ?s ! h')"
    proof (cases "tx' = tx")
      case True
      with p show ?thesis by (auto simp: nova_sessao_def nth_append)
    next
      case False
      with p inv have "h' < length (sessoes s)" "sp_tx (sessoes s ! h') = tx'" "ativo (sessoes s ! h')"
        by (auto simp: inv_pix_def inv_registro_def)
      then show ?thesis by (simp add: nth_append)
    qed
  qed
  moreover have "inv_voo ?s \<and> inv_contagem ?s \<and> inv_tentativas ?s"
    using inv by (auto simp: inv_pix_defs nth_append nova_sessao_def)
  ultimately show ?thesis by (simp add: inv_pix_def)
qed

lemma inv_monitorar:
  assumes inv: "inv_pix s"
  shows "inv_pix (monitorar_pix tx s)"
proof (cases "pollings s tx")
  case None
  with inv show ?thesis
    using inv_registrar_nova [OF inv None] by (simp add: monitorar_pix_def)
next
  case (Some h)
  let ?s1 = "(parar_intervalo h s)\<lparr>pollings := (pollings s)(tx := None)\<rparr>"
  have "inv_pix ?s1" by (rule inv_parar_registrado [OF inv Some])
  then have "inv_pix (?s1\<lparr>sessoes := sessoes ?s1 @ [nova_sessao tx],
                          pollings := (pollings ?s1)(tx \<mapsto> length (sessoes ?s1))\<rparr>)"
    by (rule inv_registrar_nova) simp
  with Some show ?thesis
    by (simp add: monitorar_pix_def parar_intervalo_def)
qed


lemma inv_pix_globais [simp]:
  "inv_pix (s\<lparr>atual := x\<rparr>) = inv_pix s"
  "inv_pix (s\<lparr>atual_dividido := y\<rparr>) = inv_pix s"
  "inv_pix (s\<lparr>compra := c\<rparr>) = inv_pix s"
  by (simp_all add: inv_pix_defs)

lemma inv_pix_eventos_sem_requisicao:
  "inv_pix s \<Longrightarrow> (\<And>h. Requisicao h \<notin> set novos) \<Longrightarrow> inv_pix (s\<lparr>eventos := eventos s @ novos\<rparr>)"
  by (simp add: inv_pix_defs count_list_0_iff)

lemma inv_mostrar:
  assumes inv: "inv_pix s"
  shows "inv_pix (mostrar_modal_pix d s)"
proof -
  let ?s1 = "(case atual s of
                Some a \<Rightarrow> (if a \<noteq> [] then (case pollings s a of
                              Some h \<Rightarrow> (parar_intervalo h s)\<lparr>pollings := (pollings s)(a := None)\<rparr>
                            | None \<Rightarrow> s) else s)
              | None \<Rightarrow> s)"
  have "inv_pix ?s1"
    using inv inv_parar_registrado by (auto split: option.split)
  then show ?thesis
    by (simp add: mostrar_modal_pix_def Let_def inv_monitorar)
qed

lemma inv_tique:
  assumes inv: "inv_pix s" and t: "tique_pix h s = Some s'"
  shows "inv_pix s'"
proof -
  from t have h: "h < length (sessoes s)" and at: "ativo (sessoes s ! h)"
    by (auto simp: tique_pix_def split: if_splits)
  let ?ss = "sessoes s ! h"
  have le: "tentativas ?ss \<le> max_tentativas"
    using inv h at by (auto simp: inv_pix_def inv_tentativas_def)
  show ?thesis
  proof (cases "tentativas ?ss < max_tentativas")
    case True
    let ?n = "?ss\<lparr>tentativas := Suc (tentativas ?ss)\<rparr>"
    have s': "s' = s\<lparr>sessoes := (sessoes s)[h := ?n], em_voo := em_voo s @ [h],
                     pollings := pollings s, eventos := eventos s @ [Requisicao h]\<rparr>"
      using t h at True by (simp add: tique_pix_def tick_pix_consulta)
    have "inv_pix (s\<lparr>sessoes := (sessoes s)[h := ?n], em_voo := em_voo s @ [h],
                     pollings := pollings s, eventos := eventos s @ [Requisicao h]\<rparr>)"
      using True at by (intro inv_atualiza_sessao [OF inv h]) auto
    with s' show ?thesis by simp
  next
    case False
    let ?n = "?ss\<lparr>tentativas := Suc (tentativas ?ss), ativo := False\<rparr>"
    have s': "s' = s\<lparr>sessoes := (sessoes s)[h := ?n], em_voo := em_voo s,
                     pollings := (pollings s)(sp_tx ?n := None), eventos := eventos s @ [TelaExpirou]\<rparr>"
      using t h at False by (simp add: tique_pix_def tick_pix_expira)
    have "inv_pix (s\<lparr>sessoes := (sessoes s)[h := ?n], em_voo := em_voo s,
                     pollings := (pollings s)(sp_tx ?n := None), eventos := eventos s @ [TelaExpirou]\<rparr>)"
      using False le by (intro inv_atualiza_sessao [OF inv h]) auto
    with s' show ?thesis by simp
  qed
qed

lemma resposta_pix_casos:
  assumes "resposta_pix a t r = (ss, ro)"
  shows "tentativas ss = tentativas t \<and> sp_tx ss = sp_tx t
         \<and> (if ro \<in> {RNaoEncontrada, RSubstituida, RAprovado, RRecusado}
            then ss = t\<lparr>ativo := False\<rparr> else ss = t)"
  using assms by (auto simp: resposta_pix_def split: resposta_http.splits if_splits)

lemma inv_chega:
  assumes inv: "inv_pix s" and c: "chega_pix i r s = Some s'"
  shows "inv_pix s'"
proof -
  from c have i: "i < length (em_voo s)" by (simp add: chega_pix_def split: if_splits)
  let ?h = "em_voo s ! i"
  have h: "?h < length (sessoes s)"
    using inv i by (auto simp: inv_pix_def inv_voo_def)
  obtain ss ro where r: "resposta_pix (atual s) (sessoes s ! ?h) r = (ss, ro)"
    by (cases "resposta_pix (atual s) (sessoes s ! ?h) r")
  note casos = resposta_pix_casos [OF r]
  let ?em = "take i (em_voo s) @ drop (Suc i) (em_voo s)"
  let ?tx = "sp_tx (sessoes s ! ?h)"
  have voo: "set ?em \<subseteq> insert ?h (set (em_voo s))"
    by (auto dest: in_set_takeD in_set_dropD)
  have tent: "tentativas ss \<le> Suc max_tentativas" "ativo ss \<Longrightarrow> tentativas ss \<le> max_tentativas"
    using inv h casos by (auto simp: inv_pix_def inv_tentativas_def split: if_splits)
  define P where "P = (if ro \<in> {RNaoEncontrada, RSubstituida, RAprovado, RRecusado}
                       then (pollings s)(?tx := None) else pollings s)"
  define novos where "novos = (case ro of
                          RAprovado \<Rightarrow> [TelaConfirmado ?tx, ProcessarCompra (compra s)]
                        | RPendente n \<Rightarrow> [TelaAguardando n]
                        | RRecusado \<Rightarrow> [TelaRecusado]
                        | _ \<Rightarrow> [])"
  have s': "s' = s\<lparr>sessoes := (sessoes s)[?h := ss], em_voo := ?em, pollings := P,
                   eventos := eventos s @ novos\<rparr>"
    using c i r by (cases ro) (auto simp: chega_pix_def P_def novos_def Let_def)
  have "inv_pix (s\<lparr>sessoes := (sessoes s)[?h := ss], em_voo := ?em, pollings := P,
                   eventos := eventos s @ novos\<rparr>)"
  proof (rule inv_atualiza_sessao [OF inv h])
    show "sp_tx ss = ?tx" using casos by simp
    show "tentativas ss \<le> Suc max_tentativas" by (fact tent(1))
    show "ativo ss \<Longrightarrow> tentativas ss \<le> max_tentativas" by (fact tent(2))
    show "count_list novos (Requisicao ?h) + min (tentativas (sessoes s ! ?h)) max_tentativas
          = min (tentativas ss) max_tentativas"
      using casos by (cases ro) (simp_all add: novos_def)
    show "count_list novos (Requisicao h') = 0" for h'
      by (cases ro) (simp_all add: novos_def)
    show "set ?em \<subseteq> insert ?h (set (em_voo s))" by (fact voo)
    show "P = pollings s \<or> P = (pollings s)(sp_tx ss := None)"
      using casos by (simp add: P_def)
    show "P = (pollings s)(sp_tx ss := None)" if "ativo (sessoes s ! ?h)" "\<not> ativo ss"
      using casos that by (auto simp: P_def split: if_splits)
  qed
  with s' show ?thesis by simp
qed

lemma inv_confirmar_manual:
  assumes inv: "inv_pix s"
  shows "inv_pix (confirmar_manual ok s)"
  using inv inv_pix_eventos_sem_requisicao [OF inv]
  by (auto simp: confirmar_manual_def Let_def inv_pix_defs count_list_0_iff)

lemma passo_pix_inv:
  "inv_pix s \<Longrightarrow> passo_pix s e = Some s' \<Longrightarrow> inv_pix s'"
  by (cases e) (auto intro: inv_mostrar inv_tique inv_chega inv_confirmar_manual)

lemma alcancavel_inv: "alcancavel s \<Longrightarrow> inv_pix s"
proof (induction rule: alcancavel.induct)
  case inicio
  show ?case by (rule inv_pix_inicial)
next
  case (passo s e s')
  then show ?case by (blast intro: passo_pix_inv)
qed

lemma passo_pix_eventos:
  "passo_pix s e = Some s' \<Longrightarrow> \<exists>novos. eventos s' = eventos s @ novos"
  by (cases e)
     (auto simp: pix_defs Let_def split: if_splits prod.splits tick_out.splits resp_out.splits
                 option.splits)

lemma resposta_pix_aprovado:
  "resposta_pix a t r = (ss, RAprovado) \<Longrightarrow> a = Some (sp_tx t)"
  by (auto simp: resposta_pix_def split: resposta_http.splits if_splits)

lemma executa_pix_Cons:
  "passo_pix s e = Some s1 \<Longrightarrow> executa_pix s (e # es) = executa_pix s1 es"
  by simp

text \<open>What \<open>mostrarModalPix\<close> leaves for the next events: one new closure at
  the end, the requests in flight and the effects untouched, the new transaction
  current, and a stored purchase with a \<open>tipo\<close> kept.\<close>

lemma mostrar_modal_pix_formato:
  "length (sessoes (mostrar_modal_pix d s)) = Suc (length (sessoes s))
   \<and> sessoes (mostrar_modal_pix d s) ! length (sessoes s) = nova_sessao (dp_transacao_id d)
   \<and> em_voo (mostrar_modal_pix d s) = em_voo s
   \<and> eventos (mostrar_modal_pix d s) = eventos s
   \<and> atual (mostrar_modal_pix d s) = Some (dp_transacao_id d)
   \<and> (js_truthy_str (cp_tipo (the (compra s))) \<and> compra s \<noteq> None \<longrightarrow> compra (mostrar_modal_pix d s) = compra s)"
  by (auto simp: mostrar_modal_pix_def monitorar_pix_def parar_intervalo_def Let_def nth_append
           split: option.splits)

subsection \<open>Properties of the registry\<close>

text \<open>C6. In every reachable state the registry \<open>pixPollings\<close> is consistent:
  a registered handle names a live poller of that very transaction.\<close>

theorem alcancavel_registro_consistente:
  assumes "alcancavel s" "pollings s tx = Some h"
  shows "h < length (sessoes s) \<and> sp_tx (sessoes s ! h) = tx \<and> ativo (sessoes s ! h)"
  using alcancavel_inv [OF assms(1)] assms(2) by (auto simp: inv_pix_def inv_registro_def)

theorem alcancavel_registro_consistente_witness:
  "alcancavel (the (executa_pix pix_inicial [AbrirPix (dados_peca ''tx_1''), Tique 0]))
   \<and> pollings (the (executa_pix pix_inicial [AbrirPix (dados_peca ''tx_1''), Tique 0])) ''tx_1'' = Some 0
   \<and> 0 < length (sessoes (the (executa_pix pix_inicial [AbrirPix (dados_peca ''tx_1''), Tique 0])))
   \<and> sp_tx (sessoes (the (executa_pix pix_inicial [AbrirPix (dados_peca ''tx_1''), Tique 0])) ! 0) = ''tx_1''
   \<and> ativo (sessoes (the (executa_pix pix_inicial [AbrirPix (dados_peca ''tx_1''), Tique 0])) ! 0)"
proof -
  let ?s = "the (executa_pix pix_inicial [AbrirPix (dados_peca ''tx_1''), Tique 0])"
  have run: "executa_pix pix_inicial [AbrirPix (dados_peca ''tx_1''), Tique 0] = Some ?s"
    by (simp add: pix_defs Let_def js_truthy_str_def)
  have a: "alcancavel ?s" by (rule executa_pix_alcancavel [OF alcancavel.inicio run])
  have p: "pollings ?s ''tx_1'' = Some 0"
    by (simp add: pix_defs Let_def js_truthy_str_def)
  show ?thesis using a p alcancavel_registro_consistente [OF a p] by simp
qed

text \<open>C7. However the ticks and answers interleave, no poller ever issues more
  than \<open>maxTentativas\<close> status requests.\<close>

theorem alcancavel_requisicoes_limite:
  assumes "alcancavel s"
  shows "count_list (eventos s) (Requisicao h) \<le> max_tentativas"
  using alcancavel_inv [OF assms] by (auto simp: inv_pix_def inv_contagem_def)

theorem alcancavel_requisicoes_limite_witness:
  "alcancavel (the (executa_pix pix_inicial [AbrirPix (dados_peca ''tx_1''), Tique 0, Tique 0]))
   \<and> count_list (eventos (the (executa_pix pix_inicial [AbrirPix (dados_peca ''tx_1''), Tique 0, Tique 0])))
       (Requisicao 0) \<le> max_tentativas"
proof -
  let ?s = "the (executa_pix pix_inicial [AbrirPix (dados_peca ''tx_1''), Tique 0, Tique 0])"
  have run: "executa_pix pix_inicial [AbrirPix (dados_peca ''tx_1''), Tique 0, Tique 0] = Some ?s"
    by (simp add: pix_defs Let_def js_truthy_str_def)
  have a: "alcancavel ?s" by (rule executa_pix_alcancavel [OF alcancavel.inicio run])
  show ?thesis using a alcancavel_requisicoes_limite [OF a, of 0] by simp
qed

text \<open>C8. An approval is shown and handed to \<open>processarCompraAposPagamento\<close> only
  for the transaction that is current when the answer arrives, and it hands over
  the purchase data stored at that moment: an in-flight answer of a superseded
  transaction never triggers the purchase.\<close>

theorem processar_so_transacao_atual:
  assumes "passo_pix s e = Some s'"
    and "ProcessarCompra c \<in> set (drop (length (eventos s)) (eventos s'))"
  shows "c = compra s \<and> (\<exists>tx. atual s = Some tx
           \<and> TelaConfirmado tx \<in> set (drop (length (eventos s)) (eventos s')))"
proof (cases e)
  case (Chega i r)
  with assms(1) have i: "i < length (em_voo s)" by (simp add: chega_pix_def split: if_splits)
  let ?t = "sessoes s ! (em_voo s ! i)"
  obtain ss ro where r: "resposta_pix (atual s) ?t r = (ss, ro)"
    by (cases "resposta_pix (atual s) ?t r")
  show ?thesis
  proof (cases ro)
    case RAprovado
    with r have "atual s = Some (sp_tx ?t)" by (simp add: resposta_pix_aprovado)
    with assms Chega i r RAprovado show ?thesis by (auto simp: chega_pix_def Let_def)
  qed (use assms Chega i r in \<open>auto simp: chega_pix_def Let_def\<close>)
qed (use assms in \<open>auto simp: pix_defs Let_def split: if_splits prod.splits tick_out.splits
                                option.splits\<close>)

theorem processar_so_transacao_atual_witness:
  "passo_pix (the (executa_pix pix_inicial [AbrirPix (dados_peca ''tx_1''), Tique 0]))
     (Chega 0 (status_resp ''aprovado''))
   = Some (the (executa_pix pix_inicial [AbrirPix (dados_peca ''tx_1''), Tique 0,
                                         Chega 0 (status_resp ''aprovado'')]))
   \<and> ProcessarCompra (compra (the (executa_pix pix_inicial [AbrirPix (dados_peca ''tx_1''), Tique 0])))
       \<in> set (drop (length (eventos (the (executa_pix pix_inicial [AbrirPix (dados_peca ''tx_1''), Tique 0]))))
                   (eventos (the (executa_pix pix_inicial [AbrirPix (dados_peca ''tx_1''), Tique 0,
                                                          Chega 0 (status_resp ''aprovado'')]))))
   \<and> atual (the (executa_pix pix_inicial [AbrirPix (dados_peca ''tx_1''), Tique 0])) = Some ''tx_1''"
proof -
  let ?s = "the (executa_pix pix_inicial [AbrirPix (dados_peca ''tx_1''), Tique 0])"
  let ?s' = "the (executa_pix pix_inicial [AbrirPix (dados_peca ''tx_1''), Tique 0,
                                           Chega 0 (status_resp ''aprovado'')])"
  have p: "passo_pix ?s (Chega 0 (status_resp ''aprovado'')) = Some ?s'"
    by (simp add: pix_defs Let_def js_truthy_str_def)
  have m: "ProcessarCompra (compra ?s) \<in> set (drop (length (eventos ?s)) (eventos ?s'))"
    by (simp add: pix_defs Let_def js_truthy_str_def)
  have "compra ?s = compra ?s \<and> (\<exists>tx. atual ?s = Some tx
          \<and> TelaConfirmado tx \<in> set (drop (length (eventos ?s)) (eventos ?s')))"
    by (rule processar_so_transacao_atual [OF p m])
  moreover have "atual ?s = Some ''tx_1''" by (simp add: pix_defs Let_def js_truthy_str_def)
  ultimately show ?thesis using p m by simp
qed

subsection \<open>Interleavings the code does not exclude\<close>

text \<open>C9. One approval is processed twice.  The interval ticks every second
  whether or not the previous request has answered.  From any state in which a
  live poller belongs to the current transaction and has two ticks left, two ticks
  put two requests in flight; when both answer "aprovado", both continuations show
  the confirmation and call \<open>processarCompraAposPagamento\<close> with the stored
  purchase, which posts the confirmation of the same purchase a second time.  (The
  spec asks for exactly one terminal callback.)\<close>

theorem aprovacao_processada_duas_vezes:
  assumes h: "h < length (sessoes s)" "ativo (sessoes s ! h)"
    and cur: "atual s = Some (sp_tx (sessoes s ! h))"
    and lim: "Suc (Suc (tentativas (sessoes s ! h))) \<le> max_tentativas"
  shows "map_option (\<lambda>s'. drop (length (eventos s)) (eventos s')) (executa_pix s
           [Tique h, Tique h, Chega (length (em_voo s)) (status_resp ''aprovado''),
            Chega (length (em_voo s)) (status_resp ''aprovado'')])
         = Some [Requisicao h, Requisicao h,
                 TelaConfirmado (sp_tx (sessoes s ! h)), ProcessarCompra (compra s),
                 TelaConfirmado (sp_tx (sessoes s ! h)), ProcessarCompra (compra s)]"
  using h cur lim by (simp add: tique_pix_def tick_pix_def chega_pix_def resposta_pix_def Let_def nth_append)

theorem aprovacao_processada_duas_vezes_witness:
  "map_option (\<lambda>s'. drop (length (eventos (the (executa_pix pix_inicial [AbrirPix (dados_peca ''tx_1'')]))))
       (eventos s'))
     (executa_pix (the (executa_pix pix_inicial [AbrirPix (dados_peca ''tx_1'')]))
       [Tique 0, Tique 0, Chega 0 (status_resp ''aprovado''), Chega 0 (status_resp ''aprovado'')])
   = Some [Requisicao 0, Requisicao 0,
           TelaConfirmado ''tx_1'', ProcessarCompra (Some \<lparr>cp_transacao_id = Some ''tx_1'', cp_tipo = Some ''peca'',
                                  cp_item_id = Some ''p7'', cp_carro_id = None\<rparr>),
           TelaConfirmado ''tx_1'', ProcessarCompra (Some \<lparr>cp_transacao_id = Some ''tx_1'', cp_tipo = Some ''peca'',
                                  cp_item_id = Some ''p7'', cp_carro_id = None\<rparr>)]"
proof -
  let ?s = "the (executa_pix pix_inicial [AbrirPix (dados_peca ''tx_1'')])"
  have "0 < length (sessoes ?s)" "ativo (sessoes ?s ! 0)" "atual ?s = Some (sp_tx (sessoes ?s ! 0))"
       "Suc (Suc (tentativas (sessoes ?s ! 0))) \<le> max_tentativas"
       "length (em_voo ?s) = 0" "sp_tx (sessoes ?s ! 0) = ''tx_1''"
       "compra ?s = Some \<lparr>cp_transacao_id = Some ''tx_1'', cp_tipo = Some ''peca'',
                                  cp_item_id = Some ''p7'', cp_carro_id = None\<rparr>"
    by (simp_all add: pix_defs Let_def js_truthy_str_def)
  then show ?thesis using aprovacao_processada_duas_vezes [of 0 ?s] by simp
qed

text \<open>The manual confirmation does not stop the poller: it looks the poller
  up in \<open>window.pixPollings\<close>, which does not exist, so the interval keeps
  running and its next "aprovado" answer processes the purchase again.\<close>

theorem confirmacao_manual_nao_para_polling:
  "map_option (\<lambda>s. (eventos s, ativo (sessoes s ! 0))) (executa_pix pix_inicial
     [AbrirPix (dados_peca ''tx_1''), ConfirmarManual True])
   = Some ([PostConfirmarManual ''tx_1'', ManualConcluido], True)
   \<and> map_option eventos (executa_pix pix_inicial
     [AbrirPix (dados_peca ''tx_1''), ConfirmarManual True, Tique 0, Chega 0 (status_resp ''aprovado'')])
   = Some [PostConfirmarManual ''tx_1'', ManualConcluido, Requisicao 0, TelaConfirmado ''tx_1'',
           ProcessarCompra (Some \<lparr>cp_transacao_id = Some ''tx_1'', cp_tipo = Some ''peca'',
                                  cp_item_id = Some ''p7'', cp_carro_id = None\<rparr>)]"
  by (simp add: pix_defs Let_def js_truthy_str_def)

text \<open>Purchase data of an earlier payment is never replaced.
  \<open>mostrarModalPix\<close> stores \<open>compraPendentePix\<close> only when none with a \<open>tipo\<close> is
  stored, and nothing ever clears it; so after a warehouse installation (which
  stores its data first), a later part purchase shown with \<open>mostrarModalPix\<close>
  hands the old data, with the old transaction id, to the reconciler.\<close>

theorem compra_pendente_antiga_reutilizada:
  "map_option eventos (executa_pix pix_inicial
     [DefinirCompra (compra_armazem ''tx_1''),
      AbrirPix \<lparr>dp_transacao_id = ''tx_1'', dp_tipo_item = Some ''instalacao_armazem'',
                dp_item_id = Some ''c2'', dp_carro_id = None\<rparr>,
      Tique 0, Chega 0 (status_resp ''recusado''),
      AbrirPix (dados_peca ''tx_2''), Tique 1, Chega 0 (status_resp ''aprovado'')])
   = Some [Requisicao 0, TelaRecusado, Requisicao 1, TelaConfirmado ''tx_2'',
           ProcessarCompra (Some (compra_armazem ''tx_1''))]"
  by (simp add: pix_defs Let_def js_truthy_str_def)

text \<open>Two live pollers for one transaction.  A stale answer of a cleared
  poller deletes the registry entry of its transaction id even when the entry
  already holds a newer poller; that poller then escapes the next
  \<open>mostrarModalPix\<close>, which starts a third one beside it.  (The spec requires at
  most one live poll session per transaction.)\<close>

theorem dois_pollers_vivos_mesma_transacao:
  "map_option (\<lambda>s. map (\<lambda>p. (sp_tx p, ativo p)) (sessoes s)) (executa_pix pix_inicial
     [AbrirPix (dados_peca ''tx_1''), Tique 0, AbrirPix (dados_peca ''tx_1''),
      Chega 0 (RespNaoOk 404), AbrirPix (dados_peca ''tx_1'')])
   = Some [(''tx_1'', False), (''tx_1'', True), (''tx_1'', True)]"
  by (simp add: pix_defs Let_def js_truthy_str_def)

end
