(* ===== verification/WarehouseCart.thy ===== *)
theory WarehouseCart
  imports Prelude
begin

text \<open>
  The warehouse cart \<open>carrinhoArmazem\<close> and its destination
  \<open>destinoCarrinhoArmazem\<close> (src/static/script.js, lines 5--7 and 2608--2757):
  \<open>mudarQtdArmazem\<close> adds a stored part or changes its quantity,
  \<open>mudarDestinoArmazem\<close> sets the destination, \<open>removerDoCarrinhoArmazem\<close> splices
  one entry out, \<open>limparCarrinhoArmazem\<close> empties the cart, and
  \<open>atualizarUICarrinhoArmazem\<close> shows the totals.  Entries are keyed by part name
  and type; the invariant \<open>inv_armazem\<close> says the keys are distinct and every
  quantity is positive, and every operation keeps it.  A click on "+" and one on
  "-" undo each other.
\<close>

record item_armazem =
  ia_nome :: string
  ia_tipo :: string
  ia_id :: string
  ia_preco :: money
  ia_pix_id :: "string option"
  ia_quantidade :: int

record peca_guardada =
  pg_nome :: string
  pg_tipo :: string
  pg_id :: string
  pg_preco :: money
  pg_pix_id :: "string option"

record armazem_st =
  carrinho_arm :: "item_armazem list"     \<comment> \<open>\<open>carrinhoArmazem\<close>\<close>
  destino_arm :: "string option"          \<comment> \<open>\<open>destinoCarrinhoArmazem\<close>\<close>

definition chave_arm :: "item_armazem \<Rightarrow> string \<times> string" where
  "chave_arm p = (ia_nome p, ia_tipo p)"

text \<open>\<open>find\<close> returns the first entry of the key; the code mutates that object in
  place.\<close>

fun ajusta_primeiro :: "('a \<Rightarrow> bool) \<Rightarrow> ('a \<Rightarrow> 'a) \<Rightarrow> 'a list \<Rightarrow> 'a list" where
  "ajusta_primeiro P f [] = []"
| "ajusta_primeiro P f (x # xs) = (if P x then f x # xs else x # ajusta_primeiro P f xs)"

text \<open>\<open>mudarQtdArmazem(pecaNome, pecaTipo, operacao)\<close>; \<open>guardadas\<close> is
  \<open>window.garagemAtual.armazem.pecas_guardadas\<close>, \<open>None\<close> while the garage is not
  loaded.\<close>

definition mudar_qtd_armazem ::
  "peca_guardada list option \<Rightarrow> string \<Rightarrow> string \<Rightarrow> string \<Rightarrow> armazem_st \<Rightarrow> armazem_st" where
  "mudar_qtd_armazem guardadas n t operacao w =
     (let existente = find (\<lambda>p. chave_arm p = (n, t)) (carrinho_arm w)
      in if operacao = ''mais'' then
           (case existente of
              Some _ \<Rightarrow> w\<lparr>carrinho_arm := ajusta_primeiro (\<lambda>p. chave_arm p = (n, t))
                           (\<lambda>p. p\<lparr>ia_quantidade := ia_quantidade p + 1\<rparr>) (carrinho_arm w)\<rparr>
            | None \<Rightarrow>
                (case (case guardadas of
                         Some gs \<Rightarrow> find (\<lambda>g. pg_nome g = n \<and> pg_tipo g = t) gs
                       | None \<Rightarrow> None) of
                   Some g \<Rightarrow>
                     (let w1 = (if \<not> js_truthy_str (destino_arm w) then w\<lparr>destino_arm := Some ''ativo''\<rparr>
                                else w)
                      in w1\<lparr>carrinho_arm := carrinho_arm w1 @
                               [\<lparr>ia_nome = n, ia_tipo = t, ia_id = pg_id g, ia_preco = pg_preco g,
                                 ia_pix_id = pg_pix_id g, ia_quantidade = 1\<rparr>]\<rparr>)
                 | None \<Rightarrow> w))
         else if operacao = ''menos'' then
           (case existente of
              Some p \<Rightarrow>
                (if ia_quantidade p - 1 \<le> 0
                 then w\<lparr>carrinho_arm := filter (\<lambda>q. \<not> chave_arm q = (n, t)) (carrinho_arm w)\<rparr>
                 else w\<lparr>carrinho_arm := ajusta_primeiro (\<lambda>p. chave_arm p = (n, t))
                          (\<lambda>p. p\<lparr>ia_quantidade := ia_quantidade p - 1\<rparr>) (carrinho_arm w)\<rparr>)
            | None \<Rightarrow> w)
         else w)"

definition mudar_destino_armazem :: "string \<Rightarrow> armazem_st \<Rightarrow> armazem_st" where
  "mudar_destino_armazem d w = w\<lparr>destino_arm := Some d\<rparr>"

definition remover_armazem :: "int \<Rightarrow> armazem_st \<Rightarrow> armazem_st" where
  "remover_armazem i w = w\<lparr>carrinho_arm := js_splice1 (carrinho_arm w) i\<rparr>"

definition limpar_armazem :: "armazem_st \<Rightarrow> armazem_st" where
  "limpar_armazem w = w\<lparr>carrinho_arm := [], destino_arm := None\<rparr>"

text \<open>The totals of \<open>atualizarUICarrinhoArmazem\<close> (lines 2683--2701): the number
  of pieces, and the value charged, which counts only parts without \<open>pix_id\<close> and
  only for the active car.\<close>

definition total_qtd_armazem :: "armazem_st \<Rightarrow> int" where
  "total_qtd_armazem w = sum_list (map ia_quantidade (carrinho_arm w))"

definition total_valor_armazem :: "armazem_st \<Rightarrow> money" where
  "total_valor_armazem w =
     sum_list (map (\<lambda>p. if destino_arm w = Some ''ativo'' \<and> \<not> js_truthy_str (ia_pix_id p)
                        then ia_preco p * of_int (ia_quantidade p) else 0) (carrinho_arm w))"

datatype op_armazem =
    MudarQtd string string string
  | MudarDestino string
  | RemoverArm int
  | LimparArm

fun passo_armazem :: "peca_guardada list option \<Rightarrow> armazem_st \<Rightarrow> op_armazem \<Rightarrow> armazem_st" where
  "passo_armazem g w (MudarQtd n t op) = mudar_qtd_armazem g n t op w"
| "passo_armazem g w (MudarDestino d) = mudar_destino_armazem d w"
| "passo_armazem g w (RemoverArm i) = remover_armazem i w"
| "passo_armazem g w LimparArm = limpar_armazem w"

definition inv_armazem :: "armazem_st \<Rightarrow> bool" where
  "inv_armazem w \<longleftrightarrow> distinct (map chave_arm (carrinho_arm w)) \<and> (\<forall>p \<in> set (carrinho_arm w). 1 \<le> ia_quantidade p)"


subsection \<open>Lemmas\<close>

lemma map_js_splice1: "map f (js_splice1 xs i) = js_splice1 (map f xs) i"
  by (simp add: js_splice1_def Let_def take_map drop_map)

lemma map_ajusta_primeiro:
  "(\<And>x. g (f x) = g x) \<Longrightarrow> map g (ajusta_primeiro P f xs) = map g xs"
  by (induction xs) auto

lemma find_ajusta_primeiro:
  "(\<And>x. P (f x) = P x) \<Longrightarrow> find P (ajusta_primeiro P f xs) = map_option f (find P xs)"
  by (induction xs) auto

lemma ajusta_primeiro_comp:
  "(\<And>x. P (f x) = P x) \<Longrightarrow> ajusta_primeiro P g (ajusta_primeiro P f xs) = ajusta_primeiro P (g \<circ> f) xs"
  by (induction xs) auto

lemma ajusta_primeiro_id: "(\<And>x. P x \<Longrightarrow> f x = x) \<Longrightarrow> ajusta_primeiro P f xs = xs"
  by (induction xs) auto

lemma set_ajusta_primeiro:
  "find P xs = Some p \<Longrightarrow> q \<in> set (ajusta_primeiro P f xs) \<Longrightarrow> q \<in> set xs \<or> q = f p"
  by (induction xs) (auto split: if_splits)

lemma sum_ajusta_primeiro:
  fixes q :: "'a \<Rightarrow> 'b::ab_group_add"
  shows "sum_list (map q (ajusta_primeiro P f xs))
         = sum_list (map q xs) + (case find P xs of Some p \<Rightarrow> q (f p) - q p | None \<Rightarrow> 0)"
  by (induction xs) (auto simp: algebra_simps)

lemma find_chave_None: "find (\<lambda>p. chave_arm p = k) xs = None \<longleftrightarrow> k \<notin> set (map chave_arm xs)"
  by (auto simp: find_None_iff)

lemma filter_chave_ausente:
  "k \<notin> set (map chave_arm xs) \<Longrightarrow> filter (\<lambda>q. \<not> chave_arm q = k) xs = xs"
  by (induction xs) auto

lemma sum_filter_chave_unica:
  fixes q :: "item_armazem \<Rightarrow> 'b::ab_group_add"
  assumes "distinct (map chave_arm xs)" "find (\<lambda>p. chave_arm p = k) xs = Some p"
  shows "sum_list (map q (filter (\<lambda>x. \<not> chave_arm x = k) xs)) = sum_list (map q xs) - q p"
  using assms
proof (induction xs)
  case Nil
  then show ?case by simp
next
  case (Cons x xs)
  show ?case
  proof (cases "chave_arm x = k")
    case True
    with Cons.prems have "x = p" "k \<notin> set (map chave_arm xs)" by auto
    with True show ?thesis by (simp add: filter_chave_ausente)
  next
    case False
    with Cons show ?thesis by (simp add: algebra_simps)
  qed
qed

lemma chave_arm_quantidade [simp]: "chave_arm (p\<lparr>ia_quantidade := q\<rparr>) = chave_arm p"
  by (simp add: chave_arm_def)

lemma inv_mudar_qtd:
  assumes inv: "inv_armazem w"
  shows "inv_armazem (mudar_qtd_armazem g n t op w)"
proof -
  let ?P = "\<lambda>p. chave_arm p = (n, t)"
  let ?xs = "carrinho_arm w"
  have d: "distinct (map chave_arm ?xs)" and q: "\<forall>p \<in> set ?xs. 1 \<le> ia_quantidade p"
    using inv by (simp_all add: inv_armazem_def)
  show ?thesis
  proof (cases "find ?P ?xs")
    case None
    then have k: "(n, t) \<notin> set (map chave_arm ?xs)" by (simp add: find_chave_None)
    with d q None show ?thesis
      by (auto simp: mudar_qtd_armazem_def inv_armazem_def Let_def chave_arm_def
               split: option.splits)
  next
    case (Some p)
    have inc: "inv_armazem (w\<lparr>carrinho_arm := ajusta_primeiro ?P f ?xs\<rparr>)"
      if "\<And>x. chave_arm (f x) = chave_arm x" "1 \<le> ia_quantidade (f p)" for f
      using d q that set_ajusta_primeiro [OF Some, of _ f]
      by (auto simp: inv_armazem_def map_ajusta_primeiro)
    have fil: "inv_armazem (w\<lparr>carrinho_arm := filter (\<lambda>x. \<not> ?P x) ?xs\<rparr>)"
      using d q by (auto simp: inv_armazem_def distinct_map_filter)
    from Some have "1 \<le> ia_quantidade p" using q by (auto dest: find_Some_set)
    with Some inc fil inv show ?thesis
      by (auto simp: mudar_qtd_armazem_def Let_def)
  qed
qed

lemma inv_remover: "inv_armazem w \<Longrightarrow> inv_armazem (remover_armazem i w)"
  using set_js_splice1 [of "carrinho_arm w" i]
  by (auto simp: inv_armazem_def remover_armazem_def map_js_splice1 distinct_js_splice1)

subsection \<open>Properties of the warehouse cart\<close>

text \<open>C13. Every operation on the warehouse cart keeps its invariant: one entry
  per part (name and type) and a positive quantity in every entry.\<close>

theorem passo_armazem_preserva_inv:
  assumes "inv_armazem w"
  shows "inv_armazem (passo_armazem g w op)"
proof (cases op)
  case (MudarQtd n t o')
  then show ?thesis using inv_mudar_qtd [OF assms] by simp
next
  case (MudarDestino d)
  then show ?thesis using assms by (simp add: inv_armazem_def mudar_destino_armazem_def)
next
  case (RemoverArm i)
  then show ?thesis using inv_remover [OF assms] by simp
next
  case LimparArm
  then show ?thesis by (simp add: inv_armazem_def limpar_armazem_def)
qed

theorem passo_armazem_preserva_inv_witness:
  "inv_armazem \<lparr>carrinho_arm = [], destino_arm = None\<rparr>
   \<and> inv_armazem (passo_armazem
       (Some [\<lparr>pg_nome = ''Motor V8'', pg_tipo = ''motor'', pg_id = ''7'', pg_preco = 100, pg_pix_id = None\<rparr>])
       \<lparr>carrinho_arm = [], destino_arm = None\<rparr> (MudarQtd ''Motor V8'' ''motor'' ''mais''))"
proof -
  have h: "inv_armazem \<lparr>carrinho_arm = [], destino_arm = None\<rparr>" by (simp add: inv_armazem_def)
  show ?thesis by (rule conjI [OF h passo_armazem_preserva_inv [OF h]])
qed

text \<open>C14. A click on "+" followed by a click on "-" for the same part leaves the
  cart's entries as they were, whether the part was in the cart, only in the
  warehouse, or in neither.\<close>

theorem mudar_qtd_mais_menos:
  assumes inv: "inv_armazem w"
  shows "carrinho_arm (mudar_qtd_armazem g n t ''menos'' (mudar_qtd_armazem g n t ''mais'' w))
         = carrinho_arm w"
proof -
  let ?P = "\<lambda>p. chave_arm p = (n, t)"
  let ?xs = "carrinho_arm w"
  have q: "\<forall>p \<in> set ?xs. 1 \<le> ia_quantidade p" using inv by (simp add: inv_armazem_def)
  show ?thesis
  proof (cases "find ?P ?xs")
    case (Some p)
    have "1 \<le> ia_quantidade p" using Some q by (auto dest: find_Some_set)
    moreover have "ajusta_primeiro ?P (\<lambda>p. p\<lparr>ia_quantidade := ia_quantidade p - 1\<rparr>)
                     (ajusta_primeiro ?P (\<lambda>p. p\<lparr>ia_quantidade := ia_quantidade p + 1\<rparr>) ?xs) = ?xs"
      by (simp add: ajusta_primeiro_comp ajusta_primeiro_id comp_def)
    ultimately show ?thesis
      using Some by (simp add: mudar_qtd_armazem_def Let_def find_ajusta_primeiro)
  next
    case None
    then have k: "(n, t) \<notin> set (map chave_arm ?xs)" by (simp add: find_chave_None)
    show ?thesis
    proof (cases "case g of Some gs \<Rightarrow> find (\<lambda>x. pg_nome x = n \<and> pg_tipo x = t) gs | None \<Rightarrow> None")
      case None2: None
      with None show ?thesis by (simp add: mudar_qtd_armazem_def Let_def)
    next
      case (Some gx)
      let ?new = "\<lparr>ia_nome = n, ia_tipo = t, ia_id = pg_id gx, ia_preco = pg_preco gx,
                  ia_pix_id = pg_pix_id gx, ia_quantidade = 1\<rparr>"
      have m: "carrinho_arm (mudar_qtd_armazem g n t ''mais'' w) = ?xs @ [?new]"
        using None Some by (simp add: mudar_qtd_armazem_def Let_def)
      have cn: "chave_arm ?new = (n, t)" by (simp add: chave_arm_def)
      have f: "find ?P (?xs @ [?new]) = Some ?new"
        using None cn by (simp add: find_append)
      have filt: "filter (\<lambda>q. \<not> ?P q) (?xs @ [?new]) = ?xs"
        using k cn by (simp add: filter_chave_ausente)
      have "carrinho_arm w' = ?xs @ [?new] \<Longrightarrow> carrinho_arm (mudar_qtd_armazem g n t ''menos'' w') = ?xs"
        for w' using f filt by (simp add: mudar_qtd_armazem_def Let_def)
      with m show ?thesis by blast
    qed
  qed
qed

theorem mudar_qtd_mais_menos_witness:
  "inv_armazem \<lparr>carrinho_arm = [\<lparr>ia_nome = ''Motor V8'', ia_tipo = ''motor'', ia_id = ''7'', ia_preco = 100,
                                 ia_pix_id = None, ia_quantidade = 2\<rparr>], destino_arm = Some ''ativo''\<rparr>
   \<and> carrinho_arm (mudar_qtd_armazem None ''Motor V8'' ''motor'' ''menos''
        (mudar_qtd_armazem None ''Motor V8'' ''motor'' ''mais''
          \<lparr>carrinho_arm = [\<lparr>ia_nome = ''Motor V8'', ia_tipo = ''motor'', ia_id = ''7'', ia_preco = 100,
                             ia_pix_id = None, ia_quantidade = 2\<rparr>], destino_arm = Some ''ativo''\<rparr>))
     = [\<lparr>ia_nome = ''Motor V8'', ia_tipo = ''motor'', ia_id = ''7'', ia_preco = 100,
         ia_pix_id = None, ia_quantidade = 2\<rparr>]"
proof -
  let ?w = "\<lparr>carrinho_arm = [\<lparr>ia_nome = ''Motor V8'', ia_tipo = ''motor'', ia_id = ''7'', ia_preco = 100,
                              ia_pix_id = None, ia_quantidade = 2\<rparr>], destino_arm = Some ''ativo''\<rparr>"
  have h: "inv_armazem ?w" by (simp add: inv_armazem_def)
  show ?thesis using h mudar_qtd_mais_menos [OF h, of None "''Motor V8''" "''motor''"] by simp
qed

text \<open>Each click changes the number of pieces shown by exactly one: "-" on a
  part in the cart removes one piece (and the entry when it was the last), "+"
  adds one piece when the part is in the cart or in the warehouse.\<close>

theorem total_qtd_mudar:
  assumes inv: "inv_armazem w"
  shows "total_qtd_armazem (mudar_qtd_armazem g n t ''menos'' w)
           = total_qtd_armazem w - (if (n, t) \<in> set (map chave_arm (carrinho_arm w)) then 1 else 0)
         \<and> total_qtd_armazem (mudar_qtd_armazem g n t ''mais'' w)
           = total_qtd_armazem w + (if (n, t) \<in> set (map chave_arm (carrinho_arm w))
                                       \<or> (\<exists>gs. g = Some gs \<and> (\<exists>x \<in> set gs. pg_nome x = n \<and> pg_tipo x = t))
                                    then 1 else 0)"
proof -
  let ?P = "\<lambda>p. chave_arm p = (n, t)"
  let ?xs = "carrinho_arm w"
  have d: "distinct (map chave_arm ?xs)" and q: "\<forall>p \<in> set ?xs. 1 \<le> ia_quantidade p"
    using inv by (simp_all add: inv_armazem_def)
  show ?thesis
  proof (cases "find ?P ?xs")
    case (Some p)
    have k: "(n, t) \<in> set (map chave_arm ?xs)" using Some find_chave_None [of "(n, t)" ?xs] by auto
    have p1: "1 \<le> ia_quantidade p" using Some q by (auto dest: find_Some_set)
    have "total_qtd_armazem (mudar_qtd_armazem g n t ''menos'' w) = total_qtd_armazem w - 1"
    proof (cases "ia_quantidade p - 1 \<le> 0")
      case True
      with p1 have "ia_quantidade p = 1" by simp
      with True show ?thesis using Some
        by (simp add: mudar_qtd_armazem_def Let_def total_qtd_armazem_def
                      sum_filter_chave_unica [OF d Some])
    next
      case False
      then show ?thesis using Some
        by (simp add: mudar_qtd_armazem_def Let_def total_qtd_armazem_def sum_ajusta_primeiro)
    qed
    moreover have "total_qtd_armazem (mudar_qtd_armazem g n t ''mais'' w) = total_qtd_armazem w + 1"
      using Some by (simp add: mudar_qtd_armazem_def Let_def total_qtd_armazem_def sum_ajusta_primeiro)
    ultimately show ?thesis using k by simp
  next
    case None
    then have k: "(n, t) \<notin> set (map chave_arm ?xs)" by (simp add: find_chave_None)
    with None show ?thesis
      by (auto simp: mudar_qtd_armazem_def Let_def total_qtd_armazem_def find_None_iff
               split: option.splits dest: find_Some_set)
  qed
qed

theorem total_qtd_mudar_witness:
  "inv_armazem \<lparr>carrinho_arm = [\<lparr>ia_nome = ''Motor V8'', ia_tipo = ''motor'', ia_id = ''7'', ia_preco = 100,
                                 ia_pix_id = None, ia_quantidade = 1\<rparr>], destino_arm = Some ''ativo''\<rparr>
   \<and> total_qtd_armazem (mudar_qtd_armazem None ''Motor V8'' ''motor'' ''menos''
        \<lparr>carrinho_arm = [\<lparr>ia_nome = ''Motor V8'', ia_tipo = ''motor'', ia_id = ''7'', ia_preco = 100,
                           ia_pix_id = None, ia_quantidade = 1\<rparr>], destino_arm = Some ''ativo''\<rparr>) = 0"
proof -
  let ?w = "\<lparr>carrinho_arm = [\<lparr>ia_nome = ''Motor V8'', ia_tipo = ''motor'', ia_id = ''7'', ia_preco = 100,
                              ia_pix_id = None, ia_quantidade = 1\<rparr>], destino_arm = Some ''ativo''\<rparr>"
  have h: "inv_armazem ?w" by (simp add: inv_armazem_def)
  show ?thesis using h total_qtd_mudar [OF h, of None "''Motor V8''" "''motor''"]
    by (simp add: total_qtd_armazem_def chave_arm_def)
qed

end
