(* ===== verification/Reconciler.thy ===== *)
theory Reconciler
  imports PixStore WarehouseCart
begin

text \<open>
  What happens around a payment: the warehouse checkout that creates it
  (\<open>processarCarrinhoArmazem\<close>, \<open>processarCarrinhoArmazemAtivo\<close> and
  \<open>criarSolicitacoesInstalacaoArmazem\<close>, src/static/script.js, lines 2747--2845 and
  2917--2957) and the reconciliation after approval
  (\<open>processarCompraAposPagamento\<close>, lines 2476--2520).  The checkout talks to the
  payment component through its events: it stores the purchase data
  (\<open>DefinirCompra\<close>) and opens the PIX modal (\<open>AbrirPix\<close>).  The reconciliation
  posts the confirmation of the stored transaction and, for the multi-part
  warehouse purchases, clears the warehouse cart.
\<close>

subsection \<open>Reconciliation after approval\<close>

datatype resposta_confirmacao =
    ConfResposta bool     \<comment> \<open>the JSON answer and its \<open>sucesso\<close>\<close>
  | ConfExcecao           \<comment> \<open>\<open>fetch\<close> or \<open>resp.json()\<close> threw\<close>

datatype efeito_compra =
    PostConfirmacao txid  \<comment> \<open>\<open>POST /api/confirmar-pagamento-manual\<close>\<close>
  | LimpaArmazem          \<comment> \<open>\<open>limparCarrinhoArmazem(true)\<close>\<close>
  | RecarregaGaragem      \<comment> \<open>\<open>setTimeout(carregarGaragem, 1000)\<close>\<close>
  | ToastErroCompra       \<comment> \<open>"Erro ao processar compra"\<close>

definition tipos_multiplas :: "string list" where
  "tipos_multiplas = [''multiplas_pecas_armazem'', ''multiplas_pecas_armazem_ativo'',
                      ''multiplas_pecas_armazem_ativo_modal'']"

definition processar_compra ::
  "compra_pix option \<Rightarrow> resposta_confirmacao \<Rightarrow> armazem_st \<Rightarrow> armazem_st \<times> efeito_compra list" where
  "processar_compra dados r w =
     (case dados of
        None \<Rightarrow> (w, [])
      | Some c \<Rightarrow>
          (if \<not> js_truthy_str (cp_transacao_id c) then (w, [])
           else
             (let tx = the (cp_transacao_id c)
              in case r of
                   ConfExcecao \<Rightarrow> (w, [PostConfirmacao tx, ToastErroCompra])
                 | ConfResposta sucesso \<Rightarrow>
                     (if sucesso then
                        (if cp_tipo c \<in> Some ` set tipos_multiplas
                         then (limpar_armazem w, [PostConfirmacao tx, LimpaArmazem, RecarregaGaragem])
                         else (w, [PostConfirmacao tx]))
                      else (w, [PostConfirmacao tx, ToastErroCompra])))))"

subsection \<open>Warehouse checkout\<close>

datatype resposta_multiplas =
    MultiSucesso txid     \<comment> \<open>\<open>sucesso\<close> with the new \<open>transacao_id\<close>\<close>
  | MultiFalha            \<comment> \<open>\<open>!resultado.sucesso\<close>\<close>
  | MultiExcecao          \<comment> \<open>the request threw\<close>

datatype resposta_solicitacoes = SolicOk | SolicFalha | SolicExcecao

datatype efeito_armazem =
    AvisoVazio                  \<comment> \<open>"Nenhuma peca no carrinho"\<close>
  | AvisoSemDestino             \<comment> \<open>"Selecione um destino"\<close>
  | AvisoSemCarroAtivo          \<comment> \<open>"Voce nao tem um carro ativo selecionado"\<close>
  | AbreModalRepouso            \<comment> \<open>the car-at-rest chooser of \<open>processarCarrinhoArmazemRepouso\<close>\<close>
  | PostSolicitacoes string "item_armazem list" bool
                                \<comment> \<open>\<open>/api/garagem/criar-multiplas-solicitacoes-armazem\<close>\<close>
  | SolicitacoesCriadas
  | PostInstalarMultiplas string "item_armazem list"
                                \<comment> \<open>\<open>/api/instalar-multiplas-pecas-no-carro-ativo\<close>\<close>
  | ErroArmazem                 \<comment> \<open>an error toast\<close>

definition nao_pago :: "item_armazem \<Rightarrow> bool" where
  "nao_pago p \<longleftrightarrow> \<not> js_truthy_str (ia_pix_id p)"

text \<open>\<open>criarSolicitacoesInstalacaoArmazem(carroId, pecas, comPix)\<close>: on success the
  warehouse cart is emptied.\<close>

definition criar_solicitacoes ::
  "string \<Rightarrow> item_armazem list \<Rightarrow> bool \<Rightarrow> resposta_solicitacoes \<Rightarrow> armazem_st
   \<Rightarrow> armazem_st \<times> efeito_armazem list" where
  "criar_solicitacoes carro pecas com_pix r w =
     (case r of
        SolicOk \<Rightarrow> (limpar_armazem w, [PostSolicitacoes carro pecas com_pix, SolicitacoesCriadas])
      | _ \<Rightarrow> (w, [PostSolicitacoes carro pecas com_pix, ErroArmazem]))"

text \<open>\<open>processarCarrinhoArmazemAtivo()\<close>; \<open>carro_ativo\<close> is
  \<open>equipeAtual.carro_ativo.id\<close>, \<open>None\<close> when there is no team or no active car.
  Parts with a \<open>pix_id\<close> were paid already; only the others are charged.\<close>

definition processar_armazem_ativo ::
  "string option \<Rightarrow> resposta_multiplas \<Rightarrow> resposta_solicitacoes \<Rightarrow> armazem_st
   \<Rightarrow> armazem_st \<times> efeito_armazem list \<times> evento_pix list" where
  "processar_armazem_ativo carro_ativo rm rs w =
     (case carro_ativo of
        None \<Rightarrow> (w, [AvisoSemCarroAtivo], [])
      | Some carro \<Rightarrow>
          (let pagar = filter nao_pago (carrinho_arm w)
           in if pagar = [] then
                (case criar_solicitacoes carro (carrinho_arm w) True rs w of
                   (w', efs) \<Rightarrow> (w', efs, []))
              else
                (case rm of
                   MultiSucesso tx \<Rightarrow>
                     (w, [PostInstalarMultiplas carro pagar],
                      [DefinirCompra \<lparr>cp_transacao_id = Some tx, cp_tipo = Some ''multiplas_pecas_armazem_ativo'',
                                      cp_item_id = None, cp_carro_id = Some carro\<rparr>,
                       AbrirPix \<lparr>dp_transacao_id = tx, dp_tipo_item = Some ''multiplas_pecas_armazem_ativo'',
                                 dp_item_id = Some carro, dp_carro_id = None\<rparr>])
                 | _ \<Rightarrow> (w, [PostInstalarMultiplas carro pagar, ErroArmazem], []))))"

text \<open>\<open>processarCarrinhoArmazem()\<close>: the guards, then the destination's flow.\<close>

definition processar_carrinho_armazem ::
  "string option \<Rightarrow> resposta_multiplas \<Rightarrow> resposta_solicitacoes \<Rightarrow> armazem_st
   \<Rightarrow> armazem_st \<times> efeito_armazem list \<times> evento_pix list" where
  "processar_carrinho_armazem carro_ativo rm rs w =
     (if carrinho_arm w = [] then (w, [AvisoVazio], [])
      else if \<not> js_truthy_str (destino_arm w) then (w, [AvisoSemDestino], [])
      else if destino_arm w = Some ''ativo'' then processar_armazem_ativo carro_ativo rm rs w
      else (w, [AbreModalRepouso], []))"

text \<open>\<open>processarCarrinhoArmazemRepouso()\<close> (lines 2847--2915): the cars of
  \<open>window.garagemAtual.carros\<close> (\<open>None\<close> when there is no garage object, the
  empty list when \<open>carros\<close> is not an array), each with its id and
  \<open>carro_ativo\<close>; the chooser lists the ids of the cars at rest.  A button's
  handler reads \<open>carrinhoArmazem\<close> when it is clicked.\<close>

datatype efeito_repouso = AguardeGaragem | SemCarroRepouso | EscolherCarroRepouso "string list"

definition processar_carrinho_armazem_repouso :: "(string \<times> bool) list option \<Rightarrow> efeito_repouso" where
  "processar_carrinho_armazem_repouso g =
     (case g of
        None \<Rightarrow> AguardeGaragem
      | Some [] \<Rightarrow> AguardeGaragem
      | Some cs \<Rightarrow>
          (let rep = filter (\<lambda>c. \<not> snd c) cs
           in if rep = [] then SemCarroRepouso else EscolherCarroRepouso (map fst rep)))"

definition clicar_carro_repouso :: "string \<Rightarrow> resposta_solicitacoes \<Rightarrow> armazem_st \<Rightarrow> armazem_st \<times> efeito_armazem list" where
  "clicar_carro_repouso carro r w = criar_solicitacoes carro (carrinho_arm w) False r w"

subsection \<open>Properties\<close>

text \<open>C16. The reconciliation changes the warehouse cart in exactly one case: the
  stored purchase has a transaction id, is one of the multi-part warehouse
  purchases, and the server confirmed it; then the cart is emptied.  Every other
  branch (no data, no id, a refusal, a failed request, another purchase type)
  leaves the cart as it was.\<close>

theorem processar_compra_carrinho:
  "fst (processar_compra c r w)
   = (if (\<exists>cp. c = Some cp \<and> js_truthy_str (cp_transacao_id cp)
               \<and> cp_tipo cp \<in> Some ` set tipos_multiplas) \<and> r = ConfResposta True
      then limpar_armazem w else w)"
  by (auto simp: processar_compra_def Let_def split: option.splits resposta_confirmacao.splits)

text \<open>C17. The reconciliation posts exactly one confirmation when the stored
  purchase has a transaction id, for that id, and none otherwise.\<close>

theorem processar_compra_uma_confirmacao:
  "filter (\<lambda>e. \<exists>tx. e = PostConfirmacao tx) (snd (processar_compra c r w))
   = (case c of
        Some cp \<Rightarrow> (if js_truthy_str (cp_transacao_id cp)
                    then [PostConfirmacao (the (cp_transacao_id cp))] else [])
      | None \<Rightarrow> [])"
  by (auto simp: processar_compra_def Let_def split: option.splits resposta_confirmacao.splits)

text \<open>C18. Parts that were paid already (they carry a \<open>pix_id\<close>) are never
  charged again: when the checkout of the warehouse cart asks the server for a
  PIX, it sends exactly the unpaid parts, there is at least one, and the value
  shown for the cart is their value.\<close>

theorem checkout_cobra_so_nao_pagas:
  assumes "PostInstalarMultiplas carro ps \<in> set (fst (snd (processar_carrinho_armazem ca rm rs w)))"
  shows "ca = Some carro \<and> destino_arm w = Some ''ativo'' \<and> ps = filter nao_pago (carrinho_arm w) \<and> ps \<noteq> []
         \<and> total_valor_armazem w = sum_list (map (\<lambda>p. ia_preco p * of_int (ia_quantidade p)) ps)"
proof -
  have c: "ca = Some carro \<and> destino_arm w = Some ''ativo'' \<and> ps = filter nao_pago (carrinho_arm w) \<and> ps \<noteq> []"
    using assms
    by (auto simp: processar_carrinho_armazem_def processar_armazem_ativo_def criar_solicitacoes_def Let_def
             split: if_splits option.splits resposta_multiplas.splits resposta_solicitacoes.splits)
  then have "total_valor_armazem w = sum_list (map (\<lambda>p. ia_preco p * of_int (ia_quantidade p)) ps)"
    by (simp add: total_valor_armazem_def nao_pago_def sum_list_map_filter')
  with c show ?thesis by blast
qed

theorem checkout_cobra_so_nao_pagas_witness:
  "PostInstalarMultiplas ''c9''
     [\<lparr>ia_nome = ''Cambio'', ia_tipo = ''cambio'', ia_id = ''4'', ia_preco = 80, ia_pix_id = None, ia_quantidade = 2\<rparr>]
   \<in> set (fst (snd (processar_carrinho_armazem (Some ''c9'') (MultiSucesso ''tx_5'') SolicOk
        \<lparr>carrinho_arm = [\<lparr>ia_nome = ''Motor V8'', ia_tipo = ''motor'', ia_id = ''7'', ia_preco = 100,
                           ia_pix_id = Some ''pix_1'', ia_quantidade = 1\<rparr>,
                         \<lparr>ia_nome = ''Cambio'', ia_tipo = ''cambio'', ia_id = ''4'', ia_preco = 80,
                           ia_pix_id = None, ia_quantidade = 2\<rparr>],
         destino_arm = Some ''ativo''\<rparr>)))
   \<and> total_valor_armazem
        \<lparr>carrinho_arm = [\<lparr>ia_nome = ''Motor V8'', ia_tipo = ''motor'', ia_id = ''7'', ia_preco = 100,
                           ia_pix_id = Some ''pix_1'', ia_quantidade = 1\<rparr>,
                         \<lparr>ia_nome = ''Cambio'', ia_tipo = ''cambio'', ia_id = ''4'', ia_preco = 80,
                           ia_pix_id = None, ia_quantidade = 2\<rparr>],
         destino_arm = Some ''ativo''\<rparr> = 160"
proof -
  let ?w = "\<lparr>carrinho_arm = [\<lparr>ia_nome = ''Motor V8'', ia_tipo = ''motor'', ia_id = ''7'', ia_preco = 100,
                               ia_pix_id = Some ''pix_1'', ia_quantidade = 1\<rparr>,
                             \<lparr>ia_nome = ''Cambio'', ia_tipo = ''cambio'', ia_id = ''4'', ia_preco = 80,
                               ia_pix_id = None, ia_quantidade = 2\<rparr>],
             destino_arm = Some ''ativo''\<rparr>"
  let ?ps = "[\<lparr>ia_nome = ''Cambio'', ia_tipo = ''cambio'', ia_id = ''4'', ia_preco = 80, ia_pix_id = None,
              ia_quantidade = 2\<rparr>] :: item_armazem list"
  have m: "PostInstalarMultiplas ''c9'' ?ps
           \<in> set (fst (snd (processar_carrinho_armazem (Some ''c9'') (MultiSucesso ''tx_5'') SolicOk ?w)))"
    by (simp add: processar_carrinho_armazem_def processar_armazem_ativo_def nao_pago_def js_truthy_str_def Let_def)
  from checkout_cobra_so_nao_pagas [OF m]
  have "total_valor_armazem ?w = sum_list (map (\<lambda>p. ia_preco p * of_int (ia_quantidade p)) ?ps)" by simp
  with m show ?thesis by simp
qed

text \<open>C19. A cart destined to the cars at rest is never charged: the value shown
  is zero, and the checkout neither changes the cart nor opens a payment.\<close>

theorem repouso_nunca_cobra:
  assumes "destino_arm w = Some ''repouso''"
  shows "total_valor_armazem w = 0
         \<and> fst (processar_carrinho_armazem ca rm rs w) = w
         \<and> snd (snd (processar_carrinho_armazem ca rm rs w)) = []
         \<and> (\<forall>c ps. PostInstalarMultiplas c ps \<notin> set (fst (snd (processar_carrinho_armazem ca rm rs w))))"
  using assms
  by (auto simp: total_valor_armazem_def processar_carrinho_armazem_def js_truthy_str_def)

theorem repouso_nunca_cobra_witness:
  "destino_arm \<lparr>carrinho_arm = [\<lparr>ia_nome = ''Cambio'', ia_tipo = ''cambio'', ia_id = ''4'', ia_preco = 80,
                                 ia_pix_id = None, ia_quantidade = 2\<rparr>], destino_arm = Some ''repouso''\<rparr>
     = Some ''repouso''
   \<and> total_valor_armazem \<lparr>carrinho_arm = [\<lparr>ia_nome = ''Cambio'', ia_tipo = ''cambio'', ia_id = ''4'', ia_preco = 80,
                                 ia_pix_id = None, ia_quantidade = 2\<rparr>], destino_arm = Some ''repouso''\<rparr> = 0"
proof -
  let ?w = "\<lparr>carrinho_arm = [\<lparr>ia_nome = ''Cambio'', ia_tipo = ''cambio'', ia_id = ''4'', ia_preco = 80,
                              ia_pix_id = None, ia_quantidade = 2\<rparr>], destino_arm = Some ''repouso''\<rparr>"
  have h: "destino_arm ?w = Some ''repouso''" by simp
  show ?thesis using repouso_nunca_cobra [OF h, of None MultiFalha SolicOk] by simp
qed

text \<open>The chooser offers exactly the cars at rest, and a click sends the cart
  as it is at that moment, without PIX, to the car chosen; the cart is emptied
  only when the server accepts.  Nothing checks the cart again: a cart emptied
  while the chooser is open is sent empty.\<close>

lemma repouso_escolhe_ids:
  "processar_carrinho_armazem_repouso (Some cs) = EscolherCarroRepouso ids \<Longrightarrow> ids = map fst (filter (\<lambda>c. \<not> snd c) cs)"
  by (cases cs) (auto simp: processar_carrinho_armazem_repouso_def Let_def split: if_splits)

lemma repouso_escolhe_e_envia:
  "processar_carrinho_armazem_repouso (Some cs) = EscolherCarroRepouso ids \<Longrightarrow> set ids = fst ` {c \<in> set cs. \<not> snd c}"
  "clicar_carro_repouso carro r w =
     ((if r = SolicOk then limpar_armazem w else w),
      [PostSolicitacoes carro (carrinho_arm w) False, if r = SolicOk then SolicitacoesCriadas else ErroArmazem])"
   apply (drule repouso_escolhe_ids, simp add: set_filter)
  by (simp add: clicar_carro_repouso_def criar_solicitacoes_def split: resposta_solicitacoes.splits)

end
