(* ===== verification/PixRefinement.thy ===== *)
theory PixRefinement
  imports PixStore
begin

text \<open>
  The page model of PixStore refines the single poller of PixPoller.  Under the
  schedule the spec assumes (each tick of the interval with handle \<open>h\<close> is followed
  by the answer of its request, before the next tick) the concurrent page runs
  exactly the sequential poller \<open>poll_seq\<close>: the closure ends in the state
  \<open>poll_seq\<close> computes, and the observable effects are the outputs of
  \<open>poll_seq\<close> read through \<open>efeitos_saida\<close>.
\<close>

text \<open>The effects that one output of the sequential poller has on the page: the
  status request, the status text, and the hand-off to the reconciler.\<close>

fun efeitos_saida :: "txid \<Rightarrow> compra_pix option \<Rightarrow> nat \<Rightarrow> saida \<Rightarrow> efeito list" where
  "efeitos_saida tx c h Consulta = [Requisicao h]"
| "efeitos_saida tx c h Expirou = [TelaExpirou]"
| "efeitos_saida tx c h (Resposta (RPendente n)) = [TelaAguardando n]"
| "efeitos_saida tx c h (Resposta RAprovado) = [TelaConfirmado tx, ProcessarCompra c]"
| "efeitos_saida tx c h (Resposta RRecusado) = [TelaRecusado]"
| "efeitos_saida tx c h (Resposta RNaoEncontrada) = []"
| "efeitos_saida tx c h (Resposta RSubstituida) = []"
| "efeitos_saida tx c h (Resposta RIgnorada) = []"
| "efeitos_saida tx c h (Resposta RErro) = []"

text \<open>The sequential schedule: a tick of interval \<open>h\<close>, then the answer of the
  only request in flight, for each answer in turn.\<close>

definition agenda_seq :: "nat \<Rightarrow> resposta_http list \<Rightarrow> evento_pix list" where
  "agenda_seq h rs = concat (map (\<lambda>r. [Tique h, Chega 0 r]) rs)"

subsection \<open>Lemmas\<close>

lemma executa_pix_append:
  "executa_pix s (xs @ ys) = (case executa_pix s xs of None \<Rightarrow> None | Some s' \<Rightarrow> executa_pix s' ys)"
  by (induction xs arbitrary: s) (auto split: option.split)

lemma agenda_seq_Cons [simp]: "agenda_seq h (r # rs) = Tique h # Chega 0 r # agenda_seq h rs"
  by (simp add: agenda_seq_def)

lemma agenda_seq_Nil [simp]: "agenda_seq h [] = []"
  by (simp add: agenda_seq_def)

text \<open>One round of the schedule, a tick and its answer, from a page with no
  request in flight.\<close>

lemma passo_sequencial:
  assumes "em_voo s = []" "h < length (sessoes s)" "ativo (sessoes s ! h)"
    and "tentativas (sessoes s ! h) < max_tentativas"
    and "resposta_pix (atual s) ((sessoes s ! h)\<lparr>tentativas := Suc (tentativas (sessoes s ! h))\<rparr>) r
         = (ss, ro)"
  shows "\<exists>s'. executa_pix s [Tique h, Chega 0 r] = Some s'
           \<and> sessoes s' = (sessoes s)[h := ss] \<and> em_voo s' = [] \<and> atual s' = atual s
           \<and> compra s' = compra s
           \<and> eventos s' = eventos s @ Requisicao h
                           # efeitos_saida (sp_tx (sessoes s ! h)) (compra s) h (Resposta ro)"
proof -
  let ?t = "sessoes s ! h"
  let ?t1 = "?t\<lparr>tentativas := Suc (tentativas ?t)\<rparr>"
  let ?s1 = "s\<lparr>sessoes := (sessoes s)[h := ?t1], em_voo := [h], eventos := eventos s @ [Requisicao h]\<rparr>"
  have t: "tique_pix h s = Some ?s1"
    using assms(1-4) by (simp add: tique_pix_def tick_pix_consulta)
  show ?thesis
    using t assms(2,5) by (cases ro) (simp_all add: chega_pix_def Let_def)
qed

text \<open>A continuing answer to the current transaction keeps its poller live.\<close>

lemma resposta_continua_ativo:
  assumes "resposta_continua r" "a = Some (sp_tx t)" "ativo t"
  shows "ativo (fst (resposta_pix a t r))"
  using resposta_pix_continua [OF assms(1), of t] assms(2,3) by simp

subsection \<open>Simulation\<close>

text \<open>The simulation behind the refinement, by induction on the answers.\<close>

lemma agenda_seq_simula:
  assumes "em_voo s = []" "h < length (sessoes s)" "ativo (sessoes s ! h)"
    and "atual s = Some (sp_tx (sessoes s ! h))"
    and "length rs \<le> max_tentativas - tentativas (sessoes s ! h)"
    and "list_all resposta_continua (butlast rs)"
  shows "\<exists>s'. executa_pix s (agenda_seq h rs) = Some s'
           \<and> sessoes s' = (sessoes s)[h := fst (poll_seq (atual s) (sessoes s ! h) rs)]
           \<and> em_voo s' = []
           \<and> eventos s' = eventos s @ concat (map (efeitos_saida (sp_tx (sessoes s ! h)) (compra s) h)
                                                  (snd (poll_seq (atual s) (sessoes s ! h) rs)))"
  using assms
proof (induction rs arbitrary: s)
  case Nil
  then show ?case by simp
next
  case (Cons r rs)
  let ?t = "sessoes s ! h"
  let ?t1 = "?t\<lparr>tentativas := Suc (tentativas ?t)\<rparr>"
  obtain ss ro where r: "resposta_pix (atual s) ?t1 r = (ss, ro)"
    by (cases "resposta_pix (atual s) ?t1 r")
  have lt: "tentativas ?t < max_tentativas" using Cons.prems(5) by simp
  obtain s1 where s1: "executa_pix s [Tique h, Chega 0 r] = Some s1"
      and ses: "sessoes s1 = (sessoes s)[h := ss]" and voo: "em_voo s1 = []"
      and at: "atual s1 = atual s" and cp: "compra s1 = compra s"
      and ev: "eventos s1 = eventos s @ Requisicao h # efeitos_saida (sp_tx ?t) (compra s) h (Resposta ro)"
    using passo_sequencial [OF Cons.prems(1-3) lt r] by blast
  have ag: "executa_pix s (agenda_seq h (r # rs)) = executa_pix s1 (agenda_seq h rs)"
    using s1 executa_pix_append [of s "[Tique h, Chega 0 r]" "agenda_seq h rs"] by simp
  have ps: "poll_seq (atual s) ?t (r # rs)
            = (fst (poll_seq (atual s) ss rs), Consulta # Resposta ro # snd (poll_seq (atual s) ss rs))"
    using Cons.prems(3) lt r by (simp add: poll_seq_passo split: prod.split)
  have tx: "sp_tx ss = sp_tx ?t" and tn: "tentativas ss = Suc (tentativas ?t)"
    using resposta_pix_tx [of "atual s" ?t1 r] resposta_pix_tentativas [of "atual s" ?t1 r] r by simp_all
  have h1: "sessoes s1 ! h = ss" using ses Cons.prems(2) by simp
  show ?case
  proof (cases "rs = []")
    case True
    with ag s1 ses voo ev ps Cons.prems(2) show ?thesis by simp
  next
    case False
    then have cont: "resposta_continua r" and bl: "list_all resposta_continua (butlast rs)"
      using Cons.prems(6) by (simp_all add: butlast.simps(2) split: if_splits)
    have "ativo (fst (resposta_pix (atual s) ?t1 r))"
      by (rule resposta_continua_ativo [OF cont]) (use Cons.prems(3,4) in simp_all)
    then have act: "ativo ss" using r by simp
    have IH: "\<exists>s'. executa_pix s1 (agenda_seq h rs) = Some s'
           \<and> sessoes s' = (sessoes s1)[h := fst (poll_seq (atual s1) (sessoes s1 ! h) rs)]
           \<and> em_voo s' = []
           \<and> eventos s' = eventos s1 @ concat (map (efeitos_saida (sp_tx (sessoes s1 ! h)) (compra s1) h)
                                                  (snd (poll_seq (atual s1) (sessoes s1 ! h) rs)))"
      using Cons.prems(2,4,5) h1 act voo ses at tx tn bl
      by (intro Cons.IH) simp_all
    with ag ev ps h1 at cp tx ses show ?thesis by simp
  qed
qed

subsection \<open>Refinement\<close>

text \<open>C20. Refinement of the sequential poller by the page.  Take a page with no
  request in flight and a live poller with handle \<open>h\<close> of the current
  transaction.  Run the sequential schedule on answers \<open>rs\<close> that fit in the
  poller's remaining attempts, where every answer but the last keeps polling.
  Then the run succeeds, the poller's closure ends as \<open>poll_seq\<close> computes, no
  request is left in flight, and the effects added are exactly the outputs of
  \<open>poll_seq\<close>, in order.\<close>

theorem agenda_seq_refina_poll_seq:
  assumes "em_voo s = []" "h < length (sessoes s)" "ativo (sessoes s ! h)"
    and "atual s = Some (sp_tx (sessoes s ! h))"
    and "length rs \<le> max_tentativas - tentativas (sessoes s ! h)"
    and "list_all resposta_continua (butlast rs)"
  shows "\<exists>s'. executa_pix s (agenda_seq h rs) = Some s'
           \<and> sessoes s' = (sessoes s)[h := fst (poll_seq (atual s) (sessoes s ! h) rs)]
           \<and> em_voo s' = []
           \<and> eventos s' = eventos s @ concat (map (efeitos_saida (sp_tx (sessoes s ! h)) (compra s) h)
                                                  (snd (poll_seq (atual s) (sessoes s ! h) rs)))"
  using assms by (rule agenda_seq_simula)

theorem agenda_seq_refina_poll_seq_witness:
  "\<exists>s'. executa_pix (the (executa_pix pix_inicial [AbrirPix (dados_peca ''tx_1'')])) (agenda_seq 0 [status_resp ''pendente'', status_resp ''aprovado'']) = Some s'
      \<and> sessoes s' = (sessoes (the (executa_pix pix_inicial [AbrirPix (dados_peca ''tx_1'')])))[0 := fst (poll_seq (atual (the (executa_pix pix_inicial [AbrirPix (dados_peca ''tx_1'')]))) (sessoes (the (executa_pix pix_inicial [AbrirPix (dados_peca ''tx_1'')])) ! 0)
                                               [status_resp ''pendente'', status_resp ''aprovado''])]
      \<and> em_voo s' = []
      \<and> eventos s' = eventos (the (executa_pix pix_inicial [AbrirPix (dados_peca ''tx_1'')])) @ concat (map (efeitos_saida (sp_tx (sessoes (the (executa_pix pix_inicial [AbrirPix (dados_peca ''tx_1'')])) ! 0)) (compra (the (executa_pix pix_inicial [AbrirPix (dados_peca ''tx_1'')]))) 0)
                        (snd (poll_seq (atual (the (executa_pix pix_inicial [AbrirPix (dados_peca ''tx_1'')]))) (sessoes (the (executa_pix pix_inicial [AbrirPix (dados_peca ''tx_1'')])) ! 0)
                                       [status_resp ''pendente'', status_resp ''aprovado''])))"
proof -
  have e: "executa_pix pix_inicial [AbrirPix (dados_peca ''tx_1'')]
           = Some \<lparr>atual = Some ''tx_1'', atual_dividido = Some ''tx_1'', pollings = [''tx_1'' \<mapsto> 0],
                   sessoes = [nova_sessao ''tx_1''], em_voo = [],
                   compra = Some \<lparr>cp_transacao_id = Some ''tx_1'', cp_tipo = Some ''peca'',
                                  cp_item_id = Some ''p7'', cp_carro_id = None\<rparr>, eventos = []\<rparr>"
    by (simp add: mostrar_modal_pix_def monitorar_pix_def pix_inicial_def Let_def js_truthy_str_def)
  show ?thesis
    using agenda_seq_refina_poll_seq
            [of "the (executa_pix pix_inicial [AbrirPix (dados_peca ''tx_1'')])" 0 "[status_resp ''pendente'', status_resp ''aprovado'']"] e
    by (simp add: nova_sessao_def max_tentativas_def resposta_continua_def)
qed

end
