(* ===== verification/CartPollers.thy ===== *)
theory CartPollers
  imports PixPoller
begin

text \<open>
  The four other PIX pollers of src/static/script.js: \<open>iniciarPollingPixDividido\<close>
  (lines 4119--4185), \<open>iniciarPollingPixCarrinho\<close> (4488--4571),
  \<open>iniciarPollingPixRegularizacao\<close> (4608--4676) and \<open>iniciarPollingPixInscricao\<close>
  (4713--4780), and the modals that start three of them
  (\<open>mostrarPixModalCarrinho\<close>, \<open>mostrarPixModalRegularizacao\<close>,
  \<open>mostrarPixModalInscricao\<close>).  Unlike \<open>monitorarTransacaoPix\<close> they have no
  registry, no check of the current transaction and no test before the request:
  every tick counts and queries, and the answer decides.  They differ in how they
  read the answer and in when they give up; \<open>espera\<close> names the poller.

  \<open>rodada2\<close> is one tick followed by its answer; \<open>poll2\<close> runs a poller under that
  sequential schedule.  \<open>abrir_modal\<close> and \<open>passo_modais\<close> model the modals: each
  opening starts a new poller and nothing stops an earlier one.
\<close>

datatype espera = KDividido | KCarrinho | KRegularizacao | KInscricao

text \<open>The status and the \<open>pago\<close> flag the poller reads.  The cart and divided
  pollers read \<open>dados.status\<close> and \<open>dados.pago\<close>; the other two read
  \<open>dados.transacao?.status || dados.status\<close> and
  \<open>dados.transacao?.pago || dados.pago\<close>.\<close>

definition ler_status :: "espera \<Rightarrow> corpo_tx \<Rightarrow> string option \<times> bool option" where
  "ler_status k j =
     (if k = KRegularizacao \<or> k = KInscricao then
        (case corpo_aninhado j of
           Some (st, pg) \<Rightarrow> (if js_truthy_str st then st else corpo_status j,
                            if pg = Some True then pg else corpo_pago j)
         | None \<Rightarrow> (corpo_status j, corpo_pago j))
      else (corpo_status j, corpo_pago j))"

definition aprovado2 :: "string option \<times> bool option \<Rightarrow> bool" where
  "aprovado2 sp \<longleftrightarrow> fst sp \<in> {Some ''aprovado'', Some ''aprovada'', Some ''confirmada''}
                    \<or> snd sp = Some True"

record sessao2 =
  tentativas2 :: nat
  ativo2 :: bool

definition nova_sessao2 :: sessao2 where
  "nova_sessao2 = \<lparr>tentativas2 = 0, ativo2 = True\<rparr>"

datatype saida2 =
    S2Nada          \<comment> \<open>the answer changes nothing visible\<close>
  | S2Aprovado      \<comment> \<open>clearInterval, "Pagamento confirmado", the flow's processing\<close>
  | S2Timeout       \<comment> \<open>clearInterval, toast "Timeout: ..."\<close>
  | S2ErroVerif     \<comment> \<open>clearInterval, toast "Erro ao verificar pagamento"\<close>

text \<open>The continuation of a request with its answer (the \<open>try\<close> block after
  \<open>await fetch\<close>).  It reads the closure's counter as it is when the answer
  arrives, which may be later than the tick that sent the request.\<close>

definition resposta2 :: "espera \<Rightarrow> sessao2 \<Rightarrow> resposta_http \<Rightarrow> sessao2 \<times> saida2" where
  "resposta2 k s r =
     (let fim = (max_tentativas \<le> tentativas2 s);
          parado = s\<lparr>ativo2 := False\<rparr>
      in case r of
           RespNaoOk c \<Rightarrow> (if fim then (parado, S2Timeout) else (s, S2Nada))
         | RespExcecao \<Rightarrow> (if k \<noteq> KDividido \<and> fim then (parado, S2ErroVerif) else (s, S2Nada))
         | RespOk j \<Rightarrow>
             (if aprovado2 (ler_status k j) then (parado, S2Aprovado)
              else if k \<noteq> KDividido \<and> fim then (parado, S2Timeout)
              else (s, S2Nada)))"

text \<open>One tick (\<open>tentativas++\<close>, the request) and the continuation with its
  answer, when the answer arrives before the next tick.\<close>

definition rodada2 :: "espera \<Rightarrow> sessao2 \<Rightarrow> resposta_http \<Rightarrow> sessao2 \<times> saida2" where
  "rodada2 k s r = resposta2 k (s\<lparr>tentativas2 := Suc (tentativas2 s)\<rparr>) r"

fun poll2 :: "espera \<Rightarrow> sessao2 \<Rightarrow> resposta_http list \<Rightarrow> sessao2 \<times> saida2 list" where
  "poll2 k s [] = (s, [])"
| "poll2 k s (r # rs) =
     (if \<not> ativo2 s then (s, [])
      else (case rodada2 k s r of
              (s1, x) \<Rightarrow> (case poll2 k s1 rs of (s2, xs) \<Rightarrow> (s2, x # xs))))"

subsection \<open>Ticks and answers interleaved\<close>









subsection \<open>The modals that start the pollers\<close>

record dados_modal =
  dm_transacao_id :: "txid option"
  dm_equipe_id :: "string option"
  dm_etapa_id :: "string option"

datatype efeito_modal =
    ToastDadosInvalidos          \<comment> \<open>"Erro: dados da transacao invalidos"\<close>
  | ModalPixAberto txid
  | FluxoAprovado espera txid    \<comment> \<open>the approval handling of that poller\<close>
  | FluxoTimeout espera txid
  | FluxoErro espera txid

record modais_st =
  tx_atual :: "txid option"            \<comment> \<open>\<open>window.transacaoPixAtual\<close>\<close>
  tipo_atual :: "string option"        \<comment> \<open>\<open>window.tipo_transacao_atual\<close>\<close>
  pollers2 :: "(espera \<times> txid \<times> sessao2) list"
  efeitos2 :: "efeito_modal list"

definition modais_inicial :: modais_st where
  "modais_inicial = \<lparr>tx_atual = None, tipo_atual = None, pollers2 = [], efeitos2 = []\<rparr>"

datatype modal_pix = MCarrinho | MRegularizacao | MInscricao

fun espera_de :: "modal_pix \<Rightarrow> espera" where
  "espera_de MCarrinho = KCarrinho"
| "espera_de MRegularizacao = KRegularizacao"
| "espera_de MInscricao = KInscricao"

text \<open>\<open>mostrarPixModalCarrinho\<close>, \<open>mostrarPixModalRegularizacao\<close> and
  \<open>mostrarPixModalInscricao\<close>: validate the id, make it current, mark the type
  (the cart modal leaves it), and start a poller.\<close>

definition abrir_modal :: "modal_pix \<Rightarrow> dados_modal \<Rightarrow> modais_st \<Rightarrow> modais_st" where
  "abrir_modal m d s =
     (if \<not> js_truthy_str (dm_transacao_id d) then s\<lparr>efeitos2 := efeitos2 s @ [ToastDadosInvalidos]\<rparr>
      else
        (let tx = the (dm_transacao_id d)
         in s\<lparr>tx_atual := Some tx,
              tipo_atual := (case m of MRegularizacao \<Rightarrow> Some ''regularizacao''
                                     | MInscricao \<Rightarrow> Some ''inscricao'' | MCarrinho \<Rightarrow> tipo_atual s),
              pollers2 := pollers2 s @ [(espera_de m, tx, nova_sessao2)],
              efeitos2 := efeitos2 s @ [ModalPixAberto tx]\<rparr>))"

fun efeito_saida2 :: "espera \<Rightarrow> txid \<Rightarrow> saida2 \<Rightarrow> efeito_modal list" where
  "efeito_saida2 k tx S2Nada = []"
| "efeito_saida2 k tx S2Aprovado = [FluxoAprovado k tx]"
| "efeito_saida2 k tx S2Timeout = [FluxoTimeout k tx]"
| "efeito_saida2 k tx S2ErroVerif = [FluxoErro k tx]"

text \<open>One round of the live poller \<open>h\<close> with the answer \<open>r\<close>.\<close>

definition rodada_modal :: "nat \<Rightarrow> resposta_http \<Rightarrow> modais_st \<Rightarrow> modais_st option" where
  "rodada_modal h r s =
     (if h < length (pollers2 s) \<and> ativo2 (snd (snd (pollers2 s ! h))) then
        (case pollers2 s ! h of
           (k, tx, ss) \<Rightarrow>
             (case rodada2 k ss r of
                (ss', x) \<Rightarrow> Some (s\<lparr>pollers2 := (pollers2 s)[h := (k, tx, ss')],
                                   efeitos2 := efeitos2 s @ efeito_saida2 k tx x\<rparr>)))
      else None)"

datatype evento_modal = AbrirModal modal_pix dados_modal | Rodada nat resposta_http

fun passo_modais :: "modais_st \<Rightarrow> evento_modal \<Rightarrow> modais_st option" where
  "passo_modais s (AbrirModal k d) = Some (abrir_modal k d s)"
| "passo_modais s (Rodada h r) = rodada_modal h r s"

fun executa_modais :: "modais_st \<Rightarrow> evento_modal list \<Rightarrow> modais_st option" where
  "executa_modais s [] = Some s"
| "executa_modais s (e # es) = (case passo_modais s e of None \<Rightarrow> None | Some s' \<Rightarrow> executa_modais s' es)"

text \<open>The four pollers and the three modals, each by its source name, under the
  sequential schedule.\<close>

definition polling_pix_dividido :: "resposta_http list \<Rightarrow> sessao2 \<times> saida2 list" where
  "polling_pix_dividido rs = poll2 KDividido nova_sessao2 rs"

definition polling_pix_carrinho :: "resposta_http list \<Rightarrow> sessao2 \<times> saida2 list" where
  "polling_pix_carrinho rs = poll2 KCarrinho nova_sessao2 rs"

definition polling_pix_regularizacao :: "resposta_http list \<Rightarrow> sessao2 \<times> saida2 list" where
  "polling_pix_regularizacao rs = poll2 KRegularizacao nova_sessao2 rs"

definition polling_pix_inscricao :: "resposta_http list \<Rightarrow> sessao2 \<times> saida2 list" where
  "polling_pix_inscricao rs = poll2 KInscricao nova_sessao2 rs"

definition mostrar_pix_modal_carrinho :: "dados_modal \<Rightarrow> modais_st \<Rightarrow> modais_st" where
  "mostrar_pix_modal_carrinho = abrir_modal MCarrinho"

definition mostrar_pix_modal_regularizacao :: "dados_modal \<Rightarrow> modais_st \<Rightarrow> modais_st" where
  "mostrar_pix_modal_regularizacao = abrir_modal MRegularizacao"

definition mostrar_pix_modal_inscricao :: "dados_modal \<Rightarrow> modais_st \<Rightarrow> modais_st" where
  "mostrar_pix_modal_inscricao = abrir_modal MInscricao"

text \<open>An OK answer that this poller does not read as an approval ("pendente",
  "recusado", "cancelado", an unknown status).\<close>

definition nao_aprova :: "espera \<Rightarrow> resposta_http \<Rightarrow> bool" where
  "nao_aprova k r = (case r of RespOk j \<Rightarrow> \<not> aprovado2 (ler_status k j) | _ \<Rightarrow> False)"

subsection \<open>Lemmas\<close>

declare poll2.simps(2) [simp del]

lemma poll2_rodada:
  "ativo2 s \<Longrightarrow> poll2 k s (r # rs)
     = (fst (poll2 k (fst (rodada2 k s r)) rs), snd (rodada2 k s r) # snd (poll2 k (fst (rodada2 k s r)) rs))"
  by (simp add: poll2.simps(2) split: prod.split)

lemma poll2_inativo [simp]: "\<not> ativo2 s \<Longrightarrow> poll2 k s rs = (s, [])"
  by (cases rs) (simp_all add: poll2.simps(2))

lemma rodada2_tentativas [simp]: "tentativas2 (fst (rodada2 k s r)) = Suc (tentativas2 s)"
  by (simp add: rodada2_def resposta2_def Let_def split: resposta_http.split)

lemma rodada2_fim:
  "k \<noteq> KDividido \<Longrightarrow> max_tentativas \<le> Suc (tentativas2 s) \<Longrightarrow> \<not> ativo2 (fst (rodada2 k s r))"
  by (simp add: rodada2_def resposta2_def Let_def split: resposta_http.split)

lemma rodada2_nao_aprova:
  assumes "nao_aprova k r"
  shows "rodada2 k s r = (if k \<noteq> KDividido \<and> max_tentativas \<le> Suc (tentativas2 s)
                         then (s\<lparr>tentativas2 := Suc (tentativas2 s), ativo2 := False\<rparr>, S2Timeout)
                         else (s\<lparr>tentativas2 := Suc (tentativas2 s)\<rparr>, S2Nada))"
  using assms by (auto simp: rodada2_def resposta2_def nao_aprova_def Let_def split: resposta_http.splits)

lemma rodada2_aprova:
  assumes "aprovado2 (ler_status k j)"
  shows "rodada2 k s (RespOk j) = (s\<lparr>tentativas2 := Suc (tentativas2 s), ativo2 := False\<rparr>, S2Aprovado)"
  using assms by (simp add: rodada2_def resposta2_def Let_def)

text \<open>The bound behind the timeout of the cart, regularization and registration
  pollers: from a live state below the limit, at most the remaining attempts are
  made, and a run that long ends with the poller stopped.\<close>

lemma poll2_limite_gen:
  assumes "k \<noteq> KDividido" "tentativas2 s < max_tentativas"
  shows "length (snd (poll2 k s rs)) \<le> max_tentativas - tentativas2 s
         \<and> (max_tentativas - tentativas2 s \<le> length rs \<longrightarrow> \<not> ativo2 (fst (poll2 k s rs)))"
  using assms(2)
proof (induction rs arbitrary: s)
  case Nil
  then show ?case by simp
next
  case (Cons r rs)
  show ?case
  proof (cases "ativo2 s")
    case act: True
    let ?s1 = "fst (rodada2 k s r)"
    show ?thesis
    proof (cases "Suc (tentativas2 s) < max_tentativas")
      case True
      then have "tentativas2 ?s1 < max_tentativas" by simp
      from Cons.IH [OF this] True act show ?thesis by (simp add: poll2_rodada; linarith)
    next
      case False
      then have "\<not> ativo2 ?s1" using rodada2_fim [OF assms(1)] by simp
      with act Cons.prems show ?thesis by (simp add: poll2_rodada)
    qed
  next
    case False
    then show ?thesis by simp
  qed
qed

lemma poll2_nao_aprova_gen:
  assumes "ativo2 s" "list_all (nao_aprova k) rs"
    and "k = KDividido \<or> tentativas2 s + length rs < max_tentativas"
  shows "poll2 k s rs = (s\<lparr>tentativas2 := tentativas2 s + length rs\<rparr>, replicate (length rs) S2Nada)"
  using assms
proof (induction rs arbitrary: s)
  case Nil
  then show ?case by simp
next
  case (Cons r rs)
  have r: "rodada2 k s r = (s\<lparr>tentativas2 := Suc (tentativas2 s)\<rparr>, S2Nada)"
    using Cons.prems by (auto simp: rodada2_nao_aprova)
  have "poll2 k (s\<lparr>tentativas2 := Suc (tentativas2 s)\<rparr>) rs
        = (s\<lparr>tentativas2 := Suc (tentativas2 s) + length rs\<rparr>, replicate (length rs) S2Nada)"
    using Cons.prems by (intro trans [OF Cons.IH]) auto
  with Cons.prems(1) r show ?case by (simp add: poll2_rodada)
qed

lemma poll2_timeout_gen:
  assumes "k \<noteq> KDividido" "ativo2 s" "tentativas2 s < max_tentativas" "list_all (nao_aprova k) rs"
    and "max_tentativas - tentativas2 s \<le> length rs"
  shows "poll2 k s rs = (s\<lparr>tentativas2 := max_tentativas, ativo2 := False\<rparr>,
                         replicate (max_tentativas - tentativas2 s - 1) S2Nada @ [S2Timeout])"
  using assms(2-5)
proof (induction rs arbitrary: s)
  case Nil
  then show ?case by simp
next
  case (Cons r rs)
  show ?case
  proof (cases "Suc (tentativas2 s) < max_tentativas")
    case True
    have r: "rodada2 k s r = (s\<lparr>tentativas2 := Suc (tentativas2 s)\<rparr>, S2Nada)"
      using Cons.prems True by (auto simp: rodada2_nao_aprova)
    have "poll2 k (s\<lparr>tentativas2 := Suc (tentativas2 s)\<rparr>) rs
          = (s\<lparr>tentativas2 := max_tentativas, ativo2 := False\<rparr>,
             replicate (max_tentativas - Suc (tentativas2 s) - 1) S2Nada @ [S2Timeout])"
      using Cons.prems True by (intro trans [OF Cons.IH]) auto
    moreover have "max_tentativas - tentativas2 s - 1 = Suc (max_tentativas - Suc (tentativas2 s) - 1)"
      using True by simp
    ultimately show ?thesis using Cons.prems(1) r by (simp add: poll2_rodada)
  next
    case False
    then have "max_tentativas = Suc (tentativas2 s)" using Cons.prems(2) by simp
    moreover have "rodada2 k s r = (s\<lparr>tentativas2 := Suc (tentativas2 s), ativo2 := False\<rparr>, S2Timeout)"
      using Cons.prems False assms(1) by (auto simp: rodada2_nao_aprova)
    ultimately show ?thesis using Cons.prems(1) by (simp add: poll2_rodada)
  qed
qed




lemma nao_aprova_pendente [simp]: "nao_aprova k (status_resp ''pendente'')"
  by (simp add: nao_aprova_def aprovado2_def ler_status_def)

lemma nao_aprova_recusado [simp]: "nao_aprova k (status_resp ''recusado'')"
  by (simp add: nao_aprova_def aprovado2_def ler_status_def)

subsection \<open>Properties\<close>



text \<open>C24. Each of the four pollers reports an approval once and stops: with
  \<open>n < maxTentativas\<close> pending answers followed by an answer it reads as approved,
  it makes \<open>n + 1\<close> requests, nothing visible happens on the pending ones, and
  the approval is the last output.\<close>

theorem poll2_pendentes_aprovado:
  assumes "n < max_tentativas" "aprovado2 (ler_status k j)"
  shows "poll2 k nova_sessao2 (replicate n (status_resp ''pendente'') @ RespOk j # rs)
         = (\<lparr>tentativas2 = Suc n, ativo2 = False\<rparr>, replicate n S2Nada @ [S2Aprovado])"
proof -
  have p: "poll2 k nova_sessao2 (replicate n (status_resp ''pendente''))
           = (\<lparr>tentativas2 = n, ativo2 = True\<rparr>, replicate n S2Nada)"
    using poll2_nao_aprova_gen [of nova_sessao2 k "replicate n (status_resp ''pendente'')"] assms(1)
    by (simp add: nova_sessao2_def list_all_iff)
  have "poll2 k s (xs @ RespOk j # rs) = (fst (poll2 k (fst (poll2 k s xs)) (RespOk j # rs)),
                                           snd (poll2 k s xs) @ snd (poll2 k (fst (poll2 k s xs)) (RespOk j # rs)))"
    if "list_all (nao_aprova k) xs" "k = KDividido \<or> tentativas2 s + length xs < max_tentativas" "ativo2 s"
    for s xs
    using that
  proof (induction xs arbitrary: s)
    case (Cons x xs)
    have r: "rodada2 k s x = (s\<lparr>tentativas2 := Suc (tentativas2 s)\<rparr>, S2Nada)"
      using Cons.prems by (auto simp: rodada2_nao_aprova)
    show ?case using Cons.prems r Cons.IH [of "s\<lparr>tentativas2 := Suc (tentativas2 s)\<rparr>"]
      by (simp add: poll2_rodada)
  qed simp
  from this [of "replicate n (status_resp ''pendente'')" nova_sessao2] p assms
  show ?thesis by (simp add: nova_sessao2_def list_all_iff poll2_rodada rodada2_aprova)
qed

theorem poll2_pendentes_aprovado_witness:
  "2 < max_tentativas
   \<and> aprovado2 (ler_status KRegularizacao
        \<lparr>corpo_status = None, corpo_pago = None, corpo_aninhado = Some (Some ''aprovada'', None)\<rparr>)
   \<and> poll2 KRegularizacao nova_sessao2
       (replicate 2 (status_resp ''pendente'')
        @ [RespOk \<lparr>corpo_status = None, corpo_pago = None, corpo_aninhado = Some (Some ''aprovada'', None)\<rparr>])
     = (\<lparr>tentativas2 = 3, ativo2 = False\<rparr>, [S2Nada, S2Nada, S2Aprovado])"
proof -
  have a: "aprovado2 (ler_status KRegularizacao
        \<lparr>corpo_status = None, corpo_pago = None, corpo_aninhado = Some (Some ''aprovada'', None)\<rparr>)"
    by (simp add: aprovado2_def ler_status_def js_truthy_str_def)
  have m: "2 < max_tentativas" by (simp add: max_tentativas_def)
  show ?thesis using poll2_pendentes_aprovado [OF m a, of "[]"] a m by (simp add: numeral_2_eq_2)
qed

text \<open>C25. The poller of the divided cart (\<open>iniciarPollingPixDividido\<close>) never
  gives up while the server answers: its limit is tested only on a non-OK
  answer, so any number of "pendente", "recusado" or unknown answers keeps it
  polling, one request per second, with nothing shown.\<close>

theorem poll2_dividido_nunca_expira:
  assumes "list_all (nao_aprova KDividido) rs"
  shows "polling_pix_dividido rs
         = (\<lparr>tentativas2 = length rs, ativo2 = True\<rparr>, replicate (length rs) S2Nada)"
  using poll2_nao_aprova_gen [of nova_sessao2 KDividido rs] assms
  by (simp add: polling_pix_dividido_def nova_sessao2_def)

theorem poll2_dividido_nunca_expira_witness:
  "list_all (nao_aprova KDividido) (replicate 500 (status_resp ''recusado''))
   \<and> polling_pix_dividido (replicate 500 (status_resp ''recusado''))
     = (\<lparr>tentativas2 = 500, ativo2 = True\<rparr>, replicate 500 S2Nada)"
proof -
  have h: "list_all (nao_aprova KDividido) (replicate 500 (status_resp ''recusado''))"
    by (simp add: list_all_iff)
  show ?thesis using poll2_dividido_nunca_expira [OF h] h by simp
qed

text \<open>A refused payment is reported as a timeout.  The cart, regularization
  and registration pollers do not read "recusado" or "cancelado": while the
  server answers anything but an approval they keep polling, and on the
  \<open>maxTentativas\<close>-th answer they show "Timeout: a transacao levou muito tempo
  para confirmar", two minutes after the refusal.\<close>

theorem poll2_recusado_timeout:
  assumes "k \<noteq> KDividido" "list_all (nao_aprova k) rs" "max_tentativas \<le> length rs"
  shows "poll2 k nova_sessao2 rs
         = (\<lparr>tentativas2 = max_tentativas, ativo2 = False\<rparr>,
            replicate (max_tentativas - 1) S2Nada @ [S2Timeout])"
  using poll2_timeout_gen [OF assms(1), of nova_sessao2 rs] assms(2,3)
  by (simp add: nova_sessao2_def max_tentativas_def)

theorem poll2_recusado_timeout_witness:
  "KInscricao \<noteq> KDividido
   \<and> list_all (nao_aprova KInscricao) (replicate 120 (status_resp ''recusado''))
   \<and> max_tentativas \<le> length (replicate 120 (status_resp ''recusado''))
   \<and> poll2 KInscricao nova_sessao2 (replicate 120 (status_resp ''recusado''))
     = (\<lparr>tentativas2 = 120, ativo2 = False\<rparr>, replicate 119 S2Nada @ [S2Timeout])"
proof -
  have h: "list_all (nao_aprova KInscricao) (replicate 120 (status_resp ''recusado''))"
    by (simp add: list_all_iff)
  have l: "max_tentativas \<le> length (replicate 120 (status_resp ''recusado''))"
    by (simp add: max_tentativas_def)
  show ?thesis using poll2_recusado_timeout [of KInscricao, OF _ h l] h l
    by (simp add: max_tentativas_def)
qed

text \<open>Opening the cart's PIX modal a second time starts a second poller
  beside the first, which nothing stops: when both transactions are paid, the
  cart's approval handling (clearing the cart, the purchase summary) runs twice.\<close>

theorem dois_pollers_carrinho:
  "map_option efeitos2 (executa_modais modais_inicial
     [AbrirModal MCarrinho \<lparr>dm_transacao_id = Some ''tx_1'', dm_equipe_id = None, dm_etapa_id = None\<rparr>,
      AbrirModal MCarrinho \<lparr>dm_transacao_id = Some ''tx_2'', dm_equipe_id = None, dm_etapa_id = None\<rparr>,
      Rodada 0 (status_resp ''aprovado''), Rodada 1 (status_resp ''aprovado'')])
   = Some [ModalPixAberto ''tx_1'', ModalPixAberto ''tx_2'',
           FluxoAprovado KCarrinho ''tx_1'', FluxoAprovado KCarrinho ''tx_2'']"
  by (simp add: modais_inicial_def abrir_modal_def rodada_modal_def rodada2_def resposta2_def nova_sessao2_def
                aprovado2_def ler_status_def js_truthy_str_def Let_def)

end
