(* ===== verification/ShopCart.thy ===== *)
theory ShopCart
  imports Prelude
begin

text \<open>
  The shop cart of parts and the choice of destination for each part
  (src/static/script.js, lines 3643--3956).  The cart \<open>carrinho\<close> is a list of
  parts, at most one per id (\<open>adicionarAoCarrinho\<close>); the destination modal
  keeps \<open>destinosPecas\<close>, a map from part id to \<open>'armazem'\<close> or
  \<open>'carro_ativo'\<close>.  Before the split is confirmed, two base parts of the same
  slot may not go to the active car: \<open>verificarPecasDuplicadasNoCarroAtivo\<close>
  decides, \<open>renderizarListaPecasDestino\<close> paints the warning, and the two read
  the slot of a part differently.
\<close>

record item_carrinho =
  ic_id :: string
  ic_nome :: string
  ic_preco :: money               \<comment> \<open>\<open>parseFloat(preco)\<close>\<close>
  ic_compat :: "string option"    \<comment> \<open>\<open>compatibilidade\<close>\<close>
  ic_tipo :: "string option"      \<comment> \<open>\<open>tipo\<close>, \<open>'upgrade'\<close> for upgrades\<close>
  ic_quantidade :: nat

type_synonym destinos = "string \<Rightarrow> string option"

datatype efeito_loja =
    ToastJaNoCarrinho string        \<comment> \<open>"... ja esta no carrinho!"\<close>
  | ToastCarrinhoVazio
  | ToastSemCarroAtivo
  | ToastDuplicadas                 \<comment> \<open>"Nao e permitido ter pecas duplicadas no carro ativo!"\<close>
  | ModalDestinoAberto
  | ProcessarAtivoModal "item_carrinho list"     \<comment> \<open>\<open>processarPecasParaAtivoModal\<close>\<close>
  | EnviarArmazemDividido "item_carrinho list"   \<comment> \<open>\<open>enviarCarrinhoParaArmazemDividido\<close>\<close>

subsection \<open>The cart\<close>

definition adicionar_ao_carrinho ::
  "string \<Rightarrow> string \<Rightarrow> money \<Rightarrow> string option \<Rightarrow> string option \<Rightarrow> item_carrinho list
   \<Rightarrow> item_carrinho list \<times> efeito_loja list" where
  "adicionar_ao_carrinho pid nome preco compatib tipo c =
     (let peca = \<lparr>ic_id = pid, ic_nome = nome, ic_preco = preco, ic_compat = compatib, ic_tipo = tipo,
                  ic_quantidade = 1\<rparr>
      in case find (\<lambda>p. ic_id p = pid) c of
           Some _ \<Rightarrow> (c, [ToastJaNoCarrinho nome])
         | None \<Rightarrow> (c @ [peca], []))"

definition remover_do_carrinho :: "string \<Rightarrow> item_carrinho list \<Rightarrow> item_carrinho list" where
  "remover_do_carrinho pid c = filter (\<lambda>p. ic_id p \<noteq> pid) c"

definition limpar_carrinho :: "item_carrinho list \<Rightarrow> item_carrinho list" where
  "limpar_carrinho c = []"

definition calcular_total_carrinho :: "item_carrinho list \<Rightarrow> money" where
  "calcular_total_carrinho c = sum_list (map (\<lambda>p. ic_preco p * of_nat (ic_quantidade p)) c)"

text \<open>\<open>peca.quantidade || 1\<close>.\<close>

definition qtd_ou_1 :: "item_carrinho \<Rightarrow> nat" where
  "qtd_ou_1 p = (if ic_quantidade p = 0 then 1 else ic_quantidade p)"

definition subtotal :: "item_carrinho \<Rightarrow> money" where
  "subtotal p = ic_preco p * of_nat (qtd_ou_1 p)"

subsection \<open>Destinations\<close>

text \<open>\<open>abrirModalDestino()\<close>: every part of the cart starts in the warehouse.\<close>

definition abrir_modal_destino :: "item_carrinho list \<Rightarrow> destinos option \<times> efeito_loja list" where
  "abrir_modal_destino c =
     (if c = [] then (None, [ToastCarrinhoVazio])
      else (Some (map_of (map (\<lambda>p. (ic_id p, ''armazem'')) c)), [ModalDestinoAberto]))"

text \<open>\<open>selecionarDestinoPeca(pecaId, novoDestino)\<close>; \<open>tem_carro\<close> is whether
  \<open>equipeAtual.carro_ativo\<close> is set.\<close>

definition selecionar_destino_peca ::
  "bool \<Rightarrow> string \<Rightarrow> string \<Rightarrow> destinos \<Rightarrow> destinos \<times> efeito_loja list" where
  "selecionar_destino_peca tem_carro pid d dest =
     (if d = ''carro_ativo'' \<and> \<not> tem_carro then (dest, [ToastSemCarroAtivo])
      else (dest(pid \<mapsto> d), []))"

definition pecas_para :: "destinos \<Rightarrow> string \<Rightarrow> item_carrinho list \<Rightarrow> item_carrinho list" where
  "pecas_para dest d c = filter (\<lambda>p. dest (ic_id p) = Some d) c"

text \<open>The slot of a part as the check reads it, \<open>peca.tipo || peca.compatibilidade ||
  'desconhecido'\<close>, and as the warning reads it, \<open>peca.tipo || 'desconhecido'\<close>.\<close>

definition chave_verificacao :: "item_carrinho \<Rightarrow> string" where
  "chave_verificacao p = js_or_str (ic_tipo p) (js_or_str (ic_compat p) ''desconhecido'')"

definition chave_aviso :: "item_carrinho \<Rightarrow> string" where
  "chave_aviso p = js_or_str (ic_tipo p) ''desconhecido''"

text \<open>The loop of \<open>verificarPecasDuplicadasNoCarroAtivo\<close>: \<open>vistos\<close> are the slots
  counted so far; a part whose slot was counted before is a duplicate.\<close>

fun conta_duplicadas ::
  "string list \<Rightarrow> bool \<times> string list \<Rightarrow> item_carrinho list \<Rightarrow> bool \<times> string list" where
  "conta_duplicadas vistos acc [] = acc"
| "conta_duplicadas vistos (tem, ids) (p # ps) =
     (if ic_tipo p = Some ''upgrade'' then conta_duplicadas vistos (tem, ids) ps
      else if chave_verificacao p \<in> set vistos
        then conta_duplicadas vistos (True, if ic_id p \<in> set ids then ids else ids @ [ic_id p]) ps
      else conta_duplicadas (vistos @ [chave_verificacao p]) (tem, ids) ps)"

definition verificar_pecas_duplicadas :: "item_carrinho list \<Rightarrow> destinos \<Rightarrow> bool \<times> string list" where
  "verificar_pecas_duplicadas c dest = conta_duplicadas [] (False, []) (pecas_para dest ''carro_ativo'' c)"

text \<open>The warning of \<open>renderizarListaPecasDestino\<close>: the slots counted more than
  once, in the order \<open>Object.keys\<close> lists them.\<close>

definition tipos_com_duplicatas :: "item_carrinho list \<Rightarrow> destinos \<Rightarrow> string list" where
  "tipos_com_duplicatas c dest =
     (let ks = map chave_aviso (filter (\<lambda>p. ic_tipo p \<noteq> Some ''upgrade'') (pecas_para dest ''carro_ativo'' c))
      in remdups (filter (\<lambda>t. 1 < count_list ks t) ks))"

definition aviso_duplicatas :: "item_carrinho list \<Rightarrow> destinos \<Rightarrow> bool" where
  "aviso_duplicatas c dest \<longleftrightarrow> tipos_com_duplicatas c dest \<noteq> []"

text \<open>\<open>atualizarTotaisPecas()\<close>: value and number of parts per destination; a part
  without destination counts for the warehouse.\<close>

definition destino_de :: "destinos \<Rightarrow> item_carrinho \<Rightarrow> string" where
  "destino_de dest p = js_or_str (dest (ic_id p)) ''armazem''"

definition atualizar_totais_pecas :: "item_carrinho list \<Rightarrow> destinos \<Rightarrow> money \<times> money \<times> nat \<times> nat" where
  "atualizar_totais_pecas c dest =
     (let arm = filter (\<lambda>p. destino_de dest p = ''armazem'') c;
          car = filter (\<lambda>p. destino_de dest p = ''carro_ativo'') c
      in (sum_list (map subtotal arm), sum_list (map subtotal car), length arm, length car))"

text \<open>\<open>confirmarDistribuicaoPecas()\<close>: blocked by duplicates, otherwise the parts for
  the active car go to \<open>processarPecasParaAtivoModal\<close> and those for the warehouse
  to \<open>enviarCarrinhoParaArmazemDividido\<close>, in that order.\<close>

definition confirmar_distribuicao_pecas :: "item_carrinho list \<Rightarrow> destinos \<Rightarrow> efeito_loja list" where
  "confirmar_distribuicao_pecas c dest =
     (if fst (verificar_pecas_duplicadas c dest) then [ToastDuplicadas]
      else
        (let arm = pecas_para dest ''armazem'' c;
             car = pecas_para dest ''carro_ativo'' c
         in (if car \<noteq> [] then [ProcessarAtivoModal car] else [])
            @ (if arm \<noteq> [] then [EnviarArmazemDividido arm] else [])))"

subsection \<open>The shop's state and handlers\<close>

record loja_st =
  carrinho :: "item_carrinho list"     \<comment> \<open>\<open>carrinho\<close>\<close>
  destinos_pecas :: destinos           \<comment> \<open>\<open>destinosPecas\<close>\<close>

text \<open>The two destination buttons of \<open>renderizarListaPecasDestino\<close>.\<close>

datatype botao_destino = BotaoArmazem | BotaoCarroAtivo

fun valor_botao :: "botao_destino \<Rightarrow> string" where
  "valor_botao BotaoArmazem = ''armazem''"
| "valor_botao BotaoCarroAtivo = ''carro_ativo''"

datatype op_loja =
    OpAdicionar string string money "string option" "string option"
  | OpRemover string
  | OpLimpar
  | OpAbrirDestino
  | OpSelecionarDestino bool string botao_destino

fun passo_loja :: "loja_st \<Rightarrow> op_loja \<Rightarrow> loja_st" where
  "passo_loja s (OpAdicionar pid n pr cp t) = s\<lparr>carrinho := fst (adicionar_ao_carrinho pid n pr cp t (carrinho s))\<rparr>"
| "passo_loja s (OpRemover pid) = s\<lparr>carrinho := remover_do_carrinho pid (carrinho s)\<rparr>"
| "passo_loja s OpLimpar = s\<lparr>carrinho := limpar_carrinho (carrinho s)\<rparr>"
| "passo_loja s OpAbrirDestino =
     (case fst (abrir_modal_destino (carrinho s)) of Some d \<Rightarrow> s\<lparr>destinos_pecas := d\<rparr> | None \<Rightarrow> s)"
| "passo_loja s (OpSelecionarDestino tc pid b) =
     s\<lparr>destinos_pecas := fst (selecionar_destino_peca tc pid (valor_botao b) (destinos_pecas s))\<rparr>"

text \<open>What the handlers keep true: one entry per part id, every part with
  quantity 1, and only the two destinations of the buttons.\<close>

definition inv_loja :: "loja_st \<Rightarrow> bool" where
  "inv_loja s \<longleftrightarrow> distinct (map ic_id (carrinho s)) \<and> (\<forall>p \<in> set (carrinho s). ic_quantidade p = 1)
                  \<and> (\<forall>k v. destinos_pecas s k = Some v \<longrightarrow> v = ''armazem'' \<or> v = ''carro_ativo'')"

subsection \<open>Lemmas\<close>

lemma find_id_None: "find (\<lambda>p. ic_id p = pid) c = None \<longleftrightarrow> pid \<notin> set (map ic_id c)"
  by (induction c) auto

lemma map_of_armazem: "map_of (map (\<lambda>p. (ic_id p, ''armazem'')) c) k = Some v \<Longrightarrow> v = ''armazem''"
  by (induction c) (auto split: if_splits)

lemma inv_adicionar:
  "inv_loja s \<Longrightarrow> inv_loja (s\<lparr>carrinho := fst (adicionar_ao_carrinho pid n pr cp t (carrinho s))\<rparr>)"
  by (auto simp: inv_loja_def adicionar_ao_carrinho_def find_id_None split: option.splits)

lemma inv_selecionar:
  "inv_loja s \<Longrightarrow> inv_loja (s\<lparr>destinos_pecas := fst (selecionar_destino_peca tc pid (valor_botao b) (destinos_pecas s))\<rparr>)"
  by (cases b) (auto simp: inv_loja_def selecionar_destino_peca_def)

lemma destino_de_inv:
  "inv_loja s \<Longrightarrow> destino_de (destinos_pecas s) p = ''armazem'' \<or> destino_de (destinos_pecas s) p = ''carro_ativo''"
  by (auto simp: inv_loja_def destino_de_def js_or_str_def split: option.splits)

lemma subtotal_qtd_1: "ic_quantidade p = 1 \<Longrightarrow> subtotal p = ic_preco p * of_nat (ic_quantidade p)"
  by (simp add: subtotal_def qtd_ou_1_def)

lemma sum_list_cong_set:
  "(\<And>x. x \<in> set xs \<Longrightarrow> f x = g x) \<Longrightarrow> sum_list (map f xs) = sum_list (map g xs)"
  by (metis map_eq_conv)

text \<open>The duplicate check of the loop, read off: with the slots \<open>vistos\<close> counted
  and distinct, the flag is set exactly when the base parts repeat a slot.\<close>

lemma conta_duplicadas_flag:
  "distinct vistos \<Longrightarrow>
   fst (conta_duplicadas vistos (tem, ids) ps)
   = (tem \<or> \<not> distinct (vistos @ map chave_verificacao (filter (\<lambda>p. ic_tipo p \<noteq> Some ''upgrade'') ps)))"
  by (induction vistos "(tem, ids)" ps arbitrary: tem ids rule: conta_duplicadas.induct) auto

subsection \<open>Properties\<close>

text \<open>C28. Every handler of the shop cart and of the destination modal keeps the
  state well formed: each part id is in the cart at most once, with quantity 1,
  and every destination is the warehouse or the active car.\<close>

theorem passo_loja_preserva_inv:
  assumes "inv_loja s"
  shows "inv_loja (passo_loja s op)"
proof (cases op)
  case (OpAdicionar pid n pr cp t)
  with assms show ?thesis by (simp add: inv_adicionar)
next
  case (OpRemover pid)
  with assms show ?thesis
    by (simp add: inv_loja_def remover_do_carrinho_def distinct_map_filter)
next
  case OpLimpar
  with assms show ?thesis by (simp add: inv_loja_def limpar_carrinho_def)
next
  case OpAbrirDestino
  have "\<forall>k v. map_of (map (\<lambda>p. (ic_id p, ''armazem'')) (carrinho s)) k = Some v
           \<longrightarrow> v = ''armazem'' \<or> v = ''carro_ativo''"
    using map_of_armazem by blast
  with assms OpAbrirDestino show ?thesis
    by (simp add: inv_loja_def abrir_modal_destino_def)
next
  case (OpSelecionarDestino tc pid b)
  with assms show ?thesis by (simp add: inv_selecionar)
qed

theorem passo_loja_preserva_inv_witness:
  "inv_loja \<lparr>carrinho = [], destinos_pecas = Map.empty\<rparr>
   \<and> inv_loja (passo_loja \<lparr>carrinho = [], destinos_pecas = Map.empty\<rparr>
                 (OpAdicionar ''p1'' ''Turbo'' 50 (Some ''motor'') (Some ''turbo'')))"
proof -
  have h: "inv_loja \<lparr>carrinho = [], destinos_pecas = Map.empty\<rparr>" by (simp add: inv_loja_def)
  show ?thesis using h passo_loja_preserva_inv [OF h] by blast
qed

text \<open>C29. The destination modal splits the cart's value: in every well-formed
  state the totals shown for the warehouse and for the active car add up to the
  value of the cart (\<open>calcularTotalCarrinho\<close>), and their part counts to the
  number of parts.\<close>

theorem totais_pecas_particionam:
  assumes "inv_loja s"
  shows "(case atualizar_totais_pecas (carrinho s) (destinos_pecas s) of
            (ta, tc, qa, qc) \<Rightarrow> ta + tc = calcular_total_carrinho (carrinho s)
                                \<and> qa + qc = length (carrinho s))"
proof -
  let ?c = "carrinho s" and ?d = "destinos_pecas s"
  let ?A = "\<lambda>p. destino_de ?d p = ''armazem''"
  have car: "filter (\<lambda>p. destino_de ?d p = ''carro_ativo'') ?c = filter (\<lambda>p. \<not> ?A p) ?c"
    using destino_de_inv [OF assms] by (intro filter_cong) auto
  have sub: "sum_list (map subtotal ?c) = calcular_total_carrinho ?c"
    using assms unfolding calcular_total_carrinho_def inv_loja_def
    by (intro sum_list_cong_set) (simp add: subtotal_qtd_1)
  show ?thesis
    using sum_list_filter_split [of subtotal ?A ?c] sub car sum_length_filter_compl [of ?A ?c]
    by (simp add: atualizar_totais_pecas_def Let_def)
qed

theorem totais_pecas_particionam_witness:
  "inv_loja \<lparr>carrinho = [\<lparr>ic_id = ''p1'', ic_nome = ''Turbo'', ic_preco = 50, ic_compat = None,
                              ic_tipo = Some ''turbo'', ic_quantidade = 1\<rparr>,
                            \<lparr>ic_id = ''p2'', ic_nome = ''Freio'', ic_preco = 30, ic_compat = None,
                              ic_tipo = Some ''freio'', ic_quantidade = 1\<rparr>],
             destinos_pecas = [''p1'' \<mapsto> ''carro_ativo'', ''p2'' \<mapsto> ''armazem'']\<rparr>
   \<and> atualizar_totais_pecas
       [\<lparr>ic_id = ''p1'', ic_nome = ''Turbo'', ic_preco = 50, ic_compat = None, ic_tipo = Some ''turbo'', ic_quantidade = 1\<rparr>,
        \<lparr>ic_id = ''p2'', ic_nome = ''Freio'', ic_preco = 30, ic_compat = None, ic_tipo = Some ''freio'', ic_quantidade = 1\<rparr>]
       [''p1'' \<mapsto> ''carro_ativo'', ''p2'' \<mapsto> ''armazem''] = (30, 50, 1, 1)"
proof -
  let ?s = "\<lparr>carrinho = [\<lparr>ic_id = ''p1'', ic_nome = ''Turbo'', ic_preco = 50, ic_compat = None,
                              ic_tipo = Some ''turbo'', ic_quantidade = 1\<rparr>,
                            \<lparr>ic_id = ''p2'', ic_nome = ''Freio'', ic_preco = 30, ic_compat = None,
                              ic_tipo = Some ''freio'', ic_quantidade = 1\<rparr>],
             destinos_pecas = [''p1'' \<mapsto> ''carro_ativo'', ''p2'' \<mapsto> ''armazem'']\<rparr>"
  have h: "inv_loja ?s" by (simp add: inv_loja_def)
  have "atualizar_totais_pecas (carrinho ?s) (destinos_pecas ?s) = (30, 50, 1, 1)"
    by (simp add: atualizar_totais_pecas_def destino_de_def js_or_str_def subtotal_def qtd_ou_1_def)
  with h totais_pecas_particionam [OF h] show ?thesis by simp
qed

text \<open>C30. The split is confirmed only without duplicates: when
  \<open>confirmarDistribuicaoPecas\<close> hands parts to the active car, no two of its
  base parts (upgrades excepted) share a slot, read as
  \<open>tipo || compatibilidade || 'desconhecido'\<close>.\<close>

theorem confirmar_sem_duplicatas:
  assumes "ProcessarAtivoModal car \<in> set (confirmar_distribuicao_pecas c dest)"
  shows "car = pecas_para dest ''carro_ativo'' c
         \<and> distinct (map chave_verificacao (filter (\<lambda>p. ic_tipo p \<noteq> Some ''upgrade'') car))"
proof -
  have nd: "\<not> fst (verificar_pecas_duplicadas c dest)" and car: "car = pecas_para dest ''carro_ativo'' c"
    using assms by (auto simp: confirmar_distribuicao_pecas_def Let_def split: if_splits)
  then show ?thesis
    using conta_duplicadas_flag [of "[]" False "[]" "pecas_para dest ''carro_ativo'' c"]
    by (simp add: verificar_pecas_duplicadas_def)
qed

theorem confirmar_sem_duplicatas_witness:
  "ProcessarAtivoModal [\<lparr>ic_id = ''p1'', ic_nome = ''Turbo'', ic_preco = 50, ic_compat = None,
                          ic_tipo = Some ''turbo'', ic_quantidade = 1\<rparr>]
     \<in> set (confirmar_distribuicao_pecas
              [\<lparr>ic_id = ''p1'', ic_nome = ''Turbo'', ic_preco = 50, ic_compat = None,
                 ic_tipo = Some ''turbo'', ic_quantidade = 1\<rparr>] [''p1'' \<mapsto> ''carro_ativo''])
   \<and> distinct (map chave_verificacao (filter (\<lambda>p. ic_tipo p \<noteq> Some ''upgrade'')
        [\<lparr>ic_id = ''p1'', ic_nome = ''Turbo'', ic_preco = 50, ic_compat = None,
          ic_tipo = Some ''turbo'', ic_quantidade = 1\<rparr>]))"
proof -
  have m: "ProcessarAtivoModal [\<lparr>ic_id = ''p1'', ic_nome = ''Turbo'', ic_preco = 50, ic_compat = None,
                          ic_tipo = Some ''turbo'', ic_quantidade = 1\<rparr>]
     \<in> set (confirmar_distribuicao_pecas
              [\<lparr>ic_id = ''p1'', ic_nome = ''Turbo'', ic_preco = 50, ic_compat = None,
                 ic_tipo = Some ''turbo'', ic_quantidade = 1\<rparr>] [''p1'' \<mapsto> ''carro_ativo''])"
    by (simp add: confirmar_distribuicao_pecas_def verificar_pecas_duplicadas_def pecas_para_def Let_def)
  show ?thesis using m confirmar_sem_duplicatas [OF m] by simp
qed

text \<open>The red warning and the check disagree.  For two base parts with an
  empty \<open>tipo\<close> but different compatibilities, both sent to the active car, the modal
  paints the duplicate warning (both read as \<open>'desconhecido'\<close>) and yet the
  confirmation goes through; for a part with \<open>tipo\<close> 'motor' and one with an
  empty \<open>tipo\<close> and compatibility 'motor', the confirmation is refused with no
  warning on the screen.\<close>

theorem aviso_diverge_verificacao:
  "aviso_duplicatas
     [\<lparr>ic_id = ''p1'', ic_nome = ''A'', ic_preco = 10, ic_compat = Some ''gol'', ic_tipo = Some '''', ic_quantidade = 1\<rparr>,
      \<lparr>ic_id = ''p2'', ic_nome = ''B'', ic_preco = 10, ic_compat = Some ''uno'', ic_tipo = Some '''', ic_quantidade = 1\<rparr>]
     [''p1'' \<mapsto> ''carro_ativo'', ''p2'' \<mapsto> ''carro_ativo'']
   \<and> ToastDuplicadas \<notin> set (confirmar_distribuicao_pecas
     [\<lparr>ic_id = ''p1'', ic_nome = ''A'', ic_preco = 10, ic_compat = Some ''gol'', ic_tipo = Some '''', ic_quantidade = 1\<rparr>,
      \<lparr>ic_id = ''p2'', ic_nome = ''B'', ic_preco = 10, ic_compat = Some ''uno'', ic_tipo = Some '''', ic_quantidade = 1\<rparr>]
     [''p1'' \<mapsto> ''carro_ativo'', ''p2'' \<mapsto> ''carro_ativo''])
   \<and> \<not> aviso_duplicatas
     [\<lparr>ic_id = ''p1'', ic_nome = ''A'', ic_preco = 10, ic_compat = None, ic_tipo = Some ''motor'', ic_quantidade = 1\<rparr>,
      \<lparr>ic_id = ''p2'', ic_nome = ''B'', ic_preco = 10, ic_compat = Some ''motor'', ic_tipo = Some '''', ic_quantidade = 1\<rparr>]
     [''p1'' \<mapsto> ''carro_ativo'', ''p2'' \<mapsto> ''carro_ativo'']
   \<and> confirmar_distribuicao_pecas
     [\<lparr>ic_id = ''p1'', ic_nome = ''A'', ic_preco = 10, ic_compat = None, ic_tipo = Some ''motor'', ic_quantidade = 1\<rparr>,
      \<lparr>ic_id = ''p2'', ic_nome = ''B'', ic_preco = 10, ic_compat = Some ''motor'', ic_tipo = Some '''', ic_quantidade = 1\<rparr>]
     [''p1'' \<mapsto> ''carro_ativo'', ''p2'' \<mapsto> ''carro_ativo''] = [ToastDuplicadas]"
  by (simp add: aviso_duplicatas_def tipos_com_duplicatas_def confirmar_distribuicao_pecas_def
                verificar_pecas_duplicadas_def pecas_para_def chave_aviso_def chave_verificacao_def
                js_or_str_def Let_def)

end
