(* ===== verification/BatchPurchase.thy ===== *)
theory BatchPurchase
  imports ShopCart
begin

text \<open>
  The checkouts of the shop cart and the loops that buy its parts one by one
  (src/static/script.js, lines 3958--4453): the PIX for the active car, whose
  value is a commission per part read from \<open>/api/admin/configuracoes\<close>
  (\<open>gerarPixCarroAtivo\<close> and \<open>gerarPixCarroAtivoDividido\<close>); the direct purchase
  into the warehouse (\<open>enviarCarrinhoParaArmazem\<close>); and the loops run after a
  divided payment (\<open>processarPecasCarroDividido\<close>,
  \<open>processarPecasArmazemDividido\<close>, \<open>enviarCarrinhoParaArmazemDividido\<close>).
  Server answers are inputs: \<open>resp i\<close> is the answer to the \<open>i\<close>-th purchase
  request of a loop.
\<close>

subsection \<open>The commission\<close>

text \<open>The \<open>configuracoes\<close> of the answer, as a list of \<open>{chave, valor}\<close> or as an
  object; a value is the number its string parses to, \<open>None\<close> when it is absent
  or empty.\<close>

datatype configs =
    CfgLista "(string \<times> real option) list"
  | CfgObjeto "(string \<times> real option) list"

record resposta_config =
  rc_sucesso :: bool
  rc_configuracoes :: "configs option"

datatype resp_config = ConfigResp resposta_config | ConfigExcecao

text \<open>\<open>gerarPixCarroAtivo\<close>: \<open>configResult.configuracoes.comissao_peca || '10'\<close>,
  read only when \<open>configResult.sucesso\<close>.\<close>

definition comissao_carro_ativo :: "resposta_config \<Rightarrow> real" where
  "comissao_carro_ativo r =
     (if rc_sucesso r then
        (case rc_configuracoes r of
           Some (CfgObjeto kv) \<Rightarrow> (case map_of kv ''comissao_peca'' of Some (Some v) \<Rightarrow> v | _ \<Rightarrow> 10)
         | _ \<Rightarrow> 10)
      else 10)"

text \<open>\<open>gerarPixCarroAtivoDividido\<close>: the entry \<open>chave === 'comissao_peca'\<close> of the
  array, whatever \<open>sucesso\<close> says; a failed request keeps the default.\<close>

definition comissao_dividido :: "resp_config \<Rightarrow> real" where
  "comissao_dividido rc =
     (case rc of
        ConfigExcecao \<Rightarrow> 10
      | ConfigResp r \<Rightarrow>
          (case rc_configuracoes r of
             Some (CfgLista es) \<Rightarrow>
               (case find (\<lambda>e. fst e = ''comissao_peca'') es of Some (_, Some v) \<Rightarrow> v | _ \<Rightarrow> 10)
           | _ \<Rightarrow> 10))"

text \<open>Commission times the number of parts, plus the 1\% fee.\<close>

definition valor_pix_pecas :: "real \<Rightarrow> item_carrinho list \<Rightarrow> money" where
  "valor_pix_pecas comissao ps =
     (let v = comissao * of_nat (sum_list (map qtd_ou_1 ps)) in v + v * 0.01)"

subsection \<open>The two PIX checkouts\<close>

datatype resposta_gerar = GerarOk txid | GerarFalha | GerarExcecao

datatype efeito_lote =
    ToastVazio
  | ToastErroConfig                    \<comment> \<open>"Erro ao buscar configuracoes"\<close>
  | ToastErroQr                        \<comment> \<open>"Erro: ..." or "Erro ao gerar QR Code"\<close>
  | ToastSemCarro
  | ToastSaldoInsuficiente
  | PostGerarQr money                  \<comment> \<open>\<open>/api/gerar-qr-pix\<close> with \<open>valor_custom\<close>\<close>
  | AbrePixCarrinho txid               \<comment> \<open>\<open>mostrarPixModalCarrinho(resultado)\<close>\<close>
  | IniciaPollingDividido txid         \<comment> \<open>the modal and \<open>iniciarPollingPixDividido\<close>\<close>
  | PostCompra string                  \<comment> \<open>one purchase request for the part id\<close>
  | LogOk string | LogErro string      \<comment> \<open>the console outcome of that request\<close>
  | ToastEnviados nat                  \<comment> \<open>"... peca(s) enviada(s)/adicionada(s)"\<close>
  | ToastParcial nat nat               \<comment> \<open>"n peca(s) enviada(s), mas m com erro"\<close>
  | ModalCompraFinalizada money

text \<open>\<open>gerarPixCarroAtivo()\<close>.\<close>

definition gerar_pix_carro_ativo ::
  "item_carrinho list \<Rightarrow> resp_config \<Rightarrow> resposta_gerar \<Rightarrow> efeito_lote list" where
  "gerar_pix_carro_ativo c rc rg =
     (if c = [] then [ToastVazio]
      else case rc of
        ConfigExcecao \<Rightarrow> [ToastErroConfig]
      | ConfigResp r \<Rightarrow>
          (let v = valor_pix_pecas (comissao_carro_ativo r) c
           in PostGerarQr v # (case rg of GerarOk tx \<Rightarrow> [AbrePixCarrinho tx] | _ \<Rightarrow> [ToastErroQr])))"

text \<open>\<open>gerarPixCarroAtivoDividido()\<close>: the parts are paid in doricoins, debited from
  the local balance before the QR code is requested; a refused request gives them
  back.\<close>

definition gerar_pix_carro_ativo_dividido ::
  "item_carrinho list \<Rightarrow> bool \<Rightarrow> money \<Rightarrow> resp_config \<Rightarrow> resposta_gerar \<Rightarrow> money \<times> efeito_lote list" where
  "gerar_pix_carro_ativo_dividido ps tem_carro doricoins rc rg =
     (if ps = [] then (doricoins, [ToastVazio])
      else if \<not> tem_carro then (doricoins, [ToastSemCarro])
      else
        (let v = valor_pix_pecas (comissao_dividido rc) ps;
             total = sum_list (map subtotal ps)
         in if doricoins < total then (doricoins, [ToastSaldoInsuficiente])
            else
              (let d = doricoins - total
               in case rg of
                    GerarOk tx \<Rightarrow> (d, [PostGerarQr v, IniciaPollingDividido tx])
                  | GerarFalha \<Rightarrow> (d + total, [PostGerarQr v, ToastErroQr])
                  | GerarExcecao \<Rightarrow> (d, [PostGerarQr v, ToastErroQr]))))"

subsection \<open>Part by part\<close>

datatype resposta_compra = CompraOk | CompraFalha | CompraExcecao

text \<open>The loop of \<open>processarPecasCarroDividido\<close> and
  \<open>processarPecasArmazemDividido\<close>: one request per part, in order; a failure is
  logged and the loop goes on.\<close>

fun processar_lote :: "(nat \<Rightarrow> resposta_compra) \<Rightarrow> nat \<Rightarrow> item_carrinho list \<Rightarrow> efeito_lote list" where
  "processar_lote resp i [] = []"
| "processar_lote resp i (p # ps) =
     PostCompra (ic_id p) # (if resp i = CompraOk then LogOk (ic_id p) else LogErro (ic_id p))
     # processar_lote resp (Suc i) ps"

definition processar_pecas_carro_dividido ::
  "(nat \<Rightarrow> resposta_compra) \<Rightarrow> item_carrinho list \<Rightarrow> efeito_lote list" where
  "processar_pecas_carro_dividido resp ps = processar_lote resp 0 ps"

definition processar_pecas_armazem_dividido ::
  "(nat \<Rightarrow> resposta_compra) \<Rightarrow> item_carrinho list \<Rightarrow> efeito_lote list" where
  "processar_pecas_armazem_dividido resp ps = processar_lote resp 0 ps"

text \<open>\<open>enviarCarrinhoParaArmazemDividido()\<close>: the same loop, then the shop cart is
  emptied and the toast counts the parts sent, not the parts bought.\<close>

definition enviar_carrinho_para_armazem_dividido ::
  "(nat \<Rightarrow> resposta_compra) \<Rightarrow> item_carrinho list \<Rightarrow> item_carrinho list
   \<Rightarrow> item_carrinho list \<times> efeito_lote list" where
  "enviar_carrinho_para_armazem_dividido resp pecas_armazem c =
     (if pecas_armazem = [] then (c, [ToastVazio])
      else ([], processar_lote resp 0 pecas_armazem @ [ToastEnviados (length pecas_armazem)]))"

text \<open>\<open>enviarCarrinhoParaArmazem()\<close>: one request per unit of each part; the
  counters \<open>totalEnviado\<close> and \<open>valorGastoTotal\<close> and the list of errors.\<close>

fun envia_unidades ::
  "(nat \<Rightarrow> resposta_compra) \<Rightarrow> nat \<Rightarrow> item_carrinho list \<Rightarrow> nat \<times> money \<times> string list" where
  "envia_unidades resp i [] = (0, 0, [])"
| "envia_unidades resp i (p # ps) =
     (case envia_unidades resp (Suc i) ps of
        (n, v, es) \<Rightarrow> (if resp i = CompraOk then (Suc n, ic_preco p + v, es) else (n, v, ic_nome p # es)))"

definition unidades :: "item_carrinho list \<Rightarrow> item_carrinho list" where
  "unidades c = concat (map (\<lambda>p. replicate (ic_quantidade p) p) c)"

definition enviar_carrinho_para_armazem ::
  "(nat \<Rightarrow> resposta_compra) \<Rightarrow> item_carrinho list \<Rightarrow> item_carrinho list \<times> efeito_lote list" where
  "enviar_carrinho_para_armazem resp c =
     (if c = [] then (c, [ToastVazio])
      else
        (case envia_unidades resp 0 (unidades c) of
           (n, v, es) \<Rightarrow>
             ((if 0 < n then [] else c),
              map (PostCompra \<circ> ic_id) (unidades c)
              @ (if 0 < n then [ToastEnviados n, ModalCompraFinalizada v] else [])
              @ (if es \<noteq> [] then [ToastParcial n (length es)] else []))))"

subsection \<open>Lemmas\<close>

lemma envia_unidades_conta:
  "envia_unidades resp i us = (n, v, es) \<Longrightarrow>
   n = length (filter (\<lambda>j. resp j = CompraOk) [i..<i + length us])
   \<and> length es = length (filter (\<lambda>j. resp j \<noteq> CompraOk) [i..<i + length us])"
proof (induction us arbitrary: i n v es)
  case Nil
  then show ?case by simp
next
  case (Cons p us)
  obtain n' v' es' where r: "envia_unidades resp (Suc i) us = (n', v', es')"
    by (cases "envia_unidades resp (Suc i) us")
  have up: "[i..<i + length (p # us)] = i # [Suc i..<Suc i + length us]"
    by (simp add: upt_rec)
  from Cons.IH [OF r] Cons.prems r show ?case
    unfolding up by (auto simp del: upt_Suc split: if_splits)
qed

lemma envia_unidades_total:
  "envia_unidades resp i us = (n, v, es) \<Longrightarrow> n + length es = length us"
  using envia_unidades_conta [of resp i us n v es] sum_length_filter_compl [of "\<lambda>j. resp j = CompraOk"]
  by simp

lemma processar_lote_posts:
  "[e \<leftarrow> processar_lote resp i ps. \<exists>x. e = PostCompra x] = map (PostCompra \<circ> ic_id) ps"
  by (induction ps arbitrary: i) auto

lemma processar_lote_logs:
  "[e \<leftarrow> processar_lote resp i ps. \<exists>x. e = LogOk x \<or> e = LogErro x]
   = map (\<lambda>(j, p). if resp j = CompraOk then LogOk (ic_id p) else LogErro (ic_id p))
         (zip [i..<i + length ps] ps)"
proof (induction ps arbitrary: i)
  case Nil
  then show ?case by simp
next
  case (Cons p ps)
  have "[i..<i + length (p # ps)] = i # [Suc i..<Suc i + length ps]" by (simp add: upt_rec)
  with Cons.IH [of "Suc i"] show ?case by auto
qed

subsection \<open>Properties\<close>

text \<open>The two checkouts of the active car read the commission from
  incompatible shapes of the same answer: \<open>gerarPixCarroAtivo\<close> reads an object
  field, \<open>gerarPixCarroAtivoDividido\<close> an entry of an array.  Whatever the server
  answers, at least one of them charges the default commission of 10 per part.\<close>

theorem comissao_um_dos_dois_padrao:
  "comissao_carro_ativo r = 10 \<or> comissao_dividido (ConfigResp r) = 10"
  by (simp add: comissao_carro_ativo_def comissao_dividido_def split: option.split configs.split)

text \<open>C33. The divided checkout debits the parts from the local balance before it
  asks for the QR code.  A refusal of the server gives the doricoins back; a
  request that throws does not, although no PIX was created.\<close>

theorem dividido_excecao_sem_estorno:
  assumes "ps \<noteq> []" "sum_list (map subtotal ps) \<le> d"
  shows "fst (gerar_pix_carro_ativo_dividido ps True d rc GerarFalha) = d
         \<and> fst (gerar_pix_carro_ativo_dividido ps True d rc GerarExcecao) = d - sum_list (map subtotal ps)
         \<and> (\<forall>tx. IniciaPollingDividido tx \<notin> set (snd (gerar_pix_carro_ativo_dividido ps True d rc GerarExcecao)))"
  using assms by (simp add: gerar_pix_carro_ativo_dividido_def Let_def not_less)

theorem dividido_excecao_sem_estorno_witness:
  "[\<lparr>ic_id = ''p1'', ic_nome = ''Turbo'', ic_preco = 50, ic_compat = None, ic_tipo = Some ''turbo'',
     ic_quantidade = 1\<rparr>] \<noteq> []
   \<and> sum_list (map subtotal [\<lparr>ic_id = ''p1'', ic_nome = ''Turbo'', ic_preco = 50, ic_compat = None,
                               ic_tipo = Some ''turbo'', ic_quantidade = 1\<rparr>]) \<le> 80
   \<and> fst (gerar_pix_carro_ativo_dividido [\<lparr>ic_id = ''p1'', ic_nome = ''Turbo'', ic_preco = 50, ic_compat = None,
            ic_tipo = Some ''turbo'', ic_quantidade = 1\<rparr>] True 80 ConfigExcecao GerarExcecao) = 30"
proof -
  let ?ps = "[\<lparr>ic_id = ''p1'', ic_nome = ''Turbo'', ic_preco = 50, ic_compat = None, ic_tipo = Some ''turbo'',
              ic_quantidade = 1\<rparr>]"
  have a: "?ps \<noteq> []" by simp
  have b: "sum_list (map subtotal ?ps) \<le> 80" by (simp add: subtotal_def qtd_ou_1_def)
  show ?thesis
    using dividido_excecao_sem_estorno [OF a b, of ConfigExcecao] b
    by (simp add: subtotal_def qtd_ou_1_def)
qed

text \<open>C34. A partly failed purchase into the warehouse loses the failed parts:
  when some unit purchases of \<open>enviarCarrinhoParaArmazem\<close> succeed and others
  fail, the whole cart is emptied, though only the successful units were bought;
  the units bought and the errors together are every unit of the cart.\<close>

theorem enviar_parcial_esvazia_carrinho:
  assumes "envia_unidades resp 0 (unidades c) = (n, v, es)" "c \<noteq> []" "0 < n" "es \<noteq> []"
  shows "fst (enviar_carrinho_para_armazem resp c) = []
         \<and> ToastParcial n (length es) \<in> set (snd (enviar_carrinho_para_armazem resp c))
         \<and> n + length es = length (unidades c) \<and> n < length (unidades c)"
proof -
  have "0 < length es" using assms(4) by simp
  with envia_unidades_total [OF assms(1)] have "n < length (unidades c)" by linarith
  with assms envia_unidades_total [OF assms(1)] show ?thesis
    by (simp add: enviar_carrinho_para_armazem_def)
qed

theorem enviar_parcial_esvazia_carrinho_witness:
  "envia_unidades (\<lambda>i. if i = 1 then CompraFalha else CompraOk) 0
     (unidades [\<lparr>ic_id = ''p1'', ic_nome = ''Turbo'', ic_preco = 50, ic_compat = None,
                  ic_tipo = Some ''turbo'', ic_quantidade = 1\<rparr>,
                \<lparr>ic_id = ''p2'', ic_nome = ''Freio'', ic_preco = 30, ic_compat = None,
                  ic_tipo = Some ''freio'', ic_quantidade = 1\<rparr>]) = (1, 50, [''Freio''])
   \<and> fst (enviar_carrinho_para_armazem (\<lambda>i. if i = 1 then CompraFalha else CompraOk)
          [\<lparr>ic_id = ''p1'', ic_nome = ''Turbo'', ic_preco = 50, ic_compat = None,
             ic_tipo = Some ''turbo'', ic_quantidade = 1\<rparr>,
           \<lparr>ic_id = ''p2'', ic_nome = ''Freio'', ic_preco = 30, ic_compat = None,
             ic_tipo = Some ''freio'', ic_quantidade = 1\<rparr>]) = []"
proof -
  let ?c = "[\<lparr>ic_id = ''p1'', ic_nome = ''Turbo'', ic_preco = 50, ic_compat = None,
              ic_tipo = Some ''turbo'', ic_quantidade = 1\<rparr>,
            \<lparr>ic_id = ''p2'', ic_nome = ''Freio'', ic_preco = 30, ic_compat = None,
              ic_tipo = Some ''freio'', ic_quantidade = 1\<rparr>] :: item_carrinho list"
  have e: "envia_unidades (\<lambda>i. if i = 1 then CompraFalha else CompraOk) 0 (unidades ?c) = (1, 50, [''Freio''])"
    by (simp add: unidades_def)
  show ?thesis
    using enviar_parcial_esvazia_carrinho [OF e, of] e by simp
qed

text \<open>The loops after a divided payment reconcile part by part: one purchase
  request per part, in the order of the parts, none skipped after a failure, and
  the logged outcome of each part is the server's answer to its own request.
  (The spec's example: three parts where the second fails give two successes,
  the first and the third, and one failure.)\<close>

theorem processar_lote_reconcilia:
  "[e \<leftarrow> processar_pecas_carro_dividido resp ps. \<exists>x. e = PostCompra x] = map (PostCompra \<circ> ic_id) ps
   \<and> [e \<leftarrow> processar_pecas_carro_dividido resp ps. \<exists>x. e = LogOk x \<or> e = LogErro x]
     = map (\<lambda>(j, p). if resp j = CompraOk then LogOk (ic_id p) else LogErro (ic_id p))
           (zip [0..<length ps] ps)"
  using processar_lote_posts [of resp 0 ps] processar_lote_logs [of resp 0 ps]
  by (simp add: processar_pecas_carro_dividido_def)

end
