(* ===== verification/WarehouseModal.thy ===== *)
theory WarehouseModal
  imports PixStore
begin

text \<open>
  The modal "Adicionar Pecas do Armazem" (src/static/script.js, lines
  2959--3599).  The selection \<open>window.selecaoAdicaoPecas\<close> maps a part key to
  its entry: selected or not, the destination (\<open>'ativo'\<close> or \<open>'repouso'\<close>),
  the car at rest, and the part itself.  It is an object that outlives the modal:
  opening the modal adds entries for new parts and keeps the old ones, and only a
  confirmation that passes validation resets it.  The object is an association
  list in insertion order; \<open>Object.entries\<close> lists integer-like keys first in
  JavaScript, which only changes the order of parts inside a request.

  Confirming sends the parts for the active car to
  \<open>processarPecasParaAtivoModal\<close>, which stores the purchase
  (\<open>compraPendentePix\<close>) and opens the PIX modal: the events \<open>DefinirCompra\<close>
  and \<open>AbrirPix\<close> of PixStore.  The parts for cars at rest are grouped by car and
  installed by \<open>instalarPecasRepouso\<close>.
\<close>

record peca_guardada_m =
  pm_id :: "string option"
  pm_nome :: string
  pm_tipo :: string
  pm_pix_id :: "string option"
  pm_compat :: "string list"   \<comment> \<open>\<open>peca.compatibilidades || []\<close>\<close>

record selecao_peca =
  sel_selecionada :: bool
  sel_destino_tipo :: string           \<comment> \<open>\<open>destino_tipo\<close>, \<open>''\<close> for the empty option\<close>
  sel_destino_carro :: "string option" \<comment> \<open>\<open>destino_carro_id\<close>\<close>
  sel_peca :: peca_guardada_m

type_synonym selecao = "(string \<times> selecao_peca) list"

text \<open>\<open>peca.id || `${peca.nome}-${peca.tipo}`\<close>.\<close>

definition chave_peca :: "peca_guardada_m \<Rightarrow> string" where
  "chave_peca p = (if js_truthy_str (pm_id p) then the (pm_id p) else pm_nome p @ ''-'' @ pm_tipo p)"

text \<open>\<open>selecaoAdicaoPecas[k].campo = v\<close> on an existing key.\<close>

definition atualiza_sel :: "string \<Rightarrow> (selecao_peca \<Rightarrow> selecao_peca) \<Rightarrow> selecao \<Rightarrow> selecao" where
  "atualiza_sel k f xs = map (\<lambda>(k', e). if k' = k then (k', f e) else (k', e)) xs"

datatype efeito_modal_arm =
    ToastAguardeArmazem | ToastArmazemVazio | ToastNenhumaSelecao | ToastSelecionePeca
  | ToastSemDestino string | ToastSemCarroRepouso string | ToastSemCarroAtivoM
  | ModalAdicionarAberto
  | PostInstalarAtivo string "peca_guardada_m list"  \<comment> \<open>\<open>/api/instalar-multiplas-pecas-no-carro-ativo\<close>\<close>
  | ToastErroM
  | PostInstalarRepouso string "peca_guardada_m list" \<comment> \<open>\<open>/api/garagem/instalar-multiplas-pecas-armazem-repouso\<close>\<close>

text \<open>\<open>abrirModalAdicionarPecasArmazem()\<close>; \<open>guardadas\<close> is
  \<open>garagemAtual.armazem.pecas_guardadas\<close>, \<open>None\<close> while the garage is not loaded.
  A part already in the selection keeps its old entry.\<close>

definition abrir_modal_adicionar ::
  "peca_guardada_m list option \<Rightarrow> selecao \<Rightarrow> selecao \<times> efeito_modal_arm list" where
  "abrir_modal_adicionar guardadas sel =
     (case guardadas of
        None \<Rightarrow> (sel, [ToastAguardeArmazem])
      | Some ps \<Rightarrow>
          (if ps = [] then (sel, [ToastArmazemVazio])
           else (foldl (\<lambda>acc p. if map_of acc (chave_peca p) = None
                                 then acc @ [(chave_peca p, \<lparr>sel_selecionada = False, sel_destino_tipo = ''ativo'',
                                                             sel_destino_carro = None, sel_peca = p\<rparr>)]
                                 else acc) sel ps,
                 [ModalAdicionarAberto])))"

text \<open>\<open>atualizarSelecaoPecasArmazem(pecaKey)\<close> with the checkbox state.\<close>

definition atualizar_selecao :: "string \<Rightarrow> bool \<Rightarrow> selecao \<Rightarrow> selecao" where
  "atualizar_selecao k marcada sel =
     (if map_of sel k = None then sel else atualiza_sel k (\<lambda>e. e\<lparr>sel_selecionada := marcada\<rparr>) sel)"

text \<open>\<open>atualizarDestinoPecasArmazem(pecaKey, novoDestino)\<close>; \<open>carros\<close> are the
  garage's cars (id, active).  For a rendered entry and the destination at rest,
  the only car at rest is chosen when there is exactly one.\<close>

definition atualizar_destino ::
  "(string \<times> bool) list \<Rightarrow> bool \<Rightarrow> string \<Rightarrow> string \<Rightarrow> selecao \<Rightarrow> selecao" where
  "atualizar_destino carros renderizada k d sel =
     (if map_of sel k = None then sel
      else
        (let sel1 = atualiza_sel k (\<lambda>e. e\<lparr>sel_destino_tipo := d\<rparr>) sel;
             repouso = filter (\<lambda>c. \<not> snd c) carros
         in if renderizada \<and> d = ''repouso'' \<and> length repouso = 1
            then atualiza_sel k (\<lambda>e. e\<lparr>sel_destino_carro := Some (fst (hd repouso))\<rparr>) sel1
            else sel1))"

text \<open>\<open>atualizarCarroDestino(pecaKey, carroId)\<close>.\<close>

definition atualizar_carro_destino :: "string \<Rightarrow> string \<Rightarrow> selecao \<Rightarrow> selecao" where
  "atualizar_carro_destino k cid sel =
     (if map_of sel k = None then sel
      else atualiza_sel k (\<lambda>e. e\<lparr>sel_destino_carro := (if cid = [] then None else Some cid)\<rparr>) sel)"

text \<open>\<open>atualizarResumoAdicaoPecas()\<close>: the number of selected parts and the PIX
  estimate, the warehouse installation price for each unpaid part going to the
  active car.\<close>

definition resumo_adicao :: "money \<Rightarrow> selecao \<Rightarrow> nat \<times> money" where
  "resumo_adicao preco sel =
     (let ss = filter sel_selecionada (map snd sel)
      in (length ss, preco * of_nat (length (filter (\<lambda>e. sel_destino_tipo e = ''ativo''
                                                      \<and> \<not> js_truthy_str (pm_pix_id (sel_peca e))) ss))))"

text \<open>\<open>processarPecasParaRepousoModal\<close>: the parts grouped by car, cars in the
  order they first appear (JavaScript lists integer-like ids in ascending order
  instead, which only changes the order of the requests).\<close>

fun agrupa_por_carro :: "(string \<times> peca_guardada_m) list \<Rightarrow> (string \<times> peca_guardada_m list) list" where
  "agrupa_por_carro [] = []"
| "agrupa_por_carro ((c, p) # xs) =
     (c, p # map snd (filter (\<lambda>x. fst x = c) xs)) # agrupa_por_carro (filter (\<lambda>x. fst x \<noteq> c) xs)"

datatype resposta_ativo_modal = AtivoOk txid | AtivoFalha | AtivoExcecao

text \<open>\<open>processarPecasParaAtivoModal(pecas)\<close>: effects on the page and the events
  it sends to the payment component.\<close>

definition processar_pecas_ativo_modal ::
  "string option \<Rightarrow> resposta_ativo_modal \<Rightarrow> peca_guardada_m list \<Rightarrow> efeito_modal_arm list \<times> evento_pix list" where
  "processar_pecas_ativo_modal carro_ativo r ps =
     (case carro_ativo of
        None \<Rightarrow> ([ToastSemCarroAtivoM], [])
      | Some carro \<Rightarrow>
          (case r of
             AtivoOk tx \<Rightarrow>
               ([PostInstalarAtivo carro ps],
                [DefinirCompra \<lparr>cp_transacao_id = Some tx, cp_tipo = Some ''multiplas_pecas_armazem_ativo_modal'',
                                cp_item_id = None, cp_carro_id = Some carro\<rparr>,
                 AbrirPix \<lparr>dp_transacao_id = tx, dp_tipo_item = Some ''multiplas_pecas_armazem_ativo_modal'',
                           dp_item_id = Some carro, dp_carro_id = None\<rparr>])
           | _ \<Rightarrow> ([PostInstalarAtivo carro ps, ToastErroM], [])))"

text \<open>\<open>confirmarAdicaoPecasArmazem()\<close>: validation in the order of the entries,
  then the two destinations, then the reset of the selection.\<close>

fun primeiro_invalido :: "selecao_peca list \<Rightarrow> efeito_modal_arm option" where
  "primeiro_invalido [] = None"
| "primeiro_invalido (e # es) =
     (if sel_destino_tipo e = [] then Some (ToastSemDestino (pm_nome (sel_peca e)))
      else if sel_destino_tipo e = ''repouso'' \<and> sel_destino_carro e = None
        then Some (ToastSemCarroRepouso (pm_nome (sel_peca e)))
      else primeiro_invalido es)"

definition confirmar_adicao ::
  "string option \<Rightarrow> resposta_ativo_modal \<Rightarrow> selecao \<Rightarrow> selecao \<times> efeito_modal_arm list \<times> evento_pix list" where
  "confirmar_adicao carro_ativo r sel =
     (let ss = filter sel_selecionada (map snd sel)
      in if ss = [] then (sel, [ToastSelecionePeca], [])
         else case primeiro_invalido ss of
           Some t \<Rightarrow> (sel, [t], [])
         | None \<Rightarrow>
             (let ativo = map sel_peca (filter (\<lambda>e. sel_destino_tipo e = ''ativo'') ss);
                  repouso = map (\<lambda>e. (the (sel_destino_carro e), sel_peca e))
                                (filter (\<lambda>e. sel_destino_tipo e = ''repouso'') ss);
                  (ea, ev) = (if ativo = [] then ([], []) else processar_pecas_ativo_modal carro_ativo r ativo);
                  er = map (\<lambda>(c, ps). PostInstalarRepouso c ps) (agrupa_por_carro repouso)
              in ([], ea @ er, ev)))"

subsection \<open>Lemmas\<close>

lemma agrupa_chaves: "set (map fst (agrupa_por_carro xs)) = set (map fst xs)"
  by (induction xs rule: agrupa_por_carro.induct) auto

lemma agrupa_distinct: "distinct (map fst (agrupa_por_carro xs))"
proof (induction xs rule: agrupa_por_carro.induct)
  case (2 c p xs)
  then show ?case using agrupa_chaves [of "filter (\<lambda>x. fst x \<noteq> c) xs"] by auto
qed simp

lemma agrupa_grupo:
  "(c, ps) \<in> set (agrupa_por_carro xs) \<Longrightarrow> ps = map snd (filter (\<lambda>x. fst x = c) xs)"
proof (induction xs arbitrary: ps rule: agrupa_por_carro.induct)
  case (2 c' p xs)
  show ?case
  proof (cases "c = c'")
    case True
    have "c \<notin> set (map fst (agrupa_por_carro (filter (\<lambda>x. fst x \<noteq> c') xs)))"
      using True agrupa_chaves [of "filter (\<lambda>x. fst x \<noteq> c') xs"] by auto
    with 2 True show ?thesis by (auto simp: image_iff)
  next
    case False
    from "2.prems" False have "(c, ps) \<in> set (agrupa_por_carro (filter (\<lambda>x. fst x \<noteq> c') xs))" by auto
    then have "ps = map snd (filter (\<lambda>x. fst x = c) (filter (\<lambda>x. fst x \<noteq> c') xs))" by (rule "2.IH")
    moreover have "filter (\<lambda>x. fst x = c) (filter (\<lambda>x. fst x \<noteq> c') xs) = filter (\<lambda>x. fst x = c) xs"
      using False by (auto simp: filter_filter intro: filter_cong)
    ultimately show ?thesis using False by simp
  qed
qed simp

lemma primeiro_invalido_None:
  "primeiro_invalido es = None \<Longrightarrow>
   \<forall>e \<in> set es. sel_destino_tipo e \<noteq> [] \<and> (sel_destino_tipo e = ''repouso'' \<longrightarrow> sel_destino_carro e \<noteq> None)"
  by (induction es) (auto split: if_splits)

lemma grupo_repouso:
  "\<forall>e \<in> set es. sel_destino_tipo e = ''repouso'' \<longrightarrow> sel_destino_carro e \<noteq> None \<Longrightarrow>
   map snd (filter (\<lambda>x. fst x = c)
     (map (\<lambda>e. (the (sel_destino_carro e), sel_peca e)) (filter (\<lambda>e. sel_destino_tipo e = ''repouso'') es)))
   = map sel_peca (filter (\<lambda>e. sel_destino_tipo e = ''repouso'' \<and> sel_destino_carro e = Some c) es)"
  by (induction es) auto

subsection \<open>Properties\<close>

text \<open>C36. A confirmation distributes exactly the selection.  When the selected
  entries pass validation, the request for the active car carries exactly the
  selected parts whose destination is the active car, and each car at rest gets
  one request with exactly the selected parts assigned to it.  The selection is
  then reset.\<close>

theorem confirmar_adicao_distribui:
  assumes "confirmar_adicao carro_ativo r sel = (sel', efs, evs)"
    and "filter sel_selecionada (map snd sel) \<noteq> []"
    and "primeiro_invalido (filter sel_selecionada (map snd sel)) = None"
  shows "sel' = []
         \<and> (\<forall>c ps. PostInstalarAtivo c ps \<in> set efs \<longrightarrow> carro_ativo = Some c
               \<and> ps = map sel_peca (filter (\<lambda>e. sel_selecionada e \<and> sel_destino_tipo e = ''ativo'') (map snd sel)))
         \<and> (\<forall>c ps. PostInstalarRepouso c ps \<in> set efs \<longrightarrow>
               ps = map sel_peca (filter (\<lambda>e. sel_selecionada e \<and> sel_destino_tipo e = ''repouso''
                                               \<and> sel_destino_carro e = Some c) (map snd sel)))
         \<and> distinct [c. PostInstalarRepouso c ps \<leftarrow> efs]"
proof -
  define ss where "ss = filter sel_selecionada (map snd sel)"
  define pat where "pat = map sel_peca (filter (\<lambda>e. sel_destino_tipo e = ''ativo'') ss)"
  define rep where "rep = map (\<lambda>e. (the (sel_destino_carro e), sel_peca e))
                              (filter (\<lambda>e. sel_destino_tipo e = ''repouso'') ss)"
  obtain a b where ab: "(if pat = [] then ([], []) else processar_pecas_ativo_modal carro_ativo r pat) = (a, b)"
    by fastforce
  have ne: "ss \<noteq> []" and pi: "primeiro_invalido ss = None" using assms(2,3) by (simp_all add: ss_def)
  have "confirmar_adicao carro_ativo r sel = ([], a @ map (\<lambda>(c, ps). PostInstalarRepouso c ps) (agrupa_por_carro rep), b)"
    using ne pi ab unfolding confirmar_adicao_def Let_def ss_def [symmetric] pat_def [symmetric]
      rep_def [symmetric] by simp
  with assms(1) have res: "sel' = [] \<and> efs = a @ map (\<lambda>(c, ps). PostInstalarRepouso c ps) (agrupa_por_carro rep)"
    by simp
  have ativo_ok: "(\<forall>c ps. PostInstalarAtivo c ps \<in> set a \<longrightarrow> carro_ativo = Some c \<and> ps = pat)
                  \<and> (\<forall>c ps. PostInstalarRepouso c ps \<notin> set a)"
    using ab by (auto simp: processar_pecas_ativo_modal_def split: if_splits option.splits resposta_ativo_modal.splits)
  have valid: "\<forall>e \<in> set ss. sel_destino_tipo e = ''repouso'' \<longrightarrow> sel_destino_carro e \<noteq> None"
    using primeiro_invalido_None [OF pi] by blast
  have rep: "ps = map sel_peca (filter (\<lambda>e. sel_destino_tipo e = ''repouso'' \<and> sel_destino_carro e = Some c) ss)"
    if "(c, ps) \<in> set (agrupa_por_carro rep)" for c ps
    using agrupa_grupo [OF that] grupo_repouso [OF valid, of c] by (simp add: rep_def)
  have d: "[c. PostInstalarRepouso c ps \<leftarrow> efs] = map fst (agrupa_por_carro rep)"
  proof -
    have "[c. PostInstalarRepouso c ps \<leftarrow> a] = []"
      using ativo_ok by (induction a) (auto split: efeito_modal_arm.splits)
    moreover have "[c. PostInstalarRepouso c ps \<leftarrow> map (\<lambda>(c, ps). PostInstalarRepouso c ps) xs] = map fst xs"
      for xs :: "(string \<times> peca_guardada_m list) list"
      by (induction xs) auto
    ultimately show ?thesis using res by simp
  qed
  show ?thesis
    using res ativo_ok rep agrupa_distinct [of rep] d
    by (auto simp: ss_def pat_def filter_filter conj_commute conj_left_commute)
qed

theorem confirmar_adicao_distribui_witness:
  "confirmar_adicao (Some ''c1'') (AtivoOk ''tx_9'')
     [(''11'', \<lparr>sel_selecionada = True, sel_destino_tipo = ''ativo'', sel_destino_carro = None, sel_peca = \<lparr>pm_id = Some ''11'', pm_nome = ''Motor'', pm_tipo = ''motor'', pm_pix_id = None, pm_compat = []\<rparr>\<rparr>),
      (''12'', \<lparr>sel_selecionada = True, sel_destino_tipo = ''repouso'', sel_destino_carro = Some ''c2'', sel_peca = \<lparr>pm_id = Some ''12'', pm_nome = ''Cambio'', pm_tipo = ''cambio'', pm_pix_id = None, pm_compat = []\<rparr>\<rparr>)]
   = ([], [PostInstalarAtivo ''c1'' [\<lparr>pm_id = Some ''11'', pm_nome = ''Motor'', pm_tipo = ''motor'', pm_pix_id = None, pm_compat = []\<rparr>], PostInstalarRepouso ''c2'' [\<lparr>pm_id = Some ''12'', pm_nome = ''Cambio'', pm_tipo = ''cambio'', pm_pix_id = None, pm_compat = []\<rparr>]],
       [DefinirCompra \<lparr>cp_transacao_id = Some ''tx_9'', cp_tipo = Some ''multiplas_pecas_armazem_ativo_modal'',
                       cp_item_id = None, cp_carro_id = Some ''c1''\<rparr>,
        AbrirPix \<lparr>dp_transacao_id = ''tx_9'', dp_tipo_item = Some ''multiplas_pecas_armazem_ativo_modal'',
                  dp_item_id = Some ''c1'', dp_carro_id = None\<rparr>])
   \<and> distinct [c. PostInstalarRepouso c ps \<leftarrow> [PostInstalarAtivo ''c1'' [\<lparr>pm_id = Some ''11'', pm_nome = ''Motor'', pm_tipo = ''motor'', pm_pix_id = None, pm_compat = []\<rparr>], PostInstalarRepouso ''c2'' [\<lparr>pm_id = Some ''12'', pm_nome = ''Cambio'', pm_tipo = ''cambio'', pm_pix_id = None, pm_compat = []\<rparr>]]]"
proof -
  let ?sel = "[(''11'', \<lparr>sel_selecionada = True, sel_destino_tipo = ''ativo'', sel_destino_carro = None, sel_peca = \<lparr>pm_id = Some ''11'', pm_nome = ''Motor'', pm_tipo = ''motor'', pm_pix_id = None, pm_compat = []\<rparr>\<rparr>),
      (''12'', \<lparr>sel_selecionada = True, sel_destino_tipo = ''repouso'', sel_destino_carro = Some ''c2'', sel_peca = \<lparr>pm_id = Some ''12'', pm_nome = ''Cambio'', pm_tipo = ''cambio'', pm_pix_id = None, pm_compat = []\<rparr>\<rparr>)]"
  let ?r = "confirmar_adicao (Some ''c1'') (AtivoOk ''tx_9'') ?sel"
  have r: "?r = ([], [PostInstalarAtivo ''c1'' [\<lparr>pm_id = Some ''11'', pm_nome = ''Motor'', pm_tipo = ''motor'', pm_pix_id = None, pm_compat = []\<rparr>], PostInstalarRepouso ''c2'' [\<lparr>pm_id = Some ''12'', pm_nome = ''Cambio'', pm_tipo = ''cambio'', pm_pix_id = None, pm_compat = []\<rparr>]],
       [DefinirCompra \<lparr>cp_transacao_id = Some ''tx_9'', cp_tipo = Some ''multiplas_pecas_armazem_ativo_modal'',
                       cp_item_id = None, cp_carro_id = Some ''c1''\<rparr>,
        AbrirPix \<lparr>dp_transacao_id = ''tx_9'', dp_tipo_item = Some ''multiplas_pecas_armazem_ativo_modal'',
                  dp_item_id = Some ''c1'', dp_carro_id = None\<rparr>])"
    by (simp add: confirmar_adicao_def processar_pecas_ativo_modal_def Let_def)
  have n: "filter sel_selecionada (map snd ?sel) \<noteq> []" by simp
  have v: "primeiro_invalido (filter sel_selecionada (map snd ?sel)) = None" by simp
  show ?thesis using confirmar_adicao_distribui [OF r n v] r by simp
qed

text \<open>A selection outlives the parts it names.  Select a part in the modal
  and close it without confirming; the part then leaves the warehouse (installed
  elsewhere).  The next opening lists only the remaining parts, but the old
  entry stays selected and hidden, and the confirmation asks the server to
  install both parts on the active car, in one PIX purchase.\<close>

theorem selecao_obsoleta_enviada:
  "(let (s1, _) = abrir_modal_adicionar (Some [\<lparr>pm_id = Some ''11'', pm_nome = ''Motor'', pm_tipo = ''motor'', pm_pix_id = None, pm_compat = []\<rparr>]) [];
        s2 = atualizar_selecao ''11'' True s1;
        (s3, _) = abrir_modal_adicionar (Some [\<lparr>pm_id = Some ''12'', pm_nome = ''Cambio'', pm_tipo = ''cambio'', pm_pix_id = None, pm_compat = []\<rparr>]) s2;
        s4 = atualizar_selecao ''12'' True s3
    in fst (snd (confirmar_adicao (Some ''c1'') (AtivoOk ''tx_9'') s4)))
   = [PostInstalarAtivo ''c1'' [\<lparr>pm_id = Some ''11'', pm_nome = ''Motor'', pm_tipo = ''motor'', pm_pix_id = None, pm_compat = []\<rparr>, \<lparr>pm_id = Some ''12'', pm_nome = ''Cambio'', pm_tipo = ''cambio'', pm_pix_id = None, pm_compat = []\<rparr>]]"
  by (simp add: abrir_modal_adicionar_def atualizar_selecao_def atualiza_sel_def chave_peca_def
                confirmar_adicao_def processar_pecas_ativo_modal_def js_truthy_str_def Let_def)

end
