(* ===== verification/Notification.thy ===== *)
theory Notification
  imports Prelude
begin

text \<open>
  The global notification of an event in progress (src/static/sistema_notificacao.js).
  Every 3 s \<open>verificarEtapaEmAndamento\<close> asks the server for today's stage; when a
  stage is in progress and differs from \<open>etapaAtualEmAndamento\<close>, a red banner is
  shown; the banner can be minimized to a floating button and restored from it.
  The state is the module's variable \<open>etapaAtualEmAndamento\<close>, the interval, and
  which of the two DOM elements exist.  The animations delay the removal of an
  element by 300 or 500 ms; the model applies each removal with the handler
  that schedules it.
\<close>

record notif_st =
  etapa_em_andamento :: "string option"   \<comment> \<open>\<open>etapaAtualEmAndamento\<close>\<close>
  intervalo_notif :: bool                 \<comment> \<open>\<open>notificacaoIntervalId\<close> is set\<close>
  banner :: bool                          \<comment> \<open>\<open>#banner-evento-ao-vivo\<close> exists\<close>
  botao :: bool                           \<comment> \<open>\<open>#botao-flutuante-evento\<close> exists\<close>

definition notif_inicial :: notif_st where
  "notif_inicial = \<lparr>etapa_em_andamento = None, intervalo_notif = False, banner = False, botao = False\<rparr>"

text \<open>The answer of \<open>/api/admin/etapa-hoje\<close>: not OK, thrown, or the body with
  \<open>sucesso\<close> and the stage's id and status.\<close>

datatype resposta_etapa =
    EtapaNaoOk
  | EtapaExcecao
  | EtapaResp bool "(string \<times> string) option"

definition mostrar_notificacao :: "notif_st \<Rightarrow> notif_st" where
  "mostrar_notificacao s = (if banner s then s else s\<lparr>banner := True\<rparr>)"

definition remover_notificacao :: "notif_st \<Rightarrow> notif_st" where
  "remover_notificacao s = (if banner s then s\<lparr>banner := False, botao := False\<rparr> else s)"

definition mostrar_botao :: "notif_st \<Rightarrow> notif_st" where
  "mostrar_botao s = (if botao s then s else s\<lparr>botao := True\<rparr>)"

definition remover_botao :: "notif_st \<Rightarrow> notif_st" where
  "remover_botao s = s\<lparr>botao := False\<rparr>"

definition minimizar_notificacao :: "notif_st \<Rightarrow> notif_st" where
  "minimizar_notificacao s = (if banner s then mostrar_botao (s\<lparr>banner := False\<rparr>) else s)"

text \<open>\<open>verificarEtapaEmAndamento()\<close>; \<open>admin\<close> is what \<open>/api/user/is-admin\<close>
  says (false when it fails).\<close>

definition verificar_etapa :: "bool \<Rightarrow> resposta_etapa \<Rightarrow> notif_st \<Rightarrow> notif_st" where
  "verificar_etapa admin r s =
     (if admin then s
      else case r of
        EtapaNaoOk \<Rightarrow> s
      | EtapaExcecao \<Rightarrow> s
      | EtapaResp sucesso et \<Rightarrow>
          (case (if sucesso then et else None) of
             Some (eid, status) \<Rightarrow>
               (if status = ''em_andamento'' then
                  (if etapa_em_andamento s \<noteq> Some eid
                   then mostrar_notificacao (s\<lparr>etapa_em_andamento := Some eid\<rparr>) else s)
                else if etapa_em_andamento s \<noteq> None
                  then remover_notificacao (s\<lparr>etapa_em_andamento := None\<rparr>) else s)
           | None \<Rightarrow>
               (if etapa_em_andamento s \<noteq> None
                then remover_notificacao (s\<lparr>etapa_em_andamento := None\<rparr>) else s)))"

text \<open>\<open>restaurarNotificacao()\<close>: the button goes and the stage is checked again.\<close>

definition restaurar_notificacao :: "bool \<Rightarrow> resposta_etapa \<Rightarrow> notif_st \<Rightarrow> notif_st" where
  "restaurar_notificacao admin r s =
     (if botao s then
        (let s1 = s\<lparr>botao := False\<rparr>
         in if etapa_em_andamento s1 \<noteq> None then verificar_etapa admin r s1 else s1)
      else s)"

definition iniciar_notificacao :: "bool \<Rightarrow> resposta_etapa \<Rightarrow> notif_st \<Rightarrow> notif_st" where
  "iniciar_notificacao admin r s = (verificar_etapa admin r s)\<lparr>intervalo_notif := True\<rparr>"

definition parar_notificacao :: "notif_st \<Rightarrow> notif_st" where
  "parar_notificacao s =
     (remover_botao (remover_notificacao (s\<lparr>intervalo_notif := False\<rparr>)))\<lparr>etapa_em_andamento := None\<rparr>"

text \<open>\<open>abrirEventoEmAnda()\<close>: outside the admin pages, open the live event, waiting
  up to 50 checks of 100 ms for \<open>mostrarEventoAoVivo\<close> to exist before
  redirecting.  \<open>disponivel t\<close> is whether the function exists at check \<open>t\<close>;
  the loop stops by the 50th check, which the fuel 50 covers.\<close>

datatype efeito_notif = MostrarEventoAoVivo string | RedirecionaAdmin string | Nada

fun aguarda_evento :: "(nat \<Rightarrow> bool) \<Rightarrow> string \<Rightarrow> nat \<Rightarrow> nat \<Rightarrow> efeito_notif" where
  "aguarda_evento disponivel eid t 0 = RedirecionaAdmin eid"
| "aguarda_evento disponivel eid t (Suc n) =
     (let t' = Suc t
      in if disponivel t' then MostrarEventoAoVivo eid
         else if 50 \<le> t' then RedirecionaAdmin eid
         else aguarda_evento disponivel eid t' n)"

definition abrir_evento :: "bool \<Rightarrow> (nat \<Rightarrow> bool) \<Rightarrow> notif_st \<Rightarrow> efeito_notif" where
  "abrir_evento pagina_admin disponivel s =
     (case etapa_em_andamento s of
        None \<Rightarrow> Nada
      | Some eid \<Rightarrow> (if pagina_admin then Nada
                    else if disponivel 0 then MostrarEventoAoVivo eid
                    else aguarda_evento disponivel eid 0 50))"

datatype evento_notif =
    Verificar resposta_etapa | Minimizar | Restaurar resposta_etapa | Parar

fun passo_notif :: "bool \<Rightarrow> notif_st \<Rightarrow> evento_notif \<Rightarrow> notif_st" where
  "passo_notif admin s (Verificar r) = verificar_etapa admin r s"
| "passo_notif admin s Minimizar = minimizar_notificacao s"
| "passo_notif admin s (Restaurar r) = restaurar_notificacao admin r s"
| "passo_notif admin s Parar = parar_notificacao s"

definition executa_notif :: "bool \<Rightarrow> notif_st \<Rightarrow> evento_notif list \<Rightarrow> notif_st" where
  "executa_notif admin s es = foldl (passo_notif admin) s es"

subsection \<open>Lemmas\<close>

lemma verificar_mesma_etapa:
  "etapa_em_andamento s = Some eid \<Longrightarrow>
   verificar_etapa False (EtapaResp True (Some (eid, ''em_andamento''))) s = s"
  by (simp add: verificar_etapa_def)

lemma executa_notif_mesma_etapa:
  "etapa_em_andamento s = Some eid \<Longrightarrow>
   executa_notif False s (replicate n (Verificar (EtapaResp True (Some (eid, ''em_andamento''))))) = s"
  by (induction n) (simp_all add: executa_notif_def verificar_mesma_etapa replicate_append_same [symmetric])

lemma executa_notif_append: "executa_notif a s (xs @ ys) = executa_notif a (executa_notif a s xs) ys"
  by (simp add: executa_notif_def)

subsection \<open>Properties\<close>

text \<open>C39. The notification is lost in two ways.  Restoring a minimized banner
  removes the floating button and checks the stage again; the stage is the one
  already recorded, so the banner is not shown again, and no later check shows
  it while that event lasts.  And when the event ends while the banner is
  minimized, the removal finds no banner and leaves the floating button on the
  page.\<close>

theorem notificacao_perdida:
  "(let r = EtapaResp True (Some (eid, ''em_andamento''));
        s = executa_notif False notif_inicial ([Verificar r, Minimizar, Restaurar r] @ replicate n (Verificar r))
    in etapa_em_andamento s = Some eid \<and> \<not> banner s \<and> \<not> botao s)
   \<and> (let s = executa_notif False notif_inicial
              [Verificar (EtapaResp True (Some (eid, ''em_andamento''))), Minimizar, Verificar (EtapaResp True None)]
      in etapa_em_andamento s = None \<and> \<not> banner s \<and> botao s)"
proof -
  let ?r = "EtapaResp True (Some (eid, ''em_andamento''))"
  have s3: "executa_notif False notif_inicial [Verificar ?r, Minimizar, Restaurar ?r]
            = \<lparr>etapa_em_andamento = Some eid, intervalo_notif = False, banner = False, botao = False\<rparr>"
    by (simp add: executa_notif_def notif_inicial_def verificar_etapa_def mostrar_notificacao_def
                  minimizar_notificacao_def mostrar_botao_def restaurar_notificacao_def)
  have "executa_notif False notif_inicial ([Verificar ?r, Minimizar, Restaurar ?r] @ replicate n (Verificar ?r))
        = \<lparr>etapa_em_andamento = Some eid, intervalo_notif = False, banner = False, botao = False\<rparr>"
    unfolding executa_notif_append s3 by (rule executa_notif_mesma_etapa) simp
  moreover have "executa_notif False notif_inicial [Verificar ?r, Minimizar, Verificar (EtapaResp True None)]
        = \<lparr>etapa_em_andamento = None, intervalo_notif = False, banner = False, botao = True\<rparr>"
    by (simp add: executa_notif_def notif_inicial_def verificar_etapa_def mostrar_notificacao_def
                  minimizar_notificacao_def mostrar_botao_def remover_notificacao_def)
  ultimately show ?thesis by (simp add: Let_def)
qed

end
