(* ===== verification/Bracket.thy ===== *)
theory Bracket
  imports Prelude
begin

text \<open>
  The final placings of a battle bracket, \<open>calcularColocacoesBracket\<close>
  (src/static/qualificacao.js, lines 1864--1893), shown under the bracket by
  \<open>renderizarBracketChallonge\<close>.  A bracket is a list of phases, each a list of
  matches with two players and maybe a winner.  Ids are compared through
  \<open>String(...)\<close>, so an absent id reads \<open>"undefined"\<close> (\<open>js_str\<close>).  The last
  phase gives places 1 and 2; the losers of earlier phases, from the last phase
  backwards, get the next places.
\<close>

record jogador =
  jg_id :: "string option"
  jg_name :: "string option"

record partida =
  pt_player1 :: "jogador option"
  pt_player2 :: "jogador option"
  pt_winner :: "string option"       \<comment> \<open>\<open>winner_id\<close>\<close>
  pt_p1_id :: "string option"        \<comment> \<open>\<open>player1_id\<close>\<close>
  pt_p2_id :: "string option"        \<comment> \<open>\<open>player2_id\<close>\<close>

type_synonym fase = "partida list"

text \<open>\<open>partMap\<close>: every player with an id, the later occurrence winning.\<close>

definition regista_jogador :: "(string \<Rightarrow> string option) \<Rightarrow> jogador option \<Rightarrow> string \<Rightarrow> string option" where
  "regista_jogador pm j =
     (case j of
        Some p \<Rightarrow> (if js_truthy_str (jg_id p) then pm(the (jg_id p) \<mapsto> js_or_str (jg_name p) ''TBD'') else pm)
      | None \<Rightarrow> pm)"

definition mapa_participantes :: "fase list \<Rightarrow> string \<Rightarrow> string option" where
  "mapa_participantes b =
     foldl (\<lambda>pm m. regista_jogador (regista_jogador pm (pt_player1 m)) (pt_player2 m)) Map.empty (concat b)"

definition nome_part :: "(string \<Rightarrow> string option) \<Rightarrow> string option \<Rightarrow> string" where
  "nome_part pm x = (case pm (js_str x) of Some n \<Rightarrow> n | None \<Rightarrow> ''TBD'')"

text \<open>The loser of a match: the player whose id is not the winner's.\<close>

definition perdedor :: "partida \<Rightarrow> string option" where
  "perdedor m = (if js_str (pt_winner m) = js_str (pt_p1_id m) then pt_p2_id m else pt_p1_id m)"

text \<open>One match of the loop; \<open>ultima\<close> is \<open>i === bracket.length - 1\<close>.\<close>

definition coloca_partida ::
  "(string \<Rightarrow> string option) \<Rightarrow> bool \<Rightarrow> (nat \<times> string) list \<times> string set \<Rightarrow> partida
   \<Rightarrow> (nat \<times> string) list \<times> string set" where
  "coloca_partida pm ultima acc m =
     (case acc of (col, used) \<Rightarrow>
       (if ultima then
          (let (col1, used1) = (if js_truthy_str (pt_winner m)
                                then (col @ [(1, nome_part pm (pt_winner m))], insert (js_str (pt_winner m)) used)
                                else (col, used));
               l = perdedor m
           in if js_truthy_str l then (col1 @ [(2, nome_part pm l)], insert (js_str l) used1) else (col1, used1))
        else
          (let l = (if js_truthy_str (pt_winner m) then perdedor m else None)
           in if js_truthy_str l \<and> js_str l \<notin> used
              then (col @ [(Suc (length col), nome_part pm l)], insert (js_str l) used) else (col, used))))"

definition calcular_colocacoes :: "fase list \<Rightarrow> (nat \<times> string) list" where
  "calcular_colocacoes b =
     (if b = [] then []
      else if \<not> (\<exists>m \<in> set (last b). js_truthy_str (pt_winner m)) then []
      else
        (let pm = mapa_participantes b;
             n = length b;
             acc = foldl (\<lambda>acc i. foldl (coloca_partida pm (i = n - 1)) acc (b ! i)) ([], {}) (rev [0..<n])
         in sort_key fst (fst acc)))"

subsection \<open>Lemmas\<close>

text \<open>Places numbered \<open>1, 2, ..., n\<close> in order.\<close>

definition numeradas :: "(nat \<times> string) list \<Rightarrow> bool" where
  "numeradas col \<longleftrightarrow> map fst col = [1..<Suc (length col)]"

lemma numeradas_snoc: "numeradas col \<Longrightarrow> numeradas (col @ [(Suc (length col), x)])"
  by (simp add: numeradas_def)

lemma coloca_anterior_numeradas:
  "numeradas (fst acc) \<Longrightarrow> numeradas (fst (coloca_partida pm False acc m))"
  by (cases acc) (simp add: coloca_partida_def Let_def numeradas_snoc)

lemma foldl_coloca_anterior:
  "numeradas (fst acc) \<Longrightarrow> numeradas (fst (foldl (coloca_partida pm False) acc ms))"
  by (induction ms arbitrary: acc) (simp_all add: coloca_anterior_numeradas)

lemma foldl_fases_anteriores:
  "numeradas (fst acc) \<Longrightarrow> \<forall>i \<in> set is. i \<noteq> k \<Longrightarrow>
   numeradas (fst (foldl (\<lambda>acc i. foldl (coloca_partida pm (i = k)) acc (b ! i)) acc is))"
  by (induction "is" arbitrary: acc) (simp_all add: foldl_coloca_anterior)

lemma coloca_final_numeradas:
  assumes "js_truthy_str (pt_winner m)"
  shows "numeradas (fst (coloca_partida pm True ([], u) m))"
  using assms by (simp add: coloca_partida_def Let_def numeradas_def)

lemma numeradas_sorted: "numeradas col \<Longrightarrow> sorted (map fst col)"
  unfolding numeradas_def by (metis sorted_upt)

subsection \<open>Properties\<close>

text \<open>C40. The placings are consecutive exactly when the last phase is one decided
  final: then they are \<open>1, 2, ..., n\<close> with no place repeated.  A last phase
  with a second decided match (a third-place match in the final round) repeats
  places: each of its matches hands out a place 1 and a place 2.\<close>

theorem colocacoes_bracket:
  "(b \<noteq> [] \<and> last b = [m] \<and> js_truthy_str (pt_winner m) \<longrightarrow>
      map fst (calcular_colocacoes b) = [1..<Suc (length (calcular_colocacoes b))])
   \<and> map fst (calcular_colocacoes
       [[\<lparr>pt_player1 = Some \<lparr>jg_id = Some ''1'', jg_name = Some ''Equipe A''\<rparr>,
          pt_player2 = Some \<lparr>jg_id = Some ''2'', jg_name = Some ''Equipe B''\<rparr>,
          pt_winner = Some ''1'', pt_p1_id = Some ''1'', pt_p2_id = Some ''2''\<rparr>,
         \<lparr>pt_player1 = Some \<lparr>jg_id = Some ''3'', jg_name = Some ''Equipe C''\<rparr>,
          pt_player2 = Some \<lparr>jg_id = Some ''4'', jg_name = Some ''Equipe D''\<rparr>,
          pt_winner = Some ''3'', pt_p1_id = Some ''3'', pt_p2_id = Some ''4''\<rparr>]])
     = [1, 1, 2, 2]"
proof -
  have "map fst (calcular_colocacoes b) = [1..<Suc (length (calcular_colocacoes b))]"
    if ne: "b \<noteq> []" and l: "last b = [m]" and w: "js_truthy_str (pt_winner m)"
  proof -
    obtain k where k: "length b = Suc k" using ne by (cases b) auto
    let ?pm = "mapa_participantes b"
    have bl: "b ! k = [m]" using ne l k by (simp add: last_conv_nth)
    have r: "rev [0..<length b] = k # rev [0..<k]" using k by simp
    have ex: "\<exists>m' \<in> set (last b). js_truthy_str (pt_winner m')" using l w by simp
    let ?acc1 = "coloca_partida ?pm True ([], {}) m"
    have a1: "numeradas (fst ?acc1)" using coloca_final_numeradas [OF w] .
    have "numeradas (fst (foldl (\<lambda>acc i. foldl (coloca_partida ?pm (i = k)) acc (b ! i)) ?acc1
                           (rev [0..<k])))"
      by (rule foldl_fases_anteriores [OF a1]) auto
    moreover have "calcular_colocacoes b
        = sort_key fst (fst (foldl (\<lambda>acc i. foldl (coloca_partida ?pm (i = k)) acc (b ! i)) ?acc1
                                   (rev [0..<k])))"
      using ne ex by (simp add: calcular_colocacoes_def Let_def r bl k)
    ultimately have "numeradas (calcular_colocacoes b)"
      by (simp add: sort_key_id_if_sorted numeradas_sorted)
    then show ?thesis by (simp only: numeradas_def)
  qed
  moreover have "map fst (calcular_colocacoes
       [[\<lparr>pt_player1 = Some \<lparr>jg_id = Some ''1'', jg_name = Some ''Equipe A''\<rparr>,
          pt_player2 = Some \<lparr>jg_id = Some ''2'', jg_name = Some ''Equipe B''\<rparr>,
          pt_winner = Some ''1'', pt_p1_id = Some ''1'', pt_p2_id = Some ''2''\<rparr>,
         \<lparr>pt_player1 = Some \<lparr>jg_id = Some ''3'', jg_name = Some ''Equipe C''\<rparr>,
          pt_player2 = Some \<lparr>jg_id = Some ''4'', jg_name = Some ''Equipe D''\<rparr>,
          pt_winner = Some ''3'', pt_p1_id = Some ''3'', pt_p2_id = Some ''4''\<rparr>]])
     = [1, 1, 2, 2]"
    by (simp add: calcular_colocacoes_def coloca_partida_def perdedor_def js_truthy_str_def js_str_def Let_def)
  ultimately show ?thesis by blast
qed

theorem colocacoes_bracket_witness:
  "map fst (calcular_colocacoes
       [[\<lparr>pt_player1 = Some \<lparr>jg_id = Some ''1'', jg_name = Some ''Equipe A''\<rparr>,
          pt_player2 = Some \<lparr>jg_id = Some ''2'', jg_name = Some ''Equipe B''\<rparr>,
          pt_winner = Some ''1'', pt_p1_id = Some ''1'', pt_p2_id = Some ''2''\<rparr>,
         \<lparr>pt_player1 = Some \<lparr>jg_id = Some ''3'', jg_name = Some ''Equipe C''\<rparr>,
          pt_player2 = Some \<lparr>jg_id = Some ''4'', jg_name = Some ''Equipe D''\<rparr>,
          pt_winner = Some ''4'', pt_p1_id = Some ''3'', pt_p2_id = Some ''4''\<rparr>],
        [\<lparr>pt_player1 = Some \<lparr>jg_id = Some ''1'', jg_name = Some ''Equipe A''\<rparr>,
          pt_player2 = Some \<lparr>jg_id = Some ''4'', jg_name = Some ''Equipe D''\<rparr>,
          pt_winner = Some ''4'', pt_p1_id = Some ''1'', pt_p2_id = Some ''4''\<rparr>]])
   = [1..<Suc (length (calcular_colocacoes
       [[\<lparr>pt_player1 = Some \<lparr>jg_id = Some ''1'', jg_name = Some ''Equipe A''\<rparr>,
          pt_player2 = Some \<lparr>jg_id = Some ''2'', jg_name = Some ''Equipe B''\<rparr>,
          pt_winner = Some ''1'', pt_p1_id = Some ''1'', pt_p2_id = Some ''2''\<rparr>,
         \<lparr>pt_player1 = Some \<lparr>jg_id = Some ''3'', jg_name = Some ''Equipe C''\<rparr>,
          pt_player2 = Some \<lparr>jg_id = Some ''4'', jg_name = Some ''Equipe D''\<rparr>,
          pt_winner = Some ''4'', pt_p1_id = Some ''3'', pt_p2_id = Some ''4''\<rparr>],
        [\<lparr>pt_player1 = Some \<lparr>jg_id = Some ''1'', jg_name = Some ''Equipe A''\<rparr>,
          pt_player2 = Some \<lparr>jg_id = Some ''4'', jg_name = Some ''Equipe D''\<rparr>,
          pt_winner = Some ''4'', pt_p1_id = Some ''1'', pt_p2_id = Some ''4''\<rparr>]]))]"
  using colocacoes_bracket [of
      "[[\<lparr>pt_player1 = Some \<lparr>jg_id = Some ''1'', jg_name = Some ''Equipe A''\<rparr>,
          pt_player2 = Some \<lparr>jg_id = Some ''2'', jg_name = Some ''Equipe B''\<rparr>,
          pt_winner = Some ''1'', pt_p1_id = Some ''1'', pt_p2_id = Some ''2''\<rparr>,
         \<lparr>pt_player1 = Some \<lparr>jg_id = Some ''3'', jg_name = Some ''Equipe C''\<rparr>,
          pt_player2 = Some \<lparr>jg_id = Some ''4'', jg_name = Some ''Equipe D''\<rparr>,
          pt_winner = Some ''4'', pt_p1_id = Some ''3'', pt_p2_id = Some ''4''\<rparr>],
        [\<lparr>pt_player1 = Some \<lparr>jg_id = Some ''1'', jg_name = Some ''Equipe A''\<rparr>,
          pt_player2 = Some \<lparr>jg_id = Some ''4'', jg_name = Some ''Equipe D''\<rparr>,
          pt_winner = Some ''4'', pt_p1_id = Some ''1'', pt_p2_id = Some ''4''\<rparr>]]"
      "\<lparr>pt_player1 = Some \<lparr>jg_id = Some ''1'', jg_name = Some ''Equipe A''\<rparr>,
          pt_player2 = Some \<lparr>jg_id = Some ''4'', jg_name = Some ''Equipe D''\<rparr>,
          pt_winner = Some ''4'', pt_p1_id = Some ''1'', pt_p2_id = Some ''4''\<rparr>"]
  by (simp add: js_truthy_str_def)

end
