(* ===== verification/JsNumbers.thy ===== *)
theory JsNumbers
  imports Prelude
begin

text \<open>
  The two conversions between numbers and strings that the pages rely on:
  \<open>parseInt(s, radix)\<close> as ECMAScript defines it (leading white space, an optional
  sign, the \<open>0x\<close> prefix when the radix is absent or 16, the longest prefix of
  digits; no digit is \<open>NaN\<close>, here \<open>None\<close>), and the decimal printing of an integer
  that \<open>String(n)\<close> and a template literal \<open>`${n}`\<close> perform.  Integers are exact:
  the values the pages parse (scores, counters) are far below \<open>2^53\<close>.  The round
  trip lemma says that parsing what was printed gives the number back, also
  when other text follows it, as in \<open>"12px"\<close>.
\<close>

subsection \<open>Printing\<close>

fun string_of_nat :: "nat \<Rightarrow> string" where
  "string_of_nat n =
     (if n < 10 then [char_of (48 + n)] else string_of_nat (n div 10) @ [char_of (48 + n mod 10)])"

definition js_string_int :: "int \<Rightarrow> string" where
  "js_string_int i = (if i < 0 then CHR ''-'' # string_of_nat (nat (- i)) else string_of_nat (nat i))"

text \<open>\<open>String.prototype.padStart(n, c)\<close> with a one-character pad.\<close>

definition pad_start :: "nat \<Rightarrow> char \<Rightarrow> string \<Rightarrow> string" where
  "pad_start n c s = replicate (n - length s) c @ s"

subsection \<open>Parsing\<close>

text \<open>\<open>StrWhiteSpaceChar\<close> restricted to ASCII.\<close>

definition espaco_js :: "char \<Rightarrow> bool" where
  "espaco_js c \<longleftrightarrow> c \<in> set [CHR '' '', CHR 0x09, CHR 0x0A, CHR 0x0B, CHR 0x0C, CHR 0x0D]"

text \<open>\<open>String.prototype.trim\<close>.\<close>

definition trim :: "string \<Rightarrow> string" where
  "trim s = rev (dropWhile espaco_js (rev (dropWhile espaco_js s)))"

text \<open>\<open>String.prototype.toLowerCase\<close> on ASCII letters; the identifiers and type
  names it is applied to are ASCII.\<close>

definition minuscula :: "char \<Rightarrow> char" where
  "minuscula c = (if 65 \<le> (of_char c :: nat) \<and> (of_char c :: nat) \<le> 90 then char_of (of_char c + (32::nat)) else c)"

definition to_lower :: "string \<Rightarrow> string" where
  "to_lower s = map minuscula s"

text \<open>The value of a digit in radix \<open>r\<close>: \<open>0-9\<close>, then \<open>a-z\<close> and \<open>A-Z\<close> from 10.\<close>

definition valor_digito :: "nat \<Rightarrow> char \<Rightarrow> nat option" where
  "valor_digito r c =
     (let n = of_char c :: nat;
          v = (if 48 \<le> n \<and> n \<le> 57 then Some (n - 48)
               else if 97 \<le> n \<and> n \<le> 122 then Some (n - 87)
               else if 65 \<le> n \<and> n \<le> 90 then Some (n - 55) else None)
      in case v of Some d \<Rightarrow> (if d < r then Some d else None) | None \<Rightarrow> None)"

text \<open>The values of the longest prefix of digits.\<close>

fun digitos :: "nat \<Rightarrow> string \<Rightarrow> nat list" where
  "digitos r [] = []"
| "digitos r (c # cs) = (case valor_digito r c of Some d \<Rightarrow> d # digitos r cs | None \<Rightarrow> [])"

definition valor_base :: "nat \<Rightarrow> nat list \<Rightarrow> nat" where
  "valor_base r ds = foldl (\<lambda>acc d. r * acc + d) 0 ds"

definition prefixo_hex :: "string \<Rightarrow> bool" where
  "prefixo_hex s \<longleftrightarrow> take 2 s = ''0x'' \<or> take 2 s = ''0X''"

text \<open>\<open>parseInt(string, radix)\<close>; the radix 0 stands for an absent radix.\<close>

definition parse_int :: "nat \<Rightarrow> string \<Rightarrow> int option" where
  "parse_int radix s =
     (let s1 = dropWhile espaco_js s;
          neg = (s1 \<noteq> [] \<and> hd s1 = CHR ''-'');
          s2 = (if s1 \<noteq> [] \<and> (hd s1 = CHR ''-'' \<or> hd s1 = CHR ''+'') then tl s1 else s1);
          strip = (radix = 0 \<or> radix = 16);
          r0 = (if radix = 0 then 10 else radix);
          (r, s3) = (if strip \<and> prefixo_hex s2 then (16, drop 2 s2) else (r0, s2));
          ds = digitos r s3
      in if radix \<noteq> 0 \<and> (radix < 2 \<or> 36 < radix) then None
         else if ds = [] then None
         else Some ((if neg then -1 else 1) * int (valor_base r ds)))"

text \<open>\<open>parseInt(v) || 0\<close>: \<open>NaN\<close> and 0 are falsy and give 0.\<close>

definition js_ou_0 :: "int option \<Rightarrow> int" where
  "js_ou_0 v = (case v of Some n \<Rightarrow> n | None \<Rightarrow> 0)"

subsection \<open>Lemmas\<close>

declare string_of_nat.simps [simp del]

lemma of_char_digito: "(d::nat) < 10 \<Longrightarrow> of_char (char_of (48 + d)) = 48 + d"
  by (simp add: of_char_of)

lemma valor_digito_decimal: "(d::nat) < 10 \<Longrightarrow> valor_digito 10 (char_of (48 + d)) = Some d"
  by (simp add: valor_digito_def Let_def of_char_of)

lemma valor_digito_decimal_0: "(d::nat) < 10 \<Longrightarrow> valor_digito 0 (char_of (48 + d)) = None"
  by (simp add: valor_digito_def Let_def of_char_of)

lemma string_of_nat_digitos:
  "\<forall>c \<in> set (string_of_nat n). \<exists>d::nat. d < 10 \<and> c = char_of (48 + d)"
proof (induction n rule: string_of_nat.induct)
  case (1 n)
  have "\<exists>d::nat. d < 10 \<and> char_of (48 + n mod 10) = (char_of (48 + d) :: char)"
    by (rule exI [of _ "n mod 10"]) simp
  with 1 show ?case by (subst string_of_nat.simps) auto
qed

lemma string_of_nat_ne [simp]: "string_of_nat n \<noteq> []"
  by (subst string_of_nat.simps) simp

lemma digitos_append:
  "\<forall>c \<in> set xs. valor_digito r c \<noteq> None \<Longrightarrow>
   digitos r (xs @ ys) = map (the \<circ> valor_digito r) xs @ digitos r ys"
  by (induction xs) auto

lemma valor_base_string_of_nat:
  "valor_base 10 (map (the \<circ> valor_digito 10) (string_of_nat n)) = n"
proof (induction n rule: string_of_nat.induct)
  case (1 n)
  show ?case
  proof (cases "n < 10")
    case True
    then show ?thesis by (subst string_of_nat.simps) (simp add: valor_base_def valor_digito_decimal)
  next
    case False
    then have "string_of_nat n = string_of_nat (n div 10) @ [char_of (48 + n mod 10)]"
      by (subst string_of_nat.simps) simp
    with False 1 show ?thesis
      by (simp add: valor_base_def valor_digito_decimal)
  qed
qed

lemma digitos_string_of_nat:
  "(ys = [] \<or> valor_digito 10 (hd ys) = None) \<Longrightarrow>
   digitos 10 (string_of_nat n @ ys) = map (the \<circ> valor_digito 10) (string_of_nat n)"
proof -
  assume ys: "ys = [] \<or> valor_digito 10 (hd ys) = None"
  have "digitos 10 ys = []" using ys by (cases ys) auto
  then show ?thesis
    using string_of_nat_digitos [of n] by (subst digitos_append) (auto simp: valor_digito_decimal)
qed

lemma string_of_nat_hd: "\<exists>d::nat. d < 10 \<and> hd (string_of_nat n) = char_of (48 + d)"
  using string_of_nat_digitos [of n] string_of_nat_ne [of n] by (metis list.set_sel(1))

lemma hd_string_of_nat_of_char: "48 \<le> (of_char (hd (string_of_nat n)) :: nat) \<and> (of_char (hd (string_of_nat n)) :: nat) \<le> 57"
  using string_of_nat_hd [of n] by (auto simp: of_char_digito)

lemma hd_string_of_nat_nao:
  "(of_char c :: nat) < 48 \<Longrightarrow> hd (string_of_nat n) \<noteq> c"
  using hd_string_of_nat_of_char [of n] by auto

lemma hd_string_of_nat_pos: "0 < n \<Longrightarrow> hd (string_of_nat n) \<noteq> CHR ''0''"
proof (induction n rule: string_of_nat.induct)
  case (1 n)
  show ?case
  proof (cases "n < 10")
    case True
    then have "of_char (hd (string_of_nat n)) = (48 + n :: nat)"
      by (subst string_of_nat.simps) (simp add: of_char_digito)
    with 1 show ?thesis by auto
  next
    case False
    with 1 show ?thesis by (subst string_of_nat.simps) simp
  qed
qed

lemma string_of_nat_nao_hex: "\<not> prefixo_hex (string_of_nat n)"
proof (cases "n < 10")
  case True
  then show ?thesis by (subst string_of_nat.simps) (simp add: prefixo_hex_def)
next
  case False
  then have "hd (string_of_nat n) \<noteq> CHR ''0''" by (simp add: hd_string_of_nat_pos)
  then show ?thesis by (cases "string_of_nat n") (auto simp: prefixo_hex_def)
qed

lemma espaco_js_menor: "espaco_js c \<Longrightarrow> (of_char c :: nat) < 48"
  by (auto simp: espaco_js_def)

lemma dropWhile_string_of_nat [simp]: "dropWhile espaco_js (string_of_nat n @ ys) = string_of_nat n @ ys"
proof -
  have "\<not> espaco_js (hd (string_of_nat n))"
    using hd_string_of_nat_of_char [of n] espaco_js_menor by fastforce
  then show ?thesis by (cases "string_of_nat n") auto
qed

lemma hd_string_of_nat_sinal [simp]:
  "hd (string_of_nat n @ ys) \<noteq> CHR ''-''" "hd (string_of_nat n @ ys) \<noteq> CHR ''+''"
  by (simp_all add: hd_string_of_nat_nao)

text \<open>What \<open>parseInt\<close> does on a string that starts with neither white space
  nor a sign, and on one that starts with \<open>-\<close>.\<close>

lemma parse_int_sem_sinal:
  assumes "c \<noteq> CHR ''-''" "c \<noteq> CHR ''+''" "\<not> espaco_js c"
      and "radix = 10 \<or> (radix = 0 \<and> \<not> prefixo_hex (c # cs))"
  shows "parse_int radix (c # cs) =
           (if digitos 10 (c # cs) = [] then None else Some (int (valor_base 10 (digitos 10 (c # cs)))))"
  using assms unfolding parse_int_def Let_def by auto

lemma parse_int_menos:
  assumes "c \<noteq> CHR ''-''" "c \<noteq> CHR ''+''" "\<not> espaco_js c"
      and "radix = 10 \<or> (radix = 0 \<and> \<not> prefixo_hex (c # cs))"
  shows "parse_int radix (CHR ''-'' # c # cs) = map_option uminus (parse_int radix (c # cs))"
proof -
  have "\<not> espaco_js (CHR ''-'')" by (simp add: espaco_js_def)
  then show ?thesis using assms unfolding parse_int_def Let_def by auto
qed

lemma parse_int_string_of_nat:
  assumes "radix = 10 \<or> (radix = 0 \<and> \<not> prefixo_hex (string_of_nat n @ ys))"
      and "ys = [] \<or> valor_digito 10 (hd ys) = None"
  shows "parse_int radix (string_of_nat n @ ys) = Some (int n)"
     and "parse_int radix (CHR ''-'' # string_of_nat n @ ys) = Some (- int n)"
proof -
  obtain c cs where cs: "string_of_nat n @ ys = c # cs" by (cases "string_of_nat n") auto
  have hc: "c = hd (string_of_nat n)" using cs by (cases "string_of_nat n") auto
  have c: "c \<noteq> CHR ''-''" "c \<noteq> CHR ''+''" "\<not> espaco_js c"
    using hd_string_of_nat_of_char [of n] espaco_js_menor [of "hd (string_of_nat n)"]
          hd_string_of_nat_sinal [of n "[]"] hc
    by (auto simp del: hd_append2)
  have d: "digitos 10 (c # cs) = map (the \<circ> valor_digito 10) (string_of_nat n)"
    using digitos_string_of_nat [OF assms(2), of n] unfolding cs .
  have p: "parse_int radix (c # cs) = Some (int n)"
    using parse_int_sem_sinal [OF c] assms(1) cs d by (simp add: valor_base_string_of_nat)
  show "parse_int radix (string_of_nat n @ ys) = Some (int n)" using p cs by simp
  show "parse_int radix (CHR ''-'' # string_of_nat n @ ys) = Some (- int n)"
    using parse_int_menos [OF c] assms(1) cs p by simp
qed

text \<open>Round trip: \<open>parseInt(String(i))\<close> is \<open>i\<close>, with or without the radix 10.\<close>

lemma parse_int_js_string_int:
  assumes "radix = 0 \<or> radix = 10"
  shows "parse_int radix (js_string_int i) = Some i"
proof -
  have hex: "\<not> prefixo_hex (string_of_nat n @ [])" for n using string_of_nat_nao_hex [of n] by simp
  show ?thesis
    using parse_int_string_of_nat [of radix _ "[]"] assms hex
    by (cases "i < 0") (auto simp: js_string_int_def)
qed

text \<open>With the radix 10 the number may be followed by any text that does not
  start with a digit: \<open>parseInt("12px", 10)\<close> is 12.\<close>

lemma parse_int_js_string_int_sufixo:
  "ys = [] \<or> valor_digito 10 (hd ys) = None \<Longrightarrow> parse_int 10 (js_string_int i @ ys) = Some i"
  using parse_int_string_of_nat [of 10 _ ys] by (cases "i < 0") (auto simp: js_string_int_def)

end
