(* ===== verification/PurchaseFlows.thy ===== *)
theory PurchaseFlows
  imports PixStore JsNumbers
begin

text \<open>
  The purchase of single items (src/static/script.js, lines 1442--1833 and
  2205--2335): choosing the car for a part (\<open>abrirEscolherCarro\<close>,
  \<open>selecionarCarroPeca\<close>), confirming (\<open>abrirConfirmacao\<close>, \<open>confirmarCompra\<close>),
  activating a car (\<open>solicitarMudarCarro\<close>) and installing a stored part
  (\<open>abrirModalInstalarPecaArmazem\<close>, \<open>instalarPecaDoArmazem\<close>).  The pending
  purchase \<open>compraPendente\<close> is a record; the flows that pay by PIX end in the
  events of PixStore: \<open>instalarPecaDoArmazem\<close> stores its purchase data first
  (\<open>DefinirCompra\<close>), the others only open the modal (\<open>AbrirPix\<close>) with the
  server's answer, so \<open>mostrarModalPix\<close> decides what data is kept.
\<close>

record compra_pendente =
  cpd_id :: "string option"
  cpd_tipo :: "string option"
  cpd_nome :: string
  cpd_preco :: money
  cpd_carro :: "string option"      \<comment> \<open>\<open>carroSelecionado\<close>\<close>
  cpd_variacao :: bool              \<comment> \<open>\<open>isVariacao\<close>\<close>
  cpd_compat :: "string option"     \<comment> \<open>\<open>compatibilidade\<close>\<close>

definition compra_pendente_inicial :: compra_pendente where
  "compra_pendente_inicial = \<lparr>cpd_id = None, cpd_tipo = None, cpd_nome = [], cpd_preco = 0, cpd_carro = None,
                              cpd_variacao = False, cpd_compat = None\<rparr>"

record carro_garagem =
  cg_id :: string
  cg_modelo_id :: "string option"

datatype efeito_compra1 =
    ToastErroEquipe | ToastSaldoInsuf | ToastSemCarros | ToastErroCarros
  | ModalEscolherCarro "carro_garagem list"   \<comment> \<open>the compatible cars, with the warehouse option\<close>
  | ModalSemCompativeis
  | ModalConfirmacao
  | PostComprarArmazem string | ToastArmazemOk | ToastErroArmazem
  | ToastSelecioneCarro
  | PostComprar bool string        \<comment> \<open>\<open>variacao_id\<close> (True) or \<open>item_id\<close>\<close>
  | ToastCompraOk | ToastErroCompra1
  | PostGerarQrPeca string "string option"
  | PostAtivarCarro string | ToastCarroIncompleto "string list" | ToastErroAtivacao
  | ToastAguardeGaragem | ModalInstalarArmazem "string list"
  | PostSolicitarInstalacao string string string
  | ToastErroQrCode | ToastGerandoQr

subsection \<open>Strings\<close>

text \<open>\<open>split(',')\<close>; \<open>trim\<close> is the one of JsNumbers.\<close>

fun split_virgula :: "string \<Rightarrow> string list" where
  "split_virgula [] = [[]]"
| "split_virgula (c # cs) =
     (if c = CHR '','' then [] # split_virgula cs
      else (case split_virgula cs of w # ws \<Rightarrow> (c # w) # ws | [] \<Rightarrow> [[c]]))"

subsection \<open>Choosing the car\<close>

text \<open>The cars a part fits: all of them for \<open>'universal'\<close>, otherwise those whose
  \<open>modelo_id\<close> is in the comma-separated list.\<close>

definition carros_compativeis :: "string \<Rightarrow> carro_garagem list \<Rightarrow> carro_garagem list" where
  "carros_compativeis compatib cs =
     (if compatib = ''universal'' then cs
      else filter (\<lambda>c. trim (js_or_str (cg_modelo_id c) []) \<in> set (map trim (split_virgula compatib))) cs)"

datatype resposta_garagem = GaragemResp "carro_garagem list" | GaragemExcecao

text \<open>\<open>abrirEscolherCarro(id, tipo, nome, preco, compatibilidade)\<close>; \<open>saldo\<close> is
  \<open>equipeAtual.saldo\<close>, \<open>None\<close> while the team is not loaded.\<close>

definition abrir_confirmacao ::
  "money option \<Rightarrow> string \<Rightarrow> string \<Rightarrow> string \<Rightarrow> money \<Rightarrow> bool \<Rightarrow> compra_pendente
   \<Rightarrow> compra_pendente \<times> efeito_compra1 list" where
  "abrir_confirmacao saldo pid tipo nome preco var cp =
     (case saldo of
        None \<Rightarrow> (cp, [ToastErroEquipe])
      | Some s \<Rightarrow>
          (if s < preco then (cp, [ToastSaldoInsuf])
           else (\<lparr>cpd_id = Some pid, cpd_tipo = Some tipo, cpd_nome = nome, cpd_preco = preco, cpd_carro = None,
                  cpd_variacao = var, cpd_compat = None\<rparr>, [ModalConfirmacao])))"

definition abrir_escolher_carro ::
  "money option \<Rightarrow> string \<Rightarrow> string \<Rightarrow> string \<Rightarrow> money \<Rightarrow> string \<Rightarrow> resposta_garagem \<Rightarrow> compra_pendente
   \<Rightarrow> compra_pendente \<times> efeito_compra1 list" where
  "abrir_escolher_carro saldo pid tipo nome preco compatib rg cp =
     (case saldo of
        None \<Rightarrow> (cp, [ToastErroEquipe])
      | Some s \<Rightarrow>
          (if s < preco then (cp, [ToastSaldoInsuf])
           else if tipo = ''peca'' then
             (case rg of
                GaragemExcecao \<Rightarrow> (cp, [ToastErroCarros])
              | GaragemResp cs \<Rightarrow>
                  (if cs = [] then (cp, [ToastSemCarros])
                   else (\<lparr>cpd_id = Some pid, cpd_tipo = Some tipo, cpd_nome = nome, cpd_preco = preco,
                          cpd_carro = None, cpd_variacao = False, cpd_compat = Some compatib\<rparr>,
                         (let ok = carros_compativeis compatib cs
                          in if ok = [] then [ModalSemCompativeis] else [ModalEscolherCarro ok]))))
           else abrir_confirmacao saldo pid tipo nome preco False cp))"

datatype resposta_simples = RespSucesso | RespFalhaS | RespExcecaoS

text \<open>\<open>selecionarCarroPeca(carroId, carroNome)\<close>: the choice is recorded first;
  the warehouse is bought at once, a car goes to the confirmation.\<close>

definition selecionar_carro_peca ::
  "money option \<Rightarrow> string \<Rightarrow> resposta_simples \<Rightarrow> compra_pendente \<Rightarrow> compra_pendente \<times> efeito_compra1 list" where
  "selecionar_carro_peca saldo carro r cp =
     (let cp1 = cp\<lparr>cpd_carro := Some carro\<rparr>
      in case saldo of
           None \<Rightarrow> (cp1, [ToastErroEquipe])
         | Some s \<Rightarrow>
             (if s < cpd_preco cp1 then (cp1, [ToastSaldoInsuf])
              else if carro = ''armazem'' then
                (cp1, PostComprarArmazem (js_str (cpd_id cp1))
                      # (case r of RespSucesso \<Rightarrow> [ToastArmazemOk] | _ \<Rightarrow> [ToastErroArmazem]))
              else (cp1, [ModalConfirmacao])))"

datatype resposta_qr = QrOk dados_pix | QrFalha | QrExcecao

text \<open>\<open>confirmarCompra()\<close>: a car is bought at once; a part needs its car and is
  paid by PIX, the modal opened with the server's answer.\<close>

definition confirmar_compra ::
  "compra_pendente \<Rightarrow> resposta_simples \<Rightarrow> resposta_qr \<Rightarrow> efeito_compra1 list \<times> evento_pix list" where
  "confirmar_compra cp rc rq =
     (let item = js_str (cpd_id cp);
          carro = (if cpd_tipo cp = Some ''peca'' then cpd_carro cp else None)
      in if cpd_tipo cp = Some ''peca'' \<and> \<not> js_truthy_str carro then ([ToastSelecioneCarro], [])
         else if cpd_tipo cp = Some ''carro'' then
           (PostComprar (cpd_variacao cp) item
              # (case rc of RespSucesso \<Rightarrow> [ToastCompraOk] | _ \<Rightarrow> [ToastErroCompra1]), [])
         else
           (case rq of
              QrOk d \<Rightarrow> ([PostGerarQrPeca item carro], [AbrirPix d])
            | QrFalha \<Rightarrow> ([PostGerarQrPeca item carro, ToastErroQrCode], [])
            | QrExcecao \<Rightarrow> ([PostGerarQrPeca item carro, ToastErroCompra1], [])))"

datatype resposta_ativar = AtivarNaoOk "string list" | AtivarOk dados_pix | AtivarFalha | AtivarExcecao

text \<open>\<open>solicitarMudarCarro(carroId, carroNome)\<close>.\<close>

definition solicitar_mudar_carro :: "string \<Rightarrow> resposta_ativar \<Rightarrow> efeito_compra1 list \<times> evento_pix list" where
  "solicitar_mudar_carro carro r =
     (case r of
        AtivarNaoOk faltando \<Rightarrow>
          ([PostAtivarCarro carro, if faltando \<noteq> [] then ToastCarroIncompleto faltando else ToastErroAtivacao], [])
      | AtivarOk d \<Rightarrow> ([PostAtivarCarro carro], [AbrirPix d])
      | _ \<Rightarrow> ([PostAtivarCarro carro, ToastErroAtivacao], []))"

subsection \<open>Installing a stored part\<close>

record peca_selecionada =
  ps_nome :: string
  ps_tipo :: string

text \<open>\<open>abrirModalInstalarPecaArmazem(pecaNome, pecaTipo, idx, preco)\<close>: one button
  per car of the garage.\<close>

definition abrir_modal_instalar ::
  "string list option \<Rightarrow> string \<Rightarrow> string \<Rightarrow> peca_selecionada option
   \<Rightarrow> peca_selecionada option \<times> efeito_compra1 list" where
  "abrir_modal_instalar carros nome tipo sel =
     (case carros of
        None \<Rightarrow> (sel, [ToastAguardeGaragem])
      | Some cs \<Rightarrow> (Some \<lparr>ps_nome = nome, ps_tipo = tipo\<rparr>, [ModalInstalarArmazem cs]))"

datatype resposta_solicitacao =
    SolicitacaoOk txid "string option" "string option"   \<comment> \<open>\<open>transacao_id\<close>, \<open>qr_code_url\<close>, \<open>peca_loja_id\<close>\<close>
  | SolicitacaoFalha | SolicitacaoExcecao

text \<open>\<open>instalarPecaDoArmazem(carroId)\<close>: the purchase data is stored before the PIX
  modal opens.\<close>

definition instalar_peca_do_armazem ::
  "peca_selecionada option \<Rightarrow> string \<Rightarrow> resposta_solicitacao \<Rightarrow> efeito_compra1 list \<times> evento_pix list" where
  "instalar_peca_do_armazem sel carro r =
     (case sel of
        None \<Rightarrow> ([ToastErroCompra1], [])
      | Some p \<Rightarrow>
          (let post = PostSolicitarInstalacao (ps_nome p) (ps_tipo p) carro
           in case r of
                SolicitacaoOk tx qr pl \<Rightarrow>
                  (if \<not> js_truthy_str qr then ([ToastGerandoQr, post, ToastErroQrCode], [])
                   else ([ToastGerandoQr, post],
                         [DefinirCompra \<lparr>cp_transacao_id = Some tx, cp_tipo = Some ''instalacao_armazem'',
                                         cp_item_id = pl, cp_carro_id = Some carro\<rparr>,
                          AbrirPix \<lparr>dp_transacao_id = tx, dp_tipo_item = Some ''instalacao_armazem'',
                                    dp_item_id = Some carro, dp_carro_id = None\<rparr>]))
              | _ \<Rightarrow> ([ToastGerandoQr, post, ToastErroCompra1], [])))"

subsection \<open>Lemmas\<close>

lemma split_virgula_ne [simp]: "split_virgula s \<noteq> []"
  by (induction s rule: split_virgula.induct) (auto split: list.split)

text \<open>\<open>split(',')\<close> loses nothing: joining the pieces with commas gives the
  string back.\<close>

lemma split_virgula_junta:
  "hd (split_virgula s) @ concat (map (\<lambda>w. CHR '','' # w) (tl (split_virgula s))) = s"
proof (induction s rule: split_virgula.induct)
  case (2 c cs)
  then show ?case by (cases "split_virgula cs") auto
qed simp

lemma split_virgula_sem_virgula: "CHR '','' \<notin> set s \<Longrightarrow> split_virgula s = [s]"
  by (induction s rule: split_virgula.induct) auto

lemma carros_compativeis_sub: "set (carros_compativeis m cs) \<subseteq> set cs"
  by (auto simp: carros_compativeis_def)

text \<open>A part made for one model fits the cars whose trimmed \<open>modelo_id\<close> is that
  model's trimmed id.\<close>

lemma carros_compativeis_um_modelo:
  "CHR '','' \<notin> set m \<Longrightarrow> m \<noteq> ''universal'' \<Longrightarrow>
   carros_compativeis m cs = filter (\<lambda>c. trim (js_or_str (cg_modelo_id c) []) = trim m) cs"
  by (simp add: carros_compativeis_def split_virgula_sem_virgula)

lemma escolher_carro_modal:
  "abrir_escolher_carro saldo pid ''peca'' nome preco m rg cp = (cp', [ModalEscolherCarro ok]) \<Longrightarrow>
   ok \<noteq> [] \<and> set ok \<subseteq> set (case rg of GaragemResp cs \<Rightarrow> cs | GaragemExcecao \<Rightarrow> [])
   \<and> cpd_id cp' = Some pid \<and> cpd_carro cp' = None"
  using carros_compativeis_sub
  by (auto simp: abrir_escolher_carro_def Let_def split: option.splits if_splits resposta_garagem.splits)

text \<open>A part is never bought without its car: the request is not even sent.\<close>

lemma confirmar_peca_sem_carro:
  "cpd_tipo cp = Some ''peca'' \<Longrightarrow> \<not> js_truthy_str (cpd_carro cp) \<Longrightarrow>
   confirmar_compra cp rc rq = ([ToastSelecioneCarro], [])"
  by (simp add: confirmar_compra_def)

lemma confirmar_compra_pix:
  "snd (confirmar_compra cp rc rq) = []
   \<or> (\<exists>d. rq = QrOk d \<and> cpd_tipo cp \<noteq> Some ''carro'' \<and> snd (confirmar_compra cp rc rq) = [AbrirPix d])"
  by (cases rq) (auto simp: confirmar_compra_def Let_def)

lemma mostrar_modal_mantem_compra:
  "compra s = Some c \<Longrightarrow> js_truthy_str (cp_tipo c) \<Longrightarrow> compra (mostrar_modal_pix d s) = Some c"
  by (simp add: mostrar_modal_pix_def monitorar_pix_def parar_intervalo_def Let_def
           split: option.split)

text \<open>\<open>confirmarCompra\<close> does not store its purchase: data stored by an earlier
  flow stays in \<open>compraPendentePix\<close> through the new payment.\<close>

lemma confirmar_compra_mantem_compra:
  "compra s = Some c \<Longrightarrow> js_truthy_str (cp_tipo c) \<Longrightarrow>
   executa_pix s (snd (confirmar_compra cp rc rq)) = Some s' \<Longrightarrow> compra s' = Some c"
  using confirmar_compra_pix [of cp rc rq] by (auto simp: mostrar_modal_mantem_compra)

lemma solicitar_mudar_carro_pix:
  "snd (solicitar_mudar_carro carro r) = (case r of AtivarOk d \<Rightarrow> [AbrirPix d] | _ \<Rightarrow> [])"
  by (simp add: solicitar_mudar_carro_def split: resposta_ativar.split)

text \<open>\<open>instalarPecaDoArmazem\<close> stores the installation before the modal opens,
  so the poller of its transaction finds that data.\<close>

lemma instalar_armazena_compra:
  assumes "js_truthy_str qr"
  shows "\<exists>s'. executa_pix s (snd (instalar_peca_do_armazem (Some p) carro (SolicitacaoOk tx qr pl))) = Some s'
           \<and> compra s' = Some \<lparr>cp_transacao_id = Some tx, cp_tipo = Some ''instalacao_armazem'',
                               cp_item_id = pl, cp_carro_id = Some carro\<rparr>
           \<and> atual s' = Some tx"
  using assms
  by (simp add: instalar_peca_do_armazem_def mostrar_modal_mantem_compra js_truthy_str_def)
     (simp add: mostrar_modal_pix_def monitorar_pix_def parar_intervalo_def Let_def split: option.split)

end
