(* ===== verification/AutoRefresh.thy ===== *)
theory AutoRefresh
  imports Prelude
begin

text \<open>
  The dashboard's auto-refresh (src/static/script.js, lines 36--310).  Two
  intervals reload data: \<open>intervaloAutoRefresh\<close> every 5 s reloads the active tab,
  \<open>intervaloSolicitacoes\<close> every 3 s reloads the pending requests; both skip a
  hidden page or an open modal.  \<open>iniciarAutoRefresh\<close> clears each interval before
  creating it again, \<open>pararAutoRefresh\<close> clears them (keeping the stale handles in
  the variables).  Modals pause the refresh when shown and resume it when hidden:
  every modal through \<open>configurarListenersModals\<close>, and the modal of a stored part
  again through the listeners that \<open>abrirModalInstalarPecaArmazem\<close> adds on every
  opening.  The state is the set of live intervals, by handle and kind, the two
  variables, and the listeners registered; handles are allocated from 1 as
  \<open>setInterval\<close> does.
\<close>

datatype intervalo = IAuto | ISolic

record refresh_st =
  prox_handle :: nat                        \<comment> \<open>the next handle \<open>setInterval\<close> returns\<close>
  vivos :: "(nat \<times> intervalo) list"         \<comment> \<open>the live intervals\<close>
  int_auto :: "nat option"                  \<comment> \<open>\<open>intervaloAutoRefresh\<close>\<close>
  int_solic :: "nat option"                 \<comment> \<open>\<open>intervaloSolicitacoes\<close>\<close>
  ouvintes_gerais :: bool                   \<comment> \<open>\<open>configurarListenersModals\<close> has run\<close>
  ouvintes_instalar :: nat                  \<comment> \<open>listener pairs on \<open>#modalInstalarArmazem\<close>\<close>

definition refresh_inicial :: refresh_st where
  "refresh_inicial = \<lparr>prox_handle = 1, vivos = [], int_auto = None, int_solic = None,
                      ouvintes_gerais = False, ouvintes_instalar = 0\<rparr>"

text \<open>\<open>if (h) clearInterval(h)\<close>: a stale handle clears nothing.\<close>

definition limpa :: "nat option \<Rightarrow> refresh_st \<Rightarrow> refresh_st" where
  "limpa h s = (case h of Some k \<Rightarrow> s\<lparr>vivos := filter (\<lambda>(k', _). k' \<noteq> k) (vivos s)\<rparr> | None \<Rightarrow> s)"

definition novo_intervalo :: "intervalo \<Rightarrow> refresh_st \<Rightarrow> nat \<times> refresh_st" where
  "novo_intervalo k s = (prox_handle s, s\<lparr>prox_handle := Suc (prox_handle s), vivos := vivos s @ [(prox_handle s, k)]\<rparr>)"

definition iniciar_auto_refresh :: "refresh_st \<Rightarrow> refresh_st" where
  "iniciar_auto_refresh s =
     (let (h1, s1) = novo_intervalo IAuto (limpa (int_auto s) s);
          s2 = s1\<lparr>int_auto := Some h1\<rparr>;
          (h2, s3) = novo_intervalo ISolic (limpa (int_solic s2) s2)
      in s3\<lparr>int_solic := Some h2\<rparr>)"

definition parar_auto_refresh :: "refresh_st \<Rightarrow> refresh_st" where
  "parar_auto_refresh s = limpa (int_solic s) (limpa (int_auto s) s)"

subsection \<open>What a tick reloads\<close>

datatype carga =
    CarregarGaragem | RecarregarDadosEquipe | CarregarCarrosLoja | CarregarPecasLoja
  | CarregarPecasAguardando | CarregarCarrosAguardando
  | CarregarDetalhesEquipe | ObterPrecoInstalacao

text \<open>The page as the handlers read it: \<open>document.hidden\<close>, for each \<open>.modal\<close>
  whether its Bootstrap instance is shown and whether it has the class \<open>show\<close>,
  the path, and the \<open>href\<close> of each active \<open>.nav-link\<close>.\<close>

record pagina =
  oculta :: bool
  modais :: "(bool \<times> bool) list"
  caminho :: string
  abas_ativas :: "string option list"

definition tem_modal_aberto :: "(bool \<times> bool) list \<Rightarrow> bool" where
  "tem_modal_aberto ms = list_ex (\<lambda>(instancia, classe). instancia \<or> classe) ms"

text \<open>\<open>String.prototype.replace('#', '')\<close> removes the first \<open>#\<close>.\<close>

fun remove_primeiro :: "char \<Rightarrow> string \<Rightarrow> string" where
  "remove_primeiro c [] = []"
| "remove_primeiro c (x # xs) = (if x = c then xs else x # remove_primeiro c xs)"

definition obter_aba_ativa :: "string option list \<Rightarrow> string option" where
  "obter_aba_ativa abas =
     (case abas of
        [] \<Rightarrow> None
      | h # _ \<Rightarrow> (if js_truthy_str h then Some (remove_primeiro CHR ''#'' (the h)) else None))"

definition cargas_da_aba :: "string \<Rightarrow> carga list" where
  "cargas_da_aba aba =
     (if aba = ''garagem-tab'' then [CarregarGaragem, RecarregarDadosEquipe]
      else if aba = ''carros-tab'' then [CarregarCarrosLoja, RecarregarDadosEquipe]
      else if aba = ''pecas-tab'' then [CarregarPecasLoja, RecarregarDadosEquipe]
      else [RecarregarDadosEquipe])"

definition tique_auto :: "pagina \<Rightarrow> carga list" where
  "tique_auto p =
     (if oculta p \<or> tem_modal_aberto (modais p) then []
      else if caminho p = ''/dashboard'' then
        (case obter_aba_ativa (abas_ativas p) of
           Some aba \<Rightarrow> (if aba \<noteq> [] then cargas_da_aba aba else [])
         | None \<Rightarrow> [])
      else [])"

definition tique_solic :: "pagina \<Rightarrow> carga list" where
  "tique_solic p =
     (if oculta p \<or> tem_modal_aberto (modais p) then []
      else (if caminho p = ''/dashboard'' then [CarregarPecasAguardando, CarregarCarrosAguardando] else [])
           @ (if caminho p = ''/solicitacoes-pecas'' then [CarregarPecasAguardando] else [])
           @ (if caminho p = ''/solicitacoes-carros'' then [CarregarCarrosAguardando] else []))"

subsection \<open>Lazy loading by tab\<close>

record dados_carregados =
  dc_garagem :: bool
  dc_carros_loja :: bool
  dc_pecas_loja :: bool
  dc_equipe :: bool

definition carrega_equipe :: "dados_carregados \<Rightarrow> carga list \<times> dados_carregados" where
  "carrega_equipe d = (if dc_equipe d then ([], d) else ([RecarregarDadosEquipe], d\<lparr>dc_equipe := True\<rparr>))"

text \<open>\<open>carregarDadosPorAba(abaId)\<close>; the tab is \<open>abaId || obterAbaAtiva()\<close>.\<close>

definition carregar_dados_por_aba ::
  "string option \<Rightarrow> string option list \<Rightarrow> dados_carregados \<Rightarrow> carga list \<times> dados_carregados" where
  "carregar_dados_por_aba aba_id abas d =
     (let aba = (if js_truthy_str aba_id then aba_id else obter_aba_ativa abas)
      in if \<not> js_truthy_str aba then ([], d)
         else
           (let a = the aba;
                (c1, d1) = (if a = ''garagem-tab'' then
                              (if dc_garagem d then ([], d) else ([CarregarGaragem], d\<lparr>dc_garagem := True\<rparr>))
                            else if a = ''carros-tab'' then
                              (if dc_carros_loja d then ([], d) else ([CarregarCarrosLoja], d\<lparr>dc_carros_loja := True\<rparr>))
                            else if a = ''pecas-tab'' then
                              (if dc_pecas_loja d then ([], d) else ([CarregarPecasLoja], d\<lparr>dc_pecas_loja := True\<rparr>))
                            else ([], d));
                (c2, d2) = carrega_equipe d1
            in (c1 @ c2, d2)))"

subsection \<open>Handlers\<close>

record painel =
  refresh :: refresh_st
  carregados :: dados_carregados

definition painel_inicial :: painel where
  "painel_inicial = \<lparr>refresh = refresh_inicial,
     carregados = \<lparr>dc_garagem = False, dc_carros_loja = False, dc_pecas_loja = False, dc_equipe = False\<rparr>\<rparr>"

text \<open>\<open>configurarListenersModals()\<close> (lines 121--135): every modal pauses the
  refresh when shown and resumes it when hidden.\<close>

definition configurar_listeners_modals :: "refresh_st \<Rightarrow> refresh_st" where
  "configurar_listeners_modals s = s\<lparr>ouvintes_gerais := True\<rparr>"

text \<open>The \<open>visibilitychange\<close> listener (lines 138--147).\<close>

definition visibilidade :: "bool \<Rightarrow> string \<Rightarrow> refresh_st \<Rightarrow> refresh_st" where
  "visibilidade oculto path s =
     (if oculto then parar_auto_refresh s
      else if path \<in> set [''/dashboard'', ''/solicitacoes-pecas'', ''/solicitacoes-carros'', ''/admin'']
      then iniciar_auto_refresh s else s)"

text \<open>The \<open>DOMContentLoaded\<close> listener (lines 150--170) on the three pages with
  auto-refresh; \<open>configurarCarregamentoLazy\<close> (lines 297--310) loads the garage
  tab.  The administration page sets up its own tabs and no refresh.\<close>

definition carregar_pagina :: "string \<Rightarrow> painel \<Rightarrow> painel \<times> carga list" where
  "carregar_pagina path pn =
     (if path = ''/dashboard'' then
        (let (c, d) = carregar_dados_por_aba (Some ''garagem-tab'') [] (carregados pn)
         in (\<lparr>refresh = iniciar_auto_refresh (configurar_listeners_modals (refresh pn)), carregados = d\<rparr>,
             [CarregarDetalhesEquipe, ObterPrecoInstalacao] @ c))
      else if path = ''/solicitacoes-pecas'' then
        (pn\<lparr>refresh := iniciar_auto_refresh (configurar_listeners_modals (refresh pn))\<rparr>, [CarregarPecasAguardando])
      else if path = ''/solicitacoes-carros'' then
        (pn\<lparr>refresh := iniciar_auto_refresh (configurar_listeners_modals (refresh pn))\<rparr>, [CarregarCarrosAguardando])
      else (pn, []))"

text \<open>A modal is shown or hidden.  The listeners of \<open>configurarListenersModals\<close>
  run first, then, for the modal of a stored part, each pair added by
  \<open>abrirModalInstalarPecaArmazem\<close> (lines 2241--2252): its \<open>show\<close> half clears both
  intervals, its \<open>hidden\<close> half calls \<open>iniciarAutoRefresh\<close>.\<close>

definition mostra_modal :: "bool \<Rightarrow> refresh_st \<Rightarrow> refresh_st" where
  "mostra_modal instalar s =
     (let s1 = (if ouvintes_gerais s then parar_auto_refresh s else s)
      in if instalar then (parar_auto_refresh ^^ ouvintes_instalar s1) s1 else s1)"

definition fecha_modal :: "bool \<Rightarrow> refresh_st \<Rightarrow> refresh_st" where
  "fecha_modal instalar s =
     (let s1 = (if ouvintes_gerais s then iniciar_auto_refresh s else s)
      in if instalar then (iniciar_auto_refresh ^^ ouvintes_instalar s1) s1 else s1)"

text \<open>Opening the modal of a stored part once the garage is loaded adds one
  more pair of listeners.\<close>

definition abre_instalar :: "bool \<Rightarrow> refresh_st \<Rightarrow> refresh_st" where
  "abre_instalar garagem s = (if garagem then s\<lparr>ouvintes_instalar := Suc (ouvintes_instalar s)\<rparr> else s)"

text \<open>A tick of the interval with handle \<open>h\<close>: only a live interval ticks.\<close>

definition tique_intervalo :: "nat \<Rightarrow> pagina \<Rightarrow> refresh_st \<Rightarrow> carga list" where
  "tique_intervalo h p s =
     (case map_of (vivos s) h of
        Some IAuto \<Rightarrow> tique_auto p
      | Some ISolic \<Rightarrow> tique_solic p
      | None \<Rightarrow> [])"

datatype evento_refresh =
    CarregaPagina string
  | Visibilidade bool string
  | MostraModal bool | FechaModal bool
  | AbreInstalar bool
  | MudaAba string
  | TiqueIntervalo nat pagina

fun passo_refresh :: "painel \<Rightarrow> evento_refresh \<Rightarrow> painel \<times> carga list" where
  "passo_refresh pn (CarregaPagina path) = carregar_pagina path pn"
| "passo_refresh pn (Visibilidade oc path) = (pn\<lparr>refresh := visibilidade oc path (refresh pn)\<rparr>, [])"
| "passo_refresh pn (MostraModal i) = (pn\<lparr>refresh := mostra_modal i (refresh pn)\<rparr>, [])"
| "passo_refresh pn (FechaModal i) = (pn\<lparr>refresh := fecha_modal i (refresh pn)\<rparr>, [])"
| "passo_refresh pn (AbreInstalar g) = (pn\<lparr>refresh := abre_instalar g (refresh pn)\<rparr>, [])"
| "passo_refresh pn (MudaAba aba) =
     (let (c, d) = carregar_dados_por_aba (Some aba) [] (carregados pn) in (pn\<lparr>carregados := d\<rparr>, c))"
| "passo_refresh pn (TiqueIntervalo h p) = (pn, tique_intervalo h p (refresh pn))"

fun executa_refresh :: "painel \<Rightarrow> evento_refresh list \<Rightarrow> painel \<times> carga list" where
  "executa_refresh pn [] = (pn, [])"
| "executa_refresh pn (e # es) =
     (let (pn1, c1) = passo_refresh pn e; (pn2, c2) = executa_refresh pn1 es in (pn2, c1 @ c2))"

subsection \<open>The admin page and the request headers\<close>

text \<open>The \<open>/admin\<close> branch of the \<open>DOMContentLoaded\<close> listener (lines 169--208):
  each of the three tabs, when present, gets a \<open>shown.bs.tab\<close> listener, and
  its data is loaded at once (the stages tab always, the other two when
  active).  A tab is \<open>None\<close> when absent, else whether it is active.\<close>

datatype carga_admin = CarregarCampeonatos | CarregarEtapasCadastro | CarregarEquipesCadastro
  | CarregarSolicitacoesPecas | CarregarSolicitacoesCarros

datatype aba_admin = AbaEtapas | AbaEquipes | AbaPecas

definition cargas_aba_admin :: "aba_admin \<Rightarrow> carga_admin list" where
  "cargas_aba_admin a =
     (case a of AbaEtapas \<Rightarrow> [CarregarCampeonatos, CarregarEtapasCadastro]
              | AbaEquipes \<Rightarrow> [CarregarEquipesCadastro]
              | AbaPecas \<Rightarrow> [CarregarSolicitacoesPecas, CarregarSolicitacoesCarros])"

definition carregar_pagina_admin :: "bool option \<Rightarrow> bool option \<Rightarrow> bool option \<Rightarrow> aba_admin list \<times> carga_admin list" where
  "carregar_pagina_admin etapas equipes pecas =
     (let abas = (if etapas \<noteq> None then [AbaEtapas] else []) @ (if equipes \<noteq> None then [AbaEquipes] else [])
                 @ (if pecas \<noteq> None then [AbaPecas] else [])
      in (abas,
          (if etapas \<noteq> None then cargas_aba_admin AbaEtapas else [])
          @ (if equipes = Some True then cargas_aba_admin AbaEquipes else [])
          @ (if pecas = Some True then cargas_aba_admin AbaPecas else [])))"

text \<open>A tab is shown: its listener, if one was added, loads its data.\<close>

definition aba_admin_mostrada :: "aba_admin list \<Rightarrow> aba_admin \<Rightarrow> carga_admin list" where
  "aba_admin_mostrada ouvintes a = (if a \<in> set ouvintes then cargas_aba_admin a else [])"

text \<open>\<open>obterHeaders()\<close> with \<open>obterEquipeIdDaSession()\<close> (lines 215--227).\<close>

definition obter_headers :: "string option \<Rightarrow> (string \<times> string) list" where
  "obter_headers sessao =
     (''Content-Type'', ''application/json'') # (if js_truthy_str sessao then [(''X-Equipe-ID'', the sessao)] else [])"

subsection \<open>The invariant\<close>

text \<open>Live handles are distinct and already allocated, and a live interval of
  each kind is the one its variable names.\<close>

definition inv_refresh :: "refresh_st \<Rightarrow> bool" where
  "inv_refresh s \<longleftrightarrow> distinct (map fst (vivos s))
     \<and> (\<forall>(h, k) \<in> set (vivos s). h < prox_handle s
          \<and> (k = IAuto \<longrightarrow> int_auto s = Some h) \<and> (k = ISolic \<longrightarrow> int_solic s = Some h))
     \<and> pred_option (\<lambda>h. h < prox_handle s) (int_auto s)
     \<and> pred_option (\<lambda>h. h < prox_handle s) (int_solic s)"

subsection \<open>Lemmas\<close>

lemma inv_refresh_inicial: "inv_refresh refresh_inicial"
  by (simp add: inv_refresh_def refresh_inicial_def)

lemma inv_limpa: "inv_refresh s \<Longrightarrow> inv_refresh (limpa h s)"
  by (auto simp: inv_refresh_def limpa_def distinct_map_filter split: option.split)

lemma limpa_campos [simp]:
  "prox_handle (limpa h s) = prox_handle s" "int_auto (limpa h s) = int_auto s"
  "int_solic (limpa h s) = int_solic s" "ouvintes_gerais (limpa h s) = ouvintes_gerais s"
  "ouvintes_instalar (limpa h s) = ouvintes_instalar s"
  by (simp_all add: limpa_def split: option.split)

lemma vivos_limpa: "vivos (limpa h s) = filter (\<lambda>(k, _). h \<noteq> Some k) (vivos s)"
  by (auto simp: limpa_def split: option.split intro: filter_cong)

text \<open>Clearing the variable of a kind leaves no live interval of that kind.\<close>

lemma limpa_auto_sem_auto: "inv_refresh s \<Longrightarrow> (h, IAuto) \<notin> set (vivos (limpa (int_auto s) s))"
  by (auto simp: inv_refresh_def vivos_limpa)

lemma limpa_solic_sem_solic: "inv_refresh s \<Longrightarrow> (h, ISolic) \<notin> set (vivos (limpa (int_solic s) s))"
  by (auto simp: inv_refresh_def vivos_limpa)

lemma iniciar_auto_refresh_eq:
  "iniciar_auto_refresh s =
     (let s1 = limpa (int_auto s) s;
          s2 = s1\<lparr>prox_handle := Suc (prox_handle s), vivos := vivos s1 @ [(prox_handle s, IAuto)],
                  int_auto := Some (prox_handle s)\<rparr>;
          s3 = limpa (int_solic s) s2
      in s3\<lparr>prox_handle := Suc (Suc (prox_handle s)), vivos := vivos s3 @ [(Suc (prox_handle s), ISolic)],
             int_solic := Some (Suc (prox_handle s))\<rparr>)"
  by (simp add: iniciar_auto_refresh_def novo_intervalo_def Let_def)

lemma inv_vivo_menor: "inv_refresh s \<Longrightarrow> (h, k) \<in> set (vivos s) \<Longrightarrow> h < prox_handle s"
  by (auto simp: inv_refresh_def)

lemma inv_iniciar: "inv_refresh s \<Longrightarrow> inv_refresh (iniciar_auto_refresh s)"
  unfolding iniciar_auto_refresh_eq Let_def
  by (auto simp: inv_refresh_def vivos_limpa distinct_map_filter dest: inv_vivo_menor [rotated])

lemma inv_parar: "inv_refresh s \<Longrightarrow> inv_refresh (parar_auto_refresh s)"
  by (simp add: parar_auto_refresh_def inv_limpa)

lemma inv_funpow: "(\<And>s. inv_refresh s \<Longrightarrow> inv_refresh (f s)) \<Longrightarrow> inv_refresh s \<Longrightarrow> inv_refresh ((f ^^ n) s)"
  by (induction n) simp_all

lemma inv_configurar: "inv_refresh s \<Longrightarrow> inv_refresh (configurar_listeners_modals s)"
  by (simp add: inv_refresh_def configurar_listeners_modals_def)

lemma inv_carregar_pagina:
  "inv_refresh (refresh pn) \<Longrightarrow> inv_refresh (refresh (fst (carregar_pagina path pn)))"
  by (simp add: carregar_pagina_def inv_iniciar inv_configurar split: prod.split)

lemma inv_passo: "inv_refresh (refresh pn) \<Longrightarrow> inv_refresh (refresh (fst (passo_refresh pn e)))"
  by (cases e)
     (auto simp: inv_carregar_pagina visibilidade_def mostra_modal_def fecha_modal_def abre_instalar_def
                 Let_def inv_parar inv_iniciar inv_funpow split: prod.split,
      auto simp: inv_refresh_def)

lemma fst_executa_Cons: "fst (executa_refresh pn (e # es)) = fst (executa_refresh (fst (passo_refresh pn e)) es)"
  by (simp split: prod.split)

lemma inv_executa: "inv_refresh (refresh pn) \<Longrightarrow> inv_refresh (refresh (fst (executa_refresh pn es)))"
  by (induction es arbitrary: pn) (simp_all only: fst_executa_Cons inv_passo, simp)

lemma inv_executa_inicial: "inv_refresh (refresh (fst (executa_refresh painel_inicial es)))"
  by (rule inv_executa) (simp add: painel_inicial_def inv_refresh_inicial)

text \<open>At most one live interval of each kind: the interval a handler leaves
  behind is the one its variable names, and the next start clears it.\<close>

lemma um_por_tipo: "inv_refresh s \<Longrightarrow> length (filter (\<lambda>(h, k). k = t) (vivos s)) \<le> 1"
proof -
  assume i: "inv_refresh s"
  let ?ys = "filter (\<lambda>(h, k). k = t) (vivos s)"
  obtain v where v: "v = (case t of IAuto \<Rightarrow> int_auto s | ISolic \<Rightarrow> int_solic s)" by simp
  have "distinct (map fst ?ys)" using i by (simp add: inv_refresh_def distinct_map_filter)
  hence "length ?ys = card (set (map fst ?ys))" by (metis distinct_card length_map)
  moreover have "set (map fst ?ys) \<subseteq> set_option v"
    using i by (cases t) (auto simp: inv_refresh_def v)
  moreover have "finite (set_option v)" "card (set_option v) \<le> 1" by (cases v; simp)+
  ultimately show ?thesis by (metis card_mono le_trans)
qed

lemma inv_vivo_var: "inv_refresh s \<Longrightarrow> (h, k) \<in> set (vivos s) \<Longrightarrow> int_auto s = Some h \<or> int_solic s = Some h"
  by (cases k) (auto simp: inv_refresh_def)

lemma parar_sem_vivos: "inv_refresh s \<Longrightarrow> vivos (parar_auto_refresh s) = []"
  by (auto simp: parar_auto_refresh_def vivos_limpa filter_empty_conv dest: inv_vivo_var)

lemma iniciar_vivos:
  "inv_refresh s \<Longrightarrow>
   filter (\<lambda>(h, k). k = IAuto) (vivos (iniciar_auto_refresh s)) = [(prox_handle s, IAuto)]
   \<and> filter (\<lambda>(h, k). k = ISolic) (vivos (iniciar_auto_refresh s)) = [(Suc (prox_handle s), ISolic)]"
  unfolding iniciar_auto_refresh_eq Let_def
  by (force simp: inv_refresh_def vivos_limpa filter_empty_conv dest: inv_vivo_menor [rotated])

lemma ouvintes_preservados [simp]:
  "ouvintes_instalar (iniciar_auto_refresh s) = ouvintes_instalar s"
  "ouvintes_gerais (iniciar_auto_refresh s) = ouvintes_gerais s"
  "ouvintes_instalar (parar_auto_refresh s) = ouvintes_instalar s"
  "ouvintes_gerais (parar_auto_refresh s) = ouvintes_gerais s"
  by (simp_all add: iniciar_auto_refresh_eq Let_def parar_auto_refresh_def)

lemma parar_vazio: "vivos s = [] \<Longrightarrow> vivos (parar_auto_refresh s) = []"
  by (simp add: parar_auto_refresh_def vivos_limpa)

lemma funpow_parar_vazio: "vivos s = [] \<Longrightarrow> vivos ((parar_auto_refresh ^^ n) s) = []"
  by (induction n) (simp_all add: parar_vazio)

lemma funpow_Suc_inv:
  "inv_refresh s \<Longrightarrow> (\<And>s. inv_refresh s \<Longrightarrow> inv_refresh (f s)) \<Longrightarrow> 0 < n \<Longrightarrow>
   \<exists>s'. inv_refresh s' \<and> (f ^^ n) s = f s'"
  by (cases n) (auto intro: inv_funpow)

text \<open>Showing a modal with a listener pauses the refresh: no interval stays
  live, whichever listeners ran.\<close>

lemma mostra_modal_pausa:
  assumes "inv_refresh s" "ouvintes_gerais s \<or> (i \<and> 0 < ouvintes_instalar s)"
  shows "vivos (mostra_modal i s) = []"
proof (cases "ouvintes_gerais s")
  case True
  then show ?thesis
    using assms(1) by (simp add: mostra_modal_def Let_def parar_sem_vivos funpow_parar_vazio)
next
  case False
  then obtain s' where "inv_refresh s'" "(parar_auto_refresh ^^ ouvintes_instalar s) s = parar_auto_refresh s'"
    using assms funpow_Suc_inv [of s parar_auto_refresh] inv_parar by blast
  with False assms(2) show ?thesis by (simp add: mostra_modal_def parar_sem_vivos)
qed

text \<open>Hiding it resumes the refresh with one interval of each kind, however
  many pairs of listeners the openings of the stored-part modal have added.\<close>

lemma fecha_modal_retoma:
  assumes "inv_refresh s" "ouvintes_gerais s \<or> (i \<and> 0 < ouvintes_instalar s)"
  shows "length (filter (\<lambda>(h, k). k = IAuto) (vivos (fecha_modal i s))) = 1
       \<and> length (filter (\<lambda>(h, k). k = ISolic) (vivos (fecha_modal i s))) = 1"
proof -
  let ?s1 = "if ouvintes_gerais s then iniciar_auto_refresh s else s"
  have i1: "inv_refresh ?s1" using assms(1) by (simp add: inv_iniciar)
  have n1: "ouvintes_instalar ?s1 = ouvintes_instalar s" by simp
  have "\<exists>s'. inv_refresh s' \<and> fecha_modal i s = iniciar_auto_refresh s'"
  proof (cases "i \<and> 0 < ouvintes_instalar s")
    case True
    then show ?thesis
      using funpow_Suc_inv [OF i1, of iniciar_auto_refresh "ouvintes_instalar s"] inv_iniciar n1
      by (auto simp: fecha_modal_def Let_def)
  next
    case False
    with assms show ?thesis by (auto simp: fecha_modal_def Let_def)
  qed
  then show ?thesis using iniciar_vivos by fastforce
qed

lemma tique_modal_aberto: "tem_modal_aberto (modais p) \<Longrightarrow> tique_intervalo h p s = []"
  by (simp add: tique_intervalo_def tique_auto_def tique_solic_def split: option.split intervalo.split)

text \<open>Each part of the dashboard is loaded once: loading a tab again finds its
  flags set and loads nothing.\<close>

lemma carregar_dados_idempotente:
  "carregar_dados_por_aba (Some a) abas d = (c, d') \<Longrightarrow> carregar_dados_por_aba (Some a) abas d' = ([], d')"
  by (auto simp: carregar_dados_por_aba_def carrega_equipe_def js_truthy_str_def Let_def
           split: if_splits prod.splits)

text \<open>On the admin page every present tab loads its data once it is shown, and
  nothing else: the first load of the stages tab is the load of its listener,
  and an inactive tab waits for its \<open>shown.bs.tab\<close>.\<close>

lemma admin_abas_carregam:
  "carregar_pagina_admin etapas equipes pecas = (ouv, cs) \<Longrightarrow>
   (AbaEquipes \<in> set ouv \<longleftrightarrow> equipes \<noteq> None)
   \<and> aba_admin_mostrada ouv AbaEquipes = (if equipes = None then [] else [CarregarEquipesCadastro])
   \<and> (CarregarEquipesCadastro \<in> set cs \<longleftrightarrow> equipes = Some True)
   \<and> (CarregarCampeonatos \<in> set cs \<longleftrightarrow> etapas \<noteq> None)"
  by (auto simp: carregar_pagina_admin_def aba_admin_mostrada_def cargas_aba_admin_def Let_def)

lemma headers_equipe:
  "map_of (obter_headers sessao) ''X-Equipe-ID'' = (if js_truthy_str sessao then sessao else None)
   \<and> map_of (obter_headers sessao) ''Content-Type'' = Some ''application/json''"
  by (auto simp: obter_headers_def js_truthy_str_def split: option.splits)

end
