(* ===== verification/QualRanking.thy ===== *)
theory QualRanking
  imports JsNumbers "HOL-Library.Product_Lexorder" "HOL-Library.Extended_Nat" "HOL-Library.Multiset"
begin

text \<open>
  The qualification tables of src/static/qualificacao.js: the live event table
  (\<open>renderizarPitsEvento\<close>, lines 1226--1350), the admin table
  (\<open>renderizarVoltasAdmin\<close>, lines 1472--1717) and the two handlers that save a
  score (\<open>salvarNotaEquipe\<close>, lines 1352--1393, and \<open>salvarNotaEquipeAdmin\<close>, lines
  1719--1751).  A team of the event is a record whose scores may be absent
  (\<open>null\<close>); \<open>x || 0\<close> reads them.  \<open>Array.prototype.sort\<close> is stable (ECMAScript
  2019), and a stable sort under a consistent comparator has one result, so it
  is modelled by the stable insertion sort \<open>ordenar_js\<close> on the comparator's sign
  (\<open>NaN\<close>, from \<open>Infinity - Infinity\<close>, counts as 0 as the standard says).  The
  lemmas show that each comparator of the code sorts as \<open>sort_key\<close> on a key, and
  that a score shown in an input and saved unchanged is saved as it was.
\<close>

record equipe_evento =
  ee_id :: string
  ee_nome :: string
  ee_piloto :: "string option"
  nota_linha :: "int option"
  nota_angulo :: "int option"
  nota_estilo :: "int option"
  ordem_qualificacao :: "nat option"
  volta_status :: "string option"

text \<open>\<open>x || 0\<close> on a score that may be \<open>null\<close>.\<close>

definition nota :: "int option \<Rightarrow> int" where
  "nota v = (case v of Some n \<Rightarrow> n | None \<Rightarrow> 0)"

definition total_notas :: "equipe_evento \<Rightarrow> int" where
  "total_notas e = nota (nota_linha e) + nota (nota_angulo e) + nota (nota_estilo e)"

subsection \<open>Sorting\<close>

text \<open>\<open>xs.sort(cmp)\<close>: each element goes before the first of the sorted rest that
  it does not follow, so equal elements keep their order.\<close>

fun insere_cmp :: "('a \<Rightarrow> 'a \<Rightarrow> int) \<Rightarrow> 'a \<Rightarrow> 'a list \<Rightarrow> 'a list" where
  "insere_cmp cmp x [] = [x]"
| "insere_cmp cmp x (y # ys) = (if cmp x y \<le> 0 then x # y # ys else y # insere_cmp cmp x ys)"

fun ordenar_js :: "('a \<Rightarrow> 'a \<Rightarrow> int) \<Rightarrow> 'a list \<Rightarrow> 'a list" where
  "ordenar_js cmp [] = []"
| "ordenar_js cmp (x # xs) = insere_cmp cmp x (ordenar_js cmp xs)"

text \<open>The comparator of a finished qualification (lines 1250--1262 and
  1486--1499): the total, then the line score, both decreasing.\<close>

definition cmp_pontuacao :: "equipe_evento \<Rightarrow> equipe_evento \<Rightarrow> int" where
  "cmp_pontuacao a b =
     (let ta = total_notas a; tb = total_notas b
      in if tb \<noteq> ta then tb - ta else nota (nota_linha b) - nota (nota_linha a))"

definition chave_pontuacao :: "equipe_evento \<Rightarrow> int \<times> int" where
  "chave_pontuacao e = (- total_notas e, - nota (nota_linha e))"

text \<open>The comparator of a running qualification (lines 1264--1268):
  \<open>ordem_qualificacao || Infinity\<close>, increasing; an order 0 counts as absent.\<close>

definition ordem_chave :: "equipe_evento \<Rightarrow> enat" where
  "ordem_chave e = (case ordem_qualificacao e of Some n \<Rightarrow> (if n = 0 then \<infinity> else enat n) | None \<Rightarrow> \<infinity>)"

definition cmp_ordem :: "equipe_evento \<Rightarrow> equipe_evento \<Rightarrow> int" where
  "cmp_ordem a b =
     (case (ordem_chave a, ordem_chave b) of
        (enat x, enat y) \<Rightarrow> int x - int y
      | (\<infinity>, enat _) \<Rightarrow> 1
      | (enat _, \<infinity>) \<Rightarrow> -1
      | (\<infinity>, \<infinity>) \<Rightarrow> 0)"

definition ordenar_pits_evento :: "bool \<Rightarrow> equipe_evento list \<Rightarrow> equipe_evento list" where
  "ordenar_pits_evento finalizada es =
     (if finalizada then ordenar_js cmp_pontuacao es else ordenar_js cmp_ordem es)"

definition ordenar_voltas_admin :: "bool \<Rightarrow> equipe_evento list \<Rightarrow> equipe_evento list" where
  "ordenar_voltas_admin finalizada es = (if finalizada then ordenar_js cmp_pontuacao es else es)"

subsection \<open>The cells of a row\<close>

text \<open>The em dash of an unordered team, in UTF-8.\<close>

definition travessao :: string where
  "travessao = [CHR 0xE2, CHR 0x80, CHR 0x94]"

definition rotulo_ordem :: "equipe_evento \<Rightarrow> string" where
  "rotulo_ordem e =
     (case ordem_qualificacao e of
        Some n \<Rightarrow> (if n = 0 then travessao else pad_start 2 CHR ''0'' (js_string_int (int n)))
      | None \<Rightarrow> travessao)"

text \<open>The TOTAL cell: \<open>parseInt(notaLinha) + parseInt(notaAngulo) + parseInt(notaEstilo)\<close>
  of the scores read with \<open>|| 0\<close>; \<open>None\<close> is \<open>NaN\<close>.\<close>

definition soma_notas :: "equipe_evento \<Rightarrow> int option" where
  "soma_notas e =
     (case (parse_int 0 (js_string_int (nota (nota_linha e))), parse_int 0 (js_string_int (nota (nota_angulo e))),
            parse_int 0 (js_string_int (nota (nota_estilo e)))) of
        (Some x, Some y, Some z) \<Rightarrow> Some (x + y + z)
      | _ \<Rightarrow> None)"

text \<open>The \<open>value\<close> of a score input: \<open>`${nota || ''}`\<close>.\<close>

definition valor_input :: "int \<Rightarrow> string" where
  "valor_input n = (if n = 0 then [] else js_string_int n)"

subsection \<open>Saving a score\<close>

datatype resposta_nota = NotaResp nat bool | NotaExcecao   \<comment> \<open>HTTP status and \<open>sucesso\<close>\<close>

datatype efeito_nota =
    PostNota string string string int    \<comment> \<open>etapa, equipe, \<open>nota_<tipo>\<close>, value\<close>
  | ToastApenasAdmins | ToastNotaSalva string | ToastNotaErro | ToastErroSalvar
  | AtualizarTabelaVoltas

text \<open>\<open>salvarNotaEquipe(equipeId, tipoNota, valor)\<close>: \<open>etapa\<close> is \<open>eventos.etapaId\<close>;
  \<open>equipe_ls\<close> and \<open>piloto_ls\<close> are the ids in \<open>localStorage\<close>.  A 403 is thrown and
  caught.\<close>

definition salvar_nota_equipe ::
  "string option \<Rightarrow> string option \<Rightarrow> string option \<Rightarrow> string \<Rightarrow> string \<Rightarrow> string \<Rightarrow> resposta_nota
   \<Rightarrow> efeito_nota list" where
  "salvar_nota_equipe etapa equipe_ls piloto_ls equipe tipo valor r =
     (if \<not> js_truthy_str etapa then []
      else if js_truthy_str equipe_ls \<or> js_truthy_str piloto_ls then [ToastApenasAdmins]
      else PostNota (the etapa) equipe (''nota_'' @ tipo) (js_ou_0 (parse_int 0 valor))
           # (case r of
                NotaResp st ok \<Rightarrow>
                  (if st = 403 then [ToastErroSalvar] else if ok then [ToastNotaSalva tipo] else [ToastNotaErro])
              | NotaExcecao \<Rightarrow> [ToastErroSalvar]))"

text \<open>\<open>salvarNotaEquipeAdmin(equipeId, tipoNota, valor)\<close>: the stage comes from the
  input \<open>#etapaIdAtual\<close>; a success reloads the table after 500 ms.\<close>

definition salvar_nota_equipe_admin ::
  "string \<Rightarrow> string \<Rightarrow> string \<Rightarrow> string \<Rightarrow> resposta_nota \<Rightarrow> efeito_nota list" where
  "salvar_nota_equipe_admin etapa equipe tipo valor r =
     (if etapa = [] then []
      else PostNota etapa equipe (''nota_'' @ tipo) (js_ou_0 (parse_int 0 valor))
           # (case r of
                NotaResp _ ok \<Rightarrow> (if ok then [ToastNotaSalva tipo, AtualizarTabelaVoltas] else [ToastNotaErro])
              | NotaExcecao \<Rightarrow> [ToastErroSalvar]))"

subsection \<open>Lemmas\<close>

text \<open>A comparator whose sign agrees with the order of a key sorts as
  \<open>sort_key\<close> on that key.\<close>

lemma insere_cmp_insort_key:
  "(\<And>a b. cmp a b \<le> 0 \<longleftrightarrow> f a \<le> f b) \<Longrightarrow> insere_cmp cmp x xs = insort_key f x xs"
  by (induction xs) auto

lemma ordenar_js_sort_key:
  "(\<And>a b. cmp a b \<le> 0 \<longleftrightarrow> f a \<le> f b) \<Longrightarrow> ordenar_js cmp xs = sort_key f xs"
  by (induction xs) (simp_all add: insere_cmp_insort_key)

lemma cmp_pontuacao_chave: "cmp_pontuacao a b \<le> 0 \<longleftrightarrow> chave_pontuacao a \<le> chave_pontuacao b"
  by (auto simp: cmp_pontuacao_def chave_pontuacao_def Let_def less_eq_prod_def)

lemma cmp_ordem_chave: "cmp_ordem a b \<le> 0 \<longleftrightarrow> ordem_chave a \<le> ordem_chave b"
  by (auto simp: cmp_ordem_def split: enat.split)

lemma ordenar_pontuacao_sort_key: "ordenar_js cmp_pontuacao es = sort_key chave_pontuacao es"
  by (rule ordenar_js_sort_key) (rule cmp_pontuacao_chave)

lemma ordenar_ordem_sort_key: "ordenar_js cmp_ordem es = sort_key ordem_chave es"
  by (rule ordenar_js_sort_key) (rule cmp_ordem_chave)

text \<open>What the sort promises: the same teams, ordered by the key, and teams
  with equal keys in the order the server sent them.\<close>

lemma sort_key_especificacao:
  "mset (sort_key f xs) = mset xs \<and> sorted (map f (sort_key f xs))
   \<and> (\<forall>k. filter (\<lambda>y. f y = k) (sort_key f xs) = filter (\<lambda>y. f y = k) xs)"
  by (simp add: sort_key_stable)

text \<open>A running qualification lists the ordered teams first, by order, and the
  teams without an order (or with order 0) last, in the server's order.\<close>

lemma pits_sem_ordem_no_fim:
  "filter (\<lambda>e. ordem_chave e = \<infinity>) (ordenar_pits_evento False es) = filter (\<lambda>e. ordem_chave e = \<infinity>) es
   \<and> sorted (map ordem_chave (ordenar_pits_evento False es))"
  by (simp add: ordenar_pits_evento_def ordenar_ordem_sort_key sort_key_stable)

lemma parse_valor_input: "js_ou_0 (parse_int 0 (valor_input n)) = n"
proof (cases "n = 0")
  case True
  then show ?thesis by (simp add: valor_input_def js_ou_0_def parse_int_def prefixo_hex_def)
next
  case False
  then show ?thesis by (simp add: valor_input_def js_ou_0_def parse_int_js_string_int)
qed

text \<open>The TOTAL cell shows the total by which the finished table is sorted.\<close>

lemma soma_notas_total: "soma_notas e = Some (total_notas e)"
  by (simp add: soma_notas_def total_notas_def parse_int_js_string_int)

text \<open>A score shown in an input and saved without change is saved as it was
  shown, by both handlers, also when it is 0 and the input is empty.\<close>

lemma nota_exibida_salva_igual:
  "etapa \<noteq> [] \<Longrightarrow>
   hd (salvar_nota_equipe (Some etapa) None None eq tipo (valor_input n) r) = PostNota etapa eq (''nota_'' @ tipo) n
   \<and> hd (salvar_nota_equipe_admin etapa eq tipo (valor_input n) r) = PostNota etapa eq (''nota_'' @ tipo) n"
  by (simp add: salvar_nota_equipe_def salvar_nota_equipe_admin_def js_truthy_str_def parse_valor_input)

text \<open>Nothing bounds a typed score: the inputs declare \<open>min="0"\<close> and
  \<open>max="40"\<close> or \<open>max="30"\<close>, but \<open>parseInt\<close> of what was typed is sent as it is.\<close>

lemma nota_sem_limite:
  "hd (salvar_nota_equipe (Some ''e1'') None None ''q1'' ''linha'' ''99'' r) = PostNota ''e1'' ''q1'' ''nota_linha'' 99
   \<and> hd (salvar_nota_equipe (Some ''e1'') None None ''q1'' ''angulo'' ''-5'' r) = PostNota ''e1'' ''q1'' ''nota_angulo'' (-5)"
  by code_simp

subsection \<open>Properties\<close>

text \<open>C32. The live table and the admin table of a finished qualification sort
  the teams by the same rule, and that rule is \<open>sort_key\<close> on the pair (minus the
  total, minus the line score): the same teams, by decreasing total, ties by
  decreasing line score, and teams equal on both in the order the server sent.\<close>

theorem tabelas_ordenam_por_pontuacao:
  "ordenar_pits_evento True es = sort_key chave_pontuacao es
   \<and> ordenar_voltas_admin True es = sort_key chave_pontuacao es"
  by (simp add: ordenar_pits_evento_def ordenar_voltas_admin_def ordenar_pontuacao_sort_key)

end
