(* ===== verification/BattleModal.thy ===== *)
theory BattleModal
  imports JsNumbers
begin

text \<open>
  The modal of a bracket match in src/static/qualificacao.js
  (\<open>abrirModalPartida\<close>, lines 1973--2057; \<open>carregarPilotosNoModal\<close>, 2059--2077;
  \<open>executarPassada\<close>, 2148--2182).  Each opening creates a new modal element with
  id \<open>modalPartidaBatalha\<close>, whose \<open>dataset.passadaCount\<close> holds the number of runs
  ("passadas") done from it, as a string, and whose button runs one more while
  the count is below 2.  The team ids a run sends are written into the dataset
  of the modal that \<open>getElementById\<close> finds when the team list arrives, and the
  count label is written into the \<open>#passadaCount\<close> it finds when the answer
  arrives.  The state keeps every modal created (the open one is found by id;
  a closed one lives on in the closures of its requests), the requests in
  flight, and the runs the server executed.
\<close>

subsection \<open>Finding the teams of a match\<close>

record equipe_pits =
  ep_id :: string
  ep_nome :: "string option"

text \<open>\<open>s.includes(t)\<close>.\<close>

definition contem :: "string \<Rightarrow> string \<Rightarrow> bool" where
  "contem s t \<longleftrightarrow> list_ex (\<lambda>i. take (length t) (drop i s) = t) [0..<Suc (length s)]"

text \<open>The predicate of \<open>data.equipes.find\<close> (lines 2064--2065): the trimmed names are
  equal, or the team's name contains the player's name.\<close>

definition casa_nome :: "string option \<Rightarrow> equipe_pits \<Rightarrow> bool" where
  "casa_nome nome e \<longleftrightarrow>
     trim (js_or_str (ep_nome e) []) = trim (js_or_str nome [])
     \<or> (js_truthy_str nome \<and> contem (js_or_str (ep_nome e) []) (the nome))"

definition procurar_equipe :: "string option \<Rightarrow> equipe_pits list \<Rightarrow> equipe_pits option" where
  "procurar_equipe nome es = find (casa_nome nome) es"

definition id_ou_vazio :: "equipe_pits option \<Rightarrow> string" where
  "id_ou_vazio e = (case e of Some x \<Rightarrow> ep_id x | None \<Rightarrow> [])"

datatype resposta_equipes = EquipesOk "equipe_pits list" | EquipesFalha | EquipesExcecao

subsection \<open>The life of the parts\<close>

text \<open>A part as \<open>/api/etapas/<id>/pecas-batalha\<close> sends it; absent fields are
  \<open>None\<close>.\<close>

record peca_vida =
  pv_tipo :: "string option"
  pv_nome :: "string option"
  pv_percentual :: "int option"
  pv_atual :: "int option"
  pv_maxima :: "int option"

text \<open>\<open>Math.round(x)\<close> rounds halves up.\<close>

definition js_round :: "real \<Rightarrow> int" where
  "js_round x = \<lfloor>x + 1 / 2\<rfloor>"

text \<open>\<open>p.percentual ?? Math.round((p.durabilidade_atual || 0) / (p.durabilidade_maxima || 100) * 100)\<close>:
  \<open>??\<close> keeps a percentage of 0, \<open>||\<close> replaces a maximum of 0.\<close>

definition percentual_peca :: "peca_vida \<Rightarrow> int" where
  "percentual_peca p =
     (case pv_percentual p of
        Some x \<Rightarrow> x
      | None \<Rightarrow>
          (let a = (case pv_atual p of Some x \<Rightarrow> x | None \<Rightarrow> 0);
               m = (case pv_maxima p of Some x \<Rightarrow> (if x = 0 then 100 else x) | None \<Rightarrow> 100)
           in js_round (real_of_int a / real_of_int m * 100)))"

datatype cor_vida = Verde | Amarelo | Vermelho

definition cor_percentual :: "int \<Rightarrow> cor_vida" where
  "cor_percentual pct = (if 60 < pct then Verde else if 30 < pct then Amarelo else Vermelho)"

text \<open>\<open>String.prototype.replace('_', '-')\<close> replaces the first underscore only.\<close>

fun troca_primeiro :: "char \<Rightarrow> char \<Rightarrow> string \<Rightarrow> string" where
  "troca_primeiro a b [] = []"
| "troca_primeiro a b (x # xs) = (if x = a then b # xs else x # troca_primeiro a b xs)"

definition rotulo_peca :: "peca_vida \<Rightarrow> string" where
  "rotulo_peca p =
     troca_primeiro CHR ''_'' CHR ''-'' (js_or_str (pv_tipo p) (js_or_str (pv_nome p) ''?''))"

text \<open>\<open>formatarVidaPecas(pecas)\<close>: a line per part with its label, percentage
  and colour; no part gives the message \<open>None\<close>.\<close>

definition formatar_vida_pecas :: "peca_vida list \<Rightarrow> (string \<times> int \<times> cor_vida) list option" where
  "formatar_vida_pecas ps =
     (if ps = [] then None
      else Some (map (\<lambda>p. (rotulo_peca p, percentual_peca p, cor_percentual (percentual_peca p))) ps))"

subsection \<open>The modals and the runs\<close>

record modal_partida =
  mp_contagem :: string        \<comment> \<open>\<open>dataset.passadaCount\<close>\<close>
  mp_botao :: bool             \<comment> \<open>the run button exists (no winner yet)\<close>
  mp_desabilitado :: bool      \<comment> \<open>\<open>btnExecutarPassada.disabled\<close>\<close>
  mp_rotulo :: string          \<comment> \<open>the text of its \<open>#passadaCount\<close>\<close>
  mp_nome1 :: string           \<comment> \<open>\<open>dataset.eq1Nome\<close>\<close>
  mp_nome2 :: string
  mp_equipe1 :: string         \<comment> \<open>\<open>dataset.equipe1Id\<close>, empty while unset\<close>
  mp_equipe2 :: string

text \<open>The body of \<open>POST /api/etapas/<id>/executar-passada\<close> (lines 2152--2156):
  each field only when it is a non-empty string.\<close>

record payload_passada =
  pp_equipe1_id :: "string option"
  pp_equipe2_id :: "string option"
  pp_equipe1_nome :: "string option"
  pp_equipe2_nome :: "string option"

definition campo_se_vazio :: "string \<Rightarrow> string option" where
  "campo_se_vazio v = (if v = [] then None else Some v)"

text \<open>The \<open>dados\<close> the click listener passes (\<open>modal?.dataset?.equipe1Id || ''\<close>,
  \<open>eq1Nome\<close>, ...), read from the modal in the DOM, and the payload built from
  them.\<close>

definition payload_de :: "modal_partida \<Rightarrow> payload_passada" where
  "payload_de m = \<lparr>pp_equipe1_id = campo_se_vazio (mp_equipe1 m), pp_equipe2_id = campo_se_vazio (mp_equipe2 m),
                    pp_equipe1_nome = campo_se_vazio (mp_nome1 m), pp_equipe2_nome = campo_se_vazio (mp_nome2 m)\<rparr>"

text \<open>A request in flight: the modal it came from, the count read when it was
  sent (\<open>None\<close> is \<open>NaN\<close>), and the payload it sent.\<close>

type_synonym pedido_passada = "nat \<times> int option \<times> payload_passada"

record batalha_st =
  modais_partida :: "modal_partida list"
  aberto_partida :: "nat option"                \<comment> \<open>the modal in the DOM\<close>
  pedidos :: "pedido_passada list"
  passadas :: "(nat \<times> payload_passada) list"  \<comment> \<open>runs executed: modal and payload\<close>

definition batalha_inicial :: batalha_st where
  "batalha_inicial = \<lparr>modais_partida = [], aberto_partida = None, pedidos = [], passadas = []\<rparr>"

text \<open>\<open>String(n)\<close> of a count that may be \<open>NaN\<close>.\<close>

definition str_contagem :: "int option \<Rightarrow> string" where
  "str_contagem c = (case c of Some k \<Rightarrow> js_string_int k | None \<Rightarrow> ''NaN'')"

text \<open>\<open>parseInt(modal.dataset.passadaCount || '0', 10)\<close>, and the tests \<open>count >= 2\<close>
  and \<open>count < 2\<close>, both false on \<open>NaN\<close>.\<close>

definition ler_contagem :: "modal_partida \<Rightarrow> int option" where
  "ler_contagem m = parse_int 10 (if mp_contagem m = [] then ''0'' else mp_contagem m)"

definition no_limite :: "int option \<Rightarrow> bool" where
  "no_limite c = (case c of Some k \<Rightarrow> 2 \<le> k | None \<Rightarrow> False)"

definition abaixo_limite :: "int option \<Rightarrow> bool" where
  "abaixo_limite c = (case c of Some k \<Rightarrow> k < 2 | None \<Rightarrow> False)"

text \<open>\<open>abrirModalPartida(etapaId, match)\<close>: a new modal with count \<open>'0'\<close>; the run
  button only when the match has no winner.\<close>

definition abrir_modal_partida :: "string option \<Rightarrow> string option \<Rightarrow> bool \<Rightarrow> batalha_st \<Rightarrow> batalha_st" where
  "abrir_modal_partida n1 n2 tem_vencedor s =
     (let m = \<lparr>mp_contagem = ''0'', mp_botao = \<not> tem_vencedor, mp_desabilitado = False, mp_rotulo = ''(0/2)'',
               mp_nome1 = js_or_str n1 [], mp_nome2 = js_or_str n2 [], mp_equipe1 = [], mp_equipe2 = []\<rparr>
      in s\<lparr>modais_partida := modais_partida s @ [m], aberto_partida := Some (length (modais_partida s))\<rparr>)"

text \<open>The end of \<open>carregarPilotosNoModal(etapaId, nome1, nome2)\<close>: the ids go to the
  modal that is in the DOM now.\<close>

definition carregar_pilotos_no_modal ::
  "string option \<Rightarrow> string option \<Rightarrow> resposta_equipes \<Rightarrow> batalha_st \<Rightarrow> batalha_st" where
  "carregar_pilotos_no_modal n1 n2 r s =
     (case r of
        EquipesOk es \<Rightarrow>
          (case aberto_partida s of
             Some i \<Rightarrow>
               (let e1 = id_ou_vazio (procurar_equipe n1 es); e2 = id_ou_vazio (procurar_equipe n2 es)
                in s\<lparr>modais_partida := (modais_partida s)[i := (modais_partida s ! i)\<lparr>mp_equipe1 := e1, mp_equipe2 := e2\<rparr>]\<rparr>)
           | None \<Rightarrow> s)
      | _ \<Rightarrow> s)"

text \<open>A click on the run button of the open modal (lines 2043--2054) and the
  start of \<open>executarPassada\<close>: a disabled or absent button gets no click
  (\<open>None\<close>).\<close>

definition clicar_passada :: "batalha_st \<Rightarrow> batalha_st option" where
  "clicar_passada s =
     (case aberto_partida s of
        None \<Rightarrow> None
      | Some i \<Rightarrow>
          (let m = modais_partida s ! i; c = ler_contagem m
           in if \<not> mp_botao m \<or> mp_desabilitado m then None
              else if no_limite c then Some s
              else Some (s\<lparr>modais_partida := (modais_partida s)[i := m\<lparr>mp_desabilitado := True\<rparr>],
                          pedidos := pedidos s @ [(i, c, payload_de m)]\<rparr>)))"

text \<open>\<open>document.getElementById('passadaCount').textContent = ...\<close>: the label
  of the modal in the DOM, when it has one.\<close>

definition rotular_aberto :: "string \<Rightarrow> batalha_st \<Rightarrow> batalha_st" where
  "rotular_aberto txt s =
     (case aberto_partida s of
        Some j \<Rightarrow> (if mp_botao (modais_partida s ! j)
                   then s\<lparr>modais_partida := (modais_partida s)[j := (modais_partida s ! j)\<lparr>mp_rotulo := txt\<rparr>]\<rparr>
                   else s)
      | None \<Rightarrow> s)"

text \<open>The success branch of \<open>executarPassada\<close> (lines 2163--2170) for a request
  from modal \<open>i\<close> that read the count \<open>c\<close> and sent the payload \<open>pl\<close>, which the
  server has run.\<close>

definition sucesso_passada :: "nat \<Rightarrow> int option \<Rightarrow> payload_passada \<Rightarrow> batalha_st \<Rightarrow> batalha_st" where
  "sucesso_passada i c pl s =
     (let novo = map_option (\<lambda>x. x + 1) c;
          m = modais_partida s ! i;
          s1 = s\<lparr>modais_partida := (modais_partida s)[i := m\<lparr>mp_contagem := str_contagem novo,
                                                          mp_desabilitado := (no_limite novo \<or> mp_desabilitado m)\<rparr>]\<rparr>;
          s2 = rotular_aberto (''('' @ str_contagem novo @ ''/2)'') s1
      in s2\<lparr>passadas := passadas s @ [(i, pl)]\<rparr>)"

text \<open>The \<open>finally\<close> block (lines 2179--2181): the button of modal \<open>i\<close> is enabled
  again while its count is below 2.\<close>

definition finally_passada :: "nat \<Rightarrow> batalha_st \<Rightarrow> batalha_st" where
  "finally_passada i s =
     (let m = modais_partida s ! i
      in if abaixo_limite (ler_contagem m)
         then s\<lparr>modais_partida := (modais_partida s)[i := m\<lparr>mp_desabilitado := False\<rparr>]\<rparr>
         else s)"

text \<open>The answer to the \<open>k\<close>-th request in flight.\<close>

definition resposta_passada :: "nat \<Rightarrow> bool \<Rightarrow> batalha_st \<Rightarrow> batalha_st option" where
  "resposta_passada k ok s =
     (if length (pedidos s) \<le> k then None
      else
        (let (i, c, pl) = pedidos s ! k;
             s1 = s\<lparr>pedidos := take k (pedidos s) @ drop (Suc k) (pedidos s)\<rparr>
         in Some (finally_passada i (if ok then sucesso_passada i c pl s1 else s1))))"

datatype evento_batalha =
    AbrirPartida "string option" "string option" bool
  | FecharPartida
  | PilotosCarregados "string option" "string option" resposta_equipes
  | CliquePassada
  | RespostaPassada nat bool

text \<open>A match modal opens only when none is open (the backdrop of an open modal
  takes the clicks on the bracket).\<close>

fun passo_batalha :: "batalha_st \<Rightarrow> evento_batalha \<Rightarrow> batalha_st option" where
  "passo_batalha s (AbrirPartida n1 n2 v) =
     (if aberto_partida s = None then Some (abrir_modal_partida n1 n2 v s) else None)"
| "passo_batalha s FecharPartida = (if aberto_partida s = None then None else Some (s\<lparr>aberto_partida := None\<rparr>))"
| "passo_batalha s (PilotosCarregados n1 n2 r) = Some (carregar_pilotos_no_modal n1 n2 r s)"
| "passo_batalha s CliquePassada = clicar_passada s"
| "passo_batalha s (RespostaPassada k ok) = resposta_passada k ok s"

fun executa_batalha :: "batalha_st \<Rightarrow> evento_batalha list \<Rightarrow> batalha_st option" where
  "executa_batalha s [] = Some s"
| "executa_batalha s (e # es) = (case passo_batalha s e of None \<Rightarrow> None | Some s' \<Rightarrow> executa_batalha s' es)"

inductive alcanca_batalha :: "batalha_st \<Rightarrow> bool" where
  inicio: "alcanca_batalha batalha_inicial"
| passo: "alcanca_batalha s \<Longrightarrow> passo_batalha s e = Some s' \<Longrightarrow> alcanca_batalha s'"

text \<open>\<open>carregarVidaPecasModal(etapaId, equipe1Id, equipe2Id)\<close> (lines
  2079--2106), called with \<open>equipe_id || ''\<close>: the two life texts, \<open>None\<close>
  when \<open>#modalP1Vida\<close> or \<open>#modalP2Vida\<close> is missing.  A car of the answer
  carries its \<open>pecas\<close>, absent or \<open>null\<close> as \<open>None\<close>; a missing car is
  \<open>{pecas: []}\<close>.\<close>

datatype vida_texto = VidaNaoIdentificadas | VidaErroCarregar | VidaErro
  | VidaPecas "(string \<times> int \<times> cor_vida) list option"

datatype resposta_vida = VidaResp bool "peca_vida list option list option" | VidaExcecao
  \<comment> \<open>\<open>sucesso\<close> and \<open>carros\<close> when it is an array\<close>

definition vida_do_carro :: "peca_vida list option list \<Rightarrow> nat \<Rightarrow> vida_texto" where
  "vida_do_carro cs i = VidaPecas (formatar_vida_pecas (if i < length cs then (case cs ! i of Some ps \<Rightarrow> ps | None \<Rightarrow> []) else []))"

definition carregar_vida_pecas_modal :: "bool \<Rightarrow> string \<Rightarrow> string \<Rightarrow> resposta_vida \<Rightarrow> (vida_texto \<times> vida_texto) option" where
  "carregar_vida_pecas_modal tem_els eq1 eq2 r =
     (if \<not> tem_els then None
      else if eq1 = [] \<and> eq2 = [] then Some (VidaNaoIdentificadas, VidaNaoIdentificadas)
      else case r of
             VidaResp True (Some cs) \<Rightarrow> Some (vida_do_carro cs 0, vida_do_carro cs 1)
           | VidaResp _ _ \<Rightarrow> Some (VidaErroCarregar, VidaErroCarregar)
           | VidaExcecao \<Rightarrow> Some (VidaErro, VidaErro))"

subsection \<open>The invariant\<close>

definition conta_modal :: "nat \<Rightarrow> (nat \<times> 'a) list \<Rightarrow> nat" where
  "conta_modal i xs = length (filter (\<lambda>x. fst x = i) xs)"

text \<open>Every modal's \<open>passadaCount\<close> is the printed number of runs the server
  executed from it; runs and requests in flight of one modal are at most 2,
  at most one request is in flight, and then the button is disabled; each
  request read the count of its modal.\<close>

definition inv_batalha :: "batalha_st \<Rightarrow> bool" where
  "inv_batalha s \<longleftrightarrow>
     pred_option (\<lambda>i. i < length (modais_partida s)) (aberto_partida s)
     \<and> (\<forall>x \<in> set (passadas s). fst x < length (modais_partida s))
     \<and> (\<forall>x \<in> set (pedidos s). fst x < length (modais_partida s)
                                \<and> fst (snd x) = Some (int (conta_modal (fst x) (passadas s))))
     \<and> (\<forall>i < length (modais_partida s).
          mp_contagem (modais_partida s ! i) = js_string_int (int (conta_modal i (passadas s)))
          \<and> conta_modal i (passadas s) + conta_modal i (pedidos s) \<le> 2
          \<and> conta_modal i (pedidos s) \<le> 1
          \<and> (0 < conta_modal i (pedidos s) \<longrightarrow> mp_desabilitado (modais_partida s ! i)))"

text \<open>Two scenarios.  \<open>equipes_ab\<close> is the team list of a stage with the
  teams of two matches; \<open>corrida_reaberta\<close> runs a match twice, closes its modal,
  opens it again and runs twice more; \<open>corrida_obsoleta\<close> opens the match A-B,
  closes it before its team list arrives, opens the match C-D, and the list of
  C-D arrives (the late list of A-B is still to come).\<close>

definition equipes_ab :: "equipe_pits list" where
  "equipes_ab = [\<lparr>ep_id = ''1'', ep_nome = Some ''A''\<rparr>, \<lparr>ep_id = ''2'', ep_nome = Some ''B''\<rparr>,
                 \<lparr>ep_id = ''3'', ep_nome = Some ''C''\<rparr>, \<lparr>ep_id = ''4'', ep_nome = Some ''D''\<rparr>]"

definition corrida_reaberta :: "evento_batalha list" where
  "corrida_reaberta =
     [AbrirPartida (Some ''A'') (Some ''B'') False, PilotosCarregados (Some ''A'') (Some ''B'') (EquipesOk equipes_ab),
      CliquePassada, RespostaPassada 0 True, CliquePassada, RespostaPassada 0 True, FecharPartida,
      AbrirPartida (Some ''A'') (Some ''B'') False, PilotosCarregados (Some ''A'') (Some ''B'') (EquipesOk equipes_ab),
      CliquePassada, RespostaPassada 0 True, CliquePassada, RespostaPassada 0 True]"

definition corrida_obsoleta :: "evento_batalha list" where
  "corrida_obsoleta =
     [AbrirPartida (Some ''A'') (Some ''B'') False, FecharPartida, AbrirPartida (Some ''C'') (Some ''D'') False,
      PilotosCarregados (Some ''C'') (Some ''D'') (EquipesOk equipes_ab)]"

subsection \<open>Lemmas\<close>

lemma conta_modal_snoc [simp]:
  "conta_modal i (xs @ [x]) = conta_modal i xs + (if fst x = i then 1 else 0)"
  by (simp add: conta_modal_def)

lemma conta_modal_remove:
  "k < length xs \<Longrightarrow>
   conta_modal i (take k xs @ drop (Suc k) xs) + (if fst (xs ! k) = i then 1 else 0) = conta_modal i xs"
proof -
  assume k: "k < length xs"
  have "xs = take k xs @ xs ! k # drop (Suc k) xs" using k by (simp add: id_take_nth_drop)
  then have "conta_modal i xs = conta_modal i (take k xs @ xs ! k # drop (Suc k) xs)" by simp
  then show ?thesis by (simp add: conta_modal_def)
qed

lemma conta_modal_zero: "\<forall>x \<in> set xs. fst x < n \<Longrightarrow> conta_modal n xs = 0"
  by (auto simp: conta_modal_def filter_empty_conv)

lemma conta_modal_fora: "\<forall>x \<in> set xs. fst x < n \<Longrightarrow> n \<le> i \<Longrightarrow> conta_modal i xs = 0"
  by (fastforce simp: conta_modal_def filter_empty_conv)

lemma conta_modal_pos: "x \<in> set xs \<Longrightarrow> 0 < conta_modal (fst x) xs"
  by (auto simp: conta_modal_def filter_empty_conv length_greater_0_conv)

lemma js_string_int_0: "js_string_int 0 = ''0''"
proof -
  have "(of_char CHR ''0'' :: nat) = 48" by simp
  then have "char_of (48::nat) = CHR ''0''" by (metis char_of_char)
  then show ?thesis by (simp add: js_string_int_def string_of_nat.simps)
qed

lemma js_string_int_ne: "js_string_int i \<noteq> []"
  by (simp add: js_string_int_def)

lemma ler_contagem_equipes [simp]:
  "ler_contagem (m\<lparr>mp_equipe1 := a, mp_equipe2 := b\<rparr>) = ler_contagem m"
  by (simp add: ler_contagem_def)

lemma ler_contagem_int: "mp_contagem m = js_string_int (int n) \<Longrightarrow> ler_contagem m = Some (int n)"
  by (simp add: ler_contagem_def js_string_int_ne parse_int_js_string_int)

text \<open>Changing a modal in a way that keeps its count, and keeps it disabled
  while a request of it is in flight, keeps the invariant.\<close>

lemma inv_atualiza_modal:
  assumes "inv_batalha s" "i < length (modais_partida s)"
      and "mp_contagem m = mp_contagem (modais_partida s ! i)"
      and "0 < conta_modal i (pedidos s) \<longrightarrow> mp_desabilitado m"
  shows "inv_batalha (s\<lparr>modais_partida := (modais_partida s)[i := m]\<rparr>)"
  using assms by (auto simp: inv_batalha_def nth_list_update)

lemma inv_abrir: "inv_batalha s \<Longrightarrow> inv_batalha (abrir_modal_partida n1 n2 v s)"
  by (auto simp: inv_batalha_def abrir_modal_partida_def nth_append js_string_int_0 conta_modal_zero
                 less_Suc_eq)

lemma inv_aberto: "inv_batalha s \<Longrightarrow> aberto_partida s = Some i \<Longrightarrow> i < length (modais_partida s)"
  by (simp add: inv_batalha_def)

lemma inv_desab:
  "inv_batalha s \<Longrightarrow> i < length (modais_partida s) \<Longrightarrow> 0 < conta_modal i (pedidos s) \<Longrightarrow>
   mp_desabilitado (modais_partida s ! i)"
  by (simp add: inv_batalha_def)

lemma inv_desab_aberto:
  "inv_batalha s \<Longrightarrow> aberto_partida s = Some i \<Longrightarrow> 0 < conta_modal i (pedidos s) \<Longrightarrow>
   mp_desabilitado (modais_partida s ! i)"
  by (simp add: inv_desab inv_aberto)

lemma inv_carregar_pilotos: "inv_batalha s \<Longrightarrow> inv_batalha (carregar_pilotos_no_modal n1 n2 r s)"
  by (auto simp: carregar_pilotos_no_modal_def Let_def dest: inv_aberto intro!: inv_atualiza_modal
           simp: inv_desab_aberto split: resposta_equipes.split option.split)

lemma inv_rotular: "inv_batalha s \<Longrightarrow> inv_batalha (rotular_aberto t s)"
  by (auto simp: rotular_aberto_def dest: inv_aberto intro!: inv_atualiza_modal simp: inv_desab_aberto
           split: option.split)

lemma inv_clicar:
  assumes inv: "inv_batalha s" and c: "clicar_passada s = Some s'"
  shows "inv_batalha s'"
proof -
  obtain i where a: "aberto_partida s = Some i"
    using c by (cases "aberto_partida s") (auto simp: clicar_passada_def)
  define m where "m = modais_partida s ! i"
  have i: "i < length (modais_partida s)" using inv a by (rule inv_aberto)
  have nd: "mp_botao m" "\<not> mp_desabilitado m"
    using c a by (auto simp: clicar_passada_def m_def Let_def split: if_splits)
  have p0: "conta_modal i (pedidos s) = 0" using inv_desab_aberto [OF inv a] nd(2) by (auto simp: m_def)
  let ?n = "conta_modal i (passadas s)"
  have lc: "ler_contagem m = Some (int ?n)"
    using inv i by (simp add: inv_batalha_def m_def ler_contagem_int)
  show ?thesis
  proof (cases "?n < 2")
    case False
    then have "s' = s" using c a nd lc by (simp add: clicar_passada_def m_def [symmetric] Let_def no_limite_def)
    with inv show ?thesis by simp
  next
    case True
    then have s': "s' = s\<lparr>modais_partida := (modais_partida s)[i := m\<lparr>mp_desabilitado := True\<rparr>],
                      pedidos := pedidos s @ [(i, Some (int ?n), payload_de m)]\<rparr>"
      using c a nd lc by (simp add: clicar_passada_def m_def [symmetric] Let_def no_limite_def)
    show ?thesis
      using inv i p0 True unfolding s' by (auto simp: inv_batalha_def nth_list_update m_def)
  qed
qed

lemma inv_finally:
  "inv_batalha s \<Longrightarrow> i < length (modais_partida s) \<Longrightarrow> conta_modal i (pedidos s) = 0 \<Longrightarrow>
   inv_batalha (finally_passada i s)"
  by (auto simp: finally_passada_def Let_def intro!: inv_atualiza_modal)

lemma rotular_passadas:
  "(rotular_aberto t s)\<lparr>passadas := p\<rparr> = rotular_aberto t (s\<lparr>passadas := p\<rparr>)"
  by (simp add: rotular_aberto_def split: option.split)

lemma campos_rotular [simp]:
  "pedidos (rotular_aberto t s) = pedidos s" "length (modais_partida (rotular_aberto t s)) = length (modais_partida s)"
  by (simp_all add: rotular_aberto_def split: option.split)

lemma campos_sucesso [simp]:
  "pedidos (sucesso_passada i c pl s) = pedidos s"
  "length (modais_partida (sucesso_passada i c pl s)) = length (modais_partida s)"
  by (simp_all add: sucesso_passada_def Let_def)

lemma inv_sucesso:
  assumes inv: "inv_batalha s" and i: "i < length (modais_partida s)"
      and p0: "conta_modal i (pedidos s) = 0" and c: "c = Some (int (conta_modal i (passadas s)))"
      and n: "conta_modal i (passadas s) < 2"
  shows "inv_batalha (sucesso_passada i c pl s)"
proof -
  let ?n = "conta_modal i (passadas s)"
  define m where "m = modais_partida s ! i"
  let ?s1 = "s\<lparr>modais_partida := (modais_partida s)[i := m\<lparr>mp_contagem := js_string_int (int ?n + 1),
                                                mp_desabilitado := (2 \<le> int ?n + 1 \<or> mp_desabilitado m)\<rparr>],
                passadas := passadas s @ [(i, pl)]\<rparr>"
  have outros: "x \<in> set (pedidos s) \<Longrightarrow> fst x \<noteq> i" for x
    using conta_modal_pos [of x "pedidos s"] p0 by auto
  have "inv_batalha ?s1"
    using inv i p0 n outros by (auto simp: inv_batalha_def nth_list_update m_def)
  then have "inv_batalha (rotular_aberto (''('' @ js_string_int (int ?n + 1) @ ''/2)'') ?s1)"
    by (rule inv_rotular)
  then show ?thesis
    by (simp add: sucesso_passada_def c Let_def str_contagem_def no_limite_def m_def rotular_passadas)
qed

lemma inv_remove_pedido:
  assumes inv: "inv_batalha s" and k: "k < length (pedidos s)"
  shows "inv_batalha (s\<lparr>pedidos := take k (pedidos s) @ drop (Suc k) (pedidos s)\<rparr>)"
proof -
  let ?r = "take k (pedidos s) @ drop (Suc k) (pedidos s)"
  have sub: "set ?r \<subseteq> set (pedidos s)"
    using set_take_subset [of k "pedidos s"] set_drop_subset [of "Suc k" "pedidos s"] by auto
  have le: "conta_modal j ?r \<le> conta_modal j (pedidos s)" for j
    using conta_modal_remove [OF k, of j] by linarith
  have A: "pred_option (\<lambda>i. i < length (modais_partida s)) (aberto_partida s)"
    and B: "\<forall>x \<in> set (passadas s). fst x < length (modais_partida s)"
    and C: "\<forall>x \<in> set (pedidos s). fst x < length (modais_partida s)
                                 \<and> fst (snd x) = Some (int (conta_modal (fst x) (passadas s)))"
    and D: "\<forall>j < length (modais_partida s).
              mp_contagem (modais_partida s ! j) = js_string_int (int (conta_modal j (passadas s)))
              \<and> conta_modal j (passadas s) + conta_modal j (pedidos s) \<le> 2
              \<and> conta_modal j (pedidos s) \<le> 1
              \<and> (0 < conta_modal j (pedidos s) \<longrightarrow> mp_desabilitado (modais_partida s ! j))"
    using inv unfolding inv_batalha_def by blast+
  have C': "\<forall>x \<in> set ?r. fst x < length (modais_partida s)
                            \<and> fst (snd x) = Some (int (conta_modal (fst x) (passadas s)))"
    using C sub by blast
  have D': "\<forall>j < length (modais_partida s).
              mp_contagem (modais_partida s ! j) = js_string_int (int (conta_modal j (passadas s)))
              \<and> conta_modal j (passadas s) + conta_modal j ?r \<le> 2
              \<and> conta_modal j ?r \<le> 1
              \<and> (0 < conta_modal j ?r \<longrightarrow> mp_desabilitado (modais_partida s ! j))"
  proof (intro allI impI)
    fix j assume j: "j < length (modais_partida s)"
    have lj: "conta_modal j ?r \<le> conta_modal j (pedidos s)" by (rule le)
    from D j have d1: "mp_contagem (modais_partida s ! j) = js_string_int (int (conta_modal j (passadas s)))"
      and d2: "conta_modal j (passadas s) + conta_modal j (pedidos s) \<le> 2"
      and d3: "conta_modal j (pedidos s) \<le> 1"
      and d4: "0 < conta_modal j (pedidos s) \<longrightarrow> mp_desabilitado (modais_partida s ! j)" by blast+
    have "conta_modal j (passadas s) + conta_modal j ?r \<le> 2" using d2 lj by linarith
    moreover have "conta_modal j ?r \<le> 1" using d3 lj by linarith
    moreover have "0 < conta_modal j ?r \<longrightarrow> mp_desabilitado (modais_partida s ! j)" using d4 lj by auto
    ultimately show "mp_contagem (modais_partida s ! j) = js_string_int (int (conta_modal j (passadas s)))
              \<and> conta_modal j (passadas s) + conta_modal j ?r \<le> 2 \<and> conta_modal j ?r \<le> 1
              \<and> (0 < conta_modal j ?r \<longrightarrow> mp_desabilitado (modais_partida s ! j))" using d1 by blast
  qed
  show ?thesis using A B C' D' by (simp add: inv_batalha_def)
qed

lemma inv_resposta:
  assumes inv: "inv_batalha s" and r: "resposta_passada k ok s = Some s'"
  shows "inv_batalha s'"
proof -
  have k: "k < length (pedidos s)" using r by (simp add: resposta_passada_def split: if_splits)
  obtain i c pl where pk: "pedidos s ! k = (i, c, pl)" by (cases "pedidos s ! k") auto
  let ?s1 = "s\<lparr>pedidos := take k (pedidos s) @ drop (Suc k) (pedidos s)\<rparr>"
  have mem: "(i, c, pl) \<in> set (pedidos s)" using k pk by (metis nth_mem)
  have i: "i < length (modais_partida s)" and c: "c = Some (int (conta_modal i (passadas s)))"
    using inv mem by (auto simp: inv_batalha_def)
  have p1: "conta_modal i (pedidos s) = 1"
    using inv i conta_modal_pos [OF mem] by (auto simp: inv_batalha_def)
  have p0: "conta_modal i (pedidos ?s1) = 0"
    using conta_modal_remove [OF k, of i] pk p1 by simp
  have n: "conta_modal i (passadas s) < 2" using inv i p1 by (auto simp: inv_batalha_def)
  have i1: "inv_batalha ?s1" using inv k by (rule inv_remove_pedido)
  let ?s2 = "if ok then sucesso_passada i c pl ?s1 else ?s1"
  have i2: "inv_batalha ?s2" using i1 i p0 c n by (simp add: inv_sucesso)
  have s': "s' = finally_passada i ?s2" using r k pk by (simp add: resposta_passada_def Let_def)
  show ?thesis unfolding s' using i2 i p0 by (intro inv_finally) simp_all
qed

lemma inv_fechar: "inv_batalha s \<Longrightarrow> inv_batalha (s\<lparr>aberto_partida := None\<rparr>)"
  by (simp add: inv_batalha_def)

lemma inv_passo_batalha: "inv_batalha s \<Longrightarrow> passo_batalha s e = Some s' \<Longrightarrow> inv_batalha s'"
  by (cases e) (auto simp: inv_abrir inv_carregar_pilotos inv_fechar split: if_splits
                     intro: inv_clicar inv_resposta)

lemma inv_batalha_inicial: "inv_batalha batalha_inicial"
  by (simp add: inv_batalha_def batalha_inicial_def)

lemma alcanca_batalha_inv: "alcanca_batalha s \<Longrightarrow> inv_batalha s"
  by (induction rule: alcanca_batalha.induct) (auto simp: inv_batalha_inicial intro: inv_passo_batalha)

lemma executa_batalha_alcanca:
  "alcanca_batalha s \<Longrightarrow> executa_batalha s es = Some s' \<Longrightarrow> alcanca_batalha s'"
  by (induction es arbitrary: s) (auto split: option.splits intro: alcanca_batalha.passo)

lemma executa_reaberta:
  "executa_batalha batalha_inicial corrida_reaberta = Some (the (executa_batalha batalha_inicial corrida_reaberta))"
  by code_simp

lemma alcanca_reaberta: "alcanca_batalha (the (executa_batalha batalha_inicial corrida_reaberta))"
  using executa_batalha_alcanca [OF alcanca_batalha.inicio executa_reaberta] .

text \<open>\<open>includes\<close> makes a name match every team whose name contains it, and
  \<open>find\<close> takes the first: the player "Alpha" is looked up as "Alpha Racing".\<close>

lemma procurar_equipe_substring:
  "procurar_equipe (Some ''Alpha'')
     [\<lparr>ep_id = ''7'', ep_nome = Some ''Alpha Racing''\<rparr>, \<lparr>ep_id = ''8'', ep_nome = Some ''Alpha''\<rparr>]
   = Some \<lparr>ep_id = ''7'', ep_nome = Some ''Alpha Racing''\<rparr>"
  by code_simp

text \<open>A part whose life is between 0 and its positive maximum shows a
  percentage between 0 and 100.\<close>

lemma percentual_peca_limites:
  assumes "pv_percentual p = None" "pv_atual p = Some a" "pv_maxima p = Some m" "0 < m" "0 \<le> a" "a \<le> m"
  shows "0 \<le> percentual_peca p \<and> percentual_peca p \<le> 100"
proof -
  have q: "0 \<le> real_of_int a / real_of_int m" "real_of_int a / real_of_int m \<le> 1"
    using assms by (simp_all add: divide_nonneg_nonneg)
  then have "0 \<le> real_of_int a / real_of_int m * 100 + 1 / 2"
            "real_of_int a / real_of_int m * 100 + 1 / 2 < 101" by linarith+
  then have "0 \<le> js_round (real_of_int a / real_of_int m * 100)"
            "js_round (real_of_int a / real_of_int m * 100) \<le> 100"
    unfolding js_round_def by linarith+
  then show ?thesis using assms by (simp add: percentual_peca_def)
qed

subsection \<open>Properties\<close>

text \<open>C15. Within one opening of a match modal the button runs the dice at
  most twice, whatever the order of clicks, answers, failures, closings and
  late team lists: in every reachable state each modal has at most two
  executed runs and at most one request in flight.\<close>

theorem passadas_por_abertura_limite:
  "alcanca_batalha s \<Longrightarrow> conta_modal i (passadas s) \<le> 2 \<and> conta_modal i (pedidos s) \<le> 1"
proof -
  assume "alcanca_batalha s"
  then have inv: "inv_batalha s" by (rule alcanca_batalha_inv)
  show ?thesis
  proof (cases "i < length (modais_partida s)")
    case True
    then show ?thesis using inv by (auto simp: inv_batalha_def)
  next
    case False
    then have "conta_modal i (passadas s) = 0" "conta_modal i (pedidos s) = 0"
      using inv by (auto simp: inv_batalha_def intro: conta_modal_fora)
    then show ?thesis by simp
  qed
qed

theorem passadas_por_abertura_limite_witness:
  "alcanca_batalha (the (executa_batalha batalha_inicial corrida_reaberta))
   \<and> conta_modal 0 (passadas (the (executa_batalha batalha_inicial corrida_reaberta))) \<le> 2
   \<and> conta_modal 0 (pedidos (the (executa_batalha batalha_inicial corrida_reaberta))) \<le> 1"
  using passadas_por_abertura_limite [OF alcanca_reaberta] alcanca_reaberta by simp

text \<open>C27. The team ids a run sends are the ones written into the modal that is
  open when a team list arrives, whichever match that list was fetched for,
  while the names it sends are those of the open modal.  So from any state with
  an open modal whose button may run, a list fetched for the players \<open>n1\<close>,
  \<open>n2\<close> followed by a click sends the ids found for \<open>n1\<close>, \<open>n2\<close> together with
  the modal's own names: when the modal of match A-B was closed before its list
  arrived and the modal of C-D is open, the run of C-D is sent with the cars of
  A and B.\<close>

theorem equipes_obsoletas_enviadas:
  assumes a: "aberto_partida s = Some i" "i < length (modais_partida s)"
    and b: "mp_botao (modais_partida s ! i)" "\<not> mp_desabilitado (modais_partida s ! i)"
    and c: "abaixo_limite (ler_contagem (modais_partida s ! i))"
  shows "\<exists>s'. executa_batalha s [PilotosCarregados n1 n2 (EquipesOk es), CliquePassada] = Some s'
     \<and> pedidos s' = pedidos s @ [(i, ler_contagem (modais_partida s ! i),
          \<lparr>pp_equipe1_id = campo_se_vazio (id_ou_vazio (procurar_equipe n1 es)),
           pp_equipe2_id = campo_se_vazio (id_ou_vazio (procurar_equipe n2 es)),
           pp_equipe1_nome = campo_se_vazio (mp_nome1 (modais_partida s ! i)),
           pp_equipe2_nome = campo_se_vazio (mp_nome2 (modais_partida s ! i))\<rparr>)]"
proof -
  have nl: "\<not> no_limite (ler_contagem (modais_partida s ! i))"
    using c by (auto simp: no_limite_def abaixo_limite_def split: option.splits)
  show ?thesis
    using a b nl by (simp add: carregar_pilotos_no_modal_def clicar_passada_def payload_de_def Let_def)
qed

theorem equipes_obsoletas_enviadas_witness:
  "\<exists>s'. executa_batalha (the (executa_batalha batalha_inicial corrida_obsoleta))
          [PilotosCarregados (Some ''A'') (Some ''B'') (EquipesOk equipes_ab), CliquePassada] = Some s'
     \<and> pedidos s' = [(1, Some 0, \<lparr>pp_equipe1_id = Some ''1'', pp_equipe2_id = Some ''2'',
                                  pp_equipe1_nome = Some ''C'', pp_equipe2_nome = Some ''D''\<rparr>)]"
proof -
  let ?s = "the (executa_batalha batalha_inicial corrida_obsoleta)"
  have s: "aberto_partida ?s = Some 1" "1 < length (modais_partida ?s)"
    "mp_botao (modais_partida ?s ! 1)" "\<not> mp_desabilitado (modais_partida ?s ! 1)"
    "ler_contagem (modais_partida ?s ! 1) = Some 0" "pedidos ?s = []"
    "mp_nome1 (modais_partida ?s ! 1) = ''C''" "mp_nome2 (modais_partida ?s ! 1) = ''D''"
    by code_simp+
  have e: "id_ou_vazio (procurar_equipe (Some ''A'') equipes_ab) = ''1''"
    "id_ou_vazio (procurar_equipe (Some ''B'') equipes_ab) = ''2''"
    by code_simp+
  have c: "abaixo_limite (ler_contagem (modais_partida ?s ! 1))" using s(5) by (simp add: abaixo_limite_def)
  show ?thesis
    using equipes_obsoletas_enviadas [OF s(1) s(2) s(3) s(4) c, of "Some ''A''" "Some ''B''" equipes_ab]
    unfolding s(5) s(6) s(7) s(8) e by (simp add: campo_se_vazio_def)
qed

text \<open>The limit of two runs ("Max. 2 vezes") holds per opening of the
  modal, not per match: each opening starts a new count at \<open>'0'\<close>, so closing and
  reopening the modal of one match runs the dice four times on the same two
  cars.\<close>

theorem reabrir_quatro_passadas:
  "map_option (\<lambda>s. map (\<lambda>(i, pl). (i, pp_equipe1_id pl, pp_equipe2_id pl)) (passadas s))
     (executa_batalha batalha_inicial corrida_reaberta)
   = Some [(0, Some ''1'', Some ''2''), (0, Some ''1'', Some ''2''), (1, Some ''1'', Some ''2''), (1, Some ''1'', Some ''2'')]"
  by code_simp

text \<open>C31. The run count a match modal shows is always a decimal numeral:
  whatever the order of openings, clicks, answers and failures, \<open>parseInt\<close>
  reads it back as the number of runs that opening has finished, never as
  \<open>NaN\<close>, on which both tests \<open>count >= 2\<close> and \<open>count < 2\<close> would be false.\<close>

theorem contagem_sempre_numero:
  "alcanca_batalha s \<Longrightarrow> i < length (modais_partida s) \<Longrightarrow>
   ler_contagem (modais_partida s ! i) = Some (int (conta_modal i (passadas s)))"
proof -
  assume "alcanca_batalha s" "i < length (modais_partida s)"
  then have "mp_contagem (modais_partida s ! i) = js_string_int (int (conta_modal i (passadas s)))"
    using alcanca_batalha_inv by (simp add: inv_batalha_def)
  then show ?thesis by (rule ler_contagem_int)
qed

theorem contagem_sempre_numero_witness:
  "alcanca_batalha (the (executa_batalha batalha_inicial corrida_reaberta))
   \<and> 1 < length (modais_partida (the (executa_batalha batalha_inicial corrida_reaberta)))
   \<and> ler_contagem (modais_partida (the (executa_batalha batalha_inicial corrida_reaberta)) ! 1)
     = Some (int (conta_modal 1 (passadas (the (executa_batalha batalha_inicial corrida_reaberta)))))"
proof -
  have "1 < length (modais_partida (the (executa_batalha batalha_inicial corrida_reaberta)))"
    by code_simp
  then show ?thesis using contagem_sempre_numero [OF alcanca_reaberta] alcanca_reaberta by simp
qed

text \<open>The life panel of a match: an answer with fewer than two cars shows
  the missing ones as having no part, and neither panel is left stale when the
  request fails.\<close>

lemma vida_um_carro:
  "carregar_vida_pecas_modal True eq1 eq2 (VidaResp True (Some [Some ps])) = Some (VidaPecas (formatar_vida_pecas ps), VidaPecas None)
   \<or> eq1 = [] \<and> eq2 = []"
  by (simp add: carregar_vida_pecas_modal_def vida_do_carro_def formatar_vida_pecas_def)

lemma vida_falha_ambos:
  "carregar_vida_pecas_modal True eq1 eq2 r = Some (v1, v2) \<Longrightarrow> (v1 = VidaErro \<or> v1 = VidaErroCarregar) \<Longrightarrow> v2 = v1"
  by (auto simp: carregar_vida_pecas_modal_def vida_do_carro_def split: if_splits resposta_vida.splits bool.splits option.splits)

end
