(* ===== verification/RemovePart.thy ===== *)
theory RemovePart
  imports JsNumbers
begin

text \<open>
  Taking a part off a car (src/static/script.js, lines 4906--5103):
  \<open>abrirModalRemoverPeca\<close> records the part in \<open>pecaEmRemocao\<close>, enables the
  button and lists the other cars as destinations, marking the incompatible
  ones; \<open>confirmarRemoverPeca\<close> disables the button and posts the move; its answer
  closes the modal and clears \<open>pecaEmRemocao\<close>, or shows the error and enables
  the button again.  There is one button and one \<open>pecaEmRemocao\<close> for all
  openings, and the answers of earlier openings act on them.  Compatibility is
  decided with \<open>parseInt\<close> and \<open>Array.prototype.includes\<close>, whose SameValueZero
  equality finds \<open>NaN\<close> in a list holding \<open>NaN\<close>: \<open>None\<close> is \<open>NaN\<close> here.
\<close>

subsection \<open>The destination cars\<close>

record peca_carro =
  pc_tipo :: string
  pc_compat :: "string list option"   \<comment> \<open>\<open>compatibilidades\<close>, when it is an array\<close>

record carro_rem =
  cr_id :: string
  cr_nome :: string
  cr_pecas :: "peca_carro list option"

text \<open>The compatibilities of the part of type \<open>tipo\<close> on the car \<open>origem\<close>
  (lines 4946--4968); none means universal.\<close>

definition compat_da_peca :: "string \<Rightarrow> string \<Rightarrow> carro_rem list \<Rightarrow> string list" where
  "compat_da_peca origem tipo cs =
     (case find (\<lambda>c. cr_id c = origem) cs of
        Some c \<Rightarrow>
          (case cr_pecas c of
             Some ps \<Rightarrow> (case find (\<lambda>p. pc_tipo p = tipo) ps of
                          Some p \<Rightarrow> (case pc_compat p of Some l \<Rightarrow> l | None \<Rightarrow> [])
                        | None \<Rightarrow> [])
           | None \<Rightarrow> [])
      | None \<Rightarrow> [])"

text \<open>An option of the destination select: the car, whether it is enabled
  (compatible) and whether it already has a part of that type.\<close>

record opcao_destino =
  od_id :: string
  od_compativel :: bool
  od_substitui :: bool

text \<open>\<open>ehUniversal || compatibilidadesInt.includes(parseInt(carroId))\<close>, with
  \<open>compatibilidadesInt = compatibilidades.map(c => parseInt(c))\<close>; the same test
  filters the car dropdowns of the warehouse modal.\<close>

definition compativel_js :: "string list \<Rightarrow> string \<Rightarrow> bool" where
  "compativel_js compats carro = (compats = [] \<or> parse_int 0 carro \<in> set (map (parse_int 0) compats))"

definition opcao_carro :: "string list \<Rightarrow> string \<Rightarrow> carro_rem \<Rightarrow> opcao_destino" where
  "opcao_carro compats tipo c =
     \<lparr>od_id = cr_id c,
      od_compativel = compativel_js compats (cr_id c),
      od_substitui = (case cr_pecas c of Some ps \<Rightarrow> list_ex (\<lambda>p. pc_tipo p = tipo) ps | None \<Rightarrow> False)\<rparr>"

text \<open>The options of \<open>#carroDestSelect\<close> (lines 4980--5011): every car but the
  origin, in garage order.\<close>

definition opcoes_destino :: "string \<Rightarrow> string \<Rightarrow> carro_rem list \<Rightarrow> opcao_destino list" where
  "opcoes_destino origem tipo cs =
     map (opcao_carro (compat_da_peca origem tipo cs) tipo) (filter (\<lambda>c. cr_id c \<noteq> origem) cs)"

subsection \<open>The modal and its requests\<close>

datatype efeito_rem =
    PostRemover string string "string option"   \<comment> \<open>\<open>carro_id\<close>, \<open>tipo_peca\<close>, \<open>novo_carro_id\<close>\<close>
  | ToastSelecioneDestino | ToastMovida bool | ToastErroMover | RecarregarGaragemRem

datatype resposta_rem = RemHttpErro | RemOk bool | RemExcecao

record remocao_st =
  peca_em_remocao :: "(string \<times> string) option"  \<comment> \<open>\<open>pecaEmRemocao\<close>: car and type\<close>
  btn_desabilitado :: bool                        \<comment> \<open>\<open>#btnConfirmarRemoverPeca\<close>\<close>
  modal_remover :: bool                           \<comment> \<open>\<open>#removerPecaModal\<close> is shown\<close>
  destino_marcado :: string                       \<comment> \<open>the checked \<open>destino\<close> radio\<close>
  carro_escolhido :: string                       \<comment> \<open>\<open>#carroDestSelect\<close> value\<close>
  pedidos_rem :: "(string \<times> string \<times> string option) list"  \<comment> \<open>requests in flight\<close>
  efeitos_rem :: "efeito_rem list"

definition remocao_inicial :: remocao_st where
  "remocao_inicial = \<lparr>peca_em_remocao = None, btn_desabilitado = False, modal_remover = False,
                      destino_marcado = ''armazem'', carro_escolhido = [], pedidos_rem = [], efeitos_rem = []\<rparr>"

text \<open>\<open>abrirModalRemoverPeca(carroId, tipoPeca, nomePeca)\<close>: the part is recorded,
  the button enabled, the warehouse checked and the select rebuilt with its
  empty placeholder.\<close>

definition abrir_modal_remover :: "string \<Rightarrow> string \<Rightarrow> remocao_st \<Rightarrow> remocao_st" where
  "abrir_modal_remover carro tipo s =
     s\<lparr>peca_em_remocao := Some (carro, tipo), btn_desabilitado := False, modal_remover := True,
       destino_marcado := ''armazem'', carro_escolhido := []\<rparr>"

text \<open>\<open>confirmarRemoverPeca()\<close> (lines 5034--5064).\<close>

definition confirmar_remover_peca :: "remocao_st \<Rightarrow> remocao_st" where
  "confirmar_remover_peca s =
     (case peca_em_remocao s of
        None \<Rightarrow> s
      | Some (carro, tipo) \<Rightarrow>
          (if btn_desabilitado s then s
           else if destino_marcado s = ''carro'' \<and> carro_escolhido s = []
           then s\<lparr>efeitos_rem := efeitos_rem s @ [ToastSelecioneDestino]\<rparr>
           else
             (let novo = (if destino_marcado s = ''carro'' then Some (carro_escolhido s) else None)
              in s\<lparr>btn_desabilitado := True, pedidos_rem := pedidos_rem s @ [(carro, tipo, novo)],
                    efeitos_rem := efeitos_rem s @ [PostRemover carro tipo novo]\<rparr>)))"

text \<open>The answer to the \<open>k\<close>-th request in flight (lines 5065--5100): a non-OK
  status is thrown; an OK answer closes the modal and clears \<open>pecaEmRemocao\<close>;
  the catch shows the error and enables the button.\<close>

definition resposta_remover :: "nat \<Rightarrow> resposta_rem \<Rightarrow> remocao_st \<Rightarrow> remocao_st option" where
  "resposta_remover k r s =
     (if length (pedidos_rem s) \<le> k then None
      else
        (let (_, _, novo) = pedidos_rem s ! k;
             s1 = s\<lparr>pedidos_rem := take k (pedidos_rem s) @ drop (Suc k) (pedidos_rem s)\<rparr>
         in Some (case r of
                    RemOk ok \<Rightarrow>
                      s1\<lparr>modal_remover := False, peca_em_remocao := None,
                         efeitos_rem := efeitos_rem s1 @ (if ok then [ToastMovida (novo \<noteq> None), RecarregarGaragemRem]
                                                        else [ToastErroMover])\<rparr>
                  | _ \<Rightarrow> s1\<lparr>btn_desabilitado := False, efeitos_rem := efeitos_rem s1 @ [ToastErroMover]\<rparr>)))"

datatype evento_rem =
    AbrirRemover string string | FecharRemover | MarcarDestino string | EscolherCarroDestino string
  | ConfirmarRemover | RespostaRemover nat resposta_rem

text \<open>The button is clicked only while the modal is shown.\<close>

fun passo_remocao :: "remocao_st \<Rightarrow> evento_rem \<Rightarrow> remocao_st option" where
  "passo_remocao s (AbrirRemover c t) = Some (abrir_modal_remover c t s)"
| "passo_remocao s FecharRemover = Some (s\<lparr>modal_remover := False\<rparr>)"
| "passo_remocao s (MarcarDestino d) = Some (s\<lparr>destino_marcado := d\<rparr>)"
| "passo_remocao s (EscolherCarroDestino c) = Some (s\<lparr>carro_escolhido := c\<rparr>)"
| "passo_remocao s ConfirmarRemover = (if modal_remover s then Some (confirmar_remover_peca s) else None)"
| "passo_remocao s (RespostaRemover k r) = resposta_remover k r s"

fun executa_remocao :: "remocao_st \<Rightarrow> evento_rem list \<Rightarrow> remocao_st option" where
  "executa_remocao s [] = Some s"
| "executa_remocao s (e # es) = (case passo_remocao s e of None \<Rightarrow> None | Some s' \<Rightarrow> executa_remocao s' es)"

definition reabre_antes_da_resposta :: "evento_rem list" where
  "reabre_antes_da_resposta =
     [AbrirRemover ''7'' ''motor'', ConfirmarRemover, FecharRemover,
      AbrirRemover ''8'' ''turbo'', ConfirmarRemover, RespostaRemover 0 RemHttpErro, ConfirmarRemover]"

definition sucesso_tardio :: "evento_rem list" where
  "sucesso_tardio =
     [AbrirRemover ''7'' ''motor'', ConfirmarRemover, FecharRemover,
      AbrirRemover ''8'' ''turbo'', RespostaRemover 0 (RemOk True)]"

text \<open>One opening: the invariant of the guard \<open>btnConfirmar.disabled\<close>.\<close>

definition inv_remocao :: "remocao_st \<Rightarrow> bool" where
  "inv_remocao s = (length (pedidos_rem s) \<le> 1 \<and> (pedidos_rem s \<noteq> [] \<longrightarrow> btn_desabilitado s))"

fun abre_modal :: "evento_rem \<Rightarrow> bool" where
  "abre_modal (AbrirRemover _ _) = True"
| "abre_modal _ = False"

subsection \<open>Destinations\<close>

lemma opcoes_destino_ids:
  "map od_id (opcoes_destino origem tipo cs) = filter (\<lambda>i. i \<noteq> origem) (map cr_id cs)"
  by (simp add: opcoes_destino_def opcao_carro_def filter_map comp_def)

lemma opcoes_destino_sem_origem:
  "x \<in> set (opcoes_destino origem tipo cs) \<Longrightarrow> od_id x \<noteq> origem"
  by (auto simp: opcoes_destino_def opcao_carro_def)

lemma opcoes_destino_universal:
  "compat_da_peca origem tipo cs = [] \<Longrightarrow> x \<in> set (opcoes_destino origem tipo cs) \<Longrightarrow> od_compativel x"
  by (auto simp: opcoes_destino_def opcao_carro_def compativel_js_def)

text \<open>With decimal ids on both sides, the test is membership of the car's id.\<close>

lemma parse_int_0_js_string_int [simp]: "parse_int 0 (js_string_int i) = Some i"
  by (simp add: parse_int_js_string_int)

lemma compativel_ids_decimais:
  "od_compativel (opcao_carro (map js_string_int ns) tipo c) = (ns = [] \<or> n \<in> set ns)"
  if "cr_id c = js_string_int n"
  using that by (auto simp: opcao_carro_def compativel_js_def)

text \<open>Non-numeric ids: \<open>parseInt\<close> gives \<open>NaN\<close> on both sides and \<open>includes\<close>
  finds it, so a part compatible with model \<open>GT3\<close> is offered as compatible
  with any car whose id is not a number; a numeric prefix is compared alone.\<close>

lemma compativel_nan:
  "od_compativel (opcao_carro [''GT3''] ''motor'' \<lparr>cr_id = ''abc'', cr_nome = ''X'', cr_pecas = None\<rparr>)"
  by code_simp

lemma compativel_prefixo:
  "od_compativel (opcao_carro [''12''] ''motor'' \<lparr>cr_id = ''12-b'', cr_nome = ''X'', cr_pecas = None\<rparr>)"
  by code_simp

subsection \<open>The guard within one opening\<close>

lemma inv_remocao_inicial: "inv_remocao remocao_inicial"
  by (simp add: inv_remocao_def remocao_inicial_def)

lemma inv_confirmar: "inv_remocao s \<Longrightarrow> inv_remocao (confirmar_remover_peca s)"
  by (auto simp: inv_remocao_def confirmar_remover_peca_def Let_def split: option.split)

lemma inv_resposta_remover:
  assumes "inv_remocao s" "resposta_remover k r s = Some s'"
  shows "inv_remocao s'"
proof -
  have "k < length (pedidos_rem s)" "length (pedidos_rem s) \<le> 1"
    using assms by (auto simp: resposta_remover_def inv_remocao_def split: if_splits)
  then have "pedidos_rem s' = []"
    using assms(2) by (auto simp: resposta_remover_def Let_def split: prod.splits resposta_rem.splits)
  then show ?thesis by (simp add: inv_remocao_def)
qed

lemma inv_passo_remocao:
  assumes "inv_remocao s" "\<not> abre_modal e" "passo_remocao s e = Some s'"
  shows "inv_remocao s'"
  using assms
proof (cases e)
  case ConfirmarRemover
  then show ?thesis using assms by (auto intro: inv_confirmar split: if_splits)
next
  case (RespostaRemover k r)
  then show ?thesis using assms by (auto intro: inv_resposta_remover)
qed (auto simp: inv_remocao_def)

lemma inv_executa_remocao:
  "inv_remocao s \<Longrightarrow> \<forall>e\<in>set es. \<not> abre_modal e \<Longrightarrow> executa_remocao s es = Some s' \<Longrightarrow> inv_remocao s'"
  by (induction s es rule: executa_remocao.induct)
     (auto split: option.splits dest: inv_passo_remocao)

lemma inv_abrir_sem_pedidos:
  "pedidos_rem s = [] \<Longrightarrow> inv_remocao (abrir_modal_remover c t s)"
  by (simp add: inv_remocao_def abrir_modal_remover_def)

text \<open>C10. Within one opening of the remove-part modal the disabled button
  keeps at most one removal request in flight, whatever the order of
  destination choices, confirmations, closings and answers.\<close>

theorem remocao_uma_abertura:
  "pedidos_rem s = [] \<Longrightarrow> \<forall>e\<in>set es. \<not> abre_modal e \<Longrightarrow>
   executa_remocao (abrir_modal_remover c t s) es = Some s' \<Longrightarrow> length (pedidos_rem s') \<le> 1"
proof -
  assume "pedidos_rem s = []" "\<forall>e\<in>set es. \<not> abre_modal e"
    and "executa_remocao (abrir_modal_remover c t s) es = Some s'"
  then have "inv_remocao s'" by (blast intro: inv_executa_remocao inv_abrir_sem_pedidos)
  then show ?thesis by (simp add: inv_remocao_def)
qed

theorem remocao_uma_abertura_witness:
  "pedidos_rem remocao_inicial = []
   \<and> \<not> abre_modal (MarcarDestino ''armazem'') \<and> \<not> abre_modal ConfirmarRemover
   \<and> executa_remocao (abrir_modal_remover ''7'' ''motor'' remocao_inicial)
       [MarcarDestino ''armazem'', ConfirmarRemover, ConfirmarRemover]
     = Some (the (executa_remocao (abrir_modal_remover ''7'' ''motor'' remocao_inicial)
                   [MarcarDestino ''armazem'', ConfirmarRemover, ConfirmarRemover]))
   \<and> length (pedidos_rem (the (executa_remocao (abrir_modal_remover ''7'' ''motor'' remocao_inicial)
                   [MarcarDestino ''armazem'', ConfirmarRemover, ConfirmarRemover]))) \<le> 1"
proof -
  have h: "pedidos_rem remocao_inicial = []" by (simp add: remocao_inicial_def)
  have e: "executa_remocao (abrir_modal_remover ''7'' ''motor'' remocao_inicial)
       [MarcarDestino ''armazem'', ConfirmarRemover, ConfirmarRemover]
     = Some (the (executa_remocao (abrir_modal_remover ''7'' ''motor'' remocao_inicial)
                   [MarcarDestino ''armazem'', ConfirmarRemover, ConfirmarRemover]))"
    unfolding remocao_inicial_def by code_simp
  show ?thesis using remocao_uma_abertura [OF h _ e] h e by simp
qed

text \<open>Across openings the guard fails: there is one button and one
  \<open>pecaEmRemocao\<close> for all openings.  When the modal is closed while a removal
  is in flight and reopened for another part, the error of the first request
  enables the button while the second one is in flight, and the second part is
  posted twice.\<close>

theorem reabrir_envia_duas_vezes:
  "map_option pedidos_rem (executa_remocao remocao_inicial reabre_antes_da_resposta)
     = Some [(''8'', ''turbo'', None), (''8'', ''turbo'', None)]"
  unfolding reabre_antes_da_resposta_def remocao_inicial_def by code_simp

text \<open>A late success closes the modal opened for another part and clears
  \<open>pecaEmRemocao\<close>, so the open form can no longer be confirmed.\<close>

lemma sucesso_tardio_fecha_outra_peca:
  "map_option (\<lambda>s. (modal_remover s, peca_em_remocao s, pedidos_rem s))
     (executa_remocao remocao_inicial sucesso_tardio) = Some (False, None, [])"
  unfolding sucesso_tardio_def remocao_inicial_def by code_simp

end
