(* ===== verification/LiveEvent.thy ===== *)
theory LiveEvent
  imports QualRanking
begin

text \<open>
  The live event modal of src/static/qualificacao.js (\<open>carregarEvento\<close>,
  \<open>mostrarEventoAoVivo\<close>, lines 1065--1225) and the score inputs it renders
  (\<open>salvarNotaEquipe\<close>, lines 1352--1393).  The page globals are
  \<open>intervaloEventoAtual\<close> and the object \<open>eventos\<close>; each call of
  \<open>mostrarEventoAoVivo\<close> appends a new modal to \<open>document.body\<close> and starts a
  refresher whose closure holds its \<open>etapaId\<close>; closing a modal clears whatever
  handle \<open>intervaloEventoAtual\<close> holds at that moment.  \<open>renderizarPitsEvento\<close>
  writes into \<open>document.getElementById('containerEventoPits')\<close>, the first
  container in document order: the model keeps the modals in that order, each
  with its stage and the stage whose teams its container shows.  A refresher
  tick sends a request and its answer arrives later, so ticks, answers,
  openings and closings interleave freely.
\<close>

subsection \<open>State and operations\<close>

datatype efeito_vivo =
    ToastErroCarregarEvento | PostEntrarEvento string | MostrarBotaoFlutuante
  | EfeitoNota efeito_nota

record vivo_st =
  intervalo_evento :: "nat option"                \<comment> \<open>\<open>intervaloEventoAtual\<close>\<close>
  ev_ativo :: bool                                \<comment> \<open>\<open>eventos.ativo\<close>\<close>
  ev_etapa :: "string option"                     \<comment> \<open>\<open>eventos.etapaId\<close>\<close>
  ev_dados :: "string option"                     \<comment> \<open>the stage of \<open>eventos.dados\<close>\<close>
  refreshers :: "(nat \<times> string) list"           \<comment> \<open>live intervals and their \<open>etapaId\<close>\<close>
  consultas :: "string list"                      \<comment> \<open>tick requests in flight\<close>
  modais_evento :: "(string \<times> string option) list"  \<comment> \<open>DOM order: stage, stage shown\<close>
  prox_handle :: nat
  ls_equipe :: "string option"                    \<comment> \<open>\<open>localStorage\<close> equipe_id\<close>
  ls_piloto :: "string option"                    \<comment> \<open>\<open>localStorage\<close> piloto_id\<close>
  efeitos_vivo :: "efeito_vivo list"

definition vivo_inicial :: "string option \<Rightarrow> string option \<Rightarrow> vivo_st" where
  "vivo_inicial le lp =
     \<lparr>intervalo_evento = None, ev_ativo = False, ev_etapa = None, ev_dados = None, refreshers = [],
      consultas = [], modais_evento = [], prox_handle = 0, ls_equipe = le, ls_piloto = lp,
      efeitos_vivo = []\<rparr>"

text \<open>\<open>renderizarPitsEvento\<close>: the first \<open>#containerEventoPits\<close> shows the stage;
  with no modal in the page nothing is written.\<close>

fun renderizar_pits :: "string \<Rightarrow> (string \<times> string option) list \<Rightarrow> (string \<times> string option) list" where
  "renderizar_pits e [] = []"
| "renderizar_pits e ((m, _) # ms) = (m, Some e) # ms"

text \<open>\<open>clearInterval(intervaloEventoAtual)\<close> when it is set.\<close>

fun parar_handle :: "nat option \<Rightarrow> (nat \<times> string) list \<Rightarrow> (nat \<times> string) list" where
  "parar_handle None rs = rs"
| "parar_handle (Some h) rs = filter (\<lambda>r. fst r \<noteq> h) rs"

definition limpar_intervalo :: "vivo_st \<Rightarrow> vivo_st" where
  "limpar_intervalo s = s\<lparr>refreshers := parar_handle (intervalo_evento s) (refreshers s)\<rparr>"

text \<open>\<open>mostrarEventoAoVivo(etapaId)\<close>: \<open>carregou\<close> is the outcome of
  \<open>carregarEvento\<close>, \<open>entrou\<close> whether the awaited POST of \<open>entrar-evento\<close>
  resolved (a network failure rejects the async function before the modal is
  built).  The rest runs without a pause.\<close>

definition mostrar_evento_ao_vivo :: "string \<Rightarrow> bool \<Rightarrow> bool \<Rightarrow> vivo_st \<Rightarrow> vivo_st" where
  "mostrar_evento_ao_vivo e carregou entrou s =
     (if \<not> carregou then s\<lparr>efeitos_vivo := efeitos_vivo s @ [ToastErroCarregarEvento]\<rparr>
      else
        (let s1 = s\<lparr>ev_dados := Some e, efeitos_vivo := efeitos_vivo s @ [PostEntrarEvento e]\<rparr>
         in if \<not> entrou then s1
            else
              (let s2 = s1\<lparr>modais_evento := renderizar_pits e (modais_evento s1 @ [(e, None)]),
                           ev_ativo := True, ev_etapa := Some e\<rparr>;
                   s3 = limpar_intervalo s2;
                   h = prox_handle s3
               in s3\<lparr>refreshers := refreshers s3 @ [(h, e)], intervalo_evento := Some h,
                     prox_handle := Suc h\<rparr>)))"

text \<open>The \<open>hidden.bs.modal\<close> listener of the \<open>i\<close>-th modal.\<close>

definition fechar_evento :: "nat \<Rightarrow> vivo_st \<Rightarrow> vivo_st option" where
  "fechar_evento i s =
     (if length (modais_evento s) \<le> i then None
      else
        (let s1 = limpar_intervalo (s\<lparr>ev_ativo := False\<rparr>)
         in Some (s1\<lparr>modais_evento := take i (modais_evento s1) @ drop (Suc i) (modais_evento s1),
                     efeitos_vivo := efeitos_vivo s1 @ [MostrarBotaoFlutuante]\<rparr>)))"

text \<open>A tick of the live interval \<open>h\<close> calls \<open>carregarEvento\<close> of its own stage.\<close>

definition tique_evento :: "nat \<Rightarrow> vivo_st \<Rightarrow> vivo_st option" where
  "tique_evento h s =
     (case map_of (refreshers s) h of
        None \<Rightarrow> None
      | Some e \<Rightarrow> Some (s\<lparr>consultas := consultas s @ [e]\<rparr>))"

text \<open>The answer to the \<open>k\<close>-th tick request: when it brings the event with its
  teams, \<open>eventos.dados\<close> is set and the pits are rendered.\<close>

definition resposta_evento :: "nat \<Rightarrow> bool \<Rightarrow> vivo_st \<Rightarrow> vivo_st option" where
  "resposta_evento k ok s =
     (if length (consultas s) \<le> k then None
      else
        (let e = consultas s ! k;
             s1 = s\<lparr>consultas := take k (consultas s) @ drop (Suc k) (consultas s)\<rparr>
         in Some (if ok then s1\<lparr>ev_dados := Some e, modais_evento := renderizar_pits e (modais_evento s1)\<rparr>
                  else s1)))"

text \<open>An input of the table calls \<open>salvarNotaEquipe\<close>, which reads
  \<open>eventos.etapaId\<close> and \<open>localStorage\<close>.\<close>

definition salvar_nota_vivo :: "string \<Rightarrow> string \<Rightarrow> string \<Rightarrow> resposta_nota \<Rightarrow> vivo_st \<Rightarrow> vivo_st" where
  "salvar_nota_vivo equipe tipo valor r s =
     s\<lparr>efeitos_vivo := efeitos_vivo s @
        map EfeitoNota (salvar_nota_equipe (ev_etapa s) (ls_equipe s) (ls_piloto s) equipe tipo valor r)\<rparr>"

datatype evento_vivo =
    MostrarEvento string bool bool | FecharEvento nat | TiqueEvento nat | RespostaEvento nat bool
  | SalvarNota string string string resposta_nota

fun passo_vivo :: "vivo_st \<Rightarrow> evento_vivo \<Rightarrow> vivo_st option" where
  "passo_vivo s (MostrarEvento e c en) = Some (mostrar_evento_ao_vivo e c en s)"
| "passo_vivo s (FecharEvento i) = fechar_evento i s"
| "passo_vivo s (TiqueEvento h) = tique_evento h s"
| "passo_vivo s (RespostaEvento k ok) = resposta_evento k ok s"
| "passo_vivo s (SalvarNota q t v r) =
     (if modais_evento s = [] then None else Some (salvar_nota_vivo q t v r s))"

fun executa_vivo :: "vivo_st \<Rightarrow> evento_vivo list \<Rightarrow> vivo_st option" where
  "executa_vivo s [] = Some s"
| "executa_vivo s (e # es) = (case passo_vivo s e of None \<Rightarrow> None | Some s' \<Rightarrow> executa_vivo s' es)"

inductive alcanca_vivo :: "vivo_st \<Rightarrow> bool" where
  inicio: "alcanca_vivo (vivo_inicial le lp)"
| passo: "alcanca_vivo s \<Longrightarrow> passo_vivo s ev = Some s' \<Longrightarrow> alcanca_vivo s'"

text \<open>The invariant: every live refresher is the one \<open>intervaloEventoAtual\<close>
  holds, it refreshes the stage \<open>eventos.etapaId\<close> names, and handles are fresh.\<close>

definition inv_vivo :: "vivo_st \<Rightarrow> bool" where
  "inv_vivo s \<longleftrightarrow>
     distinct (map fst (refreshers s))
     \<and> (\<forall>(h, e) \<in> set (refreshers s). intervalo_evento s = Some h \<and> ev_etapa s = Some e)
     \<and> pred_option (\<lambda>h. h < prox_handle s) (intervalo_evento s)"

fun abre_ou_fecha :: "evento_vivo \<Rightarrow> bool" where
  "abre_ou_fecha (MostrarEvento _ _ _) = True"
| "abre_ou_fecha (FecharEvento _) = True"
| "abre_ou_fecha _ = False"

text \<open>One modal of stage \<open>e\<close>: it shows \<open>e\<close>, the scores go to \<open>e\<close>, and every
  refresher and request in flight is of \<open>e\<close>.\<close>

definition um_modal :: "string \<Rightarrow> vivo_st \<Rightarrow> bool" where
  "um_modal e s \<longleftrightarrow>
     modais_evento s = [(e, Some e)] \<and> ev_etapa s = Some e
     \<and> (\<forall>r \<in> set (refreshers s). snd r = e) \<and> (\<forall>c \<in> set (consultas s). c = e)"

definition stages_e1_e2 :: "evento_vivo list" where
  "stages_e1_e2 = [MostrarEvento ''E1'' True True, MostrarEvento ''E2'' True True]"

definition dois_cliques :: "evento_vivo list" where
  "dois_cliques = [MostrarEvento ''E1'' True True, MostrarEvento ''E1'' True True, FecharEvento 1]"

definition resposta_tardia :: "evento_vivo list" where
  "resposta_tardia =
     [MostrarEvento ''E1'' True True, TiqueEvento 0, FecharEvento 0, MostrarEvento ''E2'' True True]"

subsection \<open>The refresher invariant\<close>

text \<open>When every live refresher is the one the global holds, clearing the
  global stops them all.\<close>

lemma parar_handle_vazio:
  "\<forall>r \<in> set rs. i = Some (fst r) \<Longrightarrow> parar_handle i rs = []"
  by (cases i; cases rs) (auto simp: filter_empty_conv)

lemma inv_parar_vivo: "inv_vivo s \<Longrightarrow> parar_handle (intervalo_evento s) (refreshers s) = []"
  by (rule parar_handle_vazio) (auto simp: inv_vivo_def)

lemma inv_mostrar_vivo: "inv_vivo s \<Longrightarrow> inv_vivo (mostrar_evento_ao_vivo e c en s)"
  by (auto simp: mostrar_evento_ao_vivo_def Let_def limpar_intervalo_def inv_parar_vivo, auto simp: inv_vivo_def)

lemma inv_fechar_evento: "inv_vivo s \<Longrightarrow> fechar_evento i s = Some s' \<Longrightarrow> inv_vivo s'"
  by (auto simp: fechar_evento_def Let_def limpar_intervalo_def inv_parar_vivo split: if_splits,
      auto simp: inv_vivo_def)

lemma inv_vivo_campos:
  "refreshers s' = refreshers s \<Longrightarrow> intervalo_evento s' = intervalo_evento s \<Longrightarrow>
   ev_etapa s' = ev_etapa s \<Longrightarrow> prox_handle s' = prox_handle s \<Longrightarrow> inv_vivo s' = inv_vivo s"
  by (simp add: inv_vivo_def)

lemma inv_passo_vivo:
  assumes "inv_vivo s" "passo_vivo s ev = Some s'"
  shows "inv_vivo s'"
proof (cases ev)
  case (MostrarEvento e c en)
  then show ?thesis using assms by (auto intro: inv_mostrar_vivo)
next
  case (FecharEvento i)
  then show ?thesis using assms by (auto intro: inv_fechar_evento)
next
  case (TiqueEvento h)
  then show ?thesis using assms inv_vivo_campos [of s' s]
    by (auto simp: tique_evento_def split: option.splits)
next
  case (RespostaEvento k ok)
  then show ?thesis using assms inv_vivo_campos [of s' s]
    by (auto simp: resposta_evento_def Let_def split: if_splits)
next
  case (SalvarNota q t v r)
  then show ?thesis using assms inv_vivo_campos [of s' s]
    by (auto simp: salvar_nota_vivo_def split: if_splits)
qed

lemma alcanca_vivo_inv: "alcanca_vivo s \<Longrightarrow> inv_vivo s"
  by (induction rule: alcanca_vivo.induct) (simp add: inv_vivo_def vivo_inicial_def, blast intro: inv_passo_vivo)

lemma distinct_fst_constante:
  "distinct (map fst xs) \<Longrightarrow> \<forall>x \<in> set xs. fst x = h \<Longrightarrow> length xs \<le> 1"
proof (cases xs)
  case (Cons a t)
  moreover assume "distinct (map fst xs)" "\<forall>x \<in> set xs. fst x = h"
  ultimately have "t = []" by (cases t) auto
  then show ?thesis using Cons by simp
qed simp

lemma inv_vivo_um_refresher: "inv_vivo s \<Longrightarrow> length (refreshers s) \<le> 1"
proof (cases "intervalo_evento s")
  case None
  moreover assume "inv_vivo s"
  ultimately have "\<forall>r \<in> set (refreshers s). False" by (auto simp: inv_vivo_def)
  then show ?thesis by (cases "refreshers s") auto
next
  case (Some h)
  moreover assume "inv_vivo s"
  ultimately have "distinct (map fst (refreshers s))" "\<forall>r \<in> set (refreshers s). fst r = h"
    by (auto simp: inv_vivo_def)
  then show ?thesis by (rule distinct_fst_constante)
qed

subsection \<open>One modal\<close>

lemma set_remove_nth: "set (take k xs @ drop (Suc k) xs) \<subseteq> set xs"
  by (auto dest: in_set_takeD in_set_dropD)

lemma um_modal_passo:
  assumes um: "um_modal e s" and "\<not> abre_ou_fecha ev" and p: "passo_vivo s ev = Some s'"
  shows "um_modal e s'"
proof (cases ev)
  case (TiqueEvento h)
  then obtain e' where m: "map_of (refreshers s) h = Some e'"
    and s': "s' = s\<lparr>consultas := consultas s @ [e']\<rparr>"
    using p by (auto simp: tique_evento_def split: option.splits)
  from m have "(h, e') \<in> set (refreshers s)" by (rule map_of_SomeD)
  then have "e' = e" using um by (auto simp: um_modal_def)
  then show ?thesis using um s' by (simp add: um_modal_def)
next
  case (RespostaEvento k ok)
  then have k: "k < length (consultas s)"
    and s': "s' = (let s1 = s\<lparr>consultas := take k (consultas s) @ drop (Suc k) (consultas s)\<rparr>
                   in if ok then s1\<lparr>ev_dados := Some (consultas s ! k),
                                    modais_evento := renderizar_pits (consultas s ! k) (modais_evento s1)\<rparr>
                      else s1)"
    using p by (auto simp: resposta_evento_def Let_def split: if_splits)
  have "consultas s ! k = e" using um k nth_mem by (auto simp: um_modal_def)
  then show ?thesis using um s' set_remove_nth [of k "consultas s"] by (auto simp: um_modal_def Let_def)
next
  case (SalvarNota q t v r)
  then show ?thesis using um p by (auto simp: um_modal_def salvar_nota_vivo_def split: if_splits)
qed (use assms in auto)

lemma um_modal_executa:
  "um_modal e s \<Longrightarrow> \<forall>ev\<in>set es. \<not> abre_ou_fecha ev \<Longrightarrow> executa_vivo s es = Some s' \<Longrightarrow> um_modal e s'"
  by (induction s es rule: executa_vivo.induct) (auto split: option.splits dest: um_modal_passo)

lemma um_modal_mostrar:
  "inv_vivo s \<Longrightarrow> modais_evento s = [] \<Longrightarrow> consultas s = [] \<Longrightarrow> um_modal e (mostrar_evento_ao_vivo e True True s)"
  by (simp add: um_modal_def mostrar_evento_ao_vivo_def Let_def limpar_intervalo_def inv_parar_vivo)

theorem um_modal_functional:
  "inv_vivo s \<Longrightarrow> modais_evento s = [] \<Longrightarrow> consultas s = [] \<Longrightarrow> \<forall>ev\<in>set es. \<not> abre_ou_fecha ev \<Longrightarrow>
   executa_vivo (mostrar_evento_ao_vivo e True True s) es = Some s' \<Longrightarrow>
   modais_evento s' = [(e, Some e)] \<and> ev_etapa s' = Some e"
  by (metis um_modal_mostrar um_modal_executa um_modal_def)

subsection \<open>Several modals\<close>

text \<open>C37. Under every interleaving of openings, closings, ticks, answers and
  saved scores, at most one live-event refresher runs, it is the handle
  \<open>intervaloEventoAtual\<close> holds, and it refreshes the stage
  \<open>eventos.etapaId\<close> names: no interval leaks.\<close>

theorem um_refresher_vivo:
  "alcanca_vivo s \<Longrightarrow>
   refreshers s = [] \<or> (\<exists>h e. refreshers s = [(h, e)] \<and> intervalo_evento s = Some h \<and> ev_etapa s = Some e)"
proof -
  assume "alcanca_vivo s"
  then have inv: "inv_vivo s" by (rule alcanca_vivo_inv)
  then have len: "length (refreshers s) \<le> 1" by (rule inv_vivo_um_refresher)
  show ?thesis
  proof (cases "refreshers s")
    case (Cons r t)
    then have "t = []" using len by simp
    then show ?thesis using Cons inv by (cases r) (auto simp: inv_vivo_def)
  qed simp
qed

lemma executa_vivo_alcanca:
  "alcanca_vivo s \<Longrightarrow> executa_vivo s es = Some s' \<Longrightarrow> alcanca_vivo s'"
  by (induction es arbitrary: s) (auto split: option.splits intro: alcanca_vivo.passo)

lemma executa_e1_e2:
  "executa_vivo (vivo_inicial None None) stages_e1_e2 = Some (the (executa_vivo (vivo_inicial None None) stages_e1_e2))"
  unfolding stages_e1_e2_def vivo_inicial_def by code_simp

theorem um_refresher_vivo_witness:
  "alcanca_vivo (the (executa_vivo (vivo_inicial None None) stages_e1_e2))
   \<and> (refreshers (the (executa_vivo (vivo_inicial None None) stages_e1_e2)) = []
      \<or> (\<exists>h e. refreshers (the (executa_vivo (vivo_inicial None None) stages_e1_e2)) = [(h, e)]
               \<and> intervalo_evento (the (executa_vivo (vivo_inicial None None) stages_e1_e2)) = Some h
               \<and> ev_etapa (the (executa_vivo (vivo_inicial None None) stages_e1_e2)) = Some e))"
proof -
  have a: "alcanca_vivo (the (executa_vivo (vivo_inicial None None) stages_e1_e2))"
    using executa_vivo_alcanca [OF alcanca_vivo.inicio executa_e1_e2] .
  show ?thesis using um_refresher_vivo [OF a] a by blast
qed

text \<open>Two openings (a double click on the notification, or two callers): the
  second modal is appended after the first and both render into the first
  \<open>#containerEventoPits\<close>, so the modal on top stays empty while the one below
  shows the second stage.\<close>

lemma dois_modais_um_vazio:
  "map_option modais_evento (executa_vivo (vivo_inicial None None) stages_e1_e2)
     = Some [(''E1'', Some ''E2''), (''E2'', None)]"
  unfolding stages_e1_e2_def vivo_inicial_def by code_simp

text \<open>Closing the top one of two modals of one stage clears the only refresher:
  the modal left on the page is never refreshed again.\<close>

lemma dois_cliques_sem_refresher:
  "map_option (\<lambda>s. (modais_evento s, refreshers s, ev_ativo s))
     (executa_vivo (vivo_inicial None None) dois_cliques) = Some ([(''E1'', Some ''E1'')], [], False)"
  unfolding dois_cliques_def vivo_inicial_def by code_simp

text \<open>C38. A tick answer renders the teams of the stage it was requested for
  into the first live-event modal, whatever stage that modal belongs to, and a
  score typed there is posted by \<open>salvarNotaEquipe\<close> under \<open>eventos.etapaId\<close>.
  So from any state with a modal open, current stage \<open>e2\<close>, and a tick request
  of stage \<open>e1\<close> in flight (its modal closed since), the late answer shows the
  teams of \<open>e1\<close> and the next score is posted for stage \<open>e2\<close>.\<close>

theorem nota_salva_em_outra_etapa:
  assumes "k < length (consultas s)" "consultas s ! k = e1" "ev_etapa s = Some e2"
    and "modais_evento s = (m, v) # ms"
  shows "\<exists>s'. executa_vivo s [RespostaEvento k True, SalvarNota q t val r] = Some s'
     \<and> modais_evento s' = (m, Some e1) # ms
     \<and> drop (length (efeitos_vivo s)) (efeitos_vivo s')
         = map EfeitoNota (salvar_nota_equipe (Some e2) (ls_equipe s) (ls_piloto s) q t val r)"
  using assms by (simp add: resposta_evento_def salvar_nota_vivo_def Let_def)

theorem nota_salva_em_outra_etapa_witness:
  "\<exists>s'. executa_vivo (the (executa_vivo (vivo_inicial None None) resposta_tardia))
          [RespostaEvento 0 True, SalvarNota ''q1'' ''linha'' ''30'' (NotaResp 200 True)] = Some s'
     \<and> modais_evento s' = [(''E2'', Some ''E1'')]
     \<and> EfeitoNota (PostNota ''E2'' ''q1'' ''nota_linha'' 30)
         \<in> set (drop (length (efeitos_vivo (the (executa_vivo (vivo_inicial None None) resposta_tardia))))
                     (efeitos_vivo s'))"
proof -
  let ?s = "the (executa_vivo (vivo_inicial None None) resposta_tardia)"
  have s: "0 < length (consultas ?s)" "consultas ?s ! 0 = ''E1''" "ev_etapa ?s = Some ''E2''"
    "modais_evento ?s = [(''E2'', Some ''E2'')]" "ls_equipe ?s = None" "ls_piloto ?s = None"
    unfolding resposta_tardia_def vivo_inicial_def by code_simp+
  have p: "EfeitoNota (PostNota ''E2'' ''q1'' ''nota_linha'' 30)
           \<in> set (map EfeitoNota (salvar_nota_equipe (Some ''E2'') None None ''q1'' ''linha'' ''30'' (NotaResp 200 True)))"
    by code_simp
  show ?thesis
    using nota_salva_em_outra_etapa [OF s(1) s(2) s(3) s(4), of "''q1''" "''linha''" "''30''" "NotaResp 200 True"] p
    unfolding s(5) s(6) by auto
qed

end
