(* ===== verification/GarageParts.thy ===== *)
theory GarageParts
  imports JsNumbers
begin

text \<open>
  The parts of a car as the garage shows them (src/static/script.js):
  \<open>gerarHtmlPecas\<close> (lines 1834--1972) lists the five slots in a fixed order, a
  slot per type looked up by the lower-cased type (the last part of a type
  wins) and every \<open>diferencial\<close>; \<open>verificarPecasCompletas\<close> (1974--1993)
  decides from the raw types whether the car may be activated, and the card of
  a car at rest (1181--1219) derives the activation button from it.  A number
  field of the server's JSON is a number, \<open>null\<close> or absent; \<open>Number()\<close> maps
  \<open>null\<close> to 0 and an absent field to \<open>NaN\<close> (\<open>None\<close>).  \<open>toLowerCase\<close> is the one
  of JsNumbers.
\<close>

subsection \<open>Numbers of the JSON\<close>

datatype num_js = JNum real | JNull | JUndef

definition numero_js :: "num_js \<Rightarrow> real option" where
  "numero_js v = (case v of JNum r \<Rightarrow> Some r | JNull \<Rightarrow> Some 0 | JUndef \<Rightarrow> None)"

text \<open>\<open>Number(v) || d\<close>: 0 and \<open>NaN\<close> are falsy.\<close>

definition numero_ou :: "num_js \<Rightarrow> real \<Rightarrow> real" where
  "numero_ou v d = (case numero_js v of Some n \<Rightarrow> (if n = 0 then d else n) | None \<Rightarrow> d)"

text \<open>\<open>durabilidadeAtual(peca)\<close> (1839--1845).\<close>

definition durabilidade_atual :: "num_js \<Rightarrow> real" where
  "durabilidade_atual v =
     (case v of JNum r \<Rightarrow> r | _ \<Rightarrow> (case numero_js v of Some n \<Rightarrow> n | None \<Rightarrow> 100))"

subsection \<open>Parts and slots\<close>

record peca_g =
  pg_id :: string
  pg_nome :: string
  pg_tipo :: "string option"
  pg_dur :: num_js
  pg_dur_max :: num_js
  pg_preco_loja :: num_js
  pg_upgrades :: "(string \<times> num_js) list option"   \<comment> \<open>name and price, when an array\<close>

record carro_g =
  cg_id :: string
  cg_status :: string
  cg_pecas :: "peca_g list option"
  cg_condicao :: num_js

text \<open>\<open>(peca.tipo || '').toLowerCase()\<close>.\<close>

definition tipo_min :: "peca_g \<Rightarrow> string" where
  "tipo_min p = to_lower (case pg_tipo p of Some t \<Rightarrow> t | None \<Rightarrow> [])"

definition ordem_pecas :: "string list" where
  "ordem_pecas = [''motor'', ''cambio'', ''suspensao'', ''kit_angulo'', ''diferencial'']"

definition nome_display :: "string \<Rightarrow> string" where
  "nome_display t =
     (if t = ''motor'' then ''Motor''
      else if t = ''cambio'' then ''C'' @ [CHR 0xC3, CHR 0xA2] @ ''mbio''
      else if t = ''suspensao'' then ''Suspens'' @ [CHR 0xC3, CHR 0xA3] @ ''o''
      else if t = ''kit_angulo'' then ''Kit '' @ [CHR 0xC3, CHR 0x82] @ ''ngulo''
      else ''Diferencial'')"

text \<open>\<open>mapaPecas\<close> (1851--1862): one part per type, overwritten by a later part
  of the same type, and the list of differentials.\<close>

definition poe_peca :: "(string \<Rightarrow> peca_g option) \<times> peca_g list \<Rightarrow> peca_g \<Rightarrow> (string \<Rightarrow> peca_g option) \<times> peca_g list" where
  "poe_peca acc p =
     (if tipo_min p = ''diferencial'' then (fst acc, snd acc @ [p])
      else ((fst acc)(tipo_min p \<mapsto> p), snd acc))"

definition mapa_pecas :: "carro_g \<Rightarrow> (string \<Rightarrow> peca_g option) \<times> peca_g list" where
  "mapa_pecas c = (case cg_pecas c of Some ps \<Rightarrow> foldl poe_peca (Map.empty, []) ps | None \<Rightarrow> (Map.empty, []))"

datatype cor_desgaste = Success | Warning | Danger

text \<open>A rendered slot: an installed part with its percentage, colour, cost of
  the \<open>retifica\<close> and whether the button is offered; or a missing type.\<close>

datatype linha_peca = Instalada peca_g real cor_desgaste real bool | Falta string

definition linha_instalada :: "peca_g \<Rightarrow> linha_peca" where
  "linha_instalada p =
     (let dur = durabilidade_atual (pg_dur p);
          dmax = numero_ou (pg_dur_max p) 100;
          pct = (if dmax > 0 then dur / dmax * 100 else 0);
          cor = (if pct > 75 then Success else if pct > 50 then Warning else if pct > 25 then Danger else Danger);
          ups = (case pg_upgrades p of Some us \<Rightarrow> sum_list (map (\<lambda>u. numero_ou (snd u) 0) us) | None \<Rightarrow> 0);
          custo = (numero_ou (pg_preco_loja p) 0 + ups) / 2
      in Instalada p pct cor custo (pct < 100))"

definition linhas_do_tipo :: "(string \<Rightarrow> peca_g option) \<times> peca_g list \<Rightarrow> string \<Rightarrow> linha_peca list" where
  "linhas_do_tipo m t =
     (if t = ''diferencial'' then
        (if snd m \<noteq> [] then map linha_instalada (snd m) else [Falta (nome_display t)])
      else (case fst m t of Some p \<Rightarrow> [linha_instalada p] | None \<Rightarrow> [Falta (nome_display t)]))"

text \<open>\<open>gerarHtmlPecas(carro)\<close>, as the list of its slots.\<close>

definition gerar_html_pecas :: "carro_g \<Rightarrow> linha_peca list" where
  "gerar_html_pecas c = concat (map (linhas_do_tipo (mapa_pecas c)) ordem_pecas)"

fun falta :: "linha_peca \<Rightarrow> string option" where
  "falta (Falta n) = Some n"
| "falta (Instalada _ _ _ _ _) = None"

definition faltando :: "linha_peca list \<Rightarrow> string list" where
  "faltando ls = List.map_filter falta ls"

subsection \<open>Activation\<close>

definition tipos_necessarios :: "string list" where
  "tipos_necessarios = [''motor'', ''cambio'', ''suspensao'', ''diferencial'', ''kit_angulo'']"

text \<open>\<open>verificarPecasCompletas(carro)\<close>: the raw types, without lower-casing.\<close>

definition verificar_pecas_completas :: "carro_g \<Rightarrow> bool" where
  "verificar_pecas_completas c =
     (case cg_pecas c of
        None \<Rightarrow> False
      | Some ps \<Rightarrow>
          (let tipos = map (\<lambda>p. the (pg_tipo p)) (filter (\<lambda>p. js_truthy_str (pg_tipo p)) ps)
           in list_all (\<lambda>t. t \<in> set tipos) tipos_necessarios))"

text \<open>\<open>sol.tipo_carro ? sol.tipo_carro.split('|') : []\<close>, then \<open>[0]\<close>.\<close>

definition carro_da_solicitacao :: "string option \<Rightarrow> string option" where
  "carro_da_solicitacao t =
     (case t of Some s \<Rightarrow> (if s = [] then None else Some (takeWhile (\<lambda>ch. ch \<noteq> CHR ''|'') s)) | None \<Rightarrow> None)"

definition tem_solicitacao_pendente :: "string option list option \<Rightarrow> carro_g \<Rightarrow> bool" where
  "tem_solicitacao_pendente sols c =
     (case sols of None \<Rightarrow> False | Some ss \<Rightarrow> list_ex (\<lambda>t. carro_da_solicitacao t = Some (cg_id c)) ss)"

datatype titulo_ativar = JaAtivo | AguardandoAtivacao | PecasFaltando | GerarQrCode

definition btn_disabled :: "string option list option \<Rightarrow> carro_g \<Rightarrow> bool" where
  "btn_disabled sols c =
     (cg_status c = ''ativo'' \<or> tem_solicitacao_pendente sols c \<or> \<not> verificar_pecas_completas c)"

definition btn_title :: "string option list option \<Rightarrow> carro_g \<Rightarrow> titulo_ativar" where
  "btn_title sols c =
     (if cg_status c = ''ativo'' then JaAtivo
      else if tem_solicitacao_pendente sols c then AguardandoAtivacao
      else if \<not> verificar_pecas_completas c then PecasFaltando
      else GerarQrCode)"

definition btn_primario :: "string option list option \<Rightarrow> carro_g \<Rightarrow> bool" where
  "btn_primario sols c =
     (\<not> (cg_status c = ''ativo'' \<or> tem_solicitacao_pendente sols c \<or> \<not> verificar_pecas_completas c))"

text \<open>\<open>carro.condicao_geral || 100\<close> and its colour (1182--1183).\<close>

definition cor_condicao :: "carro_g \<Rightarrow> cor_desgaste" where
  "cor_condicao c =
     (let g = numero_ou (cg_condicao c) 100 in if g > 75 then Success else if g > 50 then Warning else Danger)"

definition pecas_de :: "carro_g \<Rightarrow> peca_g list" where
  "pecas_de c = (case cg_pecas c of Some ps \<Rightarrow> ps | None \<Rightarrow> [])"

definition tipos_minusculos :: "carro_g \<Rightarrow> bool" where
  "tipos_minusculos c = list_all (\<lambda>p. case pg_tipo p of Some t \<Rightarrow> to_lower t = t | None \<Rightarrow> True) (pecas_de c)"

definition peca_exemplo :: "string \<Rightarrow> string \<Rightarrow> peca_g" where
  "peca_exemplo i t = \<lparr>pg_id = i, pg_nome = i, pg_tipo = Some t, pg_dur = JNum 50, pg_dur_max = JNum 100,
                       pg_preco_loja = JNum 200, pg_upgrades = None\<rparr>"

definition carro_completo :: carro_g where
  "carro_completo =
     \<lparr>cg_id = ''c2'', cg_status = ''repouso'',
      cg_pecas = Some [peca_exemplo ''p1'' ''motor'', peca_exemplo ''p2'' ''cambio'', peca_exemplo ''p3'' ''suspensao'',
                       peca_exemplo ''p4'' ''kit_angulo'', peca_exemplo ''p5'' ''diferencial''],
      cg_condicao = JUndef\<rparr>"

text \<open>A complete car with a second motor.\<close>

definition carro_dois_motores :: carro_g where
  "carro_dois_motores =
     carro_completo\<lparr>cg_pecas := Some (peca_exemplo ''p6'' ''motor'' # the (cg_pecas carro_completo))\<rparr>"

definition carro_motor_maiusculo :: carro_g where
  "carro_motor_maiusculo =
     \<lparr>cg_id = ''c1'', cg_status = ''repouso'',
      cg_pecas = Some [peca_exemplo ''p1'' ''Motor'', peca_exemplo ''p2'' ''cambio'', peca_exemplo ''p3'' ''suspensao'',
                       peca_exemplo ''p4'' ''kit_angulo'', peca_exemplo ''p5'' ''diferencial''],
      cg_condicao = JUndef\<rparr>"

subsection \<open>The slots\<close>

lemma foldl_poe_peca_diferencial:
  "snd (foldl poe_peca acc ps) = snd acc @ filter (\<lambda>p. tipo_min p = ''diferencial'') ps"
  by (induction ps arbitrary: acc) (auto simp: poe_peca_def)

lemma foldl_poe_peca_tipo:
  "t \<noteq> ''diferencial'' \<Longrightarrow>
   fst (foldl poe_peca acc ps) t =
     (if filter (\<lambda>p. tipo_min p = t) ps = [] then fst acc t else Some (last (filter (\<lambda>p. tipo_min p = t) ps)))"
  by (induction ps arbitrary: acc) (auto simp: poe_peca_def)

text \<open>The slot of a type shows the last part of that type: an earlier part of
  the same type is not listed.\<close>

lemma mapa_pecas_ultima:
  "t \<noteq> ''diferencial'' \<Longrightarrow>
   fst (mapa_pecas c) t =
     (if filter (\<lambda>p. tipo_min p = t) (pecas_de c) = [] then None
      else Some (last (filter (\<lambda>p. tipo_min p = t) (pecas_de c))))"
  by (simp add: mapa_pecas_def pecas_de_def foldl_poe_peca_tipo split: option.split)

lemma mapa_pecas_diferenciais:
  "snd (mapa_pecas c) = filter (\<lambda>p. tipo_min p = ''diferencial'') (pecas_de c)"
  by (simp add: mapa_pecas_def pecas_de_def foldl_poe_peca_diferencial split: option.split)

lemma faltando_append [simp]: "faltando (xs @ ys) = faltando xs @ faltando ys"
  by (simp add: faltando_def map_filter_def)

lemma falta_linha_instalada [simp]: "falta (linha_instalada p) = None"
  by (simp add: linha_instalada_def Let_def)

lemma faltando_instaladas [simp]: "faltando (map linha_instalada ps) = []"
  by (induction ps) (simp_all add: faltando_def map_filter_def)

lemma faltando_concat: "faltando (concat xss) = concat (map faltando xss)"
  by (induction xss) (simp_all add: faltando_def map_filter_def)

lemma concat_map_vazio_ou_um:
  "concat (map (\<lambda>t. if P t then [] else [f t]) ts) = map f (filter (\<lambda>t. \<not> P t) ts)"
  by (induction ts) auto

lemma faltando_linhas_do_tipo:
  "faltando (linhas_do_tipo (mapa_pecas c) t) =
     (if \<exists>p \<in> set (pecas_de c). tipo_min p = t then [] else [nome_display t])"
proof (cases "t = ''diferencial''")
  case True
  then show ?thesis
    by (auto simp: linhas_do_tipo_def mapa_pecas_diferenciais faltando_def map_filter_def filter_empty_conv
                   simp del: faltando_instaladas)
next
  case False
  then show ?thesis
    by (auto simp: linhas_do_tipo_def mapa_pecas_ultima faltando_def map_filter_def linha_instalada_def
                   Let_def filter_empty_conv)
qed

text \<open>The missing slots of the list are the types of \<open>ordemPecas\<close> that no
  part has, compared in lower case.\<close>

lemma faltando_gerar_html_pecas:
  "faltando (gerar_html_pecas c) =
     map nome_display (filter (\<lambda>t. \<not> (\<exists>p \<in> set (pecas_de c). tipo_min p = t)) ordem_pecas)"
  unfolding gerar_html_pecas_def faltando_concat map_map comp_def faltando_linhas_do_tipo
  by (rule concat_map_vazio_ou_um)

lemma nome_display_ne [simp]: "nome_display t \<noteq> []"
  by (simp add: nome_display_def)

lemma tipo_min_minusculo:
  "(case pg_tipo p of Some u \<Rightarrow> to_lower u = u | None \<Rightarrow> True) \<Longrightarrow> t \<noteq> [] \<Longrightarrow>
   (tipo_min p = t) = (pg_tipo p = Some t)"
  by (auto simp: tipo_min_def to_lower_def split: option.splits)

lemma verificar_pecas_completas_tipos:
  "cg_pecas c = Some ps \<Longrightarrow>
   verificar_pecas_completas c = (\<forall>t \<in> set tipos_necessarios. \<exists>p \<in> set ps. pg_tipo p = Some t)"
proof -
  assume c: "cg_pecas c = Some ps"
  have "t \<in> set (map (\<lambda>p. the (pg_tipo p)) (filter (\<lambda>p. js_truthy_str (pg_tipo p)) ps))
        = (\<exists>p \<in> set ps. pg_tipo p = Some t)" if "t \<in> set tipos_necessarios" for t
  proof -
    have "t \<noteq> []" using that by (auto simp: tipos_necessarios_def)
    then show ?thesis by (force simp: js_truthy_str_def split: option.splits)
  qed
  then show ?thesis using c by (simp add: verificar_pecas_completas_def list_all_iff)
qed

text \<open>C11. With lower-case types, the activation check of a car at rest and the
  list of its parts agree: \<open>verificarPecasCompletas\<close> holds exactly when
  \<open>gerarHtmlPecas\<close> shows no missing slot.  And the check asks each required type
  to appear at least once, for every type alike: the comment's "Outros tipos devem
  aparecer exatamente uma vez" is not enforced, so a car with two motors passes.\<close>

theorem completas_sem_falta_aceita_repetidas:
  assumes "tipos_minusculos c"
  shows "verificar_pecas_completas c = (faltando (gerar_html_pecas c) = [])
         \<and> verificar_pecas_completas c
             = (\<forall>t \<in> set tipos_necessarios. 0 < count_list (map pg_tipo (pecas_de c)) (Some t))"
proof -
  have min: "\<forall>p \<in> set (pecas_de c). (case pg_tipo p of Some u \<Rightarrow> to_lower u = u | None \<Rightarrow> True)"
    using assms by (simp add: tipos_minusculos_def list_all_iff)
  have eq: "(\<exists>p \<in> set (pecas_de c). tipo_min p = t) = (\<exists>p \<in> set (pecas_de c). pg_tipo p = Some t)"
    if "t \<in> set ordem_pecas" for t
  proof -
    have "t \<noteq> []" using that by (auto simp: ordem_pecas_def)
    then show ?thesis using min tipo_min_minusculo by blast
  qed
  have tipos: "verificar_pecas_completas c
      = (\<forall>t \<in> set tipos_necessarios. \<exists>p \<in> set (pecas_de c). pg_tipo p = Some t)"
  proof (cases "cg_pecas c")
    case None
    then show ?thesis by (auto simp: pecas_de_def verificar_pecas_completas_def tipos_necessarios_def)
  next
    case (Some ps)
    then show ?thesis by (simp add: pecas_de_def verificar_pecas_completas_tipos)
  qed
  have "(faltando (gerar_html_pecas c) = []) = (\<forall>t \<in> set ordem_pecas. \<exists>p \<in> set (pecas_de c). tipo_min p = t)"
    by (simp add: faltando_gerar_html_pecas filter_empty_conv)
  also have "\<dots> = (\<forall>t \<in> set tipos_necessarios. \<exists>p \<in> set (pecas_de c). pg_tipo p = Some t)"
    using eq by (simp add: ordem_pecas_def tipos_necessarios_def) blast
  finally have sem: "verificar_pecas_completas c = (faltando (gerar_html_pecas c) = [])"
    using tipos by simp
  have "(0 < count_list (map pg_tipo (pecas_de c)) (Some t)) = (\<exists>p \<in> set (pecas_de c). pg_tipo p = Some t)"
    for t by (metis (mono_tags, lifting) count_list_0_iff neq0_conv image_iff set_map)
  with tipos have "verificar_pecas_completas c
      = (\<forall>t \<in> set tipos_necessarios. 0 < count_list (map pg_tipo (pecas_de c)) (Some t))"
    by simp
  with sem show ?thesis by simp
qed

theorem completas_sem_falta_aceita_repetidas_witness:
  "tipos_minusculos carro_dois_motores
   \<and> verificar_pecas_completas carro_dois_motores
   \<and> faltando (gerar_html_pecas carro_dois_motores) = []
   \<and> count_list (map pg_tipo (pecas_de carro_dois_motores)) (Some ''motor'') = 2"
proof -
  have t: "tipos_minusculos carro_dois_motores"
    unfolding tipos_minusculos_def pecas_de_def carro_dois_motores_def carro_completo_def peca_exemplo_def
      to_lower_def minuscula_def
    by code_simp
  have c: "count_list (map pg_tipo (pecas_de carro_dois_motores)) (Some ''motor'') = 2"
    unfolding pecas_de_def carro_dois_motores_def carro_completo_def peca_exemplo_def by code_simp
  have "\<forall>t \<in> set tipos_necessarios. 0 < count_list (map pg_tipo (pecas_de carro_dois_motores)) (Some t)"
    unfolding pecas_de_def carro_dois_motores_def carro_completo_def peca_exemplo_def tipos_necessarios_def
    by code_simp
  then show ?thesis using completas_sem_falta_aceita_repetidas [OF t] t c by blast
qed

text \<open>A part typed \<open>Motor\<close>: the list finds it (lower case) and shows no
  missing slot, but \<open>verificarPecasCompletas\<close> compares the raw type and keeps
  the activation button disabled as "parts missing".\<close>

lemma motor_maiusculo_bloqueia:
  "\<not> verificar_pecas_completas carro_motor_maiusculo
   \<and> faltando (gerar_html_pecas carro_motor_maiusculo) = []
   \<and> btn_title None carro_motor_maiusculo = PecasFaltando"
  unfolding carro_motor_maiusculo_def peca_exemplo_def by code_simp

text \<open>\<open>Number(null)\<close> is 0: a part whose durability is \<open>null\<close> shows 0\% and
  offers a paid \<open>retifica\<close>, while an absent durability shows 100\%.\<close>

lemma durabilidade_nula_zero:
  "linha_instalada ((peca_exemplo ''p1'' ''motor'')\<lparr>pg_dur := JNull\<rparr>)
     = Instalada ((peca_exemplo ''p1'' ''motor'')\<lparr>pg_dur := JNull\<rparr>) 0 Danger 100 True
   \<and> linha_instalada ((peca_exemplo ''p1'' ''motor'')\<lparr>pg_dur := JUndef\<rparr>)
     = Instalada ((peca_exemplo ''p1'' ''motor'')\<lparr>pg_dur := JUndef\<rparr>) 100 Success 100 False"
  by (simp add: linha_instalada_def durabilidade_atual_def numero_ou_def numero_js_def peca_exemplo_def)

subsection \<open>Activation button\<close>

text \<open>The three copies of the condition in the card agree: the button is
  disabled exactly when it is grey and its title is not the call to pay.\<close>

lemma botao_ativar_consistente:
  "btn_disabled sols c = (\<not> btn_primario sols c) \<and> btn_disabled sols c = (btn_title sols c \<noteq> GerarQrCode)"
  by (simp add: btn_disabled_def btn_primario_def btn_title_def)

end
