(* ===== verification/WarehouseDropdown.thy ===== *)
theory WarehouseDropdown
  imports WarehouseModal RemovePart
begin

text \<open>
  The car dropdowns of the modal "Adicionar Pecas do Armazem"
  (src/static/script.js, lines 3037--3100 and 3137--3304).  Every listed part
  has a select \<open>#carroSelect_<key>\<close> with one option per car of the garage; the
  handlers set the options' \<open>disabled\<close> flags: ticking a part filters every
  select of the modal by that part's compatibilities
  (\<open>atualizarCompatibilidadeCarrosArmazem\<close>), unticking one enables them all
  (\<open>removerFiltroCompatibilidadeArmazem\<close>), and choosing a destination rewrites
  the part's own select from the cars' active flags
  (\<open>atualizarDestinoPecasArmazem\<close>).  A user can pick only an enabled option.
  The selection object and the confirmation are those of WarehouseModal; the
  PIX events of the active car are left to PixStore.
\<close>

record modal_arm_st =
  selecao_m :: selecao
  opcoes_m :: "(string \<times> (string \<times> bool) list) list"  \<comment> \<open>key, options (car id, disabled)\<close>
  carros_m :: "(string \<times> bool) list"                  \<comment> \<open>garage cars: id, \<open>carro_ativo\<close>\<close>
  efeitos_m :: "efeito_modal_arm list"

definition modal_arm_inicial :: "(string \<times> bool) list \<Rightarrow> modal_arm_st" where
  "modal_arm_inicial cs = \<lparr>selecao_m = [], opcoes_m = [], carros_m = cs, efeitos_m = []\<rparr>"

text \<open>\<open>opcoesCarros\<close>: the rendered select of each listed part, no option disabled.\<close>

definition renderizar_opcoes :: "(string \<times> bool) list \<Rightarrow> peca_guardada_m list \<Rightarrow> (string \<times> (string \<times> bool) list) list" where
  "renderizar_opcoes cs ps = map (\<lambda>p. (chave_peca p, map (\<lambda>c. (fst c, False)) cs)) ps"

definition filtrar_compat :: "string list \<Rightarrow> (string \<times> (string \<times> bool) list) list \<Rightarrow> (string \<times> (string \<times> bool) list) list" where
  "filtrar_compat compats os = map (\<lambda>(k, xs). (k, map (\<lambda>(c, _). (c, \<not> compativel_js compats c)) xs)) os"

definition remover_filtro :: "(string \<times> (string \<times> bool) list) list \<Rightarrow> (string \<times> (string \<times> bool) list) list" where
  "remover_filtro os = map (\<lambda>(k, xs). (k, map (\<lambda>(c, _). (c, False)) xs)) os"

text \<open>The options of one select after a destination: for \<open>'repouso'\<close> the active
  car is disabled, otherwise every car that is not the active one.\<close>

definition opcoes_destino_arm :: "(string \<times> bool) list \<Rightarrow> string \<Rightarrow> (string \<times> bool) list \<Rightarrow> (string \<times> bool) list" where
  "opcoes_destino_arm cs d xs =
     map (\<lambda>(c, _). (c, let ativo = (map_of cs c = Some True) in if d = ''repouso'' then ativo else \<not> ativo)) xs"

definition atualiza_opcoes :: "string \<Rightarrow> ((string \<times> bool) list \<Rightarrow> (string \<times> bool) list)
                               \<Rightarrow> (string \<times> (string \<times> bool) list) list \<Rightarrow> (string \<times> (string \<times> bool) list) list" where
  "atualiza_opcoes k f os = map (\<lambda>(k', xs). if k' = k then (k', f xs) else (k', xs)) os"

text \<open>\<open>atualizarSelecaoPecasArmazem(pecaKey)\<close> with the checkbox state.\<close>

definition marcar_peca :: "string \<Rightarrow> bool \<Rightarrow> modal_arm_st \<Rightarrow> modal_arm_st" where
  "marcar_peca k b s =
     (case map_of (selecao_m s) k of
        None \<Rightarrow> s
      | Some e \<Rightarrow>
          s\<lparr>selecao_m := atualizar_selecao k b (selecao_m s),
            opcoes_m := (if b then filtrar_compat (pm_compat (sel_peca e)) (opcoes_m s) else remover_filtro (opcoes_m s))\<rparr>)"

text \<open>\<open>atualizarDestinoPecasArmazem(pecaKey, novoDestino)\<close>.\<close>

definition destino_peca :: "string \<Rightarrow> string \<Rightarrow> modal_arm_st \<Rightarrow> modal_arm_st" where
  "destino_peca k d s =
     (if map_of (selecao_m s) k = None then s
      else
        (let renderizada = (map_of (opcoes_m s) k \<noteq> None)
         in s\<lparr>selecao_m := atualizar_destino (carros_m s) renderizada k d (selecao_m s),
              opcoes_m := atualiza_opcoes k (opcoes_destino_arm (carros_m s) d) (opcoes_m s)\<rparr>))"

text \<open>\<open>atualizarCarroDestino(pecaKey, this.value)\<close>: the placeholder or an
  enabled option of the part's select.\<close>

definition escolher_carro :: "string \<Rightarrow> string \<Rightarrow> modal_arm_st \<Rightarrow> modal_arm_st option" where
  "escolher_carro k c s =
     (if c = [] \<or> (case map_of (opcoes_m s) k of Some xs \<Rightarrow> (c, False) \<in> set xs | None \<Rightarrow> False)
      then Some (s\<lparr>selecao_m := atualizar_carro_destino k c (selecao_m s)\<rparr>)
      else None)"

datatype evento_arm =
    AbrirArm "peca_guardada_m list option" | MarcarArm string bool | DestinoArm string string
  | EscolherArm string string | ConfirmarArm "string option" resposta_ativo_modal

fun passo_arm :: "modal_arm_st \<Rightarrow> evento_arm \<Rightarrow> modal_arm_st option" where
  "passo_arm s (AbrirArm g) =
     (let (sel, efs) = abrir_modal_adicionar g (selecao_m s)
      in Some (s\<lparr>selecao_m := sel, efeitos_m := efeitos_m s @ efs,
                 opcoes_m := (case g of Some ps \<Rightarrow> if ps = [] then opcoes_m s else renderizar_opcoes (carros_m s) ps
                                     | None \<Rightarrow> opcoes_m s)\<rparr>))"
| "passo_arm s (MarcarArm k b) = Some (marcar_peca k b s)"
| "passo_arm s (DestinoArm k d) = Some (destino_peca k d s)"
| "passo_arm s (EscolherArm k c) = escolher_carro k c s"
| "passo_arm s (ConfirmarArm ca r) =
     (let (sel, efs, _) = confirmar_adicao ca r (selecao_m s)
      in Some (s\<lparr>selecao_m := sel, efeitos_m := efeitos_m s @ efs\<rparr>))"

fun executa_arm :: "modal_arm_st \<Rightarrow> evento_arm list \<Rightarrow> modal_arm_st option" where
  "executa_arm s [] = Some s"
| "executa_arm s (e # es) = (case passo_arm s e of None \<Rightarrow> None | Some s' \<Rightarrow> executa_arm s' es)"

definition fluxo_repouso :: "peca_guardada_m \<Rightarrow> string \<Rightarrow> string option \<Rightarrow> resposta_ativo_modal \<Rightarrow> evento_arm list" where
  "fluxo_repouso p c ca r =
     [AbrirArm (Some [p]), MarcarArm (chave_peca p) True, DestinoArm (chave_peca p) ''repouso'',
      EscolherArm (chave_peca p) c, ConfirmarArm ca r]"

definition peca_so_1 :: peca_guardada_m where
  "peca_so_1 = \<lparr>pm_id = Some ''a1'', pm_nome = ''Motor'', pm_tipo = ''motor'', pm_pix_id = None, pm_compat = [''1'']\<rparr>"

definition carros_123 :: "(string \<times> bool) list" where
  "carros_123 = [(''1'', False), (''2'', False), (''3'', True)]"

subsection \<open>The filter and what overrides it\<close>

lemma map_of_atualiza_opcoes:
  "map_of (atualiza_opcoes k f os) k' = (if k' = k then map_option f (map_of os k) else map_of os k')"
  by (induction os) (auto simp: atualiza_opcoes_def)

text \<open>Right after a part is ticked, every option still enabled in any select is
  compatible with it.\<close>

lemma escolher_apos_marcar:
  assumes "map_of (selecao_m s) k = Some e" "escolher_carro k' c (marcar_peca k True s) = Some s'" "c \<noteq> []"
  shows "compativel_js (pm_compat (sel_peca e)) c"
proof -
  obtain xs where "map_of (opcoes_m (marcar_peca k True s)) k' = Some xs" "(c, False) \<in> set xs"
    using assms(2,3) by (auto simp: escolher_carro_def split: option.splits if_splits)
  then show ?thesis using assms(1)
    by (auto simp: marcar_peca_def filtrar_compat_def map_of_map dest!: map_of_SomeD)
qed

text \<open>Choosing the destination "at rest" rewrites the part's select from the
  active flags alone: a car at rest is enabled whatever the filter said.\<close>

lemma destino_repouso_habilita:
  "map_of (selecao_m s) k \<noteq> None \<Longrightarrow> map_of (opcoes_m s) k = Some xs \<Longrightarrow> map_of (carros_m s) c = Some False \<Longrightarrow>
   (c, b) \<in> set xs \<Longrightarrow> map_of (opcoes_m (destino_peca k ''repouso'' s)) k = Some ys \<Longrightarrow> (c, False) \<in> set ys"
  by (force simp: destino_peca_def Let_def map_of_atualiza_opcoes opcoes_destino_arm_def)

subsection \<open>The filter never binds\<close>

lemma executa_arm_append:
  "executa_arm s (xs @ ys) = (case executa_arm s xs of None \<Rightarrow> None | Some s' \<Rightarrow> executa_arm s' ys)"
  by (induction s xs rule: executa_arm.induct) (auto split: option.split)

lemma fluxo_ate_destino:
  "executa_arm (modal_arm_inicial cs) [AbrirArm (Some [p]), MarcarArm (chave_peca p) True, DestinoArm (chave_peca p) ''repouso'']
     = Some \<lparr>selecao_m = atualizar_destino cs True (chave_peca p) ''repouso''
                           [(chave_peca p, \<lparr>sel_selecionada = True, sel_destino_tipo = ''ativo'', sel_destino_carro = None, sel_peca = p\<rparr>)],
             opcoes_m = [(chave_peca p, map (\<lambda>c. (fst c, map_of cs (fst c) = Some True)) cs)],
             carros_m = cs, efeitos_m = [ModalAdicionarAberto]\<rparr>"
  by (simp add: modal_arm_inicial_def abrir_modal_adicionar_def renderizar_opcoes_def marcar_peca_def
                atualizar_selecao_def atualiza_sel_def filtrar_compat_def destino_peca_def atualiza_opcoes_def
                opcoes_destino_arm_def comp_def case_prod_unfold)

lemma destino_e_carro:
  "atualizar_carro_destino k c (atualizar_destino cs True k ''repouso'' [(k, e)])
     = [(k, e\<lparr>sel_destino_tipo := ''repouso'', sel_destino_carro := (if c = [] then None else Some c)\<rparr>)]"
  by (simp add: atualizar_destino_def atualizar_carro_destino_def atualiza_sel_def Let_def)

lemma opcao_repouso_habilitada:
  "map_of cs c = Some False \<Longrightarrow> (c, False) \<in> set (map (\<lambda>c'. (fst c', map_of cs (fst c') = Some True)) cs)"
proof -
  assume h: "map_of cs c = Some False"
  then have "(c, False) \<in> set cs" by (rule map_of_SomeD)
  then show ?thesis using h by (auto simp: image_iff intro!: bexI [of _ "(c, False)"])
qed

text \<open>C26. The compatibility filter never constrains the usual flow: for every
  stored part and every car at rest, ticking the part, choosing "at rest" and
  picking that car is accepted, and the confirmation asks the server to install
  the part on that car, whatever the part's \<open>compatibilidades\<close> say.  The
  destination handler rewrites the part's select from the active flags after
  the filter ran, and the confirmation checks no compatibility.\<close>

theorem instala_sem_compatibilidade:
  "map_of cs c = Some False \<Longrightarrow> c \<noteq> [] \<Longrightarrow>
   \<exists>s. executa_arm (modal_arm_inicial cs) (fluxo_repouso p c ca r) = Some s
       \<and> efeitos_m s = [ModalAdicionarAberto, PostInstalarRepouso c [p]]"
proof -
  assume c: "map_of cs c = Some False" "c \<noteq> []"
  have split: "fluxo_repouso p c ca r =
      [AbrirArm (Some [p]), MarcarArm (chave_peca p) True, DestinoArm (chave_peca p) ''repouso'']
      @ [EscolherArm (chave_peca p) c, ConfirmarArm ca r]"
    by (simp add: fluxo_repouso_def)
  show ?thesis
    unfolding split executa_arm_append fluxo_ate_destino
    using c opcao_repouso_habilitada [OF c(1)]
    by (simp add: escolher_carro_def destino_e_carro confirmar_adicao_def Let_def)
qed

theorem instala_sem_compatibilidade_witness:
  "map_of carros_123 ''2'' = Some False \<and> ''2'' \<noteq> []
   \<and> \<not> compativel_js (pm_compat peca_so_1) ''2''
   \<and> (\<exists>s. executa_arm (modal_arm_inicial carros_123) (fluxo_repouso peca_so_1 ''2'' None AtivoFalha) = Some s
          \<and> efeitos_m s = [ModalAdicionarAberto, PostInstalarRepouso ''2'' [peca_so_1]])"
proof -
  have h: "map_of carros_123 ''2'' = Some False" by (simp add: carros_123_def)
  have i: "\<not> compativel_js (pm_compat peca_so_1) ''2''"
    unfolding peca_so_1_def compativel_js_def by code_simp
  show ?thesis using instala_sem_compatibilidade [OF h, of peca_so_1 None AtivoFalha] h i by simp
qed

end
