(* ===== verification/ShopListing.thy ===== *)
theory ShopListing
  imports PurchaseFlows
begin

text \<open>
  The part listing of the shop, \<open>renderizarPecas\<close> (src/static/script.js, lines
  997--1080): the global \<open>pecas\<close> filtered by the type chosen in
  \<open>#filtroTipoPeca\<close>, one card per part with its compatibility text and a buy
  button enabled when the part is universal or some car of \<open>equipeAtual\<close> has
  \<open>modelo_id === peca.compatibilidade\<close>.  The button calls
  \<open>adicionarAoCarrinho\<close> with the part's data.  The cars are the records of
  PurchaseFlows, whose \<open>carros_compativeis\<close> is the test of
  \<open>abrirEscolherCarro\<close>; a field absent from the JSON is \<open>None\<close>, and strict
  equality of two such fields is equality of the options.
\<close>

record peca_loja =
  pl_id :: string
  pl_nome :: string
  pl_tipo :: "string option"
  pl_compat :: "string option"        \<comment> \<open>\<open>compatibilidade\<close>\<close>
  pl_compat_nome :: "string option"   \<comment> \<open>\<open>compatibilidade_nome\<close>\<close>
  pl_is_upgrade :: bool
  pl_preco :: money

datatype texto_compat = TextoUniversal | CompativelCom string | SoCompativelCom string

record cartao_loja =
  ck_peca :: peca_loja
  ck_texto :: texto_compat
  ck_pode_comprar :: bool
  ck_tipo_carrinho :: string          \<comment> \<open>the last argument of \<open>adicionarAoCarrinho\<close>\<close>

datatype listagem = CarregandoPecas | NenhumaPeca | Cartoes "cartao_loja list"

text \<open>\<open>peca.compatibilidade_nome || peca.compatibilidade\<close>, as interpolated.\<close>

definition nome_modelo :: "peca_loja \<Rightarrow> string" where
  "nome_modelo p = (if js_truthy_str (pl_compat_nome p) then the (pl_compat_nome p) else js_str (pl_compat p))"

text \<open>\<open>equipeAtual.carros.some(carro => carro.modelo_id === peca.compatibilidade)\<close>,
  \<open>None\<close> when \<open>equipeAtual\<close> or its cars are missing.\<close>

definition tem_carro_compativel :: "carro_garagem list option \<Rightarrow> peca_loja \<Rightarrow> bool" where
  "tem_carro_compativel cs p =
     (case cs of None \<Rightarrow> False | Some xs \<Rightarrow> list_ex (\<lambda>c. cg_modelo_id c = pl_compat p) xs)"

definition cartao_peca :: "carro_garagem list option \<Rightarrow> peca_loja \<Rightarrow> cartao_loja" where
  "cartao_peca cs p =
     (let (texto, pode) =
            (if pl_compat p = Some ''universal'' then (TextoUniversal, True)
             else if tem_carro_compativel cs p then (CompativelCom (nome_modelo p), True)
             else (SoCompativelCom (nome_modelo p), False))
      in \<lparr>ck_peca = p, ck_texto = texto, ck_pode_comprar = pode,
          ck_tipo_carrinho = (if pl_is_upgrade p then ''upgrade'' else js_str (pl_tipo p))\<rparr>)"

text \<open>\<open>renderizarPecas()\<close>; \<open>filtro\<close> is the value of \<open>#filtroTipoPeca\<close>
  (\<open>''\<close> when absent), \<open>pecas\<close> the global list.\<close>

definition renderizar_pecas :: "string \<Rightarrow> peca_loja list \<Rightarrow> carro_garagem list option \<Rightarrow> listagem" where
  "renderizar_pecas filtro pecas cs =
     (if pecas = [] then CarregandoPecas
      else
        (let fs = (if filtro = [] then pecas else filter (\<lambda>p. pl_tipo p = Some filtro) pecas)
         in if fs = [] then NenhumaPeca else Cartoes (map (cartao_peca cs) fs)))"

definition carro_m1 :: carro_garagem where
  "carro_m1 = \<lparr>cg_id = ''c1'', cg_modelo_id = Some ''m1''\<rparr>"

definition peca_m1_m2 :: peca_loja where
  "peca_m1_m2 = \<lparr>pl_id = ''p1'', pl_nome = ''Turbo'', pl_tipo = Some ''motor'', pl_compat = Some ''m1,m2'',
                 pl_compat_nome = None, pl_is_upgrade = False, pl_preco = 100\<rparr>"

subsection \<open>The listing\<close>

lemma renderizar_pecas_cartoes:
  "renderizar_pecas filtro pecas cs = Cartoes ks \<Longrightarrow>
   map ck_peca ks = (if filtro = [] then pecas else filter (\<lambda>p. pl_tipo p = Some filtro) pecas)"
  by (auto simp: renderizar_pecas_def Let_def cartao_peca_def comp_def case_prod_unfold split: if_splits)

lemma cartao_pode_comprar:
  "ck_pode_comprar (cartao_peca cs p) = (pl_compat p = Some ''universal'' \<or> tem_carro_compativel cs p)"
  by (simp add: cartao_peca_def Let_def)

text \<open>For a single model id, trimmed and without commas, and cars whose model
  ids are trimmed, the button of the card is enabled exactly when the car
  chooser of \<open>abrirEscolherCarro\<close> would list a compatible car.\<close>

lemma trim_m1: "trim ''m1'' = ''m1''"
  by (simp add: trim_def espaco_js_def)

lemma trim_js_or_str_modelo:
  "(case cg_modelo_id c of Some x \<Rightarrow> trim x = x | None \<Rightarrow> True) \<Longrightarrow> m \<noteq> [] \<Longrightarrow>
   (trim (js_or_str (cg_modelo_id c) []) = m) = (cg_modelo_id c = Some m)"
  by (auto simp: js_or_str_def trim_def split: option.splits)

text \<open>C35. The shop card and the car chooser agree on a part made for one
  model: \<open>renderizarPecas\<close> enables the buy button exactly when
  \<open>abrirEscolherCarro\<close> finds a compatible car among the same cars.\<close>

theorem botao_loja_igual_escolha:
  assumes "m \<noteq> ''universal''" "m \<noteq> []" "CHR '','' \<notin> set m" "trim m = m"
    and "list_all (\<lambda>c. case cg_modelo_id c of Some x \<Rightarrow> trim x = x | None \<Rightarrow> True) cs"
    and "pl_compat p = Some m"
  shows "ck_pode_comprar (cartao_peca (Some cs) p) = (carros_compativeis m cs \<noteq> [])"
proof -
  have "(carros_compativeis m cs \<noteq> []) = (\<exists>c \<in> set cs. trim (js_or_str (cg_modelo_id c) []) = m)"
    using assms(1,3,4) by (simp add: carros_compativeis_um_modelo filter_empty_conv)
  also have "\<dots> = (\<exists>c \<in> set cs. cg_modelo_id c = Some m)"
    using assms(2,5) trim_js_or_str_modelo by (force simp: list_all_iff)
  finally show ?thesis
    using assms(1,6) by (simp add: cartao_pode_comprar tem_carro_compativel_def list_ex_iff)
qed

theorem botao_loja_igual_escolha_witness:
  "''m1'' \<noteq> ''universal'' \<and> ''m1'' \<noteq> [] \<and> CHR '','' \<notin> set ''m1'' \<and> trim ''m1'' = ''m1''
   \<and> list_all (\<lambda>c. case cg_modelo_id c of Some x \<Rightarrow> trim x = x | None \<Rightarrow> True) [carro_m1]
   \<and> pl_compat (peca_m1_m2\<lparr>pl_compat := Some ''m1''\<rparr>) = Some ''m1''
   \<and> ck_pode_comprar (cartao_peca (Some [carro_m1]) (peca_m1_m2\<lparr>pl_compat := Some ''m1''\<rparr>))
       = (carros_compativeis ''m1'' [carro_m1] \<noteq> [])"
proof -
  have l: "list_all (\<lambda>c. case cg_modelo_id c of Some x \<Rightarrow> trim x = x | None \<Rightarrow> True) [carro_m1]"
    by (simp add: carro_m1_def trim_m1)
  have n: "''m1'' \<noteq> ''universal''" "''m1'' \<noteq> []" "CHR '','' \<notin> set ''m1''" by simp_all
  show ?thesis
    using botao_loja_igual_escolha [OF n trim_m1 l, of "peca_m1_m2\<lparr>pl_compat := Some ''m1''\<rparr>"] n l trim_m1
    by simp
qed

text \<open>A part made for two models, \<open>'m1,m2'\<close>: the car chooser splits the list
  and accepts the car of model \<open>m1\<close>, but the card compares the whole string
  with \<open>modelo_id\<close> and keeps the buy button disabled.\<close>

lemma lista_de_modelos_bloqueia:
  "\<not> ck_pode_comprar (cartao_peca (Some [carro_m1]) peca_m1_m2)
   \<and> carros_compativeis ''m1,m2'' [carro_m1] = [carro_m1]"
  unfolding carro_m1_def peca_m1_m2_def carros_compativeis_def cartao_peca_def tem_carro_compativel_def
  by code_simp

text \<open>A part without \<open>compatibilidade\<close> can be bought exactly when some car has
  no \<open>modelo_id\<close>: \<open>undefined === undefined\<close>.\<close>

lemma sem_compatibilidade:
  "pl_compat p = None \<Longrightarrow>
   ck_pode_comprar (cartao_peca (Some cs) p) = (\<exists>c \<in> set cs. cg_modelo_id c = None)"
  by (simp add: cartao_pode_comprar tem_carro_compativel_def list_ex_iff)

end
