(* ===== verification/JsFloat.thy ===== *)
theory JsFloat
  imports JsNumbers
begin

text \<open>
  \<open>parseFloat(string)\<close> as ECMAScript defines it: after the leading white space,
  the longest prefix that is a \<open>StrDecimalLiteral\<close> (an optional sign, then
  \<open>Infinity\<close>, or digits with an optional fraction and an optional exponent, or a
  fraction alone); no such prefix is \<open>NaN\<close>, here \<open>None\<close>.  The value is the
  exact decimal value of that prefix; the code rounds it to the nearest double,
  which the values typed in a form (amounts of doricoins) do not notice.
  \<open>JSON.stringify\<close> writes a non-finite number as \<open>null\<close>.
\<close>

datatype num_float = Finito real | Infinito bool   \<comment> \<open>\<open>True\<close> for \<open>+Infinity\<close>\<close>

definition pot10 :: "int \<Rightarrow> real" where
  "pot10 e = (if 0 \<le> e then 10 ^ nat e else 1 / 10 ^ nat (- e))"

text \<open>The value of an \<open>ExponentPart\<close> at the start of the rest, 0 when the rest
  does not start with one (the prefix then ends before the \<open>e\<close>).\<close>

definition expoente :: "string \<Rightarrow> int" where
  "expoente s =
     (case s of
        c # r \<Rightarrow>
          (if c = CHR ''e'' \<or> c = CHR ''E'' then
             (let (neg, r') = (case r of
                                 x # r2 \<Rightarrow> (if x = CHR ''-'' then (True, r2)
                                           else if x = CHR ''+'' then (False, r2) else (False, r))
                               | [] \<Rightarrow> (False, []));
                  ds = digitos 10 r'
              in if ds = [] then 0 else (if neg then -1 else 1) * int (valor_base 10 ds))
           else 0)
      | [] \<Rightarrow> 0)"

text \<open>A \<open>StrUnsignedDecimalLiteral\<close> other than \<open>Infinity\<close>: integer digits,
  optionally a point and fraction digits, at least one digit in all.\<close>

definition decimal_sem_sinal :: "string \<Rightarrow> real option" where
  "decimal_sem_sinal s =
     (let ds1 = digitos 10 s;
          r1 = drop (length ds1) s;
          ponto = (r1 \<noteq> [] \<and> hd r1 = CHR ''.'');
          ds2 = (if ponto then digitos 10 (tl r1) else []);
          r2 = (if ponto then drop (length ds2) (tl r1) else r1)
      in if ds1 = [] \<and> ds2 = [] then None
         else Some ((real (valor_base 10 ds1) + real (valor_base 10 ds2) / 10 ^ length ds2) * pot10 (expoente r2)))"

definition parse_float :: "string \<Rightarrow> num_float option" where
  "parse_float s =
     (let s1 = dropWhile espaco_js s;
          neg = (s1 \<noteq> [] \<and> hd s1 = CHR ''-'');
          s2 = (if s1 \<noteq> [] \<and> (hd s1 = CHR ''-'' \<or> hd s1 = CHR ''+'') then tl s1 else s1)
      in if take 8 s2 = ''Infinity'' then Some (Infinito (\<not> neg))
         else map_option (\<lambda>v. Finito (if neg then - v else v)) (decimal_sem_sinal s2))"

text \<open>\<open>parseFloat(v) || 0\<close>: \<open>NaN\<close> and 0 are falsy.\<close>

definition float_ou_0 :: "num_float option \<Rightarrow> num_float" where
  "float_ou_0 v = (case v of None \<Rightarrow> Finito 0 | Some x \<Rightarrow> x)"

text \<open>A number as \<open>JSON.stringify\<close> writes it.\<close>

datatype valor_json = JsonNum real | JsonNull

definition json_numero :: "num_float \<Rightarrow> valor_json" where
  "json_numero v = (case v of Finito r \<Rightarrow> JsonNum r | Infinito _ \<Rightarrow> JsonNull)"

text \<open>\<open>x <= 0\<close> on a number that may be infinite.\<close>

definition nao_positivo :: "num_float \<Rightarrow> bool" where
  "nao_positivo v = (case v of Finito r \<Rightarrow> r \<le> 0 | Infinito pos \<Rightarrow> \<not> pos)"

subsection \<open>Round trip\<close>

lemma digitos_string_of_nat_so:
  "digitos 10 (string_of_nat n) = map (the \<circ> valor_digito 10) (string_of_nat n)"
  using digitos_string_of_nat [of "[]" n] by simp

lemma decimal_sem_sinal_string_of_nat:
  "decimal_sem_sinal (string_of_nat n) = Some (real n)"
proof -
  have "digitos 10 (string_of_nat n) \<noteq> []"
    by (simp add: digitos_string_of_nat_so)
  moreover have "valor_base 10 [] = 0" by (simp add: valor_base_def)
  ultimately show ?thesis
    by (simp add: decimal_sem_sinal_def Let_def digitos_string_of_nat_so valor_base_string_of_nat
                  expoente_def pot10_def)
qed

lemma take_infinity_string_of_nat: "take 8 (string_of_nat n) \<noteq> ''Infinity''"
proof
  assume "take 8 (string_of_nat n) = ''Infinity''"
  then have "hd (string_of_nat n) = CHR ''I''"
    by (cases "string_of_nat n") auto
  then show False using hd_string_of_nat_of_char [of n] by simp
qed

text \<open>\<open>parseFloat(String(i))\<close> is \<open>i\<close>.\<close>

lemma parse_float_js_string_int: "parse_float (js_string_int i) = Some (Finito (of_int i))"
proof -
  have ws: "dropWhile espaco_js (string_of_nat n) = string_of_nat n" for n
    using dropWhile_string_of_nat [of n "[]"] by simp
  have sg: "hd (string_of_nat n) \<noteq> CHR ''-''" "hd (string_of_nat n) \<noteq> CHR ''+''" for n
    using hd_string_of_nat_sinal [of n "[]"] by simp_all
  have m: "\<not> espaco_js (CHR ''-'')" by (simp add: espaco_js_def)
  show ?thesis
    by (cases "i < 0")
       (auto simp: parse_float_def js_string_int_def Let_def ws sg m decimal_sem_sinal_string_of_nat
                   take_infinity_string_of_nat)
qed

end
