(* ===== verification/Transfers.thy ===== *)
theory Transfers
  imports JsFloat
begin

text \<open>
  Transfers of doricoins between teams (src/static/script.js, lines
  2023--2153): \<open>carregarEquipesParaTransferencia\<close> fills \<open>#equipeDestino\<close> with
  every team but the own one, \<open>atualizarPreviewTransferencia\<close> shows the amount,
  the fee at the server's rate (10\% when the rate cannot be read) and what the
  other team receives, and \<open>executarTransferencia\<close> validates the form and posts
  the amount.  Both read \<open>#valorTransferencia\<close> with \<open>parseFloat(...) || 0\<close>; the
  post writes the amount with \<open>JSON.stringify\<close>.  Server answers are inputs.
  The theory also holds \<open>carregarHistoricoTransferencias\<close> (lines 2154--2199)
  and the toast system every handler reports through (\<open>mostrarToast\<close>,
  \<open>criarToastContainer\<close>), as a reachability relation over toasts and their
  removal timers.
\<close>

subsection \<open>The destination teams\<close>

record equipe_t =
  et_id :: string      \<comment> \<open>\<open>String(equipe.id)\<close>\<close>
  et_nome :: string

text \<open>\<open>obterEquipeIdDaSession()\<close>, or \<open>equipeAtual.id\<close> when the session has none,
  as \<open>String(...)\<close> prints it: an absent id prints as \<open>"null"\<close>.\<close>

definition id_equipe_atual :: "string option \<Rightarrow> string option \<Rightarrow> string" where
  "id_equipe_atual sessao atual =
     (if js_truthy_str sessao then the sessao
      else case atual of Some i \<Rightarrow> i | None \<Rightarrow> (case sessao of Some s \<Rightarrow> s | None \<Rightarrow> ''null''))"

text \<open>\<open>String(x).trim().toLowerCase()\<close>.\<close>

definition normaliza_id :: "string \<Rightarrow> string" where
  "normaliza_id s = to_lower (trim s)"

datatype resposta_equipes_t = EquipesOk "equipe_t list" | EquipesNaoOk | EquipesExcecao

text \<open>\<open>carregarEquipesParaTransferencia()\<close>: the options of the select after the
  call; a non-OK answer or an exception leaves the select as it was.\<close>

definition carregar_equipes_transferencia ::
  "string option \<Rightarrow> string option \<Rightarrow> resposta_equipes_t \<Rightarrow> equipe_t list \<Rightarrow> equipe_t list" where
  "carregar_equipes_transferencia sessao atual r antes =
     (case r of
        EquipesOk es \<Rightarrow> filter (\<lambda>e. normaliza_id (et_id e) \<noteq> normaliza_id (id_equipe_atual sessao atual)) es
      | _ \<Rightarrow> antes)"

subsection \<open>Preview and transfer\<close>

datatype resposta_taxa = TaxaValor real | TaxaNula | TaxaExcecao

text \<open>\<open>let taxa = 10\<close>, replaced by \<open>parseFloat(d.taxa)\<close> when the answer has one.\<close>

definition taxa_de :: "resposta_taxa \<Rightarrow> real" where
  "taxa_de r = (case r of TaxaValor t \<Rightarrow> t | _ \<Rightarrow> 10)"

datatype preview_t = PreviewOculto | Preview real real real real | PreviewNaoFinito

text \<open>\<open>atualizarPreviewTransferencia()\<close>: amount, fee, amount received, rate.\<close>

definition atualizar_preview_transferencia :: "string \<Rightarrow> resposta_taxa \<Rightarrow> preview_t" where
  "atualizar_preview_transferencia entrada rt =
     (let v = float_ou_0 (parse_float entrada); t = taxa_de rt
      in if nao_positivo v then PreviewOculto
         else case v of
                Finito x \<Rightarrow> Preview x (x * (t / 100)) (x - x * (t / 100)) t
              | Infinito _ \<Rightarrow> PreviewNaoFinito)"

datatype resposta_transf = TransfOk | TransfErro "string option" | TransfExcecao

datatype efeito_transf =
    GetTaxa | ToastSelecioneEquipe | ToastValorInvalido
  | PostTransferencia string valor_json   \<comment> \<open>\<open>equipe_id_destino\<close>, \<open>valor\<close>\<close>
  | ToastTransfOk | ToastTransfErro string | LimparFormulario | RecarregarEquipe | CarregarHistorico
  | ToastErroProcessar

definition erro_transferencia_padrao :: string where
  "erro_transferencia_padrao = ''Erro na transfer'' @ [CHR 0xC3, CHR 0xAA] @ ''ncia''"

text \<open>\<open>executarTransferencia()\<close>: the rate is fetched first and not used; then
  the destination, then the amount.\<close>

definition executar_transferencia :: "string \<Rightarrow> string \<Rightarrow> resposta_transf \<Rightarrow> efeito_transf list" where
  "executar_transferencia destino entrada r =
     (let v = float_ou_0 (parse_float entrada)
      in GetTaxa #
         (if destino = [] then [ToastSelecioneEquipe]
          else if nao_positivo v then [ToastValorInvalido]
          else PostTransferencia destino (json_numero v) #
               (case r of
                  TransfOk \<Rightarrow> [ToastTransfOk, LimparFormulario, RecarregarEquipe, CarregarHistorico]
                | TransfErro e \<Rightarrow> [ToastTransfErro (js_or_str e erro_transferencia_padrao)]
                | TransfExcecao \<Rightarrow> [ToastErroProcessar])))"

fun posts_transf :: "efeito_transf list \<Rightarrow> (string \<times> valor_json) list" where
  "posts_transf [] = []"
| "posts_transf (PostTransferencia d v # es) = (d, v) # posts_transf es"
| "posts_transf (_ # es) = posts_transf es"

subsection \<open>The transfer history\<close>

text \<open>An entry of \<open>/api/transferencias/historico\<close>; \<open>formatarMoeda\<close>
  (\<open>Intl.NumberFormat('pt-BR', currency BRL)\<close>) is a parameter of the rendering,
  and the date, written with \<open>toLocaleDateString\<close>, is left out.\<close>

record 'v transf_hist =
  th_tipo :: "string option"
  th_outra :: "string option"          \<comment> \<open>\<open>outra_equipe\<close>\<close>
  th_taxa :: "string option"           \<comment> \<open>\<open>${taxa_percentual}\<close>\<close>
  th_valor :: 'v

text \<open>A line: sent or received (the class \<open>transferencia-enviado\<close> or
  \<open>transferencia-recebido\<close>), the other team, the rate and the signed amount.\<close>

datatype item_hist = ItemHist bool string string string

definition linha_hist :: "('v \<Rightarrow> string) \<Rightarrow> 'v transf_hist \<Rightarrow> item_hist" where
  "linha_hist fmt t =
     (let enviado = (th_tipo t = Some ''enviado'')
      in ItemHist enviado (js_str (th_outra t)) (js_str (th_taxa t))
                  ((if enviado then ''-'' else ''+'') @ '' '' @ fmt (th_valor t)))"

datatype 'v resposta_hist = HistNaoOk | HistOk "'v transf_hist list option" | HistExcecao

datatype vista_hist = HistIntocado | HistVazio | HistLista "item_hist list"

text \<open>\<open>carregarHistoricoTransferencias()\<close>; \<open>tem_container\<close> tells whether
  \<open>#historicoTransferencias\<close> exists (writing into a missing one throws, and the
  error is caught).\<close>

definition carregar_historico_transferencias ::
  "bool \<Rightarrow> ('v \<Rightarrow> string) \<Rightarrow> 'v resposta_hist \<Rightarrow> vista_hist" where
  "carregar_historico_transferencias tem_container fmt r =
     (case r of
        HistOk ts \<Rightarrow>
          (if \<not> tem_container then HistIntocado
           else case ts of
                  None \<Rightarrow> HistVazio
                | Some [] \<Rightarrow> HistVazio
                | Some xs \<Rightarrow> HistLista (map (linha_hist fmt) xs))
      | _ \<Rightarrow> HistIntocado)"

subsection \<open>Toasts\<close>

text \<open>The toasts of \<open>mostrarToast\<close> (lines 1784--1797) in the container
  \<open>criarToastContainer\<close> creates (lines 1995--2000): the number of
  \<open>.toast-container\<close> elements, the toasts shown (an id, the message and the
  type), the toasts whose removal timer (3 s, then 300 ms) is pending, and the
  next id.\<close>

record toast_st =
  tc_containers :: nat
  tc_toasts :: "(nat \<times> string \<times> string) list"
  tc_pendentes :: "nat list"
  tc_proximo :: nat

definition criar_toast_container :: "toast_st \<Rightarrow> toast_st" where
  "criar_toast_container s = s\<lparr>tc_containers := Suc (tc_containers s)\<rparr>"

text \<open>\<open>mostrarToast(mensagem, tipo)\<close>:
  \<open>document.querySelector('.toast-container') || criarToastContainer()\<close>, then
  the toast and its timer.\<close>

definition mostrar_toast :: "string \<Rightarrow> string \<Rightarrow> toast_st \<Rightarrow> toast_st" where
  "mostrar_toast msg tipo s =
     (let s1 = (if 0 < tc_containers s then s else criar_toast_container s)
      in s1\<lparr>tc_toasts := tc_toasts s1 @ [(tc_proximo s1, msg, tipo)],
            tc_pendentes := tc_pendentes s1 @ [tc_proximo s1],
            tc_proximo := Suc (tc_proximo s1)\<rparr>)"

text \<open>The timer of toast \<open>i\<close> fires: \<open>toast.remove()\<close>.\<close>

definition remover_toast :: "nat \<Rightarrow> toast_st \<Rightarrow> toast_st" where
  "remover_toast i s =
     (if i \<in> set (tc_pendentes s)
      then s\<lparr>tc_toasts := filter (\<lambda>t. fst t \<noteq> i) (tc_toasts s), tc_pendentes := remove1 i (tc_pendentes s)\<rparr>
      else s)"

text \<open>The page starts with at most one container (the template's, if any);
  toasts and timers then interleave freely.\<close>

inductive alcanca_toast :: "toast_st \<Rightarrow> bool" where
  inicial: "c \<le> 1 \<Longrightarrow> alcanca_toast \<lparr>tc_containers = c, tc_toasts = [], tc_pendentes = [], tc_proximo = 0\<rparr>"
| mostra: "alcanca_toast s \<Longrightarrow> alcanca_toast (mostrar_toast m t s)"
| expira: "alcanca_toast s \<Longrightarrow> i \<in> set (tc_pendentes s) \<Longrightarrow> alcanca_toast (remover_toast i s)"

definition inv_toast :: "toast_st \<Rightarrow> bool" where
  "inv_toast s = (tc_containers s \<le> 1 \<and> map fst (tc_toasts s) = tc_pendentes s \<and> distinct (tc_pendentes s)
                  \<and> (\<forall>i \<in> set (tc_pendentes s). i < tc_proximo s))"

definition toast_vazio :: toast_st where
  "toast_vazio = \<lparr>tc_containers = 0, tc_toasts = [], tc_pendentes = [], tc_proximo = 0\<rparr>"

subsection \<open>Properties\<close>

lemma posts_transf_append [simp]: "posts_transf (xs @ ys) = posts_transf xs @ posts_transf ys"
  by (induction xs rule: posts_transf.induct) auto

lemma posts_resposta [simp]:
  "posts_transf (case r of TransfOk \<Rightarrow> [ToastTransfOk, LimparFormulario, RecarregarEquipe, CarregarHistorico]
                 | TransfErro e \<Rightarrow> [ToastTransfErro (js_or_str e erro_transferencia_padrao)]
                 | TransfExcecao \<Rightarrow> [ToastErroProcessar]) = []"
  by (cases r) simp_all

text \<open>A transfer is posted exactly when a destination is chosen and the amount
  read is positive, and then once, with that amount.\<close>

lemma executar_transferencia_posts:
  "posts_transf (executar_transferencia d entrada r) =
     (let v = float_ou_0 (parse_float entrada)
      in if d = [] \<or> nao_positivo v then [] else [(d, json_numero v)])"
  by (simp add: executar_transferencia_def Let_def)

text \<open>An amount typed as a decimal integer is posted as that number.\<close>

lemma executar_transferencia_inteiro:
  "d \<noteq> [] \<Longrightarrow> 0 < i \<Longrightarrow>
   posts_transf (executar_transferencia d (js_string_int i) r) = [(d, JsonNum (of_int i))]"
  by (simp add: executar_transferencia_posts parse_float_js_string_int float_ou_0_def nao_positivo_def
                json_numero_def)

text \<open>The preview splits the amount: fee and amount received add up to what
  is sent, and with a rate between 0 and 100 the receiver gets between nothing
  and all of it.\<close>

lemma preview_particiona:
  "atualizar_preview_transferencia e rt = Preview x tv rc t \<Longrightarrow>
   tv + rc = x \<and> 0 < x \<and> t = taxa_de rt \<and> (0 \<le> t \<and> t \<le> 100 \<longrightarrow> 0 \<le> rc \<and> rc \<le> x)"
proof -
  assume p: "atualizar_preview_transferencia e rt = Preview x tv rc t"
  then have v: "float_ou_0 (parse_float e) = Finito x" and x: "0 < x"
    and eqs: "tv = x * (t / 100)" "rc = x - x * (t / 100)" "t = taxa_de rt"
    by (auto simp: atualizar_preview_transferencia_def Let_def nao_positivo_def
             split: num_float.splits if_splits)
  have "0 \<le> t \<Longrightarrow> t \<le> 100 \<Longrightarrow> x * (t / 100) \<le> x"
    using x by (simp add: mult_left_le)
  moreover have "0 \<le> t \<Longrightarrow> 0 \<le> x * (t / 100)" using x by simp
  ultimately show ?thesis using eqs x by auto
qed

text \<open>\<open>parseFloat('Infinity')\<close> is positive, so the form is accepted, and
  \<open>JSON.stringify\<close> sends the amount as \<open>null\<close>.\<close>

lemma infinity_enviado_null:
  "posts_transf (executar_transferencia ''7'' ''Infinity'' r) = [(''7'', JsonNull)]"
  by (simp add: executar_transferencia_posts parse_float_def float_ou_0_def nao_positivo_def json_numero_def
                espaco_js_def)

text \<open>The own team is left out only when its id is known: with no id in the
  session and no \<open>equipeAtual\<close>, the id compared is \<open>"null"\<close> and the own team is
  offered as destination.\<close>

lemma equipe_propria_excluida:
  "js_truthy_str sessao \<Longrightarrow>
   \<forall>e \<in> set (carregar_equipes_transferencia sessao atual (EquipesOk es) antes).
      normaliza_id (et_id e) \<noteq> normaliza_id (the sessao)"
  by (simp add: carregar_equipes_transferencia_def id_equipe_atual_def)

lemma sem_sessao_lista_todas:
  "carregar_equipes_transferencia None None (EquipesOk [\<lparr>et_id = ''7'', et_nome = ''Alpha''\<rparr>]) []
     = [\<lparr>et_id = ''7'', et_nome = ''Alpha''\<rparr>]"
  by code_simp

text \<open>The history lists every transfer in the server's order, a sent one with
  a minus and any other (received, or of an unknown type) with a plus.\<close>

lemma historico_sinais:
  "ts \<noteq> [] \<Longrightarrow> carregar_historico_transferencias True fmt (HistOk (Some ts)) = HistLista (map (linha_hist fmt) ts)"
  "linha_hist fmt t = ItemHist e q x v \<Longrightarrow> e = (th_tipo t = Some ''enviado'') \<and> hd v = (if e then CHR ''-'' else CHR ''+'')"
  by (auto simp: carregar_historico_transferencias_def linha_hist_def Let_def neq_Nil_conv split: list.split)

lemma inv_toast_mostrar: "inv_toast s \<Longrightarrow> inv_toast (mostrar_toast m t s)"
  by (auto simp: inv_toast_def mostrar_toast_def criar_toast_container_def Let_def)

lemma map_fst_filter_remove1:
  "map fst ts = l \<Longrightarrow> distinct l \<Longrightarrow> map fst (filter (\<lambda>t. fst t \<noteq> i) ts) = remove1 i l"
proof -
  assume "map fst ts = l" "distinct l"
  then have "map fst (filter (\<lambda>t. fst t \<noteq> i) ts) = filter (\<lambda>j. j \<noteq> i) l"
    by (auto simp: filter_map o_def)
  also have "\<dots> = removeAll i l" by (induction l) auto
  also have "\<dots> = remove1 i l" using \<open>distinct l\<close> by (simp add: distinct_remove1_removeAll)
  finally show ?thesis .
qed

lemma inv_toast_remover: "inv_toast s \<Longrightarrow> inv_toast (remover_toast i s)"
  by (auto simp: inv_toast_def remover_toast_def map_fst_filter_remove1 dest: set_remove1_subset [THEN subsetD])

lemma alcanca_toast_inv: "alcanca_toast s \<Longrightarrow> inv_toast s"
proof (induction rule: alcanca_toast.induct)
  case (inicial c)
  then show ?case by (simp add: inv_toast_def)
qed (simp_all add: inv_toast_mostrar inv_toast_remover)

text \<open>However toasts and timers interleave, the page has at most one toast
  container, and every toast shown has exactly one pending removal.\<close>

theorem toasts_um_container:
  assumes "alcanca_toast s"
  shows "tc_containers s \<le> 1 \<and> map fst (tc_toasts s) = tc_pendentes s \<and> distinct (tc_pendentes s)"
  using alcanca_toast_inv [OF assms] by (simp add: inv_toast_def)

lemma remover_varios:
  "inv_toast s \<Longrightarrow> distinct ids \<Longrightarrow> set ids \<subseteq> set (tc_pendentes s) \<Longrightarrow>
   tc_toasts (foldl (\<lambda>s i. remover_toast i s) s ids) = filter (\<lambda>t. fst t \<notin> set ids) (tc_toasts s)"
proof (induction ids arbitrary: s)
  case (Cons i ids)
  let ?s = "remover_toast i s"
  have i: "i \<in> set (tc_pendentes s)" using Cons.prems by simp
  have d: "distinct (tc_pendentes s)" using Cons.prems(1) by (simp add: inv_toast_def)
  have "set ids \<subseteq> set (tc_pendentes ?s)"
    using Cons.prems i d by (auto simp: remover_toast_def)
  then have "tc_toasts (foldl (\<lambda>s i. remover_toast i s) ?s ids) = filter (\<lambda>t. fst t \<notin> set ids) (tc_toasts ?s)"
    using Cons.IH [of ?s] Cons.prems inv_toast_remover by simp
  then show ?case using i by (simp add: remover_toast_def conj_commute)
qed simp

text \<open>Once the pending timers have fired, in any order, no toast ids left.\<close>

lemma toasts_expiram:
  "alcanca_toast s \<Longrightarrow> distinct ids \<Longrightarrow> set ids = set (tc_pendentes s) \<Longrightarrow>
   tc_toasts (foldl (\<lambda>s i. remover_toast i s) s ids) = []"
proof -
  assume a: "alcanca_toast s" "distinct ids" "set ids = set (tc_pendentes s)"
  have inv: "inv_toast s" using alcanca_toast_inv [OF a(1)] .
  have m: "fst ` set (tc_toasts s) = set (tc_pendentes s)"
    using inv unfolding inv_toast_def by (metis list.set_map)
  then have "\<forall>t \<in> set (tc_toasts s). fst t \<in> set ids"
    using a(3) by blast
  then show ?thesis using remover_varios [OF inv a(2)] a(3) by (simp add: filter_empty_conv)
qed

lemma toasts_exemplo:
  "alcanca_toast (remover_toast 0 (mostrar_toast ''b'' ''error'' (mostrar_toast ''a'' ''success'' toast_vazio)))"
  by (unfold toast_vazio_def)
     (intro alcanca_toast.expira alcanca_toast.mostra alcanca_toast.inicial;
      simp add: mostrar_toast_def criar_toast_container_def)

end
