(* ===== verification/QualFlow.thy ===== *)
theory QualFlow
  imports Prelude
begin

text \<open>
  The handlers that move a stage through its qualification
  (src/static/qualificacao.js): \<open>abrirQualificacao\<close> (1--76),
  \<open>entrarQualificacao\<close> (198--233), the two declarations of \<open>entrarBatalhas\<close>
  (237--272 and 2314--2332) and of \<open>finalizarQualificacao\<close> (177--196 and
  1755--1802).  Each handler is a function of its inputs (the arguments, the
  values read from the page, \<open>confirm()\<close>) and of the server's answers to
  the requests it makes, returning the requests, toasts, alerts and timers it
  issues in order; the entry handlers also return their button.  A script's
  function declarations are hoisted and a later one of the same name replaces
  the earlier binding (\<open>ambiente_global\<close>), so only the second declaration of
  each pair is ever called.
\<close>

subsection \<open>Function declarations\<close>

text \<open>The global bindings after the declarations of a script, in source order.\<close>

definition ambiente_global :: "(string \<times> 'h) list \<Rightarrow> string \<rightharpoonup> 'h" where
  "ambiente_global ds = foldl (\<lambda>m (n, h). m(n \<mapsto> h)) Map.empty ds"

datatype handler_q =
    AbrirQualificacao              \<comment> \<open>line 1\<close>
  | FinalizarQualificacaoEtapa     \<comment> \<open>\<open>finalizarQualificacao(etapaId)\<close>, line 177\<close>
  | EntrarQualificacao             \<comment> \<open>line 198\<close>
  | EntrarBatalhasBotao            \<comment> \<open>\<open>entrarBatalhas(etapaId, botao)\<close>, line 237\<close>
  | FinalizarQualificacaoAdmin     \<comment> \<open>\<open>finalizarQualificacao()\<close>, line 1755\<close>
  | EntrarBatalhasRecarrega        \<comment> \<open>\<open>entrarBatalhas(etapaId)\<close>, line 2314\<close>

definition declaracoes_qualificacao :: "(string \<times> handler_q) list" where
  "declaracoes_qualificacao =
     [(''abrirQualificacao'', AbrirQualificacao),
      (''finalizarQualificacao'', FinalizarQualificacaoEtapa),
      (''entrarQualificacao'', EntrarQualificacao),
      (''entrarBatalhas'', EntrarBatalhasBotao),
      (''finalizarQualificacao'', FinalizarQualificacaoAdmin),
      (''entrarBatalhas'', EntrarBatalhasRecarrega)]"

subsection \<open>Requests, answers and effects\<close>

datatype requisicao_q =
    GetEventoEtapa string                 \<comment> \<open>\<open>GET /api/etapas/{id}/evento\<close>\<close>
  | PostFazerEtapa string                 \<comment> \<open>\<open>POST /api/admin/fazer-etapa\<close>, body \<open>{etapa}\<close>\<close>
  | PostEntrarQualificacao string         \<comment> \<open>\<open>POST /api/etapas/{id}/entrar-qualificacao\<close>\<close>
  | PostEntrarBatalhas string             \<comment> \<open>\<open>POST /api/etapas/{id}/entrar-batalhas\<close>\<close>
  | PostFinalizarQualificacao string      \<comment> \<open>\<open>POST /api/admin/finalizar-qualificacao/{id}\<close>\<close>
  | PostEnviarChallonge string            \<comment> \<open>\<open>POST /api/etapas/{id}/enviar-challonge\<close>\<close>

text \<open>An answer \<open>{sucesso, erro}\<close>; \<open>SrvExcecao\<close> is a rejected \<open>fetch\<close> or a body
  that is not JSON.\<close>

datatype resposta_srv = SrvSucesso | SrvFalha "string option" | SrvExcecao

text \<open>The \<open>evento\<close> field of \<open>GET /evento\<close>: falsy, an object without \<open>etapa\<close>, or
  one with \<open>etapa.status\<close>.\<close>

datatype evento_q = SemEvento | EventoSemEtapa | EventoEtapa "string option"

datatype resposta_evento_q = EventoDados bool evento_q | EventoExcecao

datatype resposta_challonge = ChSucesso bool | ChFalha "string option" | ChExcecao
  \<comment> \<open>\<open>ChSucesso\<close> carries \<open>bracket_pendente\<close>\<close>

datatype tipo_toast = TSuccess | TError | TInfo | TWarning

datatype msg_toast =
    MsgEtapaJaEmAndamento        \<comment> \<open>'Etapa ja em andamento - abrindo interface...' (accents dropped here)\<close>
  | MsgEtapaIniciada             \<comment> \<open>'Etapa iniciada! Carregando interface...'\<close>
  | MsgErro string               \<comment> \<open>\<open>'Erro: ' + resultado.erro\<close>\<close>
  | MsgErroAbrirEtapa            \<comment> \<open>'Erro ao abrir etapa'\<close>
  | MsgQualificacaoAtiva         \<comment> \<open>'Qualificacao finalizada! Etapa agora esta ATIVA.'\<close>
  | MsgErroFinalizarQualificacao \<comment> \<open>'Erro ao finalizar qualificacao'\<close>
  | MsgNenhumaEtapa              \<comment> \<open>'Nenhuma etapa selecionada'\<close>
  | MsgFinalizadaEnviando        \<comment> \<open>'Qualificacao finalizada! Enviando para Challonge...'\<close>
  | MsgTorneioPendente           \<comment> \<open>'Torneio criado. Inicie manualmente no Challonge'\<close>
  | MsgTorneioCriado             \<comment> \<open>'Torneio criado no Challonge!'\<close>
  | MsgChallongeErro string      \<comment> \<open>\<open>'Challonge: ' + dataCh.erro\<close>\<close>
  | MsgErroEnviarChallonge       \<comment> \<open>'Erro ao enviar para Challonge'\<close>
  | MsgErroCodigo string         \<comment> \<open>\<open>'(cross mark) ' + data.erro\<close>\<close>
  | MsgErroFinalizar             \<comment> \<open>'Erro ao finalizar'\<close>
  | MsgBemVindoBatalhas          \<comment> \<open>'Bem-vindo as batalhas!'\<close>
  | MsgErroEntrarBatalhas        \<comment> \<open>'Erro ao entrar nas batalhas'\<close>

datatype efeito_q =
    Req requisicao_q
  | Toast msg_toast tipo_toast
  | Alerta string string            \<comment> \<open>\<open>mostrarAlerta(msg, tipo)\<close>\<close>
  | AgendaAba nat                   \<comment> \<open>timer that shows the "Fazer Etapa" tab\<close>
  | AgendaTabelaAdmin string nat    \<comment> \<open>timer running \<open>carregarTabelaVoltasAdmin(etapaId)\<close>\<close>
  | AgendaAoVivo string             \<comment> \<open>timer running \<open>mostrarEventoAoVivo(etapaId)\<close> after 500 ms\<close>
  | AgendaRecarregar nat            \<comment> \<open>timer running \<open>location.reload()\<close>\<close>
  | AgendaPainelAdmin string        \<comment> \<open>timer reloading the inline result, bracket and admin table\<close>

subsection \<open>Opening a qualification\<close>

text \<open>The guarded test of line 7: the stage is running or in battles.\<close>

definition etapa_ja_iniciada :: "resposta_evento_q \<Rightarrow> bool" where
  "etapa_ja_iniciada re =
     (case re of
        EventoDados True (EventoEtapa st) \<Rightarrow> st = Some ''em_andamento'' \<or> st = Some ''batalhas''
      | _ \<Rightarrow> False)"

text \<open>\<open>abrirQualificacao(etapaId)\<close>: a failing status check is only logged and the
  stage is started.\<close>

definition abrir_qualificacao :: "string \<Rightarrow> resposta_evento_q \<Rightarrow> resposta_srv \<Rightarrow> efeito_q list" where
  "abrir_qualificacao etapa re r =
     Req (GetEventoEtapa etapa) #
     (if etapa_ja_iniciada re
      then [Toast MsgEtapaJaEmAndamento TInfo, AgendaAba 120, AgendaTabelaAdmin etapa 300]
      else Req (PostFazerEtapa etapa) #
           (case r of
              SrvSucesso \<Rightarrow> [Toast MsgEtapaIniciada TSuccess, AgendaAba 200, AgendaTabelaAdmin etapa 800]
            | SrvFalha e \<Rightarrow> [Toast (MsgErro (js_str e)) TError]
            | SrvExcecao \<Rightarrow> [Toast MsgErroAbrirEtapa TError]))"

subsection \<open>Entering the qualification or the battles\<close>

record botao_q =
  bq_disabled :: bool
  bq_html :: string
  bq_class :: string

text \<open>The unguarded test of lines 215 and 254:
  \<open>eventoData.sucesso && eventoData.evento && aceita(eventoData.evento.etapa.status)\<close>;
  reading \<open>status\<close> of a missing \<open>etapa\<close> throws a \<open>TypeError\<close>, \<open>Inl ()\<close>.\<close>

definition status_aceito :: "(string option \<Rightarrow> bool) \<Rightarrow> bool \<Rightarrow> evento_q \<Rightarrow> unit + bool" where
  "status_aceito aceita suc ev =
     (if \<not> suc then Inr False
      else case ev of SemEvento \<Rightarrow> Inr False | EventoSemEtapa \<Rightarrow> Inl () | EventoEtapa st \<Rightarrow> Inr (aceita st))"

record textos_entrada =
  te_req :: "string \<Rightarrow> requisicao_q"
  te_ao_vivo :: string
  te_boas_vindas :: string
  te_erro :: string
  te_rotulo :: string

text \<open>The body shared by \<open>entrarQualificacao(etapaId, botao)\<close> and
  \<open>entrarBatalhas(etapaId, botao)\<close>: they differ in the route, the accepted
  statuses and the texts.\<close>

definition entrar_etapa ::
  "textos_entrada \<Rightarrow> (string option \<Rightarrow> bool) \<Rightarrow> string \<Rightarrow> botao_q \<Rightarrow> resposta_srv \<Rightarrow> resposta_evento_q
   \<Rightarrow> botao_q \<times> efeito_q list" where
  "entrar_etapa tx aceita etapa b r re =
     (let b1 = b\<lparr>bq_disabled := True, bq_html := ''Processando...''\<rparr>;
          falha = (\<lambda>msg. (b1\<lparr>bq_disabled := False, bq_html := te_rotulo tx\<rparr>, [Alerta msg ''erro'']))
      in apsnd ((#) (Req (te_req tx etapa)))
           (case r of
              SrvExcecao \<Rightarrow> falha (te_erro tx)
            | SrvFalha e \<Rightarrow> falha (''Erro: '' @ js_str e)
            | SrvSucesso \<Rightarrow>
                apsnd ((#) (Req (GetEventoEtapa etapa)))
                  (case re of
                     EventoExcecao \<Rightarrow> falha (te_erro tx)
                   | EventoDados suc ev \<Rightarrow>
                       (case status_aceito aceita suc ev of
                          Inl _ \<Rightarrow> falha (te_erro tx)
                        | Inr True \<Rightarrow> (b1, [Alerta (te_ao_vivo tx) ''sucesso'', AgendaAoVivo etapa])
                        | Inr False \<Rightarrow>
                            (b1\<lparr>bq_html := ''Participando'', bq_class := ''btn btn-success w-100 mt-2''\<rparr>,
                             [Alerta (te_boas_vindas tx) ''sucesso''])))))"

definition textos_qualificacao :: textos_entrada where
  "textos_qualificacao =
     \<lparr>te_req = PostEntrarQualificacao, te_ao_vivo = ''Bem-vindo! Abrindo evento ao vivo...'',
      te_boas_vindas = ''Bem-vindo a qualificacao! Boa sorte!'', te_erro = ''Erro ao entrar na qualificacao'',
      te_rotulo = ''ENTRAR NA QUALIFICACAO''\<rparr>"

definition entrar_qualificacao ::
  "string \<Rightarrow> botao_q \<Rightarrow> resposta_srv \<Rightarrow> resposta_evento_q \<Rightarrow> botao_q \<times> efeito_q list" where
  "entrar_qualificacao = entrar_etapa textos_qualificacao (\<lambda>st. st = Some ''em_andamento'')"

text \<open>The label \<open>'\<^emph>\<open>crossed swords\<close> ENTRAR NAS BATALHAS'\<close>, the emoji in UTF-8.\<close>

definition rotulo_batalhas :: string where
  "rotulo_batalhas = [CHR 0xE2, CHR 0x9A, CHR 0x94, CHR 0xEF, CHR 0xB8, CHR 0x8F] @ '' ENTRAR NAS BATALHAS''"

definition textos_batalhas :: textos_entrada where
  "textos_batalhas =
     \<lparr>te_req = PostEntrarBatalhas, te_ao_vivo = ''Bem-vindo! Abrindo batalhas ao vivo...'',
      te_boas_vindas = ''Bem-vindo as batalhas! Boa sorte!'', te_erro = ''Erro ao entrar nas batalhas'',
      te_rotulo = rotulo_batalhas\<rparr>"

definition entrar_batalhas_botao ::
  "string \<Rightarrow> botao_q \<Rightarrow> resposta_srv \<Rightarrow> resposta_evento_q \<Rightarrow> botao_q \<times> efeito_q list" where
  "entrar_batalhas_botao = entrar_etapa textos_batalhas (\<lambda>st. st = Some ''em_andamento'' \<or> st = Some ''batalhas'')"

text \<open>The second \<open>entrarBatalhas(etapaId)\<close> (line 2314).\<close>

definition entrar_batalhas :: "string \<Rightarrow> resposta_srv \<Rightarrow> efeito_q list" where
  "entrar_batalhas etapa r =
     Req (PostEntrarBatalhas etapa) #
     (case r of
        SrvSucesso \<Rightarrow> [Toast MsgBemVindoBatalhas TSuccess, AgendaRecarregar 1000]
      | SrvFalha e \<Rightarrow> [Toast (MsgErroCodigo (js_str e)) TError]
      | SrvExcecao \<Rightarrow> [Toast MsgErroEntrarBatalhas TError])"

subsection \<open>Finishing the qualification\<close>

text \<open>The first \<open>finalizarQualificacao(etapaId)\<close> (line 177); \<open>confirma\<close> is the
  answer of \<open>confirm()\<close>.\<close>

definition finalizar_qualificacao_etapa :: "string \<Rightarrow> bool \<Rightarrow> resposta_srv \<Rightarrow> efeito_q list" where
  "finalizar_qualificacao_etapa etapa confirma r =
     (if \<not> confirma then []
      else Req (PostFinalizarQualificacao etapa) #
           (case r of
              SrvSucesso \<Rightarrow> [Toast MsgQualificacaoAtiva TSuccess, AgendaRecarregar 1500]
            | SrvFalha e \<Rightarrow> [Toast (MsgErro (js_str e)) TError]
            | SrvExcecao \<Rightarrow> [Toast MsgErroFinalizarQualificacao TError]))"

text \<open>The answer of \<open>enviar-challonge\<close> as the toasts of lines 1780--1789.\<close>

definition toasts_challonge :: "resposta_challonge \<Rightarrow> efeito_q list" where
  "toasts_challonge rc =
     (case rc of
        ChSucesso pend \<Rightarrow> [if pend then Toast MsgTorneioPendente TWarning else Toast MsgTorneioCriado TSuccess]
      | ChFalha e \<Rightarrow> (if js_truthy_str e then [Toast (MsgChallongeErro (the e)) TError] else [])
      | ChExcecao \<Rightarrow> [Toast MsgErroEnviarChallonge TError])"

text \<open>The second \<open>finalizarQualificacao()\<close> (line 1755): the stage is the value of
  \<open>#etapaIdAtual\<close>, not an argument.\<close>

definition finalizar_qualificacao_admin ::
  "string \<Rightarrow> bool \<Rightarrow> resposta_srv \<Rightarrow> resposta_challonge \<Rightarrow> efeito_q list" where
  "finalizar_qualificacao_admin etapa confirma r rc =
     (if etapa = [] then [Toast MsgNenhumaEtapa TError]
      else if \<not> confirma then []
      else Req (PostFinalizarQualificacao etapa) #
           (case r of
              SrvSucesso \<Rightarrow>
                Toast MsgFinalizadaEnviando TSuccess # Req (PostEnviarChallonge etapa) #
                toasts_challonge rc @ [AgendaPainelAdmin etapa]
            | SrvFalha e \<Rightarrow> [Toast (MsgErroCodigo (js_str e)) TError]
            | SrvExcecao \<Rightarrow> [Toast MsgErroFinalizar TError]))"

text \<open>A call \<open>finalizarQualificacao(arg)\<close> as the bound declaration runs it:
  \<open>campo\<close> is the value of \<open>#etapaIdAtual\<close>.\<close>

fun chamar_finalizar ::
  "handler_q \<Rightarrow> string \<Rightarrow> string \<Rightarrow> bool \<Rightarrow> resposta_srv \<Rightarrow> resposta_challonge \<Rightarrow> efeito_q list" where
  "chamar_finalizar FinalizarQualificacaoEtapa arg campo c r rc = finalizar_qualificacao_etapa arg c r"
| "chamar_finalizar FinalizarQualificacaoAdmin arg campo c r rc = finalizar_qualificacao_admin campo c r rc"
| "chamar_finalizar _ arg campo c r rc = []"

subsection \<open>Declarations\<close>

lemma foldl_ambiente:
  "foldl (\<lambda>m (n, h). m(n \<mapsto> h)) m0 ds = m0 ++ map_of (rev ds)"
  by (induction ds arbitrary: m0) (auto simp: map_add_def fun_eq_iff split: option.splits)

lemma ambiente_global_map_of: "ambiente_global ds = map_of (rev ds)"
  by (simp add: ambiente_global_def foldl_ambiente)

text \<open>The binding of a name is its last declaration.\<close>

theorem ambiente_global_ultima:
  "ambiente_global ds n =
     (case filter (\<lambda>d. fst d = n) ds of [] \<Rightarrow> None | xs \<Rightarrow> Some (snd (last xs)))"
  unfolding ambiente_global_map_of
  by (induction ds rule: rev_induct) (auto split: list.splits)

lemma globais_qualificacao:
  "ambiente_global declaracoes_qualificacao ''entrarBatalhas'' = Some EntrarBatalhasRecarrega
   \<and> ambiente_global declaracoes_qualificacao ''finalizarQualificacao'' = Some FinalizarQualificacaoAdmin
   \<and> ambiente_global declaracoes_qualificacao ''entrarQualificacao'' = Some EntrarQualificacao"
  by (simp add: ambiente_global_map_of declaracoes_qualificacao_def)

text \<open>A call \<open>finalizarQualificacao(arg)\<close> runs the admin
  declaration: the argument is ignored and the stage is read from
  \<open>#etapaIdAtual\<close>.\<close>

theorem finalizar_ignora_argumento:
  "chamar_finalizar (the (ambiente_global declaracoes_qualificacao ''finalizarQualificacao'')) arg campo c r rc
     = finalizar_qualificacao_admin campo c r rc"
  using globais_qualificacao by simp

lemma finalizar_sem_campo:
  "chamar_finalizar (the (ambiente_global declaracoes_qualificacao ''finalizarQualificacao'')) arg [] c r rc
     = [Toast MsgNenhumaEtapa TError]"
  using globais_qualificacao by (simp add: finalizar_qualificacao_admin_def)

subsection \<open>Opening\<close>

text \<open>The stage is started exactly when the status check did not find it
  running; a failed check starts it again.\<close>

lemma abrir_inicia:
  "(Req (PostFazerEtapa x) \<in> set (abrir_qualificacao e re r)) = (x = e \<and> \<not> etapa_ja_iniciada re)"
  by (cases r) (auto simp: abrir_qualificacao_def)

lemma abrir_status_ilegivel:
  "Req (PostFazerEtapa e) \<in> set (abrir_qualificacao e EventoExcecao r)"
  by (simp add: abrir_qualificacao_def etapa_ja_iniciada_def)

subsection \<open>Entering\<close>

lemmas entrar_splits = resposta_srv.splits resposta_evento_q.splits evento_q.splits sum.splits bool.splits

text \<open>The button ends enabled exactly when an error alert was shown, and then
  with its label back; otherwise it stays disabled, as "Processando..." or
  "Participando".  The entry request is the first effect.\<close>

theorem entrar_botao_consistente:
  "(\<not> bq_disabled (fst (entrar_etapa tx a e b r re))) = (\<exists>m. Alerta m ''erro'' \<in> set (snd (entrar_etapa tx a e b r re)))
   \<and> bq_html (fst (entrar_etapa tx a e b r re))
       \<in> (if bq_disabled (fst (entrar_etapa tx a e b r re)) then {''Processando...'', ''Participando''}
          else {te_rotulo tx})
   \<and> hd (snd (entrar_etapa tx a e b r re)) = Req (te_req tx e)"
  by (auto simp: entrar_etapa_def Let_def status_aceito_def split: entrar_splits)

text \<open>A registration the server accepted, followed by an event whose \<open>etapa\<close>
  is missing, is reported as a failure and the button is offered again.\<close>

lemma entrar_registrado_mostra_erro:
  "entrar_qualificacao e b SrvSucesso (EventoDados True EventoSemEtapa)
     = (b\<lparr>bq_disabled := False, bq_html := ''ENTRAR NA QUALIFICACAO''\<rparr>,
        [Req (PostEntrarQualificacao e), Req (GetEventoEtapa e),
         Alerta ''Erro ao entrar na qualificacao'' ''erro''])"
  by (simp add: entrar_qualificacao_def entrar_etapa_def status_aceito_def textos_qualificacao_def)

text \<open>Only a running stage opens the live view, after the registration.\<close>

lemma entrar_ao_vivo:
  "(AgendaAoVivo x \<in> set (snd (entrar_qualificacao e b r re)))
     = (x = e \<and> r = SrvSucesso \<and> re = EventoDados True (EventoEtapa (Some ''em_andamento'')))"
  by (auto simp: entrar_qualificacao_def entrar_etapa_def Let_def status_aceito_def split: entrar_splits)

subsection \<open>Finishing\<close>

text \<open>The tournament is sent to Challonge exactly after a confirmed,
  successful finalization of a selected stage, and right after it.\<close>

theorem finalizar_envia_challonge:
  "(Req (PostEnviarChallonge x) \<in> set (finalizar_qualificacao_admin e c r rc))
     = (x = e \<and> e \<noteq> [] \<and> c \<and> r = SrvSucesso)"
  by (cases r) (auto simp: finalizar_qualificacao_admin_def toasts_challonge_def split: resposta_challonge.splits)

lemma finalizar_ordem:
  "e \<noteq> [] \<Longrightarrow> c \<Longrightarrow>
   take 3 (finalizar_qualificacao_admin e c SrvSucesso rc)
     = [Req (PostFinalizarQualificacao e), Toast MsgFinalizadaEnviando TSuccess, Req (PostEnviarChallonge e)]"
  by (simp add: finalizar_qualificacao_admin_def)

text \<open>A Challonge failure without \<open>erro\<close> is silent: the panel is refreshed as
  after a success.\<close>

lemma challonge_falha_silenciosa:
  "finalizar_qualificacao_admin e True SrvSucesso (ChFalha None)
     = (if e = [] then [Toast MsgNenhumaEtapa TError]
        else [Req (PostFinalizarQualificacao e), Toast MsgFinalizadaEnviando TSuccess,
              Req (PostEnviarChallonge e), AgendaPainelAdmin e])"
  by (simp add: finalizar_qualificacao_admin_def toasts_challonge_def js_truthy_str_def)

end
