(* ===== verification/QualResults.thy ===== *)
theory QualResults
  imports JsFloat "HOL-Library.Multiset"
begin

text \<open>
  The result views of the qualification and the battles
  (src/static/qualificacao.js): \<open>escapeHtml\<close> (1807--1812), the final
  classification inline (\<open>carregarResultadoQualificacaoInline\<close>, 1815--1838)
  and in a modal (\<open>verResultadoQualificacao\<close>, 2255--2312), and the result of a
  battle run (\<open>renderizarResultadoPassada\<close>, 2118--2146), which groups the
  launches by car in an object and lists the cars in \<open>Object.keys\<close> order.
  Strings are byte strings (UTF-8); a table is the list of its rows, each the
  list of its cells' HTML.
\<close>

subsection \<open>\<open>escapeHtml\<close>\<close>

text \<open>The \<open>innerHTML\<close> of a text node: \<open>&\<close>, \<open><\<close>, \<open>>\<close> and the no-break
  space (UTF-8 \<open>C2 A0\<close>) are written as entities.\<close>

fun escape_texto :: "string \<Rightarrow> string" where
  "escape_texto [] = []"
| "escape_texto (CHR 0xC2 # CHR 0xA0 # r) = ''&nbsp;'' @ escape_texto r"
| "escape_texto (c # r) =
     (if c = CHR ''&'' then ''&amp;'' else if c = CHR ''<'' then ''&lt;''
      else if c = CHR ''>'' then ''&gt;'' else [c]) @ escape_texto r"

text \<open>\<open>escapeHtml(s)\<close>: \<open>null\<close> and \<open>undefined\<close> give the empty string.\<close>

definition escape_html :: "string option \<Rightarrow> string" where
  "escape_html s = (case s of None \<Rightarrow> [] | Some t \<Rightarrow> escape_texto t)"

text \<open>The decoding of those entities and of \<open>&quot;\<close> by an HTML parser, in
  text and in attribute values; the reference the escaping is checked against.\<close>

fun decodifica_entidades :: "string \<Rightarrow> string" where
  "decodifica_entidades [] = []"
| "decodifica_entidades (c # r) =
     (if c = CHR ''&'' then
        (if take 4 r = ''amp;'' then CHR ''&'' # decodifica_entidades (drop 4 r)
         else if take 3 r = ''lt;'' then CHR ''<'' # decodifica_entidades (drop 3 r)
         else if take 3 r = ''gt;'' then CHR ''>'' # decodifica_entidades (drop 3 r)
         else if take 5 r = ''quot;'' then CHR 0x22 # decodifica_entidades (drop 5 r)
         else if take 5 r = ''nbsp;'' then CHR 0xC2 # CHR 0xA0 # decodifica_entidades (drop 5 r)
         else c # decodifica_entidades r)
      else c # decodifica_entidades r)"

text \<open>A text that the escaping leaves unchanged.\<close>

definition sem_marcacao :: "string \<Rightarrow> bool" where
  "sem_marcacao s = list_all (\<lambda>c. c \<noteq> CHR ''&'' \<and> c \<noteq> CHR ''<'' \<and> c \<noteq> CHR ''>'' \<and> c \<noteq> CHR 0xA0) s"

subsection \<open>The final classification\<close>

text \<open>An item of \<open>classificacao\<close>; the scores as \<open>${...}\<close> prints them.\<close>

record item_class =
  ic_equipe :: "string option"
  ic_piloto :: "string option"
  ic_linha :: "string option"
  ic_angulo :: "string option"
  ic_estilo :: "string option"
  ic_total :: "string option"

datatype resposta_classificacao = ClassDados bool "item_class list option" | ClassExcecao

definition celulas_notas :: "item_class \<Rightarrow> string list" where
  "celulas_notas it = [js_str (ic_linha it), js_str (ic_angulo it), js_str (ic_estilo it),
                       ''<strong>'' @ js_str (ic_total it) @ ''</strong>'']"

text \<open>The rows of line 1829.\<close>

definition linhas_inline :: "item_class list \<Rightarrow> string list list" where
  "linhas_inline cs =
     map (\<lambda>(i, it). [string_of_nat (i + 1), escape_html (Some (js_or_str (ic_equipe it) ''-'')),
                      escape_html (Some (js_or_str (ic_piloto it) ''-''))] @ celulas_notas it)
         (enumerate 0 cs)"

datatype vista_inline = NenhumResultado | TabelaInline "string list list" | ErroClassificacao

text \<open>\<open>carregarResultadoQualificacaoInline(etapaId)\<close>; \<open>existe\<close> tells whether
  the section and the list exist (otherwise the function returns at once).\<close>

definition carregar_resultado_inline :: "bool \<Rightarrow> resposta_classificacao \<Rightarrow> vista_inline option" where
  "carregar_resultado_inline existe r =
     (if \<not> existe then None
      else Some (case r of
                   ClassExcecao \<Rightarrow> ErroClassificacao
                 | ClassDados suc cs \<Rightarrow>
                     (case cs of
                        Some xs \<Rightarrow> (if suc \<and> xs \<noteq> [] then TabelaInline (linhas_inline xs) else NenhumResultado)
                      | None \<Rightarrow> NenhumResultado)))"

text \<open>The rows of lines 2271--2279: the names are interpolated as they are.\<close>

definition linhas_modal :: "item_class list \<Rightarrow> string list list" where
  "linhas_modal cs =
     map (\<lambda>(i, it). [string_of_nat (i + 1), js_str (ic_equipe it), js_or_str (ic_piloto it) ''-''] @ celulas_notas it)
         (enumerate 0 cs)"

datatype vista_modal = ModalClassificacao "string list list" | ToastErroClassificacao

definition ver_resultado_qualificacao :: "resposta_classificacao \<Rightarrow> vista_modal" where
  "ver_resultado_qualificacao r =
     (case r of
        ClassDados True (Some xs) \<Rightarrow> ModalClassificacao (linhas_modal xs)
      | _ \<Rightarrow> ToastErroClassificacao)"

subsection \<open>The result of a run\<close>

text \<open>A property key that is an array index: the canonical decimal form of an
  integer below \<open>2^32 - 1\<close>.  \<open>Object.keys\<close> lists those first, in increasing
  order, then the other keys in the order they were created.\<close>

definition indice_array :: "string \<Rightarrow> bool" where
  "indice_array s =
     (s \<noteq> [] \<and> length (digitos 10 s) = length s \<and> (s = ''0'' \<or> hd s \<noteq> CHR ''0'')
      \<and> valor_base 10 (digitos 10 s) < 4294967295)"

definition chaves_objeto :: "string list \<Rightarrow> string list" where
  "chaves_objeto ks =
     sort_key (\<lambda>k. valor_base 10 (digitos 10 k)) (filter indice_array ks) @ filter (\<lambda>k. \<not> indice_array k) ks"

text \<open>\<open>porCarro[cid].push(l)\<close>, creating the key on first use: the object as the
  list of its entries in creation order.\<close>

fun anexa_grupo :: "'k \<Rightarrow> 'a \<Rightarrow> ('k \<times> 'a list) list \<Rightarrow> ('k \<times> 'a list) list" where
  "anexa_grupo k x [] = [(k, [x])]"
| "anexa_grupo k x ((k', xs) # g) = (if k = k' then (k', xs @ [x]) # g else (k', xs) # anexa_grupo k x g)"

definition agrupar :: "('a \<Rightarrow> 'k) \<Rightarrow> 'a list \<Rightarrow> ('k \<times> 'a list) list" where
  "agrupar f ls = foldl (\<lambda>g l. anexa_grupo (f l) l g) [] ls"

record lancamento =
  la_carro :: "int option"       \<comment> \<open>\<open>carro_id\<close>\<close>
  la_tipo :: "string option"
  la_dado :: string              \<comment> \<open>\<open>${l.dado}\<close>\<close>
  la_max :: bool                 \<comment> \<open>truthiness of \<open>l.max\<close>\<close>
  la_dano :: string              \<comment> \<open>\<open>${l.dano}\<close>\<close>

text \<open>\<open>l.carro_id || '?'\<close> as a property key.\<close>

definition chave_carro :: "lancamento \<Rightarrow> string" where
  "chave_carro l = (case la_carro l of Some i \<Rightarrow> (if i = 0 then ''?'' else js_string_int i) | None \<Rightarrow> ''?'')"

text \<open>\<open>s.replace('_', '-')\<close> with a string pattern: the first occurrence only.\<close>

fun troca_primeiro_tipo :: "char \<Rightarrow> char \<Rightarrow> string \<Rightarrow> string" where
  "troca_primeiro_tipo a b [] = []"
| "troca_primeiro_tipo a b (c # r) = (if c = a then b # r else c # troca_primeiro_tipo a b r)"

text \<open>A line \<open>Carro n | tipo: dado=d/faces (MAX!) -> dano x\<close>, as its fields.\<close>

datatype linha_passada = LinhaPassada nat string string int bool string

definition linha_lancamento :: "int \<Rightarrow> nat \<Rightarrow> lancamento \<Rightarrow> linha_passada" where
  "linha_lancamento faces idx l =
     LinhaPassada (idx + 1) (troca_primeiro_tipo (CHR ''_'') (CHR ''-'') (js_or_str (la_tipo l) ''?''))
                  (la_dado l) faces (la_max l) (la_dano l)"

record dados_passada =
  dp_lancamentos :: "lancamento list option"
  dp_faces :: "int option"
  dp_resumo :: "string option"
  dp_detalhes :: "real option list option"   \<comment> \<open>\<open>x.dano\<close> of each \<open>detalhes\<close> entry\<close>

datatype conteudo_passada = TextoResumo string | Linhas "linha_passada list" real

definition linhas_passada :: "int \<Rightarrow> lancamento list \<Rightarrow> linha_passada list" where
  "linhas_passada faces ls =
     (let g = agrupar chave_carro ls
      in concat (map (\<lambda>(idx, cid). map (linha_lancamento faces idx) (case map_of g cid of Some xs \<Rightarrow> xs | None \<Rightarrow> []))
                     (enumerate 0 (chaves_objeto (map fst g)))))"

text \<open>\<open>renderizarResultadoPassada(d)\<close>, when the result box exists.\<close>

definition renderizar_resultado_passada :: "dados_passada \<Rightarrow> conteudo_passada" where
  "renderizar_resultado_passada d =
     (let ls = (case dp_lancamentos d of Some xs \<Rightarrow> xs | None \<Rightarrow> []);
          faces = (case dp_faces d of Some f \<Rightarrow> (if f = 0 then 6 else f) | None \<Rightarrow> 6)
      in if ls = [] then TextoResumo (js_or_str (dp_resumo d) ''Passada executada.'')
         else Linhas (linhas_passada faces ls)
                     (sum_list (map (\<lambda>x. case x of Some v \<Rightarrow> v | None \<Rightarrow> 0)
                                    (case dp_detalhes d of Some xs \<Rightarrow> xs | None \<Rightarrow> []))))"

fun sem_rotulo :: "linha_passada \<Rightarrow> linha_passada" where
  "sem_rotulo (LinhaPassada n t d f m x) = LinhaPassada 1 t d f m x"

definition item_com_tag :: item_class where
  "item_com_tag = \<lparr>ic_equipe = Some ''<b>Alpha</b>'', ic_piloto = None, ic_linha = Some ''10'',
                    ic_angulo = Some ''8'', ic_estilo = Some ''9'', ic_total = Some ''27''\<rparr>"

definition lanc :: "int \<Rightarrow> lancamento" where
  "lanc c = \<lparr>la_carro = Some c, la_tipo = Some ''kit_angulo'', la_dado = ''4'', la_max = False, la_dano = ''2''\<rparr>"

subsection \<open>Escaping\<close>

lemma escape_sem_tags: "CHR ''<'' \<notin> set (escape_texto s) \<and> CHR ''>'' \<notin> set (escape_texto s)"
  by (induction s rule: escape_texto.induct) auto

text \<open>An HTML parser reads back exactly the text that was escaped.\<close>

lemma decodifica_escape: "decodifica_entidades (escape_texto s) = s"
  by (induction s rule: escape_texto.induct) auto

lemma escape_sem_marcacao: "sem_marcacao s \<Longrightarrow> escape_texto s = s"
  by (induction s rule: escape_texto.induct) (auto simp: sem_marcacao_def)

subsection \<open>The two classification tables\<close>

text \<open>When every team has a name and no name needs escaping, the inline table
  and the modal list the same rows.\<close>

lemma linhas_inline_modal:
  assumes "list_all (\<lambda>it. js_truthy_str (ic_equipe it) \<and> sem_marcacao (the (ic_equipe it))
                          \<and> sem_marcacao (js_or_str (ic_piloto it) ''-'')) cs"
  shows "linhas_inline cs = linhas_modal cs"
proof -
  have "[string_of_nat (i + 1), escape_html (Some (js_or_str (ic_equipe it) ''-'')),
         escape_html (Some (js_or_str (ic_piloto it) ''-''))] @ celulas_notas it
        = [string_of_nat (i + 1), js_str (ic_equipe it), js_or_str (ic_piloto it) ''-''] @ celulas_notas it"
    if "it \<in> set cs" for i it
  proof -
    have "js_truthy_str (ic_equipe it) \<and> sem_marcacao (the (ic_equipe it))
          \<and> sem_marcacao (js_or_str (ic_piloto it) ''-'')"
      using assms that by (simp add: list_all_iff)
    then show ?thesis
      by (auto simp: escape_html_def escape_sem_marcacao js_or_str_truthy js_str_def js_truthy_str_def
               split: option.splits)
  qed
  then show ?thesis
    unfolding linhas_inline_def linhas_modal_def
    by (intro list.map_cong0) (auto simp: in_set_enumerate_eq)

qed

subsection \<open>Keys of an object\<close>

lemma indice_array_nat: "indice_array (string_of_nat n) = (n < 4294967295)"
proof -
  have "length (digitos 10 (string_of_nat n)) = length (string_of_nat n)"
    by (simp add: digitos_string_of_nat_so)
  moreover have "valor_base 10 (digitos 10 (string_of_nat n)) = n"
    by (simp add: digitos_string_of_nat_so valor_base_string_of_nat)
  moreover have "string_of_nat n = ''0'' \<or> hd (string_of_nat n) \<noteq> CHR ''0''"
    using hd_string_of_nat_pos [of n] by (cases "n = 0") (auto simp: string_of_nat.simps [of 0])
  ultimately show ?thesis by (simp add: indice_array_def)
qed

text \<open>The key of a car id is an array index exactly for the ids from 0 to
  \<open>2^32 - 2\<close>.\<close>

lemma indice_array_int: "indice_array (js_string_int i) = (0 \<le> i \<and> i < 4294967295)"
proof (cases "i < 0")
  case True
  have "valor_digito 10 (CHR ''-'') = None" by (simp add: valor_digito_def)
  then show ?thesis using True by (simp add: js_string_int_def indice_array_def)
next
  case False
  then show ?thesis by (simp add: js_string_int_def indice_array_nat nat_less_iff)
qed

lemma js_string_int_inj: "(js_string_int a = js_string_int b) = (a = b)"
  using parse_int_js_string_int [of 10] by (metis option.inject)

lemma valor_base_js_string_int: "0 \<le> i \<Longrightarrow> valor_base 10 (digitos 10 (js_string_int i)) = nat i"
  by (simp add: js_string_int_def digitos_string_of_nat_so valor_base_string_of_nat)

lemma mset_chaves_objeto: "mset (chaves_objeto ks) = mset ks"
  by (simp add: chaves_objeto_def)

lemma distinct_chaves_objeto: "distinct (chaves_objeto ks) = distinct ks"
  using mset_chaves_objeto [of ks] mset_eq_imp_distinct_iff by blast

lemma set_chaves_objeto: "set (chaves_objeto ks) = set ks"
  using mset_chaves_objeto [of ks] mset_eq_setD by blast

subsection \<open>Grouping\<close>

lemma map_of_anexa_grupo:
  "map_of (anexa_grupo k x g) = (map_of g)(k \<mapsto> (case map_of g k of Some xs \<Rightarrow> xs @ [x] | None \<Rightarrow> [x]))"
  by (induction k x g rule: anexa_grupo.induct) (auto simp: fun_eq_iff)

lemma chaves_anexa_grupo:
  "map fst (anexa_grupo k x g) = (if k \<in> set (map fst g) then map fst g else map fst g @ [k])"
  by (induction k x g rule: anexa_grupo.induct) auto

lemma agrupar_snoc: "agrupar f (ls @ [l]) = anexa_grupo (f l) l (agrupar f ls)"
  by (simp add: agrupar_def)

lemma agrupar_Nil: "agrupar f [] = []"
  by (simp add: agrupar_def)

text \<open>The object built by the loop has one key per car, in the order of first
  appearance, and under each key the launches of that car in order.\<close>

lemma agrupar_chaves:
  "distinct (map fst (agrupar f ls)) \<and> set (map fst (agrupar f ls)) = f ` set ls"
  by (induction ls rule: rev_induct) (auto simp: agrupar_snoc chaves_anexa_grupo agrupar_Nil)

lemma agrupar_grupo:
  "map_of (agrupar f ls) k = (if k \<in> f ` set ls then Some (filter (\<lambda>l. f l = k) ls) else None)"
proof (induction ls rule: rev_induct)
  case Nil
  then show ?case by (simp add: agrupar_Nil)
next
  case (snoc x xs)
  show ?case
  proof (cases "k = f x")
    case True
    have "f x \<notin> f ` set xs \<Longrightarrow> filter (\<lambda>l. f l = f x) xs = []"
      by (auto simp: filter_empty_conv image_iff)
    with True snoc.IH show ?thesis
      by (auto simp: agrupar_snoc map_of_anexa_grupo)
  next
    case False
    with snoc.IH show ?thesis
      by (simp add: agrupar_snoc map_of_anexa_grupo)
  qed
qed

lemma mset_concat_filtros:
  "distinct ks \<Longrightarrow> mset (concat (map (\<lambda>k. filter (\<lambda>l. f l = k) ls) ks)) = mset (filter (\<lambda>l. f l \<in> set ks) ls)"
proof (induction ks)
  case Nil
  then show ?case by simp
next
  case (Cons k ks)
  have "mset (filter (\<lambda>l. f l = k) ls) + mset (filter (\<lambda>l. f l \<in> set ks) ls)
        = mset (filter (\<lambda>l. f l \<in> set (k # ks)) ls)"
    using Cons.prems by (induction ls) auto
  with Cons show ?case by simp
qed

lemma sem_rotulo_linha [simp]: "sem_rotulo (linha_lancamento faces idx l) = linha_lancamento faces 0 l"
  by (simp add: linha_lancamento_def)

text \<open>Every launch is listed exactly once, whatever the order of the cars.\<close>

lemma linhas_passada_permutacao:
  "mset (map sem_rotulo (linhas_passada faces ls)) = mset (map (linha_lancamento faces 0) ls)"
proof -
  let ?g = "agrupar chave_carro ls"
  let ?ks = "chaves_objeto (map fst ?g)"
  have ks: "distinct ?ks" "set ?ks = chave_carro ` set ls"
    using agrupar_chaves [of chave_carro ls] by (simp_all add: distinct_chaves_objeto set_chaves_objeto)
  have grupo: "(case map_of ?g cid of Some xs \<Rightarrow> xs | None \<Rightarrow> []) = filter (\<lambda>l. chave_carro l = cid) ls"
    if "cid \<in> set ?ks" for cid
    using that ks(2) by (simp add: agrupar_grupo)
  have "map sem_rotulo (linhas_passada faces ls)
        = concat (map (\<lambda>x. map (linha_lancamento faces 0)
                                 (case map_of ?g (snd x) of Some xs \<Rightarrow> xs | None \<Rightarrow> [])) (enumerate 0 ?ks))"
    unfolding linhas_passada_def Let_def
    by (simp add: map_concat case_prod_unfold comp_def)
  also have "\<dots> = concat (map (\<lambda>cid. map (linha_lancamento faces 0)
                                 (case map_of ?g cid of Some xs \<Rightarrow> xs | None \<Rightarrow> [])) ?ks)"
    using map_enumerate_snd [of "\<lambda>cid. map (linha_lancamento faces 0)
                                 (case map_of ?g cid of Some xs \<Rightarrow> xs | None \<Rightarrow> [])" 0 ?ks]
    by simp
  also have "\<dots> = concat (map (\<lambda>cid. map (linha_lancamento faces 0) (filter (\<lambda>l. chave_carro l = cid) ls)) ?ks)"
    using grupo by (simp cong: map_cong)
  also have "\<dots> = map (linha_lancamento faces 0) (concat (map (\<lambda>cid. filter (\<lambda>l. chave_carro l = cid) ls) ?ks))"
    by (simp add: map_concat comp_def)
  finally have "map sem_rotulo (linhas_passada faces ls)
        = map (linha_lancamento faces 0) (concat (map (\<lambda>cid. filter (\<lambda>l. chave_carro l = cid) ls) ?ks))" .
  also have "mset \<dots> = mset (map (linha_lancamento faces 0) (filter (\<lambda>l. chave_carro l \<in> set ?ks) ls))"
    by (simp only: mset_map mset_concat_filtros [OF ks(1)])
  also have "\<dots> = mset (map (linha_lancamento faces 0) ls)"
    using ks(2) by simp
  finally show ?thesis .
qed

subsection \<open>Runs\<close>

text \<open>The team name reaches the modal as markup, while the inline table escapes
  it.\<close>

lemma modal_nome_sem_escape:
  "linhas_modal [item_com_tag] = [[''1'', ''<b>Alpha</b>'', ''-'', ''10'', ''8'', ''9'', ''<strong>27</strong>'']]
   \<and> linhas_inline [item_com_tag]
       = [[''1'', ''&lt;b&gt;Alpha&lt;/b&gt;'', ''-'', ''10'', ''8'', ''9'', ''<strong>27</strong>'']]"
  unfolding item_com_tag_def linhas_modal_def linhas_inline_def celulas_notas_def escape_html_def
  by code_simp

lemma chave_lanc: "c \<noteq> 0 \<Longrightarrow> chave_carro (lanc c) = js_string_int c"
  by (simp add: chave_carro_def lanc_def)

text \<open>Cars are numbered in the order of their ids, not in the order they ran:
  the launches of car 12 and then car 3 are listed as car 3 first.\<close>

lemma rotulos_por_id:
  "linhas_passada 6 [lanc 12, lanc 3] = [linha_lancamento 6 0 (lanc 3), linha_lancamento 6 1 (lanc 12)]"
  by (simp add: linhas_passada_def agrupar_def chaves_objeto_def chave_lanc js_string_int_inj indice_array_int
                valor_base_js_string_int)

text \<open>The total is summed over \<open>detalhes\<close>, not over the launches listed.\<close>

lemma total_de_detalhes:
  "renderizar_resultado_passada
     \<lparr>dp_lancamentos = Some [lanc 3], dp_faces = None, dp_resumo = None, dp_detalhes = None\<rparr>
   = Linhas [linha_lancamento 6 0 (lanc 3)] 0"
  by (simp add: renderizar_resultado_passada_def linhas_passada_def agrupar_def chaves_objeto_def chave_lanc
                indice_array_int)

end
