(* ===== verification/BracketActions.thy ===== *)
theory BracketActions
  imports QualFlow QualResults
begin

text \<open>
  The battle bracket screens of src/static/qualificacao.js: the match cards of
  \<open>renderizarBracketChallonge\<close> (1895--1964) with the match data stored in
  their \<open>data-match\<close> attribute and read back by \<open>abrirModalPartidaBatalha\<close>
  (1966--1971); the Challonge actions \<open>reportarVencedorPartida\<close>,
  \<open>desfazerResultadoPartida\<close>, \<open>recarregarBracketChallonge\<close> and
  \<open>enviarParaChallonge\<close> (2184--2253, 2381--2401); the bracket loaders
  \<open>carregarChaveamentoBatalhasInline\<close> and \<open>mostrarChaveamentoBatalhas\<close>
  (1841--1862, 2334--2379); and the team list shown when a qualification
  starts (\<open>carregarAndMostrarEquipes\<close>, \<open>mostrarEquipesQualificacao\<close>,
  \<open>confirmarQualificacao\<close>, 78--175).  \<open>mostrarToast\<close> is the one of
  script.js, loaded on the same pages.
\<close>

subsection \<open>Match cards\<close>

record jogador_r =
  jr_id :: "string option"       \<comment> \<open>\<open>String(p.id)\<close> when present\<close>
  jr_name :: "string option"

record partida_r =
  pr_player1 :: "jogador_r option"
  pr_player2 :: "jogador_r option"
  pr_winner :: "string option"   \<comment> \<open>\<open>String(m.winner_id)\<close> when truthy\<close>

record fase_r =
  fr_label :: "string option"
  fr_matches :: "partida_r list option"

datatype avanca = AvancaPara string | Final | SemLinha

record cartao_partida =
  cpt_titulo :: string
  cpt_destaque1 :: bool
  cpt_destaque2 :: bool
  cpt_nome1 :: string
  cpt_nome2 :: string
  cpt_avanca :: avanca

definition partidas_de :: "fase_r \<Rightarrow> partida_r list" where
  "partidas_de f = (case fr_matches f of Some ms \<Rightarrow> ms | None \<Rightarrow> [])"

text \<open>\<open>m.winner_id && String(m.winner_id) === String(p.id)\<close> with \<open>p = m.playerN || {}\<close>.\<close>

definition vence :: "partida_r \<Rightarrow> jogador_r option \<Rightarrow> bool" where
  "vence m p = (js_truthy_str (pr_winner m) \<and>
                the (pr_winner m) = js_str (case p of Some j \<Rightarrow> jr_id j | None \<Rightarrow> None))"

definition nome_jogador :: "jogador_r option \<Rightarrow> string" where
  "nome_jogador p = escape_html (Some (js_or_str (case p of Some j \<Rightarrow> jr_name j | None \<Rightarrow> None) ''TBD''))"

text \<open>The line under a card: the phase the winner moves to, numbered when it has
  more than one match, or the final.\<close>

definition linha_avanca :: "fase_r list \<Rightarrow> nat \<Rightarrow> nat \<Rightarrow> avanca" where
  "linha_avanca b k idx =
     (if Suc k < length b \<and> partidas_de (b ! Suc k) \<noteq> [] then
        (let prox = b ! Suc k;
             rot = (if 1 < length (partidas_de prox)
                    then js_or_str (fr_label prox) [] @ '' '' @ string_of_nat (idx div 2 + 1)
                    else js_or_str (fr_label prox) [])
         in AvancaPara (escape_html (Some rot)))
      else if k = length b - 1 then Final else SemLinha)"

definition cartao_de :: "fase_r list \<Rightarrow> nat \<Rightarrow> nat \<Rightarrow> partida_r \<Rightarrow> cartao_partida" where
  "cartao_de b k idx m =
     (let f = b ! k;
          num = (if 1 < length (partidas_de f) then '' '' @ string_of_nat (idx + 1) else [])
      in \<lparr>cpt_titulo = escape_html (Some (js_or_str (fr_label f) [])) @ num,
          cpt_destaque1 = vence m (pr_player1 m), cpt_destaque2 = vence m (pr_player2 m),
          cpt_nome1 = nome_jogador (pr_player1 m), cpt_nome2 = nome_jogador (pr_player2 m),
          cpt_avanca = linha_avanca b k idx\<rparr>)"

text \<open>The cards of the bracket, phase by phase (the columns of lines 1900--1939).\<close>

definition cartoes_bracket :: "fase_r list \<Rightarrow> cartao_partida list list" where
  "cartoes_bracket b = map (\<lambda>k. map (\<lambda>(idx, m). cartao_de b k idx m) (enumerate 0 (partidas_de (b ! k)))) [0..<length b]"

text \<open>\<open>JSON.stringify(...).replace(/"/g, '&quot;')\<close>: the value written into
  \<open>data-match\<close>; the browser gives \<open>el.dataset.match\<close> back after decoding
  the character references of the attribute.\<close>

fun aspas_html :: "string \<Rightarrow> string" where
  "aspas_html [] = []"
| "aspas_html (c # r) = (if c = CHR 0x22 then ''&quot;'' @ aspas_html r else c # aspas_html r)"

definition dataset_match :: "string \<Rightarrow> string" where
  "dataset_match json = decodifica_entidades (aspas_html json)"

subsection \<open>Challonge actions\<close>

datatype resposta_bracket = BrDados bool "fase_r list option" "string option" | BrExcecao
  \<comment> \<open>\<open>{sucesso, bracket, challonge_url}\<close>\<close>

datatype resposta_acao = AcaoSucesso | AcaoFalha "string option" | AcaoExcecao

datatype resposta_envio = EnvioSucesso bool "string option" | EnvioFalha "string option" | EnvioExcecao
  \<comment> \<open>\<open>EnvioSucesso\<close> carries \<open>bracket_pendente\<close> and \<open>url\<close>\<close>

datatype efeito_b =
    DesabilitaBotao nat | HabilitaBotao nat
  | PostReport string string "string option"   \<comment> \<open>\<open>match_id\<close>, \<open>winner_id\<close>, \<open>round\<close> if not null\<close>
  | PostReopen string
  | PostEnviar string
  | FechaModalPartida
  | GetBracket string
  | RenderBracket "fase_r list" "string option"
  | ToastB string tipo_toast
  | AbreJanela string
  | BotaoEnviando | BotaoEnviar                  \<comment> \<open>\<open>#btnEnviarChallonge\<close> disabled / restored\<close>

text \<open>\<open>recarregarBracketChallonge(etapaId)\<close>: it catches its own errors.\<close>

definition recarregar_bracket :: "string \<Rightarrow> resposta_bracket \<Rightarrow> efeito_b list" where
  "recarregar_bracket etapa rb =
     GetBracket etapa # (case rb of BrDados True (Some b) url \<Rightarrow> [RenderBracket b url] | _ \<Rightarrow> [])"

text \<open>\<open>reportarVencedorPartida(etapaId, matchId, winnerId, btn, round)\<close>.  Without a
  \<open>btn\<close> the first \<open>[data-bs-dismiss="modal"]\<close> of the document is used
  (\<open>fechar\<close>); \<open>instancia\<close> tells whether the match modal has a Bootstrap
  instance, without which \<open>.hide()\<close> throws.\<close>

definition reportar_vencedor ::
  "string \<Rightarrow> string \<Rightarrow> string \<Rightarrow> string option \<Rightarrow> nat option \<Rightarrow> nat option \<Rightarrow> bool
   \<Rightarrow> resposta_acao \<Rightarrow> resposta_bracket \<Rightarrow> efeito_b list" where
  "reportar_vencedor etapa match winner rodada btn fechar instancia r rb =
     (let b = (case btn of Some x \<Rightarrow> Some x | None \<Rightarrow> fechar)
      in (case b of Some x \<Rightarrow> [DesabilitaBotao x] | None \<Rightarrow> []) @
         PostReport match winner rodada #
         (case r of
            AcaoSucesso \<Rightarrow>
              (if instancia then FechaModalPartida # recarregar_bracket etapa rb @ [ToastB ''Vencedor registrado!'' TSuccess]
               else [ToastB ''Erro ao registrar'' TError])
          | AcaoFalha e \<Rightarrow> [ToastB (''Erro: '' @ js_or_str e ''Falha'') TError]
          | AcaoExcecao \<Rightarrow> [ToastB ''Erro ao registrar'' TError]) @
         (case b of Some x \<Rightarrow> [HabilitaBotao x] | None \<Rightarrow> []))"

definition desfazer_resultado :: "string \<Rightarrow> string \<Rightarrow> bool \<Rightarrow> resposta_acao \<Rightarrow> resposta_bracket \<Rightarrow> efeito_b list" where
  "desfazer_resultado etapa match instancia r rb =
     PostReopen match #
     (case r of
        AcaoSucesso \<Rightarrow>
          (if instancia then FechaModalPartida # recarregar_bracket etapa rb @ [ToastB ''Resultado desfeito!'' TSuccess]
           else [ToastB ''Erro ao desfazer'' TError])
      | AcaoFalha e \<Rightarrow> [ToastB (''Erro: '' @ js_or_str e ''Falha'') TError]
      | AcaoExcecao \<Rightarrow> [ToastB ''Erro ao desfazer'' TError])"

text \<open>\<open>enviarParaChallonge(etapaId)\<close>; \<open>existe\<close> tells whether
  \<open>#btnEnviarChallonge\<close> is in the page.\<close>

definition enviar_para_challonge :: "string \<Rightarrow> bool \<Rightarrow> resposta_envio \<Rightarrow> efeito_b list" where
  "enviar_para_challonge etapa existe r =
     (if \<not> existe then []
      else BotaoEnviando # PostEnviar etapa #
           (case r of
              EnvioSucesso pend url \<Rightarrow>
                (if pend then ToastB ''Torneio criado. Inicie manualmente no Challonge (link aberto).'' TWarning
                 else ToastB ''Torneio enviado para o Challonge!'' TSuccess) #
                (if js_truthy_str url then [AbreJanela (the url)] else [])
            | EnvioFalha e \<Rightarrow> [ToastB (''Erro: '' @ js_or_str e ''Falha ao enviar'') TError]
            | EnvioExcecao \<Rightarrow> [ToastB ''Erro ao enviar para Challonge'' TError]) @ [BotaoEnviar])"

subsection \<open>Bracket views\<close>

datatype vista_chaveamento =
    VistaBracket "fase_r list" "string option"
  | VistaLinkChallonge string            \<comment> \<open>the escaped url\<close>
  | VistaFinalize                        \<comment> \<open>'Finalize a qualifica\<dots>'\<close>
  | VistaConecte                         \<comment> \<open>'Conecte o Challonge em Configura\<dots>'\<close>
  | VistaErro

definition tem_bracket :: "resposta_bracket \<Rightarrow> bool" where
  "tem_bracket rb = (case rb of BrDados True (Some b) _ \<Rightarrow> b \<noteq> [] | _ \<Rightarrow> False)"

text \<open>\<open>carregarChaveamentoBatalhasInline(etapaId)\<close>, when the section exists:
  the view written into it.\<close>

definition chaveamento_inline :: "resposta_bracket \<Rightarrow> vista_chaveamento" where
  "chaveamento_inline rb =
     (case rb of
        BrExcecao \<Rightarrow> VistaErro
      | BrDados suc b url \<Rightarrow>
          (if tem_bracket rb then VistaBracket (the b) url
           else if js_truthy_str url then VistaLinkChallonge (escape_html url)
           else VistaFinalize))"

datatype efeito_chave =
    CarregaResultadoInline string | GetChave string | EscreveInline vista_chaveamento
  | RolarSecao | AbreModalChaveamento vista_chaveamento | ToastErroChaveamento

definition carregar_chaveamento_inline :: "string \<Rightarrow> bool \<Rightarrow> resposta_bracket \<Rightarrow> efeito_chave list" where
  "carregar_chaveamento_inline etapa existe rb =
     CarregaResultadoInline etapa #
     (if \<not> existe then [] else [GetChave etapa, EscreveInline (chaveamento_inline rb)])"

text \<open>\<open>mostrarChaveamentoBatalhas(etapaId)\<close>: on the admin page with the section
  it loads the section; elsewhere it opens a modal.\<close>

definition mostrar_chaveamento :: "string \<Rightarrow> bool \<Rightarrow> bool \<Rightarrow> resposta_bracket \<Rightarrow> efeito_chave list" where
  "mostrar_chaveamento etapa pagina_admin existe rb =
     (if pagina_admin \<and> existe then carregar_chaveamento_inline etapa True rb @ [RolarSecao]
      else GetChave etapa #
           (case rb of
              BrExcecao \<Rightarrow> [ToastErroChaveamento]
            | BrDados suc b url \<Rightarrow>
                [AbreModalChaveamento (if tem_bracket rb then VistaBracket (the b) url else VistaConecte)]))"

subsection \<open>Teams of a starting qualification\<close>

record equipe_qual =
  eq_nome :: "string option"
  eq_piloto :: "string option"
  eq_carro :: "string option"

text \<open>The summary of the modal: total, teams with a pilot, and for each card
  whether it is green (has a pilot).\<close>

definition resumo_equipes :: "equipe_qual list \<Rightarrow> nat \<times> nat \<times> bool list" where
  "resumo_equipes es =
     (length es, length (filter (\<lambda>e. js_truthy_str (eq_piloto e)) es), map (\<lambda>e. js_truthy_str (eq_piloto e)) es)"

datatype resposta_equipes_q = EquipesQ bool "equipe_qual list option" | EquipesQExcecao

datatype efeito_eq = ModalEquipes "nat \<times> nat \<times> bool list" | ToastErroEquipes | Recarrega nat | EscondeModal

definition carregar_and_mostrar_equipes :: "resposta_equipes_q \<Rightarrow> efeito_eq list" where
  "carregar_and_mostrar_equipes r =
     (case r of
        EquipesQ True (Some es) \<Rightarrow> [ModalEquipes (resumo_equipes es)]
      | _ \<Rightarrow> [ToastErroEquipes, Recarrega 1500])"

definition confirmar_qualificacao :: "bool \<Rightarrow> efeito_eq list" where
  "confirmar_qualificacao instancia = (if instancia then [EscondeModal, Recarrega 300] else [])"

subsection \<open>The click listener of the cards\<close>

text \<open>\<open>initBracketCardClicks()\<close> (qualificacao.js lines 2233--2240): the flag
  \<open>window._bracketClicksInit\<close> and the number of document click listeners it
  added.  A click on a card runs \<open>abrirModalPartidaBatalha\<close> once per
  listener.\<close>

definition init_bracket_card_clicks :: "bool \<times> nat \<Rightarrow> bool \<times> nat" where
  "init_bracket_card_clicks st = (case st of (flag, n) \<Rightarrow> if flag then (flag, n) else (True, Suc n))"

definition aberturas_por_clique :: "bool \<times> nat \<Rightarrow> bool \<Rightarrow> nat" where
  "aberturas_por_clique st em_cartao = (if em_cartao then snd st else 0)"

subsection \<open>The match data round trip\<close>

lemma decodifica_quot [simp]: "decodifica_entidades (''&quot;'' @ r) = CHR 0x22 # decodifica_entidades r"
  by simp

lemma decodifica_sem_amp [simp]: "c \<noteq> CHR ''&'' \<Longrightarrow> decodifica_entidades (c # r) = c # decodifica_entidades r"
  by simp

text \<open>A JSON text without \<open>&\<close> is read back from \<open>data-match\<close> unchanged.\<close>

lemma dataset_match_sem_amp: "CHR ''&'' \<notin> set j \<Longrightarrow> dataset_match j = j"
  unfolding dataset_match_def
  by (induction j) auto

text \<open>A name holding a character reference is changed on the way: \<open>R&amp;D\<close>
  comes back as \<open>R&D\<close>, and \<open>P&quot;\<close> closes the JSON string early, so
  \<open>JSON.parse\<close> throws and the card opens nothing.\<close>

lemma dataset_match_altera:
  \<open>dataset_match ''{"name":"R&amp;D"}'' = ''{"name":"R&D"}''
   \<and> dataset_match ''{"name":"P&quot;"}'' = ''{"name":"P""}''\<close>
  by (simp add: dataset_match_def)

subsection \<open>Cards\<close>

text \<open>The two matches of a pair announce the same next match.\<close>

lemma avanca_par: "linha_avanca b k (2 * j) = linha_avanca b k (2 * j + 1)"
proof -
  have "(2 * j + 1) div 2 = 2 * j div 2" by arith
  then show ?thesis unfolding linha_avanca_def by (simp only:)
qed

text \<open>Two players with different ids are never both highlighted as winner.\<close>

lemma destaque_unico:
  "js_str (case p1 of Some j \<Rightarrow> jr_id j | None \<Rightarrow> None)
     \<noteq> js_str (case p2 of Some j \<Rightarrow> jr_id j | None \<Rightarrow> None) \<Longrightarrow>
   \<not> (vence m p1 \<and> vence m p2)"
  by (auto simp: vence_def)

lemma cartoes_bracket_forma:
  "map length (cartoes_bracket b) = map (\<lambda>f. length (partidas_de f)) b"
  by (rule nth_equalityI) (simp_all add: cartoes_bracket_def)

subsection \<open>Actions\<close>

text \<open>The button disabled by a report is enabled again on every path.\<close>

lemma reportar_reabilita:
  "btn = Some x \<Longrightarrow>
   hd (reportar_vencedor e m w rd btn f i r rb) = DesabilitaBotao x
   \<and> last (reportar_vencedor e m w rd btn f i r rb) = HabilitaBotao x"
  by (simp add: reportar_vencedor_def)

text \<open>Without a button argument the first close button of the document is the
  one disabled, whichever modal it belongs to.\<close>

lemma reportar_sem_botao:
  "hd (reportar_vencedor e m w rd None (Some y) i r rb) = DesabilitaBotao y"
  by (simp add: reportar_vencedor_def)

text \<open>A winner the server registered is reported as an error when the match
  modal has no Bootstrap instance, and the bracket is not reloaded.\<close>

lemma reportar_sem_instancia:
  "reportar_vencedor e m w rd None None False AcaoSucesso rb
     = [PostReport m w rd, ToastB ''Erro ao registrar'' TError]"
  by (simp add: reportar_vencedor_def)

lemma enviar_restaura_botao:
  "existe \<Longrightarrow>
   hd (enviar_para_challonge e existe r) = BotaoEnviando \<and> last (enviar_para_challonge e existe r) = BotaoEnviar"
  by (simp add: enviar_para_challonge_def)

lemma enviar_abre_janela:
  "(AbreJanela u \<in> set (enviar_para_challonge e existe r))
     = (existe \<and> (\<exists>p. r = EnvioSucesso p (Some u)) \<and> u \<noteq> [])"
  by (cases r) (auto simp: enviar_para_challonge_def js_truthy_str_def split: option.splits)

text \<open>With a bracket both loaders show it; without one, the admin section
  points to Challonge while the modal asks to connect it.\<close>

lemma vistas_chaveamento:
  "(tem_bracket rb \<longrightarrow>
      EscreveInline (VistaBracket (the (case rb of BrDados _ b _ \<Rightarrow> b | BrExcecao \<Rightarrow> None))
                                  (case rb of BrDados _ _ u \<Rightarrow> u | BrExcecao \<Rightarrow> None))
        \<in> set (carregar_chaveamento_inline e True rb)
    \<and> AbreModalChaveamento (VistaBracket (the (case rb of BrDados _ b _ \<Rightarrow> b | BrExcecao \<Rightarrow> None))
                                         (case rb of BrDados _ _ u \<Rightarrow> u | BrExcecao \<Rightarrow> None))
        \<in> set (mostrar_chaveamento e False ex rb))
   \<and> (rb = BrDados True None (Some u) \<and> u \<noteq> [] \<longrightarrow>
      chaveamento_inline rb = VistaLinkChallonge (escape_texto u)
      \<and> mostrar_chaveamento e False ex rb = [GetChave e, AbreModalChaveamento VistaConecte])"
  by (auto simp: carregar_chaveamento_inline_def mostrar_chaveamento_def chaveamento_inline_def tem_bracket_def
                 js_truthy_str_def escape_html_def split: resposta_bracket.splits bool.splits option.splits)

lemma resumo_equipes_conta:
  "resumo_equipes es = (t, c, verdes) \<Longrightarrow> c = count_list verdes True \<and> c \<le> t \<and> length verdes = t"
proof -
  assume r: "resumo_equipes es = (t, c, verdes)"
  have "length (filter P xs) = count_list (map P xs) True" for P and xs :: "equipe_qual list"
    by (induction xs) auto
  moreover have "length (filter (\<lambda>e. js_truthy_str (eq_piloto e)) es) \<le> length es"
    by (rule length_filter_le)
  ultimately show ?thesis using r by (auto simp: resumo_equipes_def)
qed

text \<open>However often \<open>initBracketCardClicks\<close> runs (at load and at
  \<open>DOMContentLoaded\<close>), one listener is added, so a click on a card opens one
  match modal and a click elsewhere none.\<close>

lemma init_cliques_um_ouvinte:
  "aberturas_por_clique ((init_bracket_card_clicks ^^ Suc k) (False, 0)) c = (if c then 1 else 0)"
proof -
  have "(init_bracket_card_clicks ^^ Suc k) (False, 0) = (True, 1)"
  proof (induction k)
    case 0
    then show ?case by (simp add: init_bracket_card_clicks_def)
  next
    case (Suc k)
    then show ?case by (simp add: init_bracket_card_clicks_def)
  qed
  then show ?thesis by (simp add: aberturas_por_clique_def)
qed

end
