(* ===== verification/PilotQueue.thy ===== *)
theory PilotQueue
  imports Prelude
begin

text \<open>
  The call queue of \<open>carregarPilotosDisponiveis(containerId, excluirIds, etapaId)\<close>
  (src/static/script.js, lines 5536--5614) and the list it renders.  The
  function keeps \<open>_queue = {running, pending}\<close>: a call made while a run is in
  flight only stores its arguments in \<open>pending\<close> (overwriting what was there)
  and returns \<open>[]\<close>; a run, when it ends, clears \<open>running\<close> and, if something is
  pending, schedules it with \<open>setTimeout(..., 30)\<close>.  Calls, run ends and timer
  firings interleave freely (\<open>passo_fila\<close>); \<open>alcanca_fila\<close> is the set of states
  reachable from page load.  The server's answers are inputs of the run
  ends.
\<close>

subsection \<open>The list of pilots\<close>

record args_pilotos =
  ap_container :: string
  ap_excluir :: "string list"          \<comment> \<open>\<open>excluirIds\<close>\<close>
  ap_etapa :: "string option"

record piloto_a =
  pa_id :: string
  pa_nome :: string

text \<open>A group of \<open>candidatos-pilotos\<close>: \<open>equipe_nome || equipe_id\<close> and the
  \<open>piloto_id\<close> of its candidates (the falsy ones left out).\<close>

record grupo_cand =
  gc_equipe :: string
  gc_pilotos :: "string list"

text \<open>\<open>candidaturaMap\<close>: a later group overwrites an earlier one.\<close>

definition mapa_candidaturas :: "grupo_cand list \<Rightarrow> string \<rightharpoonup> string" where
  "mapa_candidaturas gs = foldl (\<lambda>m g. foldl (\<lambda>m' p. m'(p \<mapsto> gc_equipe g)) m (gc_pilotos g)) Map.empty gs"

datatype vista_pilotos =
    NenhumCadastrado                               \<comment> \<open>'Nenhum piloto cadastrado'\<close>
  | NenhumDisponivel                               \<comment> \<open>'Nenhum piloto dispon\<dots>'\<close>
  | ListaPilotos "(piloto_a \<times> string option) list" \<comment> \<open>each pilot with the team it applied to\<close>

text \<open>The answer of a run: the pilots (\<open>None\<close> when the body is not an array)
  and the candidacies (empty when their request fails, which is only logged),
  or an exception of the pilots' request.\<close>

datatype resposta_pilotos = PilotosDados "piloto_a list option" "grupo_cand list" | PilotosExcecao

text \<open>What a run writes into the container (lines 5555--5598); \<open>None\<close> when it
  writes nothing: the container is missing or the request threw.\<close>

definition renderizar_pilotos :: "bool \<Rightarrow> args_pilotos \<Rightarrow> resposta_pilotos \<Rightarrow> vista_pilotos option" where
  "renderizar_pilotos existe a r =
     (case r of
        PilotosExcecao \<Rightarrow> None
      | PilotosDados ps gs \<Rightarrow>
          (let cm = (if js_truthy_str (ap_etapa a) then mapa_candidaturas gs else Map.empty)
           in if \<not> existe then None
              else case ps of
                     None \<Rightarrow> Some NenhumCadastrado
                   | Some [] \<Rightarrow> Some NenhumCadastrado
                   | Some xs \<Rightarrow>
                       (let ds = filter (\<lambda>p. pa_id p \<notin> set (ap_excluir a)) xs
                        in Some (if ds = [] then NenhumDisponivel else ListaPilotos (map (\<lambda>p. (p, cm (pa_id p))) ds)))))"

subsection \<open>The queue\<close>

record fila_st =
  f_running :: bool                       \<comment> \<open>\<open>_queue.running\<close>\<close>
  f_pending :: "args_pilotos option"      \<comment> \<open>\<open>_queue.pending\<close>\<close>
  f_em_voo :: "args_pilotos option"       \<comment> \<open>the arguments of the run in flight\<close>
  f_timers :: "args_pilotos list"         \<comment> \<open>re-invocations scheduled, in firing order\<close>
  f_exibido :: "(args_pilotos \<times> vista_pilotos) option"  \<comment> \<open>the last run that wrote the container\<close>
  f_pedidos :: "args_pilotos list"        \<comment> \<open>the calls made by the page, in order\<close>
  f_iniciados :: "args_pilotos list"      \<comment> \<open>the runs started, in order\<close>

definition fila_inicial :: fila_st where
  "fila_inicial = \<lparr>f_running = False, f_pending = None, f_em_voo = None, f_timers = [],
                   f_exibido = None, f_pedidos = [], f_iniciados = []\<rparr>"

datatype evento_fila = Chamada args_pilotos | FimRun bool resposta_pilotos | DisparaTimer

text \<open>The entry of the function (lines 5541--5551), for a call of the page or of
  a timer.\<close>

definition entrar_fila :: "args_pilotos \<Rightarrow> fila_st \<Rightarrow> fila_st" where
  "entrar_fila a s =
     (if f_running s then s\<lparr>f_pending := Some a\<rparr>
      else s\<lparr>f_running := True, f_em_voo := Some a, f_iniciados := f_iniciados s @ [a]\<rparr>)"

text \<open>The end of a run (the render and the \<open>finally\<close> block); \<open>existe\<close> tells
  whether the container is in the page.\<close>

definition fim_run :: "bool \<Rightarrow> resposta_pilotos \<Rightarrow> args_pilotos \<Rightarrow> fila_st \<Rightarrow> fila_st" where
  "fim_run existe r a s =
     (let v = renderizar_pilotos existe a r;
          s1 = s\<lparr>f_running := False, f_em_voo := None,
                 f_exibido := (case v of Some w \<Rightarrow> Some (a, w) | None \<Rightarrow> f_exibido s)\<rparr>
      in case f_pending s of
           Some p \<Rightarrow> s1\<lparr>f_pending := None, f_timers := f_timers s @ [p]\<rparr>
         | None \<Rightarrow> s1)"

fun passo_fila :: "fila_st \<Rightarrow> evento_fila \<Rightarrow> fila_st option" where
  "passo_fila s (Chamada a) = Some (entrar_fila a (s\<lparr>f_pedidos := f_pedidos s @ [a]\<rparr>))"
| "passo_fila s (FimRun existe r) =
     (case f_em_voo s of Some a \<Rightarrow> Some (fim_run existe r a s) | None \<Rightarrow> None)"
| "passo_fila s DisparaTimer =
     (case f_timers s of a # ts \<Rightarrow> Some (entrar_fila a (s\<lparr>f_timers := ts\<rparr>)) | [] \<Rightarrow> None)"

fun executa_fila :: "fila_st \<Rightarrow> evento_fila list \<Rightarrow> fila_st option" where
  "executa_fila s [] = Some s"
| "executa_fila s (e # es) = (case passo_fila s e of Some s' \<Rightarrow> executa_fila s' es | None \<Rightarrow> None)"

inductive alcanca_fila :: "fila_st \<Rightarrow> bool" where
  inicio: "alcanca_fila fila_inicial"
| passo: "alcanca_fila s \<Longrightarrow> passo_fila s e = Some s' \<Longrightarrow> alcanca_fila s'"

text \<open>The queue is idle: no run, nothing pending, no timer.\<close>

definition quieta :: "fila_st \<Rightarrow> bool" where
  "quieta s = (\<not> f_running s \<and> f_pending s = None \<and> f_timers s = [])"

text \<open>The events that let the queue run out without new calls: the run in flight
  ends, then each scheduled call fires and its run ends.\<close>

definition drenagem :: "bool \<Rightarrow> resposta_pilotos \<Rightarrow> fila_st \<Rightarrow> evento_fila list" where
  "drenagem ex r s =
     (if f_running s then [FimRun ex r] else []) @
     concat (replicate (length (f_timers s) + (if f_pending s = None then 0 else 1)) [DisparaTimer, FimRun ex r])"

definition inv_fila :: "fila_st \<Rightarrow> bool" where
  "inv_fila s =
     (f_running s = (f_em_voo s \<noteq> None) \<and> (f_pending s \<noteq> None \<longrightarrow> f_running s)
      \<and> set (f_timers s) \<subseteq> set (f_pedidos s) \<and> set_option (f_pending s) \<subseteq> set (f_pedidos s)
      \<and> set_option (f_em_voo s) \<subseteq> set (f_pedidos s) \<and> set (f_iniciados s) \<subseteq> set (f_pedidos s))"

definition arg_etapa :: "string \<Rightarrow> args_pilotos" where
  "arg_etapa e = \<lparr>ap_container = ''listaPilotosDisponiveis'', ap_excluir = [], ap_etapa = Some e\<rparr>"

text \<open>The state after two calls: the first runs, the second waits.\<close>

definition fila_dois :: fila_st where
  "fila_dois = \<lparr>f_running = True, f_pending = Some (arg_etapa ''2''), f_em_voo = Some (arg_etapa ''1''),
                f_timers = [], f_exibido = None, f_pedidos = [arg_etapa ''1'', arg_etapa ''2''],
                f_iniciados = [arg_etapa ''1'']\<rparr>"

subsection \<open>Invariant\<close>

lemma inv_fila_inicial: "inv_fila fila_inicial"
  by (simp add: inv_fila_def fila_inicial_def)

lemma inv_fila_passo: "inv_fila s \<Longrightarrow> passo_fila s e = Some s' \<Longrightarrow> inv_fila s'"
  by (cases e)
     (auto simp: inv_fila_def entrar_fila_def fim_run_def Let_def split: option.splits list.splits if_splits)

lemma alcanca_fila_inv: "alcanca_fila s \<Longrightarrow> inv_fila s"
  by (induction rule: alcanca_fila.induct) (auto intro: inv_fila_inicial inv_fila_passo)

text \<open>The flag guards the function: in every reachable state a run is in flight
  exactly when \<open>running\<close> is set, so a call never starts a second run; a call
  waits in \<open>pending\<close> only while a run is in flight; and every run started
  serves arguments some call of the page gave.\<close>

theorem fila_exclusao:
  "alcanca_fila s \<Longrightarrow>
   f_running s = (f_em_voo s \<noteq> None) \<and> (f_pending s = None \<or> f_running s)
   \<and> set (f_iniciados s) \<subseteq> set (f_pedidos s)"
proof -
  assume "alcanca_fila s"
  then have "inv_fila s" by (rule alcanca_fila_inv)
  then show ?thesis by (auto simp: inv_fila_def)
qed

subsection \<open>Draining\<close>

lemma executa_fila_append:
  "executa_fila s (xs @ ys) = (case executa_fila s xs of Some s' \<Rightarrow> executa_fila s' ys | None \<Rightarrow> None)"
  by (induction s xs rule: executa_fila.induct) (auto split: option.splits)

lemma drena_timers:
  "\<not> f_running s \<Longrightarrow> f_pending s = None \<Longrightarrow>
   \<exists>s'. executa_fila s (concat (replicate (length (f_timers s)) [DisparaTimer, FimRun ex r])) = Some s'
        \<and> quieta s' \<and> f_iniciados s' = f_iniciados s @ f_timers s"
proof (induction "f_timers s" arbitrary: s)
  case Nil
  then show ?case by (simp add: quieta_def)
next
  case (Cons a ts)
  let ?s2 = "fim_run ex r a (entrar_fila a (s\<lparr>f_timers := ts\<rparr>))"
  have s2: "\<not> f_running ?s2" "f_pending ?s2 = None" "f_timers ?s2 = ts"
           "f_iniciados ?s2 = f_iniciados s @ [a]"
    using Cons.prems by (simp_all add: entrar_fila_def fim_run_def Let_def)
  obtain s' where "executa_fila ?s2 (concat (replicate (length ts) [DisparaTimer, FimRun ex r])) = Some s'"
    and "quieta s'" and "f_iniciados s' = f_iniciados ?s2 @ ts"
    using Cons.hyps(1) [of ?s2] s2 by auto
  moreover have "executa_fila s [DisparaTimer, FimRun ex r] = Some ?s2"
    using Cons.hyps(2) [symmetric] Cons.prems by (simp add: entrar_fila_def)
  moreover have "concat (replicate (length (f_timers s)) [DisparaTimer, FimRun ex r])
                 = [DisparaTimer, FimRun ex r] @ concat (replicate (length ts) [DisparaTimer, FimRun ex r])"
    using Cons.hyps(2) [symmetric] by simp
  ultimately show ?case
    using s2(4) Cons.hyps(2) by (simp only: executa_fila_append option.case) auto
qed

text \<open>C12. Without new calls the queue of \<open>carregarPilotosDisponiveis\<close> runs
  out: from every reachable state the run in flight ends, and every scheduled
  and pending call is run, in that order, until the queue is idle.\<close>

theorem fila_drena:
  assumes "alcanca_fila s"
  shows "\<exists>s'. executa_fila s (drenagem ex r s) = Some s' \<and> quieta s'
              \<and> f_iniciados s' = f_iniciados s @ f_timers s @ (case f_pending s of Some p \<Rightarrow> [p] | None \<Rightarrow> [])"
proof -
  have inv: "inv_fila s" using assms alcanca_fila_inv by blast
  show ?thesis
  proof (cases "f_running s")
    case True
    then obtain a where a: "f_em_voo s = Some a" using inv by (auto simp: inv_fila_def)
    let ?s1 = "fim_run ex r a s"
    have s1: "\<not> f_running ?s1" "f_pending ?s1 = None"
      "f_timers ?s1 = f_timers s @ (case f_pending s of Some p \<Rightarrow> [p] | None \<Rightarrow> [])"
      "f_iniciados ?s1 = f_iniciados s"
      by (auto simp: fim_run_def Let_def split: option.splits)
    have "length (f_timers ?s1) = length (f_timers s) + (if f_pending s = None then 0 else 1)"
      using s1(3) by (auto split: option.splits)
    then show ?thesis
      using drena_timers [OF s1(1,2), of ex r] True a s1(3,4)
      by (simp add: drenagem_def executa_fila_append)
  next
    case False
    then have "f_pending s = None" using inv by (auto simp: inv_fila_def)
    then show ?thesis
      using drena_timers [OF False, of ex r] False by (simp add: drenagem_def)
  qed
qed

lemma alcanca_fila_dois: "alcanca_fila fila_dois"
proof -
  have "passo_fila fila_inicial (Chamada (arg_etapa ''1''))
        = Some (fila_dois\<lparr>f_pending := None, f_pedidos := [arg_etapa ''1'']\<rparr>)"
    by (simp add: fila_inicial_def fila_dois_def entrar_fila_def)
  moreover have "passo_fila (fila_dois\<lparr>f_pending := None, f_pedidos := [arg_etapa ''1'']\<rparr>)
                   (Chamada (arg_etapa ''2'')) = Some fila_dois"
    by (simp add: fila_dois_def entrar_fila_def)
  ultimately show ?thesis
    by (meson alcanca_fila.inicio alcanca_fila.passo)
qed

theorem fila_drena_witness:
  "alcanca_fila fila_dois
   \<and> (\<exists>s'. executa_fila fila_dois (drenagem True (PilotosDados (Some []) []) fila_dois) = Some s' \<and> quieta s'
           \<and> f_iniciados s' = f_iniciados fila_dois @ f_timers fila_dois
                                 @ (case f_pending fila_dois of Some p \<Rightarrow> [p] | None \<Rightarrow> []))"
  using fila_drena [OF alcanca_fila_dois] alcanca_fila_dois by blast

subsection \<open>Runs\<close>

text \<open>A call that arrives while the re-run of an older pending call is
  scheduled runs first; the older call then runs last, and the list shown at
  the end is the one of the older call, not of the page's latest call.\<close>

lemma fila_mostra_chamada_antiga:
  "\<exists>s. executa_fila fila_inicial
         [Chamada (arg_etapa ''1''), Chamada (arg_etapa ''2''), FimRun True (PilotosDados (Some []) []),
          Chamada (arg_etapa ''3''), DisparaTimer, FimRun True (PilotosDados (Some []) []),
          DisparaTimer, FimRun True (PilotosDados (Some []) [])] = Some s
       \<and> quieta s \<and> map_option fst (f_exibido s) = Some (arg_etapa ''2'')
       \<and> last (f_pedidos s) = arg_etapa ''3''"
  by (simp add: fila_inicial_def entrar_fila_def fim_run_def renderizar_pilotos_def Let_def quieta_def)

text \<open>Two calls made during one run: only the later is kept, and the earlier is
  never run.\<close>

lemma fila_descarta_intermediaria:
  "\<exists>s. executa_fila fila_inicial
         [Chamada (arg_etapa ''1''), Chamada (arg_etapa ''2''), Chamada (arg_etapa ''3''),
          FimRun True (PilotosDados (Some []) []), DisparaTimer, FimRun True (PilotosDados (Some []) [])] = Some s
       \<and> quieta s \<and> f_iniciados s = [arg_etapa ''1'', arg_etapa ''3'']"
  by (simp add: fila_inicial_def entrar_fila_def fim_run_def renderizar_pilotos_def Let_def quieta_def)

end
