(* ===== verification/TeamData.thy ===== *)
theory TeamData
  imports AutoRefresh JsFloat
begin

text \<open>
  The team's data on the dashboard (src/static/script.js, lines 427--819):
  the installation price read from the configuration
  (\<open>obterPrecoInstalacaoWarehouse\<close>), the team details
  (\<open>carregarDetalhesEquipe\<close>, \<open>recarregarDadosEquipe\<close>,
  \<open>renderizarDetalhesEquipe\<close>) and the lists of parts and cars waiting for
  activation (\<open>carregarPecasAguardando\<close>, \<open>renderizarPecasAguardando\<close>,
  \<open>carregarCarrosAguardando\<close>, \<open>renderizarCarrosAguardando\<close>) with their caches
  \<open>_cachePecasAguardando\<close> and \<open>_cacheCarrosAguardando\<close> (lines 10--11).  A cache
  holds \<open>JSON.stringify\<close> of the last body read, equal for two bodies exactly
  when they are; the model keeps the body.  The loads a handler starts are the
  \<open>carga\<close> values of AutoRefresh; their answers arrive later as events of
  \<open>passo_painel\<close>, in any order.
\<close>

subsection \<open>The installation price\<close>

datatype valor_cfg = CfgNum real | CfgTexto string | CfgAusente
  \<comment> \<open>\<open>config.valor\<close>: a number, a string, or absent / \<open>null\<close>\<close>

record config_item =
  cfg_chave :: "string option"
  cfg_valor :: valor_cfg

datatype resposta_configuracoes = ConfigOk "config_item list option" | ConfigNaoOk | ConfigExcecao
  \<comment> \<open>\<open>configuracoes\<close> when it is an array; a status that is not ok; a thrown error\<close>

text \<open>\<open>parseFloat(config.valor || '10')\<close>, \<open>None\<close> being \<open>NaN\<close>: the number 0 and
  the empty string are falsy; \<open>parseFloat\<close> of a number reads back its value.\<close>

definition preco_de_valor :: "valor_cfg \<Rightarrow> num_float option" where
  "preco_de_valor v =
     (case v of
        CfgNum r \<Rightarrow> (if r = 0 then parse_float ''10'' else Some (Finito r))
      | CfgTexto t \<Rightarrow> parse_float (if t = [] then ''10'' else t)
      | CfgAusente \<Rightarrow> parse_float ''10'')"

definition chave_preco :: string where
  "chave_preco = ''preco_instalacao_warehouse''"

text \<open>\<open>obterPrecoInstalacaoWarehouse()\<close>: the new value of
  \<open>precoInstalacaoWarehouse\<close>, which it also returns.\<close>

definition obter_preco_instalacao :: "resposta_configuracoes \<Rightarrow> num_float option \<Rightarrow> num_float option" where
  "obter_preco_instalacao r p =
     (case r of
        ConfigOk (Some cs) \<Rightarrow>
          (case find (\<lambda>c. cfg_chave c = Some chave_preco) cs of
             Some c \<Rightarrow> preco_de_valor (cfg_valor c)
           | None \<Rightarrow> p)
      | _ \<Rightarrow> p)"

text \<open>The installation price shown by \<open>abrirModalRemoverPeca\<close> (lines
  4919--4937) reads the same configuration with \<open>parseFloat(config.valor ||
  '0')\<close>, starting from 0 and without checking \<open>resp.ok\<close> (an error body has
  no \<open>configuracoes\<close>); \<open>None\<close> is the text \<open>Erro ao carregar valor\<close>, \<open>Some None\<close>
  a \<open>NaN\<close> amount.\<close>

definition preco_remocao_de_valor :: "valor_cfg \<Rightarrow> num_float option" where
  "preco_remocao_de_valor v =
     (case v of
        CfgNum r \<Rightarrow> (if r = 0 then parse_float ''0'' else Some (Finito r))
      | CfgTexto t \<Rightarrow> parse_float (if t = [] then ''0'' else t)
      | CfgAusente \<Rightarrow> parse_float ''0'')"

definition valor_instalacao_remocao :: "resposta_configuracoes \<Rightarrow> num_float option option" where
  "valor_instalacao_remocao r =
     (case r of
        ConfigExcecao \<Rightarrow> None
      | ConfigOk (Some cs) \<Rightarrow>
          Some (case find (\<lambda>c. cfg_chave c = Some chave_preco) cs of
                  Some c \<Rightarrow> preco_remocao_de_valor (cfg_valor c)
                | None \<Rightarrow> Some (Finito 0))
      | _ \<Rightarrow> Some (Some (Finito 0)))"

subsection \<open>Lists waiting for activation\<close>

text \<open>A JSON body: an array, or another value by its JSON text.\<close>

datatype 'a corpo = CorpoLista "'a list" | CorpoOutro string

datatype 'a resposta_lista = ListaOk "'a corpo" | ListaFalha
  \<comment> \<open>\<open>ListaFalha\<close>: a status that is not ok, a network error or a body that is not JSON\<close>

datatype 'v vista_lista = SemItens | Itens "'v list" | ErroLista
  \<comment> \<open>the placeholder text, the items, or the error text\<close>

text \<open>\<open>!xs || !Array.isArray(xs) || xs.length === 0\<close> gives the placeholder.\<close>

definition renderizar_lista :: "('a \<Rightarrow> 'v) \<Rightarrow> 'a corpo \<Rightarrow> 'v vista_lista" where
  "renderizar_lista f c = (case c of CorpoLista [] \<Rightarrow> SemItens | CorpoLista xs \<Rightarrow> Itens (map f xs) | CorpoOutro _ \<Rightarrow> SemItens)"

record ('a, 'v) lista_st =
  ls_cache :: "'a corpo option"
  ls_vista :: "'v vista_lista"

text \<open>The body of \<open>carregarPecasAguardando\<close> and \<open>carregarCarrosAguardando\<close>;
  \<open>existe\<close> tells whether the container is in the page.  The cache is written
  before the container is looked up, and cleared on an error.\<close>

definition carregar_lista ::
  "('a \<Rightarrow> 'v) \<Rightarrow> bool \<Rightarrow> 'a resposta_lista \<Rightarrow> ('a, 'v) lista_st \<Rightarrow> ('a, 'v) lista_st" where
  "carregar_lista f existe r s =
     (case r of
        ListaOk c \<Rightarrow>
          (if ls_cache s = Some c then s
           else s\<lparr>ls_cache := Some c, ls_vista := (if existe then renderizar_lista f c else ls_vista s)\<rparr>)
      | ListaFalha \<Rightarrow> s\<lparr>ls_cache := None, ls_vista := (if existe then ErroLista else ls_vista s)\<rparr>)"

definition lista_vazia :: "('a, 'v) lista_st" where
  "lista_vazia = \<lparr>ls_cache = None, ls_vista = SemItens\<rparr>"

record carro_ref =
  cr_marca :: "string option"
  cr_modelo :: "string option"
  cr_status :: "string option"

record peca_aguardando =
  pa_nome :: "string option"
  pa_tipo :: "string option"
  pa_preco :: money
  pa_carro :: "carro_ref option"

text \<open>\<open>tipoMap[t] || t\<close> and \<open>tipoPecaLabel[t] || t\<close>: both maps have the five
  part types as keys; \<open>RotuloMapa k\<close> is the map's label of \<open>k\<close>.\<close>

datatype rotulo = RotuloMapa string | RotuloCru string

definition tipos_rotulados :: "string list" where
  "tipos_rotulados = [''motor'', ''cambio'', ''kit_angulo'', ''suspensao'', ''diferencial'']"

definition rotulo_tipo :: "string option \<Rightarrow> rotulo" where
  "rotulo_tipo t = (case t of Some k \<Rightarrow> (if k \<in> set tipos_rotulados then RotuloMapa k else RotuloCru k)
                            | None \<Rightarrow> RotuloCru (js_str t))"

definition exibe_carro :: "carro_ref option \<Rightarrow> string" where
  "exibe_carro c =
     (case c of
        None \<Rightarrow> ''Desconhecido''
      | Some x \<Rightarrow> js_str (cr_marca x) @ '' '' @ js_str (cr_modelo x) @ '' ''
                  @ (if cr_status x = Some ''repouso'' then ''(Repouso)'' else ''(Ativo)''))"

text \<open>One item of \<open>renderizarPecasAguardando\<close>: name, type label, price and the
  car it will be installed in.\<close>

definition item_peca :: "peca_aguardando \<Rightarrow> string \<times> rotulo \<times> money \<times> string" where
  "item_peca p = (js_str (pa_nome p), rotulo_tipo (pa_tipo p), pa_preco p, exibe_carro (pa_carro p))"

record peca_no_carro =
  pc_tipo :: "string option"
  pc_nome :: "string option"
  pc_upgrades :: "string option list option"

record carro_aguardando =
  cw_marca :: "string option"
  cw_modelo :: "string option"
  cw_pecas :: "peca_no_carro list option"

text \<open>The em dash (U+2014) in UTF-8.\<close>

definition traco_vazio :: string where
  "traco_vazio = [char_of (226::nat), char_of (128::nat), char_of (148::nat)]"

text \<open>One item of \<open>renderizarCarrosAguardando\<close>: make, model and, when the car
  has parts, each part's label, name and upgrades; \<open>None\<close> is the text that the car has no
  parts.\<close>

definition item_carro ::
  "carro_aguardando \<Rightarrow> string \<times> string \<times> (rotulo \<times> string \<times> string list) list option" where
  "item_carro c =
     (js_str (cw_marca c), js_str (cw_modelo c),
      (case cw_pecas c of
         Some (p # ps) \<Rightarrow>
           Some (map (\<lambda>q. (rotulo_tipo (pc_tipo q), js_or_str (pc_nome q) traco_vazio,
                           map (\<lambda>u. js_or_str u traco_vazio) (case pc_upgrades q of Some us \<Rightarrow> us | None \<Rightarrow> [])))
                     (p # ps))
       | _ \<Rightarrow> None))"

type_synonym item_peca_t = "string \<times> rotulo \<times> money \<times> string"
type_synonym item_carro_t = "string \<times> string \<times> (rotulo \<times> string \<times> string list) list option"

text \<open>\<open>carregarPecasAguardando()\<close> and \<open>carregarCarrosAguardando()\<close>.\<close>

definition carregar_pecas_aguardando ::
  "bool \<Rightarrow> peca_aguardando resposta_lista \<Rightarrow> (peca_aguardando, item_peca_t) lista_st \<Rightarrow> (peca_aguardando, item_peca_t) lista_st" where
  "carregar_pecas_aguardando = carregar_lista item_peca"

definition carregar_carros_aguardando ::
  "bool \<Rightarrow> carro_aguardando resposta_lista \<Rightarrow> (carro_aguardando, item_carro_t) lista_st \<Rightarrow> (carro_aguardando, item_carro_t) lista_st" where
  "carregar_carros_aguardando = carregar_lista item_carro"

subsection \<open>The team details\<close>

record equipe_atual =
  ea_nome :: "string option"
  ea_saldo :: money
  ea_carro :: "carro_ref option"

text \<open>The dashboard: \<open>equipeAtual\<close>, the contents of \<open>#equipeDetalhes\<close> (name,
  balance, current car), whether the two containers of the waiting lists are in
  the page (\<open>renderizarDetalhesEquipe\<close> writes them), the two waiting lists
  with their caches, \<open>precoInstalacaoWarehouse\<close> and whether the page went to
  the login.\<close>

record painel_st =
  pn_equipe :: "equipe_atual option"
  pn_detalhes :: "(string \<times> money \<times> string) option"
  pn_containers :: bool
  pn_pecas :: "(peca_aguardando, item_peca_t) lista_st"
  pn_carros :: "(carro_aguardando, item_carro_t) lista_st"
  pn_preco :: "num_float option"
  pn_login :: bool

datatype efeito_painel = Inicia carga | ToastErroDetalhes

definition carro_atual_texto :: "carro_ref option \<Rightarrow> string" where
  "carro_atual_texto c = (case c of Some x \<Rightarrow> js_str (cr_marca x) @ '' '' @ js_str (cr_modelo x) | None \<Rightarrow> ''-'')"

text \<open>\<open>renderizarDetalhesEquipe()\<close>: the details, the two containers with their
  placeholders, both caches cleared (so that the next loads redraw the new
  containers), and the two loads started.\<close>

definition renderizar_detalhes_equipe :: "painel_st \<Rightarrow> painel_st \<times> efeito_painel list" where
  "renderizar_detalhes_equipe s =
     (case pn_equipe s of
        None \<Rightarrow> (s, [])
      | Some e \<Rightarrow>
          (s\<lparr>pn_detalhes := Some (js_str (ea_nome e), ea_saldo e, carro_atual_texto (ea_carro e)),
             pn_containers := True, pn_pecas := lista_vazia, pn_carros := lista_vazia\<rparr>,
           [Inicia CarregarPecasAguardando, Inicia CarregarCarrosAguardando]))"

datatype resposta_equipe = EquipeOk equipe_atual | EquipeStatus int | EquipeExcecao

text \<open>\<open>carregarDetalhesEquipe()\<close> with the session's team id.\<close>

definition carregar_detalhes_equipe :: "string option \<Rightarrow> resposta_equipe \<Rightarrow> painel_st \<Rightarrow> painel_st \<times> efeito_painel list" where
  "carregar_detalhes_equipe sessao r s =
     (if \<not> js_truthy_str sessao then (s\<lparr>pn_login := True\<rparr>, [])
      else case r of
             EquipeStatus st \<Rightarrow> (if st = 401 \<or> st = 403 then s\<lparr>pn_login := True\<rparr> else s, [])
           | EquipeOk e \<Rightarrow> renderizar_detalhes_equipe (s\<lparr>pn_equipe := Some e\<rparr>)
           | EquipeExcecao \<Rightarrow> (s, [ToastErroDetalhes]))"

text \<open>\<open>recarregarDadosEquipe()\<close>: the same request every five seconds, without
  the redirections; it also reloads the garage.\<close>

definition recarregar_dados_equipe :: "string option \<Rightarrow> resposta_equipe \<Rightarrow> painel_st \<Rightarrow> painel_st \<times> efeito_painel list" where
  "recarregar_dados_equipe sessao r s =
     (if \<not> js_truthy_str sessao then (s, [])
      else case r of
             EquipeOk e \<Rightarrow> (let (s', ef) = renderizar_detalhes_equipe (s\<lparr>pn_equipe := Some e\<rparr>) in (s', ef @ [Inicia CarregarGaragem]))
           | _ \<Rightarrow> (s, []))"

subsection \<open>The dashboard as a transition system\<close>

text \<open>An answer arriving: each is the completion of one load of \<open>carga\<close>.\<close>

datatype evento_painel =
    ChegaPecas "peca_aguardando resposta_lista"
  | ChegaCarros "carro_aguardando resposta_lista"
  | ChegaDetalhes "string option" resposta_equipe
  | ChegaRecarga "string option" resposta_equipe
  | ChegaConfig resposta_configuracoes

definition carga_de :: "evento_painel \<Rightarrow> carga" where
  "carga_de ev = (case ev of ChegaPecas _ \<Rightarrow> CarregarPecasAguardando | ChegaCarros _ \<Rightarrow> CarregarCarrosAguardando
                    | ChegaDetalhes _ _ \<Rightarrow> CarregarDetalhesEquipe | ChegaRecarga _ _ \<Rightarrow> RecarregarDadosEquipe
                    | ChegaConfig _ \<Rightarrow> ObterPrecoInstalacao)"

definition passo_painel :: "evento_painel \<Rightarrow> painel_st \<Rightarrow> painel_st" where
  "passo_painel ev s =
     (case ev of
        ChegaPecas r \<Rightarrow> s\<lparr>pn_pecas := carregar_pecas_aguardando (pn_containers s) r (pn_pecas s)\<rparr>
      | ChegaCarros r \<Rightarrow> s\<lparr>pn_carros := carregar_carros_aguardando (pn_containers s) r (pn_carros s)\<rparr>
      | ChegaDetalhes se r \<Rightarrow> fst (carregar_detalhes_equipe se r s)
      | ChegaRecarga se r \<Rightarrow> fst (recarregar_dados_equipe se r s)
      | ChegaConfig r \<Rightarrow> s\<lparr>pn_preco := obter_preco_instalacao r (pn_preco s)\<rparr>)"

definition painel_equipe_inicial :: painel_st where
  "painel_equipe_inicial = \<lparr>pn_equipe = None, pn_detalhes = None, pn_containers = False,
                     pn_pecas = lista_vazia, pn_carros = lista_vazia, pn_preco = Some (Finito 10), pn_login = False\<rparr>"

inductive alcanca_painel :: "painel_st \<Rightarrow> bool" where
  inicio: "alcanca_painel painel_equipe_inicial"
| passo: "alcanca_painel s \<Longrightarrow> alcanca_painel (passo_painel ev s)"

text \<open>A waiting list agrees with its cache: when a body is cached, the list
  shows it.\<close>

definition lista_coerente :: "('a \<Rightarrow> 'v) \<Rightarrow> ('a, 'v) lista_st \<Rightarrow> bool" where
  "lista_coerente f l = (case ls_cache l of Some c \<Rightarrow> ls_vista l = renderizar_lista f c | None \<Rightarrow> True)"

definition inv_painel :: "painel_st \<Rightarrow> bool" where
  "inv_painel s = (\<not> pn_containers s \<or> (lista_coerente item_peca (pn_pecas s) \<and> lista_coerente item_carro (pn_carros s)))"

definition equipe_alpha :: equipe_atual where
  "equipe_alpha = \<lparr>ea_nome = Some ''Alpha'', ea_saldo = 5000, ea_carro = None\<rparr>"

definition peca_turbo :: peca_aguardando where
  "peca_turbo = \<lparr>pa_nome = Some ''Turbo'', pa_tipo = Some ''motor'', pa_preco = 1200, pa_carro = None\<rparr>"

subsection \<open>Lemmas\<close>

lemma lista_coerente_vazia [simp]: "lista_coerente f lista_vazia"
  by (simp add: lista_coerente_def lista_vazia_def)

lemma lista_coerente_carregar:
  "lista_coerente f l \<Longrightarrow> lista_coerente f (carregar_lista f True r l)"
  by (auto simp: lista_coerente_def carregar_lista_def split: resposta_lista.splits option.splits)

lemma renderizar_detalhes_equipe_inv:
  "inv_painel s \<Longrightarrow> inv_painel (fst (renderizar_detalhes_equipe s))"
  by (auto simp: renderizar_detalhes_equipe_def inv_painel_def split: option.splits)

lemma passo_painel_inv:
  assumes "inv_painel s"
  shows "inv_painel (passo_painel ev s)"
  using assms
  by (auto simp: passo_painel_def carregar_detalhes_equipe_def recarregar_dados_equipe_def
                 renderizar_detalhes_equipe_def inv_painel_def lista_coerente_carregar
                 carregar_pecas_aguardando_def carregar_carros_aguardando_def
           split: evento_painel.splits resposta_equipe.splits)

lemma alcanca_painel_inv: "alcanca_painel s \<Longrightarrow> inv_painel s"
proof (induction rule: alcanca_painel.induct)
  case inicio
  then show ?case by (simp add: inv_painel_def painel_equipe_inicial_def)
next
  case (passo s ev)
  then show ?case using passo_painel_inv by blast
qed

text \<open>C4. Once the team details are drawn, the lists of parts and cars waiting
  for activation show the last body each load read and cached, whatever the
  order in which the details, the loads and their answers arrive:
  \<open>renderizarDetalhesEquipe\<close> clears both caches when it writes the containers,
  so a body cached while the containers were missing is drawn again.\<close>
theorem aguardando_coerente:
  assumes "alcanca_painel s" and "pn_containers s"
  shows "lista_coerente item_peca (pn_pecas s) \<and> lista_coerente item_carro (pn_carros s)"
  using alcanca_painel_inv [OF assms(1)] assms(2) by (simp add: inv_painel_def)

theorem aguardando_coerente_witness:
  "alcanca_painel (passo_painel (ChegaPecas (ListaOk (CorpoLista [peca_turbo])))
                     (passo_painel (ChegaDetalhes (Some ''7'') (EquipeOk equipe_alpha)) painel_equipe_inicial))
   \<and> pn_containers (passo_painel (ChegaPecas (ListaOk (CorpoLista [peca_turbo])))
                     (passo_painel (ChegaDetalhes (Some ''7'') (EquipeOk equipe_alpha)) painel_equipe_inicial))
   \<and> ls_vista (pn_pecas (passo_painel (ChegaPecas (ListaOk (CorpoLista [peca_turbo])))
                     (passo_painel (ChegaDetalhes (Some ''7'') (EquipeOk equipe_alpha)) painel_equipe_inicial)))
       = Itens [(''Turbo'', RotuloMapa ''motor'', 1200, ''Desconhecido'')]
   \<and> lista_coerente item_peca (pn_pecas (passo_painel (ChegaPecas (ListaOk (CorpoLista [peca_turbo])))
                     (passo_painel (ChegaDetalhes (Some ''7'') (EquipeOk equipe_alpha)) painel_equipe_inicial)))"
proof -
  let ?s = "passo_painel (ChegaPecas (ListaOk (CorpoLista [peca_turbo])))
              (passo_painel (ChegaDetalhes (Some ''7'') (EquipeOk equipe_alpha)) painel_equipe_inicial)"
  have a: "alcanca_painel ?s" by (intro alcanca_painel.passo alcanca_painel.inicio)
  have c: "pn_containers ?s"
    by (simp add: passo_painel_def carregar_detalhes_equipe_def renderizar_detalhes_equipe_def js_truthy_str_def)
  have v: "ls_vista (pn_pecas ?s) = Itens [(''Turbo'', RotuloMapa ''motor'', 1200, ''Desconhecido'')]"
    by (simp add: passo_painel_def carregar_detalhes_equipe_def renderizar_detalhes_equipe_def js_truthy_str_def
                  carregar_pecas_aguardando_def carregar_lista_def lista_vazia_def renderizar_lista_def item_peca_def peca_turbo_def
                  rotulo_tipo_def tipos_rotulados_def exibe_carro_def js_str_def)
  show ?thesis using a c v aguardando_coerente [OF a c] by simp
qed

text \<open>A configured installation price of the number 0 is read as 10 (\<open>0 || '10'\<close>);
  the string \<open>"0"\<close> is read as 0, and a text that is not a number as \<open>NaN\<close>.\<close>

lemma preco_zero_vira_dez:
  "obter_preco_instalacao (ConfigOk (Some [\<lparr>cfg_chave = Some chave_preco, cfg_valor = CfgNum 0\<rparr>])) p = Some (Finito 10)
   \<and> obter_preco_instalacao (ConfigOk (Some [\<lparr>cfg_chave = Some chave_preco, cfg_valor = CfgTexto ''0''\<rparr>])) p = Some (Finito 0)
   \<and> obter_preco_instalacao (ConfigOk (Some [\<lparr>cfg_chave = Some chave_preco, cfg_valor = CfgTexto ''abc''\<rparr>])) p = None"
  by (simp add: obter_preco_instalacao_def preco_de_valor_def parse_float_def decimal_sem_sinal_def espaco_js_def
                valor_digito_def valor_base_def expoente_def pot10_def)

text \<open>A second answer with the same body leaves the list as the first left it.\<close>

lemma carregar_lista_idempotente:
  "carregar_lista f e (ListaOk c) (carregar_lista f e (ListaOk c) l) = carregar_lista f e (ListaOk c) l"
  by (simp add: carregar_lista_def)

text \<open>Without a configured price the dashboard keeps 10 while the removal
  modal shows 0, and a price configured as 0 is 10 in the dashboard and 0 in
  the modal.\<close>

lemma preco_remocao_diverge:
  "valor_instalacao_remocao (ConfigOk (Some [])) = Some (Some (Finito 0))
   \<and> obter_preco_instalacao (ConfigOk (Some [])) (pn_preco painel_equipe_inicial) = Some (Finito 10)
   \<and> valor_instalacao_remocao (ConfigOk (Some [\<lparr>cfg_chave = Some chave_preco, cfg_valor = CfgNum 0\<rparr>])) = Some (Some (Finito 0))
   \<and> obter_preco_instalacao (ConfigOk (Some [\<lparr>cfg_chave = Some chave_preco, cfg_valor = CfgNum 0\<rparr>])) p = Some (Finito 10)"
  by (simp add: valor_instalacao_remocao_def obter_preco_instalacao_def painel_equipe_inicial_def preco_remocao_de_valor_def
                preco_de_valor_def parse_float_def decimal_sem_sinal_def espaco_js_def valor_digito_def valor_base_def
                expoente_def pot10_def)

end
