(* ===== verification/GarageView.thy ===== *)
theory GarageView
  imports GarageParts TeamData
begin

text \<open>
  The garage screen (src/static/script.js, lines 1082--1438 and 4785--4903):
  \<open>renderizarGaragem\<close> splits the cars into active ones and cars at rest,
  draws each with its nickname link, its parts (\<open>gerarHtmlPecas\<close> of
  GarageParts) and, at rest, the activation button; it lists the warehouse;
  \<open>renderizarHistorico\<close> lists the purchases.  The nickname link is the
  attribute \<open>onclick="editarApelidoCarro('id', 'apelido', this)"\<close>, built with
  \<open>apelido.replace(/'/g, "\\'")\<close>; the browser reads the two arguments back
  as JavaScript string literals, modelled by \<open>le_literal\<close>.  The handlers
  \<open>editarApelidoCarro\<close>, \<open>confirmarEditarApelido\<close>, \<open>enviarImagemCarro\<close> and
  \<open>recuperarPecaVida\<close> return their requests and toasts.
\<close>

subsection \<open>JavaScript string literals in an attribute\<close>

definition apostrofo :: char where "apostrofo = CHR 0x27"
definition barra_inv :: char where "barra_inv = CHR 0x5C"

text \<open>\<open>s.replace(/'/g, "\\'")\<close>.\<close>

definition escapa_apostrofo :: "string \<Rightarrow> string" where
  "escapa_apostrofo s = concat (map (\<lambda>c. if c = apostrofo then [barra_inv, apostrofo] else [c]) s)"

text \<open>The character an escape sequence \<open>\\d\<close> denotes; \<open>None\<close> for the numeric and
  Unicode escapes and line continuations, which are not modelled.\<close>

definition escape_js :: "char \<Rightarrow> char option" where
  "escape_js d =
     (if d = CHR ''n'' then Some (CHR 10) else if d = CHR ''t'' then Some (CHR 9)
      else if d = CHR ''r'' then Some (CHR 13) else if d = CHR ''b'' then Some (CHR 8)
      else if d = CHR ''f'' then Some (CHR 12) else if d = CHR ''v'' then Some (CHR 11)
      else if d \<in> set ''0123456789xu'' \<or> d = CHR 10 \<or> d = CHR 13 then None
      else Some d)"

text \<open>The body of a single-quoted literal up to its closing quote, and the text
  after it; \<open>None\<close> for a syntax error (a line break or an unterminated
  literal).\<close>

fun le_literal :: "string \<Rightarrow> (string \<times> string) option" where
  "le_literal [] = None"
| "le_literal [c] = (if c = apostrofo then Some ([], []) else None)"
| "le_literal (c # d # ds) =
     (if c = apostrofo then Some ([], d # ds)
      else if c = CHR 10 \<or> c = CHR 13 then None
      else if c = barra_inv then
        (case escape_js d of None \<Rightarrow> None | Some e \<Rightarrow> map_option (\<lambda>(v, r). (e # v, r)) (le_literal ds))
      else map_option (\<lambda>(v, r). (c # v, r)) (le_literal (d # ds)))"

definition prefixo_apelido :: string where
  "prefixo_apelido = ''editarApelidoCarro('' @ [apostrofo]"

text \<open>The text of the nickname link's handler.\<close>

definition onclick_apelido :: "string \<Rightarrow> string \<Rightarrow> string" where
  "onclick_apelido cid ap =
     prefixo_apelido @ cid @ [apostrofo] @ '', '' @ [apostrofo] @ escapa_apostrofo ap @ [apostrofo] @ '', this)''"

text \<open>The two string arguments the browser passes to \<open>editarApelidoCarro\<close>.\<close>

definition argumentos_apelido :: "string \<Rightarrow> (string \<times> string) option" where
  "argumentos_apelido t =
     (if take (length prefixo_apelido) t \<noteq> prefixo_apelido then None
      else case le_literal (drop (length prefixo_apelido) t) of
             None \<Rightarrow> None
           | Some (cid, r) \<Rightarrow>
               (if take 3 r \<noteq> '', '' @ [apostrofo] then None
                else map_option (\<lambda>(ap, _). (cid, ap)) (le_literal (drop 3 r))))"

subsection \<open>The garage\<close>

record carro_vista =
  cv_carro :: carro_g
  cv_marca :: "string option"
  cv_modelo :: "string option"
  cv_apelido :: "string option"
  cv_imagem :: "string option"
  cv_classe :: "string option"

definition nome_carro :: "carro_vista \<Rightarrow> string" where
  "nome_carro c = js_str (cv_marca c) @ '' '' @ js_str (cv_modelo c)"

text \<open>A car's card: name, nickname (\<open>apelido || ''\<close>), the handler of the
  nickname link, the condition colour, the parts, the image and, for a car at
  rest, the activation button (disabled, title, primary) and its
  \<open>solicitarMudarCarro\<close> arguments.\<close>

record cartao_garagem =
  kg_nome :: string
  kg_apelido :: string
  kg_onclick :: string
  kg_cor :: cor_desgaste
  kg_pecas :: "linha_peca list"
  kg_imagem :: string
  kg_ativar :: "(bool \<times> titulo_ativar \<times> bool \<times> string \<times> string) option"

definition cartao_ativo :: "carro_vista \<Rightarrow> cartao_garagem" where
  "cartao_ativo c =
     \<lparr>kg_nome = nome_carro c, kg_apelido = js_or_str (cv_apelido c) [],
      kg_onclick = onclick_apelido (cg_id (cv_carro c)) (js_or_str (cv_apelido c) []),
      kg_cor = cor_condicao (cv_carro c), kg_pecas = gerar_html_pecas (cv_carro c),
      kg_imagem = js_or_str (cv_imagem c) [], kg_ativar = None\<rparr>"

definition cartao_repouso :: "string option list option \<Rightarrow> carro_vista \<Rightarrow> cartao_garagem" where
  "cartao_repouso sols c =
     \<lparr>kg_nome = nome_carro c, kg_apelido = js_or_str (cv_apelido c) [],
      kg_onclick = onclick_apelido (cg_id (cv_carro c)) (js_or_str (cv_apelido c) []),
      kg_cor = cor_condicao (cv_carro c), kg_pecas = gerar_html_pecas (cv_carro c),
      kg_imagem = js_or_str (cv_imagem c) [],
      kg_ativar = Some (btn_disabled sols (cv_carro c), btn_title sols (cv_carro c), btn_primario sols (cv_carro c),
                        cg_id (cv_carro c), nome_carro c)\<rparr>"

datatype secao_carros = SemCarros | Carros "cartao_garagem list" "cartao_garagem list"

definition eh_ativo :: "carro_vista \<Rightarrow> bool" where
  "eh_ativo c = (cg_status (cv_carro c) = ''ativo'')"

text \<open>The cars section of \<open>renderizarGaragem\<close>.\<close>

definition secao_de_carros :: "string option list option \<Rightarrow> carro_vista list option \<Rightarrow> secao_carros" where
  "secao_de_carros sols cs =
     (case cs of
        None \<Rightarrow> SemCarros
      | Some [] \<Rightarrow> SemCarros
      | Some xs \<Rightarrow> Carros (map cartao_ativo (filter eh_ativo xs))
                          (map (cartao_repouso sols) (filter (Not \<circ> eh_ativo) xs)))"

record peca_armazem_v =
  pav_nome :: "string option"
  pav_tipo :: "string option"
  pav_upgrade :: "string option"     \<comment> \<open>\<open>upgrade_id\<close>\<close>
  pav_dur :: num_js                  \<comment> \<open>\<open>durabilidade_percentual\<close>\<close>
  pav_preco :: money
  pav_carro :: "string option"       \<comment> \<open>\<open>carro_nome\<close>\<close>
  pav_pix :: "string option"

text \<open>A row of the warehouse: name, type badge (\<open>None\<close> for an upgrade),
  durability (\<open>!= null\<close>: only \<open>null\<close> and \<open>undefined\<close> give 100), its colour,
  price, car and whether it is paid.\<close>

definition linha_armazem :: "peca_armazem_v \<Rightarrow> string \<times> string option \<times> real \<times> cor_desgaste \<times> money \<times> string \<times> bool" where
  "linha_armazem p =
     (let d = (case pav_dur p of JNum r \<Rightarrow> r | _ \<Rightarrow> 100)
      in (js_str (pav_nome p), (if js_truthy_str (pav_upgrade p) then None else Some (js_str (pav_tipo p))),
          d, (if d > 75 then Success else if d > 50 then Warning else Danger),
          pav_preco p, js_str (pav_carro p), js_truthy_str (pav_pix p)))"

datatype secao_armazem = SemPecasArmazem
  | TabelaArmazem "(string \<times> string option \<times> real \<times> cor_desgaste \<times> money \<times> string \<times> bool) list"

definition secao_de_armazem :: "peca_armazem_v list option \<Rightarrow> secao_armazem" where
  "secao_de_armazem ps = (case ps of Some (p # qs) \<Rightarrow> TabelaArmazem (map linha_armazem (p # qs)) | _ \<Rightarrow> SemPecasArmazem)"

definition renderizar_garagem ::
  "carro_vista list option \<Rightarrow> peca_armazem_v list option \<Rightarrow> string option list option \<Rightarrow> secao_carros \<times> secao_armazem" where
  "renderizar_garagem cs ps sols = (secao_de_carros sols cs, secao_de_armazem ps)"

subsection \<open>The purchase history\<close>

record item_historico =
  ih_tipo :: "string option"
  ih_status :: "string option"
  ih_item_nome :: "string option"
  ih_tipo_item :: "string option"
  ih_peca_nome :: "string option"
  ih_peca_tipo :: "string option"
  ih_valor_total :: "money option"
  ih_preco :: money
  ih_data :: string                  \<comment> \<open>\<open>processado_em\<close>; its locale formatting is not modelled\<close>

definition rotulo_de :: "string list \<Rightarrow> string option \<Rightarrow> rotulo" where
  "rotulo_de ks t = (case t of Some k \<Rightarrow> (if k \<in> set ks then RotuloMapa k else RotuloCru k) | None \<Rightarrow> RotuloCru (js_str t))"

definition status_historico :: "string list" where
  "status_historico = [''pendente'', ''instalado'', ''guardada'', ''confirmado'']"

definition tipos_item_historico :: "string list" where
  "tipos_item_historico = [''carro'', ''peca'', ''warehouse'']"

text \<open>A card of the history: name, type label, date, value, status label and
  the key of its badge colour (\<open>badgeColorMap\<close> has the keys of \<open>statusMap\<close>;
  another status gives the class \<open>bg-undefined\<close>, \<open>None\<close> here).\<close>

datatype cartao_hist =
    CartaoPix string rotulo string money rotulo "string option"
  | CartaoPeca string rotulo string money rotulo "string option"

definition cor_badge :: "string option \<Rightarrow> string option" where
  "cor_badge st = (case st of Some k \<Rightarrow> (if k \<in> set status_historico then Some k else None) | None \<Rightarrow> None)"

definition linha_historico :: "item_historico \<Rightarrow> cartao_hist" where
  "linha_historico i =
     (if ih_tipo i = Some ''pix_payment'' then
        CartaoPix (js_str (ih_item_nome i)) (rotulo_de tipos_item_historico (ih_tipo_item i)) (ih_data i)
          (case ih_valor_total i of Some v \<Rightarrow> (if v = 0 then ih_preco i else v) | None \<Rightarrow> ih_preco i)
          (rotulo_de status_historico (ih_status i)) (cor_badge (ih_status i))
      else
        CartaoPeca (js_str (ih_peca_nome i)) (rotulo_tipo (ih_peca_tipo i)) (ih_data i) (ih_preco i)
          (rotulo_de status_historico (ih_status i)) (cor_badge (ih_status i)))"

datatype vista_historico = SemTransacoes | Historico "cartao_hist list"

definition renderizar_historico :: "item_historico list \<Rightarrow> vista_historico" where
  "renderizar_historico hs = (if hs = [] then SemTransacoes else Historico (map linha_historico hs))"

subsection \<open>Nickname, image and part recovery\<close>

text \<open>Toasts are written without their emoji; \<open>None\<close> in a toast is the
  handler's fixed text.\<close>

datatype efeito_garagem_v =
    AbrirModalApelido | PutApelido string string | ToastApelidoOk | RecarregarGaragemV
  | ToastErroApelido string
  | ToastImagemInvalida | PostImagem string "string option" | ToastImagemOk | ToastErroImagem "string option"
  | LimparArquivo
  | ToastCustoIndefinido | PostRecuperarPeca string | ToastRetificaOk | ToastErroRetifica "string option"

record apelido_st =
  ae_edicao :: "(string \<times> string) option"     \<comment> \<open>\<open>apelidoEmEdicao\<close>\<close>
  ae_input :: string                         \<comment> \<open>\<open>#inputApelido\<close>\<close>

text \<open>\<open>editarApelidoCarro(carroId, apelidoAtual, elemento)\<close>.\<close>

definition editar_apelido_carro :: "string \<Rightarrow> string \<Rightarrow> apelido_st \<Rightarrow> apelido_st \<times> efeito_garagem_v list" where
  "editar_apelido_carro cid ap s = (s\<lparr>ae_edicao := Some (cid, ap), ae_input := ap\<rparr>, [AbrirModalApelido])"

datatype resposta_put = PutOk bool "string option" | PutStatus int | PutExcecao string
  \<comment> \<open>an ok answer with \<open>sucesso\<close> and \<open>erro\<close>; a status that is not ok; another error's message\<close>

text \<open>\<open>confirmarEditarApelido()\<close>: \<open>apelidoEmEdicao\<close> is never cleared.\<close>

definition confirmar_editar_apelido :: "resposta_put \<Rightarrow> apelido_st \<Rightarrow> efeito_garagem_v list" where
  "confirmar_editar_apelido r s =
     (case ae_edicao s of
        None \<Rightarrow> []
      | Some (cid, _) \<Rightarrow>
          PutApelido cid (trim (ae_input s)) #
          (case r of
             PutOk True _ \<Rightarrow> [ToastApelidoOk, RecarregarGaragemV]
           | PutOk False e \<Rightarrow> [ToastErroApelido (''Erro ao atualizar apelido: '' @ js_or_str e ''Desconhecido'')]
           | PutStatus n \<Rightarrow> [ToastErroApelido (''Erro ao salvar apelido: HTTP error! status: '' @ js_string_int n)]
           | PutExcecao m \<Rightarrow> [ToastErroApelido (''Erro ao salvar apelido: '' @ m)]))"

datatype resposta_img = ImgResp bool "bool option" "string option" | ImgExcecao
  \<comment> \<open>\<open>resp.ok\<close>, \<open>data.sucesso\<close> and \<open>data.erro\<close> (\<open>{}\<close> when the body is not JSON);
      a network error\<close>

text \<open>\<open>enviarImagemCarro(carroId, fileInput)\<close>; \<open>tipo\<close> is the MIME type of the
  first file, \<open>None\<close> without one.\<close>

definition enviar_imagem_carro ::
  "string \<Rightarrow> string option \<Rightarrow> string option \<Rightarrow> resposta_img \<Rightarrow> efeito_garagem_v list" where
  "enviar_imagem_carro cid tipo sessao r =
     (case tipo of
        Some t \<Rightarrow>
          (if take 6 t \<noteq> ''image/'' then [ToastImagemInvalida]
           else PostImagem cid (if js_truthy_str sessao then sessao else None) #
                (case r of
                   ImgResp True (Some True) _ \<Rightarrow> [ToastImagemOk, RecarregarGaragemV]
                 | ImgResp _ _ e \<Rightarrow> [ToastErroImagem (if js_truthy_str e then e else None)]
                 | ImgExcecao \<Rightarrow> [ToastErroImagem None]) @ [LimparArquivo])
      | None \<Rightarrow> [ToastImagemInvalida])"

datatype resposta_ret = RetResp bool "bool option" "string option" | RetExcecao

text \<open>\<open>recuperarPecaVida(pecaId, custoRetifica)\<close>: \<open>Number(custo) || 0\<close>, then
  the user's confirmation.\<close>

definition recuperar_peca_vida :: "string \<Rightarrow> num_js \<Rightarrow> bool \<Rightarrow> resposta_ret \<Rightarrow> efeito_garagem_v list" where
  "recuperar_peca_vida pid custo confirma r =
     (if numero_ou custo 0 \<le> 0 then [ToastCustoIndefinido]
      else if \<not> confirma then []
      else PostRecuperarPeca pid #
           (case r of
              RetResp True (Some True) _ \<Rightarrow> [ToastRetificaOk, RecarregarGaragemV]
            | RetResp _ _ e \<Rightarrow> [ToastErroRetifica (if js_truthy_str e then e else None)]
            | RetExcecao \<Rightarrow> [ToastErroRetifica None]))"

definition carro_apelido :: "string \<Rightarrow> carro_vista" where
  "carro_apelido ap = \<lparr>cv_carro = \<lparr>cg_id = ''1'', cg_status = ''repouso'', cg_pecas = None, cg_condicao = JUndef\<rparr>,
                       cv_marca = Some ''Nissan'', cv_modelo = Some ''S15'', cv_apelido = Some ap,
                       cv_imagem = None, cv_classe = None\<rparr>"

subsection \<open>Lemmas\<close>

definition texto_simples :: "string \<Rightarrow> bool" where
  "texto_simples s = (barra_inv \<notin> set s \<and> CHR 10 \<notin> set s \<and> CHR 13 \<notin> set s)"

lemma escape_js_apostrofo [simp]: "escape_js apostrofo = Some apostrofo"
  by (simp add: escape_js_def apostrofo_def)

lemma barra_inv_distinta [simp]: "barra_inv \<noteq> apostrofo" "barra_inv \<noteq> CHR 10" "barra_inv \<noteq> CHR 13"
  by (simp_all add: barra_inv_def apostrofo_def)

lemma le_literal_escapa:
  "texto_simples s \<Longrightarrow> le_literal (escapa_apostrofo s @ apostrofo # r) = Some (s, r)"
proof (induction s)
  case Nil
  then show ?case by (cases r) (simp_all add: escapa_apostrofo_def)
next
  case (Cons a s)
  then have ts: "texto_simples s" and a: "a \<noteq> barra_inv" "a \<noteq> CHR 10" "a \<noteq> CHR 13"
    by (auto simp: texto_simples_def)
  obtain d ds where dds: "escapa_apostrofo s @ apostrofo # r = d # ds" by (cases "escapa_apostrofo s @ apostrofo # r") auto
  show ?case
  proof (cases "a = apostrofo")
    case True
    then show ?thesis using Cons.IH [OF ts] by (simp add: escapa_apostrofo_def)
  next
    case False
    have "escapa_apostrofo (a # s) @ apostrofo # r = a # d # ds"
      using False dds by (simp add: escapa_apostrofo_def)
    then show ?thesis using Cons.IH [OF ts] False a dds by simp
  qed
qed

lemma escapa_sem_apostrofo: "apostrofo \<notin> set s \<Longrightarrow> escapa_apostrofo s = s"
  by (induction s) (auto simp: escapa_apostrofo_def)

text \<open>The nickname link passes the car's id and its nickname back unchanged
  when neither holds a backslash or a line break (and the id no apostrophe).\<close>

lemma apelido_roundtrip:
  assumes "texto_simples ap" and "texto_simples cid" and "apostrofo \<notin> set cid"
  shows "argumentos_apelido (onclick_apelido cid ap) = Some (cid, ap)"
proof -
  have c: "le_literal (cid @ apostrofo # '', '' @ [apostrofo] @ escapa_apostrofo ap @ [apostrofo] @ '', this)'')
           = Some (cid, '', '' @ [apostrofo] @ escapa_apostrofo ap @ [apostrofo] @ '', this)'')"
    using le_literal_escapa [OF assms(2)] escapa_sem_apostrofo [OF assms(3)] by metis
  have a: "le_literal (escapa_apostrofo ap @ apostrofo # '', this)'') = Some (ap, '', this)'')"
    using le_literal_escapa [OF assms(1)] .
  show ?thesis using c a
    by (simp add: argumentos_apelido_def onclick_apelido_def)
qed

text \<open>A nickname ending in a backslash escapes the closing quote: the link's
  handler no longer parses.\<close>

lemma apelido_barra_quebra:
  "argumentos_apelido (onclick_apelido ''1'' (''a'' @ [barra_inv])) = None"
  by (simp add: argumentos_apelido_def onclick_apelido_def prefixo_apelido_def escapa_apostrofo_def
                apostrofo_def barra_inv_def escape_js_def)

text \<open>Clicking a car's nickname link and confirming without editing sends the
  trimmed nickname for that car.\<close>

lemma apelido_confirmado:
  assumes "texto_simples (js_or_str (cv_apelido c) [])" and "texto_simples (cg_id (cv_carro c))"
    and "apostrofo \<notin> set (cg_id (cv_carro c))"
    and "argumentos_apelido (kg_onclick (cartao_repouso sols c)) = Some (cid, a)"
  shows "hd (confirmar_editar_apelido r (fst (editar_apelido_carro cid a s)))
           = PutApelido (cg_id (cv_carro c)) (trim (js_or_str (cv_apelido c) []))"
  using assms apelido_roundtrip [OF assms(1-3)]
  by (simp add: cartao_repouso_def confirmar_editar_apelido_def editar_apelido_carro_def)

lemma apelido_barra_exemplo:
  "argumentos_apelido (kg_onclick (cartao_repouso None (carro_apelido (''a'' @ [barra_inv])))) = None
   \<and> argumentos_apelido (kg_onclick (cartao_repouso None (carro_apelido ''Dori's''))) = Some (''1'', ''Dori's'')"
proof -
  have "texto_simples ''Dori's''" "texto_simples ''1''" "apostrofo \<notin> set ''1''"
    by (simp_all add: texto_simples_def barra_inv_def apostrofo_def)
  then show ?thesis
    using apelido_barra_quebra apelido_roundtrip
    by (simp add: cartao_repouso_def carro_apelido_def js_or_str_def)
qed

text \<open>Every car is drawn once, active or at rest, and no card at rest is
  titled as already active; its button is enabled exactly when its parts are
  complete and no activation request is pending.\<close>

lemma secao_carros_particiona:
  "secao_de_carros sols (Some cs) = Carros a r \<Longrightarrow>
   length a + length r = length cs \<and> (\<forall>k \<in> set r. fst (snd (the (kg_ativar k))) \<noteq> JaAtivo)"
proof -
  assume h: "secao_de_carros sols (Some cs) = Carros a r"
  then have ar: "a = map cartao_ativo (filter eh_ativo cs)" "r = map (cartao_repouso sols) (filter (Not \<circ> eh_ativo) cs)"
    by (cases cs; simp add: secao_de_carros_def)+
  have "length a + length r = length cs"
    using ar sum_length_filter_compl [of eh_ativo cs] by (simp add: o_def)
  moreover have "\<forall>k \<in> set r. fst (snd (the (kg_ativar k))) \<noteq> JaAtivo"
    using ar by (auto simp: cartao_repouso_def btn_title_def eh_ativo_def)
  ultimately show ?thesis by blast
qed

lemma botao_repouso:
  "\<not> eh_ativo c \<Longrightarrow>
   fst (the (kg_ativar (cartao_repouso sols c)))
     = (tem_solicitacao_pendente sols (cv_carro c) \<or> \<not> verificar_pecas_completas (cv_carro c))"
  by (simp add: cartao_repouso_def btn_disabled_def eh_ativo_def)

text \<open>A warehouse part at 0\<percent> durability shows 0 (\<open>!= null\<close>, unlike \<open>||\<close>).\<close>

lemma armazem_durabilidade_zero: "fst (snd (snd (linha_armazem p))) = (case pav_dur p of JNum r \<Rightarrow> r | _ \<Rightarrow> 100)"
  by (simp add: linha_armazem_def Let_def)

text \<open>A PIX purchase with a zero total shows the item price; a status outside the
  map has no badge colour.\<close>

lemma historico_valor_status:
  "ih_tipo i = Some ''pix_payment'' \<Longrightarrow> ih_valor_total i = Some 0 \<Longrightarrow> ih_status i = Some ''estornado'' \<Longrightarrow>
   linha_historico i = CartaoPix (js_str (ih_item_nome i)) (rotulo_de tipos_item_historico (ih_tipo_item i)) (ih_data i)
                         (ih_preco i) (RotuloCru ''estornado'') None"
  by (simp add: linha_historico_def rotulo_de_def status_historico_def cor_badge_def)

text \<open>The part recovery sends a request only for a positive cost the user
  confirmed.\<close>

lemma retifica_so_confirmada:
  "PostRecuperarPeca q \<in> set (recuperar_peca_vida pid custo confirma r) \<Longrightarrow>
   q = pid \<and> confirma \<and> numero_ou custo 0 > 0"
  by (auto simp: recuperar_peca_vida_def split: if_splits resposta_ret.splits bool.splits option.splits)

end
