(* ===== verification/PilotAllocation.thy ===== *)
theory PilotAllocation
  imports BracketActions PilotQueue GarageView
begin

text \<open>
  The pilot allocation of the admin pages (src/static/script.js, lines
  5616--5987): the team cards of \<open>renderizarEquipesPilotos\<close> and the loader
  \<open>carregarEquipesEtapa\<close>, the two-column drag and drop interface of
  \<open>carregarInterfaceAlocacaoDragDrop\<close>, the drag payload
  (\<open>handlePilotoDragStart\<close>), the drop (\<open>handlePilotoDrop\<close>), the confirmation
  (\<open>mostrarModalConfirmacaoAlocacao\<close>) and the two allocation requests
  (\<open>confirmarAlocacaoPiloto\<close>, \<open>confirmarAlocacaoReserva\<close>).  Attribute values
  are written with \<open>"\<close> replaced by \<open>&quot;\<close> and read back through
  \<open>dataset\<close>, as in BracketActions; the drag payload is a JSON object of two
  strings, which \<open>JSON.parse\<close> gives back unchanged.
\<close>

subsection \<open>Team cards of the allocation list\<close>

record equipe_aloc =
  ea_equipe_id :: string                 \<comment> \<open>\<open>String(equipe.equipe_id)\<close>\<close>
  ea_participacao :: "string option"     \<comment> \<open>\<open>participacao_id\<close>\<close>
  ea_nome :: "string option"
  ea_piloto_nome :: "string option"
  ea_piloto_id :: "string option"

record cartao_equipe_aloc =
  cea_participacao_attr :: string        \<comment> \<open>\<open>data-participacao-id\<close>\<close>
  cea_alvo_drop :: string                \<comment> \<open>the id the drop handler passes\<close>
  cea_com_piloto :: bool

definition cartao_equipe :: "equipe_aloc \<Rightarrow> cartao_equipe_aloc" where
  "cartao_equipe e =
     \<lparr>cea_participacao_attr = js_or_str (ea_participacao e) [],
      cea_alvo_drop = js_or_str (ea_participacao e) (ea_equipe_id e),
      cea_com_piloto = js_truthy_str (ea_piloto_nome e)\<rparr>"

definition renderizar_equipes_pilotos :: "bool \<Rightarrow> equipe_aloc list \<Rightarrow> cartao_equipe_aloc list option" where
  "renderizar_equipes_pilotos existe es = (if existe then Some (map cartao_equipe es) else None)"

datatype resposta_equipes_aloc = EquipesAloc bool "equipe_aloc list option" | EquipesAlocExcecao

text \<open>\<open>carregarEquipesEtapa()\<close>: the call it makes to \<open>carregarPilotosDisponiveis\<close>
  (the ids of the pilots already allocated are excluded) and the cards.\<close>

definition carregar_equipes_etapa ::
  "string \<Rightarrow> resposta_equipes_aloc \<Rightarrow> (args_pilotos \<times> cartao_equipe_aloc list) option" where
  "carregar_equipes_etapa etapa r =
     (if etapa = [] then None
      else case r of
             EquipesAloc True (Some es) \<Rightarrow>
               Some (\<lparr>ap_container = ''listaPilotosDisponiveis'',
                      ap_excluir = List.map_filter (\<lambda>e. if js_truthy_str (ea_piloto_id e) then ea_piloto_id e else None) es,
                      ap_etapa = Some etapa\<rparr>,
                     map cartao_equipe es)
           | _ \<Rightarrow> None)"

subsection \<open>The drag and drop interface\<close>

record piloto_insc =
  pin_piloto_id :: "string option"
  pin_piloto_nome :: "string option"
  pin_nome :: "string option"

record equipe_pede =
  epd_id :: string                       \<comment> \<open>\<open>String(eq.equipe_id)\<close>\<close>
  epd_nome :: "string option"

record cartao_piloto =
  cpi_id :: string                       \<comment> \<open>\<open>el.dataset.pilotoId\<close>\<close>
  cpi_nome :: string                     \<comment> \<open>\<open>el.dataset.pilotoNome\<close>\<close>

record zona_drop =
  zd_id :: string                        \<comment> \<open>the element id\<close>
  zd_nome :: string                      \<comment> \<open>\<open>dropZone.dataset.equipeNome\<close>\<close>

text \<open>\<open>data-piloto-id="${p.piloto_id || p.piloto_id}"\<close>: both sides of the \<open>||\<close>
  are the same field, so a missing id prints \<open>undefined\<close>.\<close>

definition cartao_de_piloto :: "piloto_insc \<Rightarrow> cartao_piloto" where
  "cartao_de_piloto p =
     \<lparr>cpi_id = js_str (if js_truthy_str (pin_piloto_id p) then pin_piloto_id p else pin_piloto_id p),
      cpi_nome = dataset_match (js_or_str (pin_piloto_nome p) (js_or_str (pin_nome p) []))\<rparr>"

definition zona_de :: "equipe_pede \<Rightarrow> zona_drop" where
  "zona_de e = \<lparr>zd_id = ''dropZone-'' @ epd_id e, zd_nome = dataset_match (js_or_str (epd_nome e) [])\<rparr>"

datatype vista_dd = VistaVazia | NaoAutorizado | InterfaceDD "cartao_piloto list" "zona_drop list" | ErroInterface

text \<open>An answer of one of the two requests: its HTTP status, \<open>sucesso\<close> and the list.\<close>

datatype 'a resposta_dd = RespostaDD nat bool "'a list option"

definition lista_dd :: "'a resposta_dd \<Rightarrow> 'a list" where
  "lista_dd r = (case r of RespostaDD _ True (Some xs) \<Rightarrow> xs | _ \<Rightarrow> [])"

definition status_dd :: "'a resposta_dd \<Rightarrow> nat" where
  "status_dd r = (case r of RespostaDD s _ _ \<Rightarrow> s)"

text \<open>\<open>carregarInterfaceAlocacaoDragDrop()\<close>, when the select and the container
  exist: \<open>None\<close> stands for a request that threw.\<close>

definition carregar_interface_dd ::
  "string \<Rightarrow> (equipe_pede resposta_dd \<times> piloto_insc resposta_dd) option \<Rightarrow> vista_dd" where
  "carregar_interface_dd etapa rs =
     (if etapa = [] then VistaVazia
      else case rs of
             None \<Rightarrow> ErroInterface
           | Some (re, rp) \<Rightarrow>
               (if status_dd re = 401 \<or> status_dd rp = 401 then NaoAutorizado
                else InterfaceDD (map cartao_de_piloto (lista_dd rp)) (map zona_de (lista_dd re))))"

text \<open>\<open>s.replace('dropZone-', '')\<close>: the first occurrence is removed.\<close>

fun remove_prefixo_zona :: "string \<Rightarrow> string \<Rightarrow> string" where
  "remove_prefixo_zona p [] = []"
| "remove_prefixo_zona p (c # r) = (if take (length p) (c # r) = p then drop (length p) (c # r) else c # remove_prefixo_zona p r)"

subsection \<open>Drop and confirmation\<close>

datatype rota_alocacao = RotaParticipacao | RotaReserva

datatype efeito_aloc =
    ToastObrigatorios                       \<comment> \<open>'Erro: Etapa, equipe e piloto s\<dots>o obrigat\<dots>rios'\<close>
  | ModalConfirmacao string string rota_alocacao string string string
      \<comment> \<open>pilot name, team name, route, pilot id, target id, stage\<close>
  | Confirmacao rota_alocacao string string string   \<comment> \<open>the route run after \<open>confirm()\<close>\<close>
  | PostAlocarPiloto string string                    \<comment> \<open>\<open>participacao_id\<close>, \<open>piloto_id\<close>\<close>
  | PostAlocarReserva string string string            \<comment> \<open>stage, team, \<open>piloto_id\<close>\<close>
  | ToastAlocado string | ToastErroAlocar string
  | RemovePilotoDom string | RemoveEquipeDom string
  | RecarregaEquipesEtapa | RecarregaInterfaceDD

text \<open>The route of the confirmation: a target id that is the
  \<open>data-participacao-id\<close> of an element of the page is a participation, any
  other id a team.\<close>

definition rota_de :: "string list \<Rightarrow> string \<Rightarrow> rota_alocacao" where
  "rota_de doms alvo = (if alvo \<in> set doms then RotaParticipacao else RotaReserva)"

definition mostrar_confirmacao ::
  "bool \<Rightarrow> bool \<Rightarrow> string list \<Rightarrow> string \<Rightarrow> string \<Rightarrow> string \<Rightarrow> string \<Rightarrow> string \<Rightarrow> efeito_aloc list" where
  "mostrar_confirmacao modal confirma doms nome equipe piloto alvo etapa =
     (if modal then [ModalConfirmacao nome equipe (rota_de doms alvo) piloto alvo etapa]
      else if confirma then [Confirmacao (rota_de doms alvo) piloto alvo etapa] else [])"

text \<open>\<open>handlePilotoDrop(event, participacaoId, etapaId, equipeNomeDestino)\<close> with
  the payload of the card dragged.\<close>

definition soltar_piloto ::
  "bool \<Rightarrow> bool \<Rightarrow> string list \<Rightarrow> cartao_piloto \<Rightarrow> string \<Rightarrow> string \<Rightarrow> string \<Rightarrow> efeito_aloc list" where
  "soltar_piloto modal confirma doms c alvo etapa nome_equipe =
     (if etapa = [] \<or> alvo = [] \<or> cpi_id c = [] then [ToastObrigatorios]
      else mostrar_confirmacao modal confirma doms (cpi_nome c) nome_equipe (cpi_id c) alvo etapa)"

text \<open>The drop listener of a zone of the drag and drop interface.\<close>

definition soltar_na_zona ::
  "bool \<Rightarrow> bool \<Rightarrow> string list \<Rightarrow> cartao_piloto \<Rightarrow> zona_drop \<Rightarrow> string \<Rightarrow> efeito_aloc list" where
  "soltar_na_zona modal confirma doms c z etapa =
     soltar_piloto modal confirma doms c (remove_prefixo_zona ''dropZone-'' (zd_id z)) etapa (zd_nome z)"

datatype resposta_alocar = AlocarSucesso | AlocarFalha "string option" | AlocarExcecao string

definition confirmar_alocacao_piloto :: "string \<Rightarrow> string \<Rightarrow> string \<Rightarrow> resposta_alocar \<Rightarrow> efeito_aloc list" where
  "confirmar_alocacao_piloto piloto participacao nome r =
     PostAlocarPiloto participacao piloto #
     (case r of
        AlocarSucesso \<Rightarrow> [ToastAlocado nome, RemovePilotoDom piloto, RemoveEquipeDom participacao, RecarregaEquipesEtapa]
      | AlocarFalha e \<Rightarrow> [ToastErroAlocar (js_or_str e ''Erro ao alocar piloto'')]
      | AlocarExcecao m \<Rightarrow> [ToastErroAlocar (''Erro ao alocar piloto: '' @ m)])"

definition confirmar_alocacao_reserva ::
  "string \<Rightarrow> string \<Rightarrow> string \<Rightarrow> string \<Rightarrow> resposta_alocar \<Rightarrow> efeito_aloc list" where
  "confirmar_alocacao_reserva piloto equipe etapa nome r =
     PostAlocarReserva etapa equipe piloto #
     (case r of
        AlocarSucesso \<Rightarrow> [ToastAlocado nome, RemovePilotoDom piloto, RemoveEquipeDom (''dropZone-'' @ equipe),
                         RecarregaInterfaceDD]
      | AlocarFalha e \<Rightarrow> [ToastErroAlocar (js_or_str e ''Erro ao alocar piloto'')]
      | AlocarExcecao m \<Rightarrow> [ToastErroAlocar (''Erro ao alocar piloto: '' @ m)])"

text \<open>The confirmation button: the route chosen when the modal was filled.\<close>

definition confirmar_rota ::
  "rota_alocacao \<Rightarrow> string \<Rightarrow> string \<Rightarrow> string \<Rightarrow> string \<Rightarrow> resposta_alocar \<Rightarrow> efeito_aloc list" where
  "confirmar_rota rota piloto alvo etapa nome r =
     (case rota of
        RotaParticipacao \<Rightarrow> confirmar_alocacao_piloto piloto alvo nome r
      | RotaReserva \<Rightarrow> confirmar_alocacao_reserva piloto alvo etapa nome r)"

definition piloto_sem_id :: piloto_insc where
  "piloto_sem_id = \<lparr>pin_piloto_id = None, pin_piloto_nome = Some ''Ana'', pin_nome = None\<rparr>"

definition equipe_7 :: equipe_pede where
  "equipe_7 = \<lparr>epd_id = ''7'', epd_nome = Some ''Alpha''\<rparr>"

text \<open>
  The payload of the pilot drag and drop (src/static/script.js, lines
  5821--5885): \<open>handlePilotoDragStart\<close> writes
  \<open>JSON.stringify({pilotoId, pilotoNome})\<close> of the card's dataset into the
  \<open>dataTransfer\<close>, \<open>handlePilotoDrop\<close> reads it back with \<open>JSON.parse\<close>, and
  \<open>handlePilotoDragEnd\<close>, \<open>handleDragOver\<close> and \<open>handleDragLeave\<close> mark and
  unmark the drop zones.  Strings are byte strings (UTF-8), as elsewhere in the
  development: \<open>JSON.stringify\<close> escapes the quote, the backslash and the
  control characters below 0x20 (the short forms \<open>\b \t \n \f \r\<close>, else
  \<open>\u00xx\<close> in lower-case hex) and copies every other byte; \<open>JSON.parse\<close> is
  modelled on objects whose members are strings (a \<open>\u\<close> escape is decoded to
  UTF-8; a surrogate escape, which has no UTF-8 form, and any other JSON value
  are outside the model and read as a syntax error).  An absent dataset
  entry is \<open>undefined\<close>, which \<open>JSON.stringify\<close> leaves out of the object.
\<close>

subsection \<open>JSON.stringify\<close>

definition aspas :: char where "aspas = CHR 0x22"

definition hex_digito :: "nat \<Rightarrow> char" where
  "hex_digito n = (if n < 10 then char_of (48 + n) else char_of (87 + n))"

text \<open>One byte of \<open>QuoteJSONString\<close>.\<close>

definition escapa_json_char :: "char \<Rightarrow> string" where
  "escapa_json_char c =
     (if c = aspas then [barra_inv, aspas]
      else if c = barra_inv then [barra_inv, barra_inv]
      else if c = CHR 8 then [barra_inv, CHR ''b'']
      else if c = CHR 9 then [barra_inv, CHR ''t'']
      else if c = CHR 10 then [barra_inv, CHR ''n'']
      else if c = CHR 12 then [barra_inv, CHR ''f'']
      else if c = CHR 13 then [barra_inv, CHR ''r'']
      else if of_char c < (32::nat)
        then [barra_inv, CHR ''u'', CHR ''0'', CHR ''0'', hex_digito (of_char c div 16), hex_digito (of_char c mod 16)]
      else [c])"

definition json_string :: "string \<Rightarrow> string" where
  "json_string s = aspas # concat (map escapa_json_char s) @ [aspas]"

definition membro_json :: "string \<Rightarrow> string \<Rightarrow> string" where
  "membro_json k v = json_string k @ '':'' @ json_string v"

text \<open>\<open>JSON.stringify({pilotoId, pilotoNome})\<close>: an \<open>undefined\<close> member is left
  out.\<close>

definition json_stringify_payload :: "string option \<Rightarrow> string option \<Rightarrow> string" where
  "json_stringify_payload pid pnome =
     (let ms = (case pid of Some a \<Rightarrow> [membro_json ''pilotoId'' a] | None \<Rightarrow> [])
               @ (case pnome of Some b \<Rightarrow> [membro_json ''pilotoNome'' b] | None \<Rightarrow> [])
      in ''{'' @ (case ms of [] \<Rightarrow> [] | [m] \<Rightarrow> m | [m1, m2] \<Rightarrow> m1 @ '','' @ m2 | _ \<Rightarrow> concat ms) @ ''}'')"

subsection \<open>JSON.parse\<close>

definition espaco_json :: "char \<Rightarrow> bool" where
  "espaco_json c = (c = CHR '' '' \<or> c = CHR 9 \<or> c = CHR 10 \<or> c = CHR 13)"

definition pula_ws :: "string \<Rightarrow> string" where
  "pula_ws s = dropWhile espaco_json s"

definition valor_hex :: "char \<Rightarrow> nat option" where
  "valor_hex c =
     (let n = of_char c :: nat
      in if 48 \<le> n \<and> n \<le> 57 then Some (n - 48)
         else if 97 \<le> n \<and> n \<le> 102 then Some (n - 87)
         else if 65 \<le> n \<and> n \<le> 70 then Some (n - 55)
         else None)"

text \<open>The single-character escapes after a backslash.\<close>

definition escape_json :: "char \<Rightarrow> char option" where
  "escape_json d =
     (if d = aspas \<or> d = barra_inv \<or> d = CHR ''/'' then Some d
      else if d = CHR ''b'' then Some (CHR 8) else if d = CHR ''f'' then Some (CHR 12)
      else if d = CHR ''n'' then Some (CHR 10) else if d = CHR ''r'' then Some (CHR 13)
      else if d = CHR ''t'' then Some (CHR 9) else None)"

text \<open>The UTF-8 bytes of a code point below 0x10000 that is not a surrogate.\<close>

definition utf8_bmp :: "nat \<Rightarrow> string option" where
  "utf8_bmp n =
     (if n < 128 then Some [char_of n]
      else if n < 2048 then Some [char_of (192 + n div 64), char_of (128 + n mod 64)]
      else if 55296 \<le> n \<and> n < 57344 then None
      else Some [char_of (224 + n div 4096), char_of (128 + (n div 64) mod 64), char_of (128 + n mod 64)])"

text \<open>The body of a string literal after its opening quote, and the text after
  the closing quote.\<close>

fun le_string_json :: "string \<Rightarrow> (string \<times> string) option" where
  "le_string_json [] = None"
| "le_string_json (c # cs) =
     (if c = aspas then Some ([], cs)
      else if c = barra_inv then
        (case cs of
           [] \<Rightarrow> None
         | d # ds \<Rightarrow>
             (if d = CHR ''u'' then
                (case ds of
                   h1 # h2 # h3 # h4 # rest \<Rightarrow>
                     (case (valor_hex h1, valor_hex h2, valor_hex h3, valor_hex h4) of
                        (Some a, Some b, Some x, Some y) \<Rightarrow>
                          (case utf8_bmp (((a * 16 + b) * 16 + x) * 16 + y) of
                             None \<Rightarrow> None
                           | Some u \<Rightarrow> map_option (\<lambda>(v, r). (u @ v, r)) (le_string_json rest))
                      | _ \<Rightarrow> None)
                 | _ \<Rightarrow> None)
              else (case escape_json d of
                      None \<Rightarrow> None
                    | Some e \<Rightarrow> map_option (\<lambda>(v, r). (e # v, r)) (le_string_json ds))))
      else if of_char c < (32::nat) then None
      else map_option (\<lambda>(v, r). (c # v, r)) (le_string_json cs))"

text \<open>The members of an object from the first one's opening quote; the fuel
  bounds the number of members, and the length of the text is enough, since
  each member takes at least five characters.\<close>

fun le_membros :: "nat \<Rightarrow> string \<Rightarrow> ((string \<times> string) list \<times> string) option" where
  "le_membros 0 t = None"
| "le_membros (Suc n) t =
     (case t of
        [] \<Rightarrow> None
      | c # cs \<Rightarrow>
          (if c \<noteq> aspas then None
           else case le_string_json cs of
                  None \<Rightarrow> None
                | Some (k, r1) \<Rightarrow>
                    (case pula_ws r1 of
                       [] \<Rightarrow> None
                     | d # r2 \<Rightarrow>
                         (if d \<noteq> CHR '':'' then None
                          else case pula_ws r2 of
                                 [] \<Rightarrow> None
                               | e # r3 \<Rightarrow>
                                   (if e \<noteq> aspas then None
                                    else case le_string_json r3 of
                                           None \<Rightarrow> None
                                         | Some (v, r4) \<Rightarrow>
                                             (case pula_ws r4 of
                                                [] \<Rightarrow> None
                                              | f # r5 \<Rightarrow>
                                                  (if f = CHR '','' then
                                                     map_option (\<lambda>(ms, r). ((k, v) # ms, r)) (le_membros n (pula_ws r5))
                                                   else if f = CHR ''}'' then Some ([(k, v)], r5)
                                                   else None)))))))"

definition json_parse_objeto :: "string \<Rightarrow> (string \<times> string) list option" where
  "json_parse_objeto t =
     (case pula_ws t of
        [] \<Rightarrow> None
      | c # cs \<Rightarrow>
          (if c \<noteq> CHR ''{'' then None
           else case pula_ws cs of
                  [] \<Rightarrow> None
                | d # r \<Rightarrow>
                    (if d = CHR ''}'' then (if pula_ws r = [] then Some [] else None)
                     else case le_membros (length t) (d # r) of
                            None \<Rightarrow> None
                          | Some (ms, r') \<Rightarrow> (if pula_ws r' = [] then Some ms else None))))"

text \<open>\<open>data.k\<close> of the parsed object: the last member of that name wins.\<close>

definition campo_json :: "(string \<times> string) list \<Rightarrow> string \<Rightarrow> string option" where
  "campo_json ms k = map_of (rev ms) k"

subsection \<open>The drag handlers\<close>

text \<open>\<open>handlePilotoDragStart\<close>: the text put in the \<open>dataTransfer\<close>, or \<open>''\<close>
  when the event comes from outside a pilot card (\<open>getData\<close> then returns
  the empty string).\<close>

definition arrastar_piloto :: "(string option \<times> string option) option \<Rightarrow> string" where
  "arrastar_piloto el = (case el of Some (pid, pnome) \<Rightarrow> json_stringify_payload pid pnome | None \<Rightarrow> [])"

definition arrastar_cartao :: "cartao_piloto \<Rightarrow> string" where
  "arrastar_cartao c = arrastar_piloto (Some (Some (cpi_id c), Some (cpi_nome c)))"

datatype efeito_drop = AlocDrop efeito_aloc | ToastErroProcessarDrop

text \<open>\<open>handlePilotoDrop(event, participacaoId, etapaId, equipeNomeDestino)\<close> on the
  text of the \<open>dataTransfer\<close>; a \<open>JSON.parse\<close> error is caught and toasted.\<close>

definition soltar_texto ::
  "bool \<Rightarrow> bool \<Rightarrow> string list \<Rightarrow> string \<Rightarrow> string \<Rightarrow> string \<Rightarrow> string \<Rightarrow> efeito_drop list" where
  "soltar_texto modal confirma doms t alvo etapa nome_equipe =
     (case json_parse_objeto t of
        None \<Rightarrow> [ToastErroProcessarDrop]
      | Some ms \<Rightarrow>
          (let pid = campo_json ms ''pilotoId''; pnome = campo_json ms ''pilotoNome''
           in if etapa = [] \<or> alvo = [] \<or> \<not> js_truthy_str pid then [AlocDrop ToastObrigatorios]
              else map AlocDrop (mostrar_confirmacao modal confirma doms (js_str pnome) nome_equipe (the pid) alvo etapa)))"

text \<open>The zones marked \<open>drop-zone-active\<close>: \<open>handleDragOver\<close> marks the zone
  under the pointer, \<open>handleDragLeave\<close> and the drop unmark it,
  \<open>handlePilotoDragEnd\<close> unmarks every zone.\<close>

datatype evento_arraste = SobreZona string | SaiZona string | SoltaZona string | FimArraste

fun passo_arraste :: "string set \<Rightarrow> evento_arraste \<Rightarrow> string set" where
  "passo_arraste zs (SobreZona z) = insert z zs"
| "passo_arraste zs (SaiZona z) = zs - {z}"
| "passo_arraste zs (SoltaZona z) = zs - {z}"
| "passo_arraste zs FimArraste = {}"

definition cartao_aspas :: cartao_piloto where
  "cartao_aspas = \<lparr>cpi_id = ''12'', cpi_nome = ''Ana '' @ [aspas] @ ''Bala'' @ [aspas, barra_inv, CHR 10]\<rparr>"

subsection \<open>The stage select of the allocation\<close>

text \<open>\<open>carregarEtapasParaAlocacao(selectId, autoSelect)\<close> (script.js lines
  5515--5533): the options (value and text) and the selected index; \<open>None\<close> when
  the select is missing or the request throws, which leaves it as it was.
  \<open>etapa.id || etapa['id']\<close> reads the same field twice.\<close>

record etapa_aloc =
  eal_id :: "string option"
  eal_numero :: "string option"
  eal_nome :: "string option"

datatype resposta_etapas_aloc = EtapasAloc "etapa_aloc list option" | EtapasAlocExcecao

definition carregar_etapas_para_alocacao ::
  "bool \<Rightarrow> bool \<Rightarrow> resposta_etapas_aloc \<Rightarrow> ((string \<times> string) list \<times> nat) option" where
  "carregar_etapas_para_alocacao tem_select auto r =
     (case r of
        EtapasAlocExcecao \<Rightarrow> None
      | EtapasAloc es \<Rightarrow>
          (if \<not> tem_select then None
           else
             (let ops = ([], ''-- Selecione uma etapa --'') #
                        (case es of
                           None \<Rightarrow> []
                         | Some xs \<Rightarrow> map (\<lambda>e. (js_str (if js_truthy_str (eal_id e) then eal_id e else eal_id e),
                                                ''Etapa '' @ js_str (eal_numero e) @ '' - '' @ js_str (eal_nome e))) xs)
              in Some (ops, if es \<noteq> None \<and> auto \<and> 1 < length ops then 1 else 0))))"

subsection \<open>Lemmas\<close>

lemma remove_primeiro_prefixo: "remove_prefixo_zona (c # cs) ((c # cs) @ x) = x"
  by simp

text \<open>The drop handler recovers the team id from the zone's element id.\<close>

lemma zona_id_roundtrip: "remove_prefixo_zona ''dropZone-'' (zd_id (zona_de e)) = epd_id e"
  by (simp add: zona_de_def)

lemma cartao_de_piloto_id: "cpi_id (cartao_de_piloto p) = js_str (pin_piloto_id p)"
  by (simp add: cartao_de_piloto_def)

text \<open>Dragging a pilot card of the interface onto a team's zone asks for the
  confirmation of that pilot for that team, and confirming posts the
  allocation of that pilot to that team, when the team id is not the
  participation id of some element of the page.\<close>

theorem arrastar_aloca_reserva:
  assumes "pin_piloto_id p = Some pid" "pid \<noteq> []" "etapa \<noteq> []" "epd_id e \<noteq> []" "epd_id e \<notin> set doms"
  shows "soltar_na_zona True c doms (cartao_de_piloto p) (zona_de e) etapa
           = [ModalConfirmacao (cpi_nome (cartao_de_piloto p)) (zd_nome (zona_de e)) RotaReserva pid (epd_id e) etapa]
         \<and> hd (confirmar_rota RotaReserva pid (epd_id e) etapa nome r) = PostAlocarReserva etapa (epd_id e) pid"
  using assms
  by (simp add: soltar_na_zona_def zona_id_roundtrip soltar_piloto_def cartao_de_piloto_id js_str_def
                mostrar_confirmacao_def rota_de_def confirmar_rota_def confirmar_alocacao_reserva_def)

theorem arrastar_aloca_reserva_witness:
  "pin_piloto_id \<lparr>pin_piloto_id = Some ''42'', pin_piloto_nome = Some ''Ana'', pin_nome = None\<rparr> = Some ''42''
   \<and> ''42'' \<noteq> [] \<and> ''1'' \<noteq> [] \<and> epd_id equipe_7 \<noteq> [] \<and> epd_id equipe_7 \<notin> set []
   \<and> soltar_na_zona True False [] (cartao_de_piloto \<lparr>pin_piloto_id = Some ''42'', pin_piloto_nome = Some ''Ana'', pin_nome = None\<rparr>)
        (zona_de equipe_7) ''1''
       = [ModalConfirmacao (cpi_nome (cartao_de_piloto \<lparr>pin_piloto_id = Some ''42'', pin_piloto_nome = Some ''Ana'', pin_nome = None\<rparr>))
            (zd_nome (zona_de equipe_7)) RotaReserva ''42'' (epd_id equipe_7) ''1'']
   \<and> hd (confirmar_rota RotaReserva ''42'' (epd_id equipe_7) ''1'' ''Ana'' AlocarSucesso)
       = PostAlocarReserva ''1'' (epd_id equipe_7) ''42''"
proof -
  have "epd_id equipe_7 \<noteq> []" "epd_id equipe_7 \<notin> set []" by (simp_all add: equipe_7_def)
  then show ?thesis
    using arrastar_aloca_reserva [of "\<lparr>pin_piloto_id = Some ''42'', pin_piloto_nome = Some ''Ana'', pin_nome = None\<rparr>"
            "''42''" "''1''" equipe_7 "[]" False "''Ana''" AlocarSucesso]
    by simp
qed

text \<open>A pilot without \<open>piloto_id\<close> is dragged as \<open>"undefined"\<close>, which passes the
  check \<open>!pilotoId\<close> and is posted.\<close>

lemma piloto_sem_id_postado:
  "soltar_na_zona True False [] (cartao_de_piloto piloto_sem_id) (zona_de equipe_7) ''1''
     = [ModalConfirmacao ''Ana'' ''Alpha'' RotaReserva ''undefined'' ''7'' ''1'']
   \<and> hd (confirmar_rota RotaReserva ''undefined'' ''7'' ''1'' ''Ana'' AlocarSucesso)
       = PostAlocarReserva ''1'' ''7'' ''undefined''"
proof -
  have "dataset_match ''Ana'' = ''Ana''" "dataset_match ''Alpha'' = ''Alpha''"
    by (simp_all add: dataset_match_sem_amp)
  then show ?thesis
    by (simp add: soltar_na_zona_def zona_de_def equipe_7_def piloto_sem_id_def cartao_de_piloto_def js_str_def
                  js_or_str_def js_truthy_str_def soltar_piloto_def mostrar_confirmacao_def rota_de_def
                  confirmar_rota_def confirmar_alocacao_reserva_def)
qed

text \<open>A team id that is also the participation id of an element of the page
  takes the participation route: the pilot is allocated to that participation.\<close>

lemma alvo_colide_participacao:
  "pid \<noteq> [] \<Longrightarrow> etapa \<noteq> [] \<Longrightarrow> epd_id e \<noteq> [] \<Longrightarrow> pin_piloto_id p = Some pid \<Longrightarrow> epd_id e \<in> set doms \<Longrightarrow>
   soltar_na_zona True c doms (cartao_de_piloto p) (zona_de e) etapa
     = [ModalConfirmacao (cpi_nome (cartao_de_piloto p)) (zd_nome (zona_de e)) RotaParticipacao pid (epd_id e) etapa]
   \<and> hd (confirmar_rota RotaParticipacao pid (epd_id e) etapa nome r) = PostAlocarPiloto (epd_id e) pid"
  by (simp add: soltar_na_zona_def zona_id_roundtrip soltar_piloto_def cartao_de_piloto_id js_str_def
                mostrar_confirmacao_def rota_de_def confirmar_rota_def confirmar_alocacao_piloto_def)

text \<open>The list loaded with the teams of a stage never offers a pilot already
  allocated to one of them (by a truthy id: \<open>filter(Boolean)\<close> drops the
  others).\<close>

lemma alocados_excluidos:
  assumes "carregar_equipes_etapa etapa (EquipesAloc True (Some es)) = Some (a, cs)"
    and "renderizar_pilotos True a rp = Some (ListaPilotos xs)"
    and "(p, t) \<in> set xs" and "e \<in> set es" and "js_truthy_str (ea_piloto_id e)"
  shows "ea_piloto_id e \<noteq> Some (pa_id p)"
proof
  assume ep: "ea_piloto_id e = Some (pa_id p)"
  have ex: "ap_excluir a = List.map_filter (\<lambda>e. if js_truthy_str (ea_piloto_id e) then ea_piloto_id e else None) es"
    using assms(1) by (auto simp: carregar_equipes_etapa_def split: if_splits)
  have "pa_id p \<notin> set (ap_excluir a)"
    using assms(2,3)
    by (auto simp: renderizar_pilotos_def Let_def split: resposta_pilotos.splits option.splits list.splits if_splits)
  moreover have "pa_id p \<in> set (ap_excluir a)"
    using ep assms(4,5) ex by (force simp: map_filter_def)
  ultimately show False by blast
qed

subsection \<open>Lemmas on the drag payload\<close>

lemma aspas_distintos [simp]: "aspas \<noteq> barra_inv" "barra_inv \<noteq> aspas"
  by (simp_all add: aspas_def barra_inv_def)

lemma valor_hex_digito: "n < 16 \<Longrightarrow> valor_hex (hex_digito n) = Some n"
  by (auto simp: valor_hex_def hex_digito_def Let_def)

lemma le_string_escapa_char:
  "le_string_json (escapa_json_char c @ t) = map_option (\<lambda>(v, r). (c # v, r)) (le_string_json t)"
proof -
  consider "c = aspas" | "c = barra_inv" | "c = CHR 8" | "c = CHR 9" | "c = CHR 10" | "c = CHR 12" | "c = CHR 13"
    | "c \<noteq> aspas" "c \<noteq> barra_inv" "c \<noteq> CHR 8" "c \<noteq> CHR 9" "c \<noteq> CHR 10" "c \<noteq> CHR 12" "c \<noteq> CHR 13"
      "of_char c < (32::nat)"
    | "c \<noteq> aspas" "c \<noteq> barra_inv" "of_char c \<ge> (32::nat)" by (meson not_le)
  then show ?thesis
  proof cases
    case 8
    let ?n = "of_char c :: nat"
    have h: "valor_hex (hex_digito (?n div 16)) = Some (?n div 16)" "valor_hex (hex_digito (?n mod 16)) = Some (?n mod 16)"
      using 8 by (simp_all add: valor_hex_digito)
    have z: "valor_hex (CHR ''0'') = Some 0" by (simp add: valor_hex_def)
    have n: "((0 * 16 + 0) * 16 + ?n div 16) * 16 + ?n mod 16 = ?n" by simp
    have u: "utf8_bmp ?n = Some [c]" using 8 by (simp add: utf8_bmp_def)
    have a: "c \<noteq> CHR 0x22" "c \<noteq> CHR 0x5C" using 8 by (simp_all add: aspas_def barra_inv_def)
    show ?thesis using 8 h z u a
      by (simp add: escapa_json_char_def aspas_def barra_inv_def)
  next
    case 9
    have "c \<noteq> CHR 8 \<and> c \<noteq> CHR 9 \<and> c \<noteq> CHR 10 \<and> c \<noteq> CHR 12 \<and> c \<noteq> CHR 13"
      using 9(3) by auto
    then show ?thesis using 9 by (simp add: escapa_json_char_def)
  qed (simp_all add: escapa_json_char_def escape_json_def aspas_def barra_inv_def)
qed


lemma le_string_json_string:
  "le_string_json (concat (map escapa_json_char s) @ aspas # r) = Some (s, r)"
  by (induction s) (simp_all add: le_string_escapa_char)

lemma pula_ws_Cons [simp]: "\<not> espaco_json c \<Longrightarrow> pula_ws (c # s) = c # s"
  by (simp add: pula_ws_def)

lemma espaco_json_simps [simp]:
  "\<not> espaco_json aspas" "\<not> espaco_json (CHR '':'')" "\<not> espaco_json (CHR '','')" "\<not> espaco_json (CHR ''}'')"
  "\<not> espaco_json (CHR ''{'')" "pula_ws [] = []"
  by (simp_all add: espaco_json_def aspas_def pula_ws_def)

lemma le_membro_json:
  "le_membros (Suc n) (membro_json k v @ CHR ''}'' # r) = Some ([(k, v)], r)"
  "le_membros (Suc n) (membro_json k v @ CHR '','' # t) =
     map_option (\<lambda>(ms, r). ((k, v) # ms, r)) (le_membros n (pula_ws t))"
  by (simp_all add: membro_json_def json_string_def le_string_json_string)

text \<open>The roundtrip: the text written by the drag start parses back to its
  two members, whatever the bytes of the id and the name.\<close>

lemma payload_roundtrip:
  "json_parse_objeto (json_stringify_payload (Some a) (Some b)) = Some [(''pilotoId'', a), (''pilotoNome'', b)]"
proof -
  let ?M = "membro_json ''pilotoId'' a @ CHR '','' # membro_json ''pilotoNome'' b @ ''}''"
  obtain M' where M: "?M = aspas # M'" by (simp add: membro_json_def json_string_def)
  have t: "json_stringify_payload (Some a) (Some b) = CHR ''{'' # aspas # M'"
    using M by (simp add: json_stringify_payload_def)
  have p2: "pula_ws (membro_json ''pilotoNome'' b @ ''}'') = membro_json ''pilotoNome'' b @ ''}''"
    by (simp add: membro_json_def json_string_def)
  have l: "le_membros (Suc (Suc n)) ?M = Some ([(''pilotoId'', a), (''pilotoNome'', b)], [])" for n
    using le_membro_json(2) [of "Suc n" "''pilotoId''" a "membro_json ''pilotoNome'' b @ ''}''"]
          le_membro_json(1) [of n "''pilotoNome''" b "[]"] p2 by simp
  have "CHR ''}'' \<noteq> aspas" by (simp add: aspas_def)
  then show ?thesis unfolding json_parse_objeto_def t
    using l [of "length M'"] M by (simp del: le_membros.simps)
qed


lemma payload_sem_id:
  "json_parse_objeto (json_stringify_payload None (Some b)) = Some [(''pilotoNome'', b)]"
proof -
  obtain M' where M: "membro_json ''pilotoNome'' b @ ''}'' = aspas # M'" by (simp add: membro_json_def json_string_def)
  have t: "json_stringify_payload None (Some b) = CHR ''{'' # aspas # M'"
    using M by (simp add: json_stringify_payload_def)
  have "CHR ''}'' \<noteq> aspas" by (simp add: aspas_def)
  then show ?thesis unfolding json_parse_objeto_def t
    using le_membro_json(1) [of "Suc (length M')" "''pilotoNome''" b "[]"] M by (simp del: le_membros.simps)
qed

text \<open>Dropping a card reads back exactly the card that was dragged: the drop
  acts as \<open>soltar_piloto\<close> on that card, whatever its id and name hold.\<close>

lemma soltar_cartao_arrastado:
  "soltar_texto modal confirma doms (arrastar_cartao c) alvo etapa nome
   = map AlocDrop (soltar_piloto modal confirma doms c alvo etapa nome)"
  by (simp add: soltar_texto_def arrastar_cartao_def arrastar_piloto_def payload_roundtrip campo_json_def
                soltar_piloto_def js_truthy_str_def js_str_def Let_def)

text \<open>A pilot element without \<open>data-piloto-id\<close> drops as the required-fields
  error; a drag from outside a pilot card as a parse error.\<close>

lemma soltar_sem_id:
  "soltar_texto modal confirma doms (arrastar_piloto (Some (None, Some n))) alvo etapa nome = [AlocDrop ToastObrigatorios]"
  by (simp add: soltar_texto_def arrastar_piloto_def payload_sem_id campo_json_def js_truthy_str_def)

lemma soltar_fora_do_cartao:
  "soltar_texto modal confirma doms (arrastar_piloto None) alvo etapa nome = [ToastErroProcessarDrop]"
  by (simp add: soltar_texto_def arrastar_piloto_def json_parse_objeto_def)

lemma arraste_marcadas:
  "foldl passo_arraste zs es \<subseteq> zs \<union> {z. SobreZona z \<in> set es}"
proof (induction es arbitrary: zs)
  case (Cons e es)
  have "passo_arraste zs e \<subseteq> zs \<union> {z. SobreZona z = e}" by (cases e) auto
  then show ?case using Cons.IH [of "passo_arraste zs e"] by auto
qed simp

lemma cartao_aspas_confirmado:
  "soltar_texto False True [] (arrastar_cartao cartao_aspas) ''p1'' ''e1'' ''Equipe''
   = [AlocDrop (Confirmacao RotaReserva ''12'' ''p1'' ''e1'')]"
  by (simp add: soltar_cartao_arrastado soltar_piloto_def cartao_aspas_def mostrar_confirmacao_def rota_de_def)

text \<open>With \<open>autoSelect\<close> the first stage of the answer is selected, with its
  id as the value of the select.\<close>

lemma etapas_alocacao_seleciona_primeira:
  "carregar_etapas_para_alocacao True True (EtapasAloc (Some (e # es))) = Some (ops, i) \<Longrightarrow>
   i = 1 \<and> fst (ops ! i) = js_str (eal_id e) \<and> length ops = Suc (Suc (length es))"
  by (auto simp: carregar_etapas_para_alocacao_def Let_def)

end
