(* ===== verification/AdminChampionships.thy ===== *)
theory AdminChampionships
  imports JsNumbers
begin

text \<open>
  Championships and stages in the admin pages, and the inscription of a team
  in its next stage (src/static/script.js, lines 5104--5510):
  \<open>criarCampeonato\<close>, \<open>carregarCampeonatos\<close>, \<open>deletarCampeonato\<close>,
  \<open>atualizarSerieEtapa\<close>, \<open>cadastrarEtapa\<close>, \<open>carregarEtapasCadastro\<close>,
  \<open>carregarProximaEtapa\<close>, \<open>inscreverEtapa\<close>, \<open>criarModalPecasFaltando\<close> and
  \<open>irParaArmazem\<close>.  The form fields are inputs, the server's answers are
  inputs, and each handler returns its requests and toasts in order, with the
  page state it changes.  \<open>atualizarSerieEtapa\<close> reads the series back from the
  text of the championship's option with \<open>/S\<acute>erie ([AB])/\<close>: strings are
  UTF-8, so the pattern is the bytes of \<open>S\<acute>erie \<close> followed by \<open>A\<close> or \<open>B\<close>.
\<close>

subsection \<open>Championships\<close>

datatype efeito_adm =
    ToastNomeSerieObrigatorios | ToastCampeonatoCriado string | ToastErroServidor string
  | ToastErroExcecao string string        \<comment> \<open>the fixed text and \<open>e.message\<close>\<close>
  | PostCriarCampeonato string string string int
  | PostDeletarCampeonato string | ToastCampeonatoDeletado | ToastErroDeletar
  | LimparFormCampeonato | RecarregarCampeonatos | RecarregarEtapas
  | ToastDataHoraObrigatorias | PostCadastrarEtapa string int string string string string string
  | ToastEtapaCriada string | LimparFormEtapa

datatype resposta_adm = AdmSucesso | AdmFalha "string option" | AdmExcecao string

text \<open>\<open>parseInt(v) || d\<close>.\<close>

definition int_ou :: "string \<Rightarrow> int \<Rightarrow> int" where
  "int_ou v d = (case parse_int 0 v of Some n \<Rightarrow> (if n = 0 then d else n) | None \<Rightarrow> d)"

text \<open>\<open>criarCampeonato()\<close>: name, description, series and number of stages as
  read from the form.\<close>

definition criar_campeonato :: "string \<Rightarrow> string \<Rightarrow> string \<Rightarrow> string \<Rightarrow> resposta_adm \<Rightarrow> efeito_adm list" where
  "criar_campeonato nome_campo descricao_campo serie etapas_campo r =
     (let nome = trim nome_campo; descricao = trim descricao_campo; n = int_ou etapas_campo 5
      in if nome = [] \<or> serie = [] then [ToastNomeSerieObrigatorios]
         else PostCriarCampeonato nome descricao serie n #
              (case r of
                 AdmSucesso \<Rightarrow> [ToastCampeonatoCriado nome, LimparFormCampeonato, RecarregarCampeonatos, RecarregarEtapas]
               | AdmFalha e \<Rightarrow> [ToastErroServidor (js_or_str e ''Desconhecido'')]
               | AdmExcecao m \<Rightarrow> [ToastErroExcecao ''Erro ao criar campeonato: '' m]))"

record campeonato =
  cp_id :: string          \<comment> \<open>\<open>String(c.id)\<close>\<close>
  cp_nome :: string
  cp_serie :: string       \<comment> \<open>\<open>${c.serie}\<close>\<close>
  cp_etapas :: string      \<comment> \<open>\<open>${c.numero_etapas}\<close>\<close>

text \<open>The bytes of \<open>\<acute>e\<close> in UTF-8.\<close>

definition e_agudo :: string where
  "e_agudo = [CHR 0xC3, CHR 0xA9]"

text \<open>The text of an option: \<open>${c.nome} (S\<acute>erie ${c.serie}) - ${c.numero_etapas} etapas\<close>.\<close>

definition texto_opcao :: "campeonato \<Rightarrow> string" where
  "texto_opcao c = cp_nome c @ '' (S'' @ e_agudo @ ''rie '' @ cp_serie c @ '') - '' @ cp_etapas c @ '' etapas''"

definition opcoes_campeonatos :: "campeonato list \<Rightarrow> (string \<times> string) list" where
  "opcoes_campeonatos cs = map (\<lambda>c. (cp_id c, texto_opcao c)) cs"

text \<open>The body of \<open>listar-campeonatos\<close>: an object, maybe with \<open>campeonatos\<close>,
  or an array.\<close>

datatype resposta_campeonatos = ObjetoCampeonatos "campeonato list option" | ArrayCampeonatos "campeonato list"
  | CampeonatosExcecao

definition campeonatos_de :: "resposta_campeonatos \<Rightarrow> campeonato list" where
  "campeonatos_de r = (case r of ObjetoCampeonatos (Some cs) \<Rightarrow> cs | ArrayCampeonatos cs \<Rightarrow> cs | _ \<Rightarrow> [])"

text \<open>\<open>carregarCampeonatos()\<close>: the options of \<open>#etapaCampeonato\<close> and its value;
  setting \<open>select.value\<close> to a value no option has leaves it empty.  An
  exception leaves the select as it was.\<close>

definition carregar_campeonatos ::
  "resposta_campeonatos \<Rightarrow> (string \<times> string) list \<times> string \<Rightarrow> (string \<times> string) list \<times> string" where
  "carregar_campeonatos r sel =
     (case r of
        CampeonatosExcecao \<Rightarrow> sel
      | _ \<Rightarrow>
          (let ops = opcoes_campeonatos (campeonatos_de r); v = snd sel
           in (ops, if v \<noteq> [] \<and> v \<in> fst ` set ops then v else [])))"

definition deletar_campeonato :: "string \<Rightarrow> bool \<Rightarrow> resposta_adm \<Rightarrow> efeito_adm list" where
  "deletar_campeonato cid confirma r =
     (if \<not> confirma then []
      else PostDeletarCampeonato cid #
           (case r of
              AdmSucesso \<Rightarrow> [ToastCampeonatoDeletado, RecarregarCampeonatos, RecarregarEtapas]
            | AdmFalha _ \<Rightarrow> [ToastErroDeletar]
            | AdmExcecao _ \<Rightarrow> []))"

subsection \<open>The series of a stage\<close>

definition padrao_serie :: string where
  "padrao_serie = ''S'' @ e_agudo @ ''rie ''"

text \<open>A match of \<open>/S\<acute>erie ([AB])/\<close> at the start of the string.\<close>

definition prefixo_serie :: "string \<Rightarrow> bool" where
  "prefixo_serie s = (take 7 s = padrao_serie \<and> 7 < length s \<and> (s ! 7 = CHR ''A'' \<or> s ! 7 = CHR ''B''))"

text \<open>\<open>text.match(/S\<acute>erie ([AB])/)\<close>: the group of the first match.\<close>

fun extrai_serie :: "string \<Rightarrow> char option" where
  "extrai_serie [] = None"
| "extrai_serie (c # r) = (if prefixo_serie (c # r) then Some ((c # r) ! 7) else extrai_serie r)"

text \<open>\<open>atualizarSerieEtapa()\<close>: the new value of \<open>#etapaSerie\<close> for the selected
  championship and the options of the select.  An option whose text does not
  match leaves the field as it was.\<close>

definition atualizar_serie_etapa :: "string \<Rightarrow> (string \<times> string) list \<Rightarrow> string \<Rightarrow> string" where
  "atualizar_serie_etapa cid ops campo =
     (if cid = [] then []
      else foldl (\<lambda>v (val, txt). if val = cid \<and> txt \<noteq> []
                                  then (case extrai_serie txt of Some x \<Rightarrow> [x] | None \<Rightarrow> v) else v) campo ops)"

subsection \<open>Stages\<close>

text \<open>\<open>cadastrarEtapa()\<close>: championship, number (\<open>parseInt || 1\<close>), name,
  description, date, time and series from the form.\<close>

definition cadastrar_etapa ::
  "string \<Rightarrow> string \<Rightarrow> string \<Rightarrow> string \<Rightarrow> string \<Rightarrow> string \<Rightarrow> string \<Rightarrow> resposta_adm \<Rightarrow> efeito_adm list" where
  "cadastrar_etapa cid numero_campo nome_campo descricao_campo data hora serie r =
     (let nome = trim nome_campo; descricao = trim descricao_campo; n = int_ou numero_campo 1
      in if cid = [] \<or> data = [] \<or> hora = [] then [ToastDataHoraObrigatorias]
         else PostCadastrarEtapa cid n nome descricao data hora serie #
              (case r of
                 AdmSucesso \<Rightarrow> [ToastEtapaCriada nome, LimparFormEtapa, RecarregarEtapas]
               | AdmFalha e \<Rightarrow> [ToastErroServidor (js_or_str e ''Desconhecido'')]
               | AdmExcecao m \<Rightarrow> [ToastErroExcecao ''Erro ao cadastrar etapa: '' m]))"

record etapa_cad =
  ec_nome :: "string option"
  ec_numero :: string
  ec_serie :: string
  ec_descricao :: "string option"

datatype lista_etapas = EtapasErro | NenhumaEtapa | EtapasLista "(string \<times> string \<times> string) list"

text \<open>\<open>carregarEtapasCadastro()\<close>, when the list exists: each stage's title
  (\<open>nome || 'Etapa ' + numero\<close>), series and description; the date and time
  formatting of \<open>toLocaleDateString\<close> is left out.  \<open>None\<close> is a body that is
  not an array.\<close>

definition carregar_etapas_cadastro :: "etapa_cad list option \<Rightarrow> lista_etapas" where
  "carregar_etapas_cadastro r =
     (case r of
        None \<Rightarrow> EtapasErro
      | Some [] \<Rightarrow> NenhumaEtapa
      | Some es \<Rightarrow> EtapasLista (map (\<lambda>e. (js_or_str (ec_nome e) (''Etapa '' @ ec_numero e), ec_serie e,
                                           js_or_str (ec_descricao e) ''-'')) es))"

subsection \<open>Inscription in the next stage\<close>

record etapa_prox =
  epx_id :: "string option"
  epx_nome :: string
  epx_serie :: string

record proxima_st =
  px_etapa :: "etapa_prox option"                 \<comment> \<open>\<open>window.proximaEtapa\<close>\<close>
  px_card :: bool                                 \<comment> \<open>\<open>#proximaEtapaCard\<close> shown\<close>
  px_botao :: "(string \<times> string) option"          \<comment> \<open>\<open>#btnInscreverEtapa\<close> shown, with its stage and car\<close>

datatype resposta_equipe_serie = EquipeSerie bool "string option" | EquipeSerieExcecao
  \<comment> \<open>\<open>resp.ok\<close> and \<open>serie\<close>\<close>

datatype resposta_prox = ProximaEtapa bool etapa_prox | ProximaExcecao

text \<open>\<open>carregarProximaEtapa()\<close>; \<open>tem_card\<close> and \<open>tem_botao\<close> tell whether the elements
  exist, \<open>carro\<close> is \<open>window.garagemAtual.carroAtivo.id\<close> when there is one.\<close>

definition carregar_proxima_etapa ::
  "string option \<Rightarrow> resposta_equipe_serie \<Rightarrow> resposta_prox \<Rightarrow> bool \<Rightarrow> bool \<Rightarrow> string option \<Rightarrow> proxima_st \<Rightarrow> proxima_st" where
  "carregar_proxima_etapa sessao re rp tem_card tem_botao carro s =
     (if \<not> js_truthy_str sessao then s
      else case re of
             EquipeSerie True serie \<Rightarrow>
               (if \<not> js_truthy_str serie then s
                else case rp of
                       ProximaEtapa True e \<Rightarrow>
                         (if \<not> js_truthy_str (epx_id e) then s
                          else s\<lparr>px_etapa := Some e, px_card := (tem_card \<or> px_card s),
                                 px_botao := (if tem_card \<and> tem_botao \<and> carro \<noteq> None
                                              then Some (the (epx_id e), the carro) else px_botao s)\<rparr>)
                     | _ \<Rightarrow> s)
           | _ \<Rightarrow> s)"

text \<open>\<open>p.charAt(0).toUpperCase() + p.slice(1)\<close> on ASCII letters.\<close>

definition maiuscula :: "char \<Rightarrow> char" where
  "maiuscula c = (if 97 \<le> (of_char c :: nat) \<and> (of_char c :: nat) \<le> 122 then char_of (of_char c - (32::nat)) else c)"

definition capitaliza :: "string \<Rightarrow> string" where
  "capitaliza s = (case s of [] \<Rightarrow> [] | c # r \<Rightarrow> maiuscula c # r)"

fun juntar :: "string \<Rightarrow> string list \<Rightarrow> string" where
  "juntar sep [] = []"
| "juntar sep [x] = x"
| "juntar sep (x # xs) = x @ sep @ juntar sep xs"

datatype resposta_validacao = Valido | Invalido "string list option" | ValidacaoExcecao string

datatype efeito_insc =
    ToastEquipeNaoIdentificada | ToastDadosIncompletos
  | PostValidarPecas string string                \<comment> \<open>\<open>carro_id\<close>, \<open>equipe_id\<close>\<close>
  | ToastPecasFaltando string | CriarModalPecas | MostrarModalPecas
  | PostInscrever string string string            \<comment> \<open>\<open>etapa_id\<close>, \<open>equipe_id\<close>, \<open>carro_id\<close>\<close>
  | ToastInscricaoConfirmada | OcultarBotaoInscrever | ToastErroInscricao string | ToastErroInscricaoExcecao

text \<open>\<open>inscreverEtapa()\<close>: the effects and whether \<open>#modalPecasFaltando\<close> exists
  afterwards.  A refusal without \<open>pecas_faltando\<close> throws in \<open>.map\<close>.\<close>

definition inscrever_etapa ::
  "string option \<Rightarrow> etapa_prox option \<Rightarrow> string option \<Rightarrow> resposta_validacao \<Rightarrow> resposta_adm \<Rightarrow> bool
   \<Rightarrow> efeito_insc list \<times> bool" where
  "inscrever_etapa sessao etapa carro rv ri modal =
     (if \<not> js_truthy_str sessao then ([ToastEquipeNaoIdentificada], modal)
      else if etapa = None \<or> carro = None then ([ToastDadosIncompletos], modal)
      else
        (let eq = the sessao; c = the carro; pre = [PostValidarPecas c eq]
         in case rv of
              ValidacaoExcecao _ \<Rightarrow> (pre @ [ToastErroInscricaoExcecao], modal)
            | Invalido None \<Rightarrow> (pre @ [ToastErroInscricaoExcecao], modal)
            | Invalido (Some ps) \<Rightarrow>
                (pre @ [ToastPecasFaltando (juntar '', '' (map capitaliza ps))] @
                 (if modal then [] else [CriarModalPecas]) @ [MostrarModalPecas], True)
            | Valido \<Rightarrow>
                (pre @ PostInscrever (js_str (epx_id (the etapa))) eq c #
                 (case ri of
                    AdmSucesso \<Rightarrow> [ToastInscricaoConfirmada, OcultarBotaoInscrever]
                  | AdmFalha e \<Rightarrow> [ToastErroInscricao (js_or_str e ''Desconhecido'')]
                  | AdmExcecao _ \<Rightarrow> [ToastErroInscricaoExcecao]), modal)))"

definition campeonato_copa :: campeonato where
  "campeonato_copa = \<lparr>cp_id = ''1'', cp_nome = ''Copa'', cp_serie = ''A'', cp_etapas = ''5''\<rparr>"

text \<open>The modal of missing parts: \<open>criarModalPecasFaltando()\<close> (lines
  5234--5262) appends it with an empty \<open>#listaPecasFaltando\<close>, the refusal of
  \<open>inscreverEtapa\<close> shows it (line 5201), and \<open>irParaArmazem()\<close> (lines
  5264--5272) hides it and clicks the shop tab when it exists.\<close>

record modal_pecas =
  mpf_existe :: bool
  mpf_visivel :: bool
  mpf_lista :: "string list"      \<comment> \<open>the items of \<open>#listaPecasFaltando\<close>\<close>

definition criar_modal_pecas_faltando :: "modal_pecas \<Rightarrow> modal_pecas" where
  "criar_modal_pecas_faltando m = m\<lparr>mpf_existe := True, mpf_lista := []\<rparr>"

fun aplica_modal_pecas :: "efeito_insc list \<Rightarrow> modal_pecas \<Rightarrow> modal_pecas" where
  "aplica_modal_pecas [] m = m"
| "aplica_modal_pecas (CriarModalPecas # es) m = aplica_modal_pecas es (criar_modal_pecas_faltando m)"
| "aplica_modal_pecas (MostrarModalPecas # es) m = aplica_modal_pecas es (m\<lparr>mpf_visivel := True\<rparr>)"
| "aplica_modal_pecas (_ # es) m = aplica_modal_pecas es m"

definition ir_para_armazem :: "bool \<Rightarrow> modal_pecas \<Rightarrow> modal_pecas \<times> bool" where
  "ir_para_armazem tem_aba_loja m = (m\<lparr>mpf_visivel := False\<rparr>, tem_aba_loja)"

definition sem_modal_pecas :: modal_pecas where
  "sem_modal_pecas = \<lparr>mpf_existe = False, mpf_visivel = False, mpf_lista = []\<rparr>"

subsection \<open>The series round trip\<close>

lemma nth_padrao_serie:
  "padrao_serie ! 0 = CHR ''S'' \<and> padrao_serie ! 1 = CHR 0xC3 \<and> padrao_serie ! 2 = CHR 0xA9
   \<and> padrao_serie ! 3 = CHR ''r'' \<and> padrao_serie ! 4 = CHR ''i'' \<and> padrao_serie ! 5 = CHR ''e''
   \<and> padrao_serie ! 6 = CHR '' '' \<and> length padrao_serie = 7"
  by (simp add: padrao_serie_def e_agudo_def)

text \<open>A match cannot start in the name and run into the \<open>" ("\<close> that follows it.\<close>

lemma prefixo_serie_curto:
  assumes "length xs < 8"
  shows "\<not> prefixo_serie (xs @ CHR '' '' # CHR ''('' # ys)"
proof
  let ?s = "xs @ CHR '' '' # CHR ''('' # ys"
  assume p: "prefixo_serie ?s"
  have sp: "?s ! length xs = CHR '' ''" by simp
  show False
  proof (cases "length xs < 7")
    case True
    then have "padrao_serie ! length xs = CHR '' ''"
      using p sp by (metis nth_take prefixo_serie_def)
    moreover have "length xs = 0 \<or> length xs = 1 \<or> length xs = 2 \<or> length xs = 3 \<or> length xs = 4
                   \<or> length xs = 5 \<or> length xs = 6"
      using True by presburger
    ultimately have "length xs = 6"
      using nth_padrao_serie by (elim disjE) simp_all
    then have "?s ! 7 = CHR ''(''" by (simp add: nth_append)
    then show False using p by (simp add: prefixo_serie_def)
  next
    case False
    then have "length xs = 7" using assms by simp
    then have "?s ! 7 = CHR '' ''" using sp by simp
    then show False using p by (simp add: prefixo_serie_def)
  qed
qed

lemma prefixo_serie_longo: "8 \<le> length xs \<Longrightarrow> prefixo_serie (xs @ zs) = prefixo_serie xs"
  by (simp add: prefixo_serie_def nth_append)

lemma extrai_serie_append:
  "extrai_serie (xs @ CHR '' '' # CHR ''('' # ys)
     = (case extrai_serie xs of Some x \<Rightarrow> Some x | None \<Rightarrow> extrai_serie (CHR '' '' # CHR ''('' # ys))"
proof (induction xs)
  case Nil
  then show ?case by simp
next
  case (Cons c xs)
  show ?case
  proof (cases "8 \<le> length (c # xs)")
    case True
    then show ?thesis
      using Cons prefixo_serie_longo [OF True, of "CHR '' '' # CHR ''('' # ys"] by (simp add: nth_append)
  next
    case False
    then have "\<not> prefixo_serie ((c # xs) @ CHR '' '' # CHR ''('' # ys)" "\<not> prefixo_serie (c # xs)"
      using prefixo_serie_curto [of "c # xs" ys] by (auto simp: prefixo_serie_def)
    then show ?thesis using Cons by simp
  qed
qed

lemma extrai_serie_texto:
  assumes "extrai_serie (cp_nome c) = None" "cp_serie c = ''A'' \<or> cp_serie c = ''B''"
  shows "extrai_serie (texto_opcao c) = Some (hd (cp_serie c))"
proof -
  have "texto_opcao c = cp_nome c @ CHR '' '' # CHR ''('' # (padrao_serie @ cp_serie c @ '') - '' @ cp_etapas c @ '' etapas'')"
    by (simp add: texto_opcao_def padrao_serie_def)
  moreover have "extrai_serie (CHR '' '' # CHR ''('' # (padrao_serie @ cp_serie c @ r)) = Some (hd (cp_serie c))" for r
    using assms(2) by (auto simp: padrao_serie_def e_agudo_def prefixo_serie_def)
  ultimately show ?thesis using assms(1) by (simp add: extrai_serie_append)
qed

lemma foldl_serie_outros:
  "cid \<notin> fst ` set ops \<Longrightarrow>
   foldl (\<lambda>v (val, txt). if val = cid \<and> txt \<noteq> [] then (case extrai_serie txt of Some x \<Rightarrow> [x] | None \<Rightarrow> v) else v) v ops = v"
  by (induction ops arbitrary: v) auto

lemma foldl_serie_unica:
  "distinct (map fst ops) \<Longrightarrow> (cid, t) \<in> set ops \<Longrightarrow> t \<noteq> [] \<Longrightarrow> extrai_serie t = Some x \<Longrightarrow>
   foldl (\<lambda>v (val, txt). if val = cid \<and> txt \<noteq> [] then (case extrai_serie txt of Some x \<Rightarrow> [x] | None \<Rightarrow> v) else v) v ops = [x]"
proof (induction ops arbitrary: v)
  case Nil
  then show ?case by simp
next
  case (Cons o1 ops)
  show ?case
  proof (cases "o1 = (cid, t)")
    case True
    then have "cid \<notin> fst ` set ops" using Cons.prems(1) by auto
    then show ?thesis using True Cons.prems(3,4) foldl_serie_outros by simp
  next
    case False
    then have "(cid, t) \<in> set ops" "fst o1 \<noteq> cid"
      using Cons.prems(1,2) by (auto simp: image_iff)
    then show ?thesis using Cons by (cases o1) auto
  qed
qed

text \<open>The series written into the stage form is the series of the selected
  championship when its name has no \<open>S\<acute>erie A\<close> or \<open>S\<acute>erie B\<close> of its own.\<close>

theorem serie_roundtrip:
  assumes "distinct (map cp_id cs)" "c \<in> set cs" "cp_id c \<noteq> []"
    and "extrai_serie (cp_nome c) = None" "cp_serie c = ''A'' \<or> cp_serie c = ''B''"
  shows "atualizar_serie_etapa (cp_id c) (opcoes_campeonatos cs) v = cp_serie c"
proof -
  have d: "distinct (map fst (opcoes_campeonatos cs))"
    using assms(1) by (simp add: opcoes_campeonatos_def comp_def)
  have m: "(cp_id c, texto_opcao c) \<in> set (opcoes_campeonatos cs)"
    using assms(2) by (auto simp: opcoes_campeonatos_def)
  have "texto_opcao c \<noteq> []" by (simp add: texto_opcao_def)
  then show ?thesis
    using foldl_serie_unica [OF d m] extrai_serie_texto [OF assms(4,5)] assms(3,5)
    by (auto simp: atualizar_serie_etapa_def)
qed

theorem serie_roundtrip_witness:
  "distinct (map cp_id [campeonato_copa]) \<and> campeonato_copa \<in> set [campeonato_copa] \<and> cp_id campeonato_copa \<noteq> []
   \<and> extrai_serie (cp_nome campeonato_copa) = None
   \<and> (cp_serie campeonato_copa = ''A'' \<or> cp_serie campeonato_copa = ''B'')
   \<and> atualizar_serie_etapa (cp_id campeonato_copa) (opcoes_campeonatos [campeonato_copa]) ''B'' = cp_serie campeonato_copa"
proof -
  have h: "distinct (map cp_id [campeonato_copa])" "campeonato_copa \<in> set [campeonato_copa]"
    "cp_id campeonato_copa \<noteq> []" "extrai_serie (cp_nome campeonato_copa) = None"
    "cp_serie campeonato_copa = ''A'' \<or> cp_serie campeonato_copa = ''B''"
    by (simp_all add: campeonato_copa_def prefixo_serie_def padrao_serie_def)
  show ?thesis using serie_roundtrip [OF h, of "''B''"] h by blast
qed

text \<open>A name holding \<open>S\<acute>erie B\<close> gives the series B to a championship of series
  A, and a series other than A or B leaves the field with the value of the
  championship selected before.\<close>

lemma serie_do_nome:
  "atualizar_serie_etapa ''1''
     (opcoes_campeonatos [\<lparr>cp_id = ''1'', cp_nome = ''Copa S'' @ e_agudo @ ''rie B'', cp_serie = ''A'', cp_etapas = ''5''\<rparr>])
     [] = ''B''
   \<and> atualizar_serie_etapa ''1''
       (opcoes_campeonatos [\<lparr>cp_id = ''1'', cp_nome = ''Copa'', cp_serie = ''C'', cp_etapas = ''5''\<rparr>]) ''A'' = ''A''"
  by (simp add: atualizar_serie_etapa_def opcoes_campeonatos_def texto_opcao_def e_agudo_def prefixo_serie_def
                padrao_serie_def)

subsection \<open>Inscription\<close>

text \<open>A team is inscribed only after the server validated its parts.\<close>

lemma inscrever_so_validado:
  "PostInscrever e q c \<in> set (fst (inscrever_etapa sessao etapa carro rv ri modal)) \<Longrightarrow> rv = Valido"
  by (auto simp: inscrever_etapa_def Let_def split: if_splits resposta_validacao.splits option.splits)

text \<open>Repeated refusals create the modal of missing parts once.\<close>

lemma modal_pecas_uma_vez:
  "inscrever_etapa (Some q) (Some e) (Some c) (Invalido (Some ps)) ri False = (es1, m1) \<Longrightarrow>
   inscrever_etapa (Some q) (Some e) (Some c) (Invalido (Some ps')) ri' m1 = (es2, m2) \<Longrightarrow> q \<noteq> [] \<Longrightarrow>
   CriarModalPecas \<in> set es1 \<and> CriarModalPecas \<notin> set es2 \<and> m2"
  by (auto simp: inscrever_etapa_def js_truthy_str_def)

text \<open>A refused inscription shows the modal of missing parts, but its list is
  never filled: the parts appear only in the toast, and the modal's list stays
  as it was (empty when the modal was created).\<close>

lemma aplica_modal_lista: "mpf_lista (aplica_modal_pecas es m) = (if CriarModalPecas \<in> set es then [] else mpf_lista m)"
  by (induction es m rule: aplica_modal_pecas.induct) (simp_all add: criar_modal_pecas_faltando_def)

lemma recusa_mostra_modal_vazio:
  assumes "inscrever_etapa sessao etapa carro (Invalido (Some ps)) ri (mpf_existe m) = (efs, ex)"
    and "js_truthy_str sessao" "etapa \<noteq> None" "carro \<noteq> None" "mpf_lista m = []"
  shows "mpf_visivel (aplica_modal_pecas efs m) \<and> mpf_lista (aplica_modal_pecas efs m) = [] \<and> ex"
proof -
  have e: "efs = [PostValidarPecas (the carro) (the sessao), ToastPecasFaltando (juntar '', '' (map capitaliza ps))]
                 @ (if mpf_existe m then [] else [CriarModalPecas]) @ [MostrarModalPecas]" and x: ex
    using assms(1-4) by (auto simp: inscrever_etapa_def Let_def)
  have "mpf_visivel (aplica_modal_pecas efs m)" unfolding e by (cases "mpf_existe m") (simp_all add: criar_modal_pecas_faltando_def)
  then show ?thesis using x assms(5) by (simp add: aplica_modal_lista)
qed

end
