(* ===== verification/AdminTeams.thy ===== *)
theory AdminTeams
  imports JsFloat
begin

text \<open>
  Teams, cars and requests in the admin pages (src/static/script.js, lines
  6006--6286): \<open>carregarEquipesCadastro\<close>, \<open>cadastrarEquipe\<close>,
  \<open>variacaoCompleta\<close>, \<open>carregarCarrosPraEquipe\<close>, the request lists
  \<open>carregarSolicitacoes\<close> and \<open>carregarSolicitacoesCarros\<close> with their caches
  \<open>_cacheSolicitacoesPecas\<close> and \<open>_cacheSolicitacoesCarros\<close> (line 15--16), and
  the approvals \<open>aprovarSolicitacao\<close> and \<open>aprovarSolicitacaoCarro\<close>.  A cache
  holds \<open>JSON.stringify\<close> of the last list read, which is equal for two lists
  exactly when the lists are; the model keeps the list itself.
\<close>

subsection \<open>Registering a team\<close>

text \<open>A form field: \<open>None\<close> when neither of its two ids is in the page.\<close>

type_synonym campo = "string option"

definition valor_campo :: "campo \<Rightarrow> string option" where
  "valor_campo f = (case f of Some v \<Rightarrow> (if v = [] then None else Some v) | None \<Rightarrow> None)"

record cadastro_equipe =
  ce_nome :: string
  ce_doricoins :: valor_json
  ce_senha :: string
  ce_serie :: string
  ce_carro :: "string option"       \<comment> \<open>\<open>carro_id\<close>, left out of the JSON when \<open>undefined\<close>\<close>

text \<open>\<open>parseFloat(v)\<close> as \<open>JSON.stringify\<close> writes it: \<open>NaN\<close> and the infinities
  are \<open>null\<close>.\<close>

definition json_float :: "string \<Rightarrow> valor_json" where
  "json_float v = (case parse_float v of Some x \<Rightarrow> json_numero x | None \<Rightarrow> JsonNull)"

definition dados_cadastro :: "campo \<Rightarrow> campo \<Rightarrow> campo \<Rightarrow> campo \<Rightarrow> campo \<Rightarrow> cadastro_equipe" where
  "dados_cadastro nome dor senha serie carro =
     \<lparr>ce_nome = (case valor_campo nome of Some v \<Rightarrow> trim v | None \<Rightarrow> []),
      ce_doricoins = (case valor_campo dor of Some v \<Rightarrow> json_float v | None \<Rightarrow> JsonNum 10000),
      ce_senha = (case valor_campo senha of Some v \<Rightarrow> trim v | None \<Rightarrow> []),
      ce_serie = (case valor_campo serie of Some v \<Rightarrow> v | None \<Rightarrow> ''A''),
      ce_carro = (case valor_campo carro of Some v \<Rightarrow> (if trim v = [] then None else Some (trim v)) | None \<Rightarrow> None)\<rparr>"

datatype resposta_cad = CadSucesso | CadFalha "string option" | CadExcecao

datatype efeito_equipe =
    ToastNomeEquipeObrigatorio | ToastSenhaObrigatoria | PostCadastrarEquipe cadastro_equipe
  | ToastEquipeCadastrada | LimparFormEquipe | RecarregarEquipesCadastro
  | ToastErroEq string | ToastErroCadastrarEquipe

definition cadastrar_equipe :: "campo \<Rightarrow> campo \<Rightarrow> campo \<Rightarrow> campo \<Rightarrow> campo \<Rightarrow> resposta_cad \<Rightarrow> efeito_equipe list" where
  "cadastrar_equipe nome dor senha serie carro r =
     (let d = dados_cadastro nome dor senha serie carro
      in if ce_nome d = [] then [ToastNomeEquipeObrigatorio]
         else if ce_senha d = [] then [ToastSenhaObrigatoria]
         else PostCadastrarEquipe d #
              (case r of
                 CadSucesso \<Rightarrow> [ToastEquipeCadastrada, LimparFormEquipe, RecarregarEquipesCadastro]
               | CadFalha e \<Rightarrow> [ToastErroEq (''Erro: '' @ js_str e)]
               | CadExcecao \<Rightarrow> [ToastErroCadastrarEquipe]))"

subsection \<open>Cars offered to a team\<close>

record variacao =
  va_motor :: "string option"
  va_cambio :: "string option"
  va_suspensao :: "string option"
  va_kit_angulo :: "string option"
  va_diferencial :: "string option"

text \<open>\<open>variacaoCompleta(v)\<close>: every part id truthy.\<close>

definition variacao_completa :: "variacao option \<Rightarrow> bool" where
  "variacao_completa v =
     (case v of
        None \<Rightarrow> False
      | Some x \<Rightarrow> js_truthy_str (va_motor x) \<and> js_truthy_str (va_cambio x) \<and> js_truthy_str (va_suspensao x)
                  \<and> js_truthy_str (va_kit_angulo x) \<and> js_truthy_str (va_diferencial x))"

record carro_adm =
  ca_id :: string
  ca_marca :: "string option"
  ca_modelo :: "string option"
  ca_variacoes :: "variacao option list option"

definition rotulo_carro :: "carro_adm \<Rightarrow> string" where
  "rotulo_carro c = js_or_str (ca_marca c) [] @ '' '' @ js_or_str (ca_modelo c) []"

text \<open>\<open>carregarCarrosPraEquipe()\<close>: the options of the team's car select (after its
  first option, or inside its \<open>optgroup\<close>) and of the variation select.
  \<open>None\<close> is a body that is not an array.\<close>

definition carros_pra_equipe ::
  "carro_adm list option \<Rightarrow> ((string \<times> string) list \<times> (string \<times> string) list) option" where
  "carros_pra_equipe r =
     (case r of
        None \<Rightarrow> None
      | Some cs \<Rightarrow>
          Some (map (\<lambda>c. (ca_id c, rotulo_carro c))
                    (filter (\<lambda>c. list_ex variacao_completa (case ca_variacoes c of Some vs \<Rightarrow> vs | None \<Rightarrow> [])) cs),
                map (\<lambda>c. (ca_id c, rotulo_carro c)) cs))"

subsection \<open>The list of teams\<close>

record equipe_cad =
  eqc_nome :: string
  eqc_serie :: string
  eqc_saldo :: money
  eqc_carro :: "string option"

datatype resposta_equipes_cad = EquipesCadLista "equipe_cad list" | EquipesCadNulo | EquipesCadObjeto
  | EquipesCadExcecao

datatype vista_equipes_cad = NenhumaEquipe | CartoesEquipes "(string \<times> string \<times> money \<times> string) list"
  | ToastErroEquipesCad

text \<open>\<open>carregarEquipesCadastro()\<close>, when the list exists.  An object that is not
  an array (an error body) has no \<open>length\<close>, passes the emptiness test and
  throws in \<open>forEach\<close>.\<close>

definition carregar_equipes_cadastro :: "resposta_equipes_cad \<Rightarrow> vista_equipes_cad" where
  "carregar_equipes_cadastro r =
     (case r of
        EquipesCadLista [] \<Rightarrow> NenhumaEquipe
      | EquipesCadLista es \<Rightarrow> CartoesEquipes (map (\<lambda>e. (eqc_nome e, eqc_serie e, eqc_saldo e,
                                                         js_or_str (eqc_carro e) ''Nenhum'')) es)
      | EquipesCadNulo \<Rightarrow> NenhumaEquipe
      | _ \<Rightarrow> ToastErroEquipesCad)"

subsection \<open>Requests and their cache\<close>

record solicitacao =
  so_id :: string
  so_titulo :: string            \<comment> \<open>\<open>peca_nome\<close> or \<open>carro_nome\<close>\<close>
  so_equipe :: string
  so_status :: string

datatype vista_solicitacoes = SemVista | NenhumaSolicitacao | CartoesSolicitacoes "(string \<times> bool \<times> string) list"
  \<comment> \<open>title, pending (with the approve button), id\<close>

definition renderizar_solicitacoes :: "solicitacao list \<Rightarrow> vista_solicitacoes" where
  "renderizar_solicitacoes ss =
     (if ss = [] then NenhumaSolicitacao
      else CartoesSolicitacoes (map (\<lambda>s. (so_titulo s, so_status s = ''pendente'', so_id s)) ss))"

record cache_st =
  cs_cache :: "solicitacao list option"    \<comment> \<open>\<open>_cacheSolicitacoesPecas\<close>\<close>
  cs_vista :: vista_solicitacoes           \<comment> \<open>the contents of the list\<close>

text \<open>\<open>carregarSolicitacoes()\<close> with the list read; \<open>existe\<close> tells whether
  \<open>#listaSolicitacoesPecas\<close> is in the page.  The cache is written before the
  container is looked up.\<close>

definition carregar_solicitacoes :: "bool \<Rightarrow> solicitacao list \<Rightarrow> cache_st \<Rightarrow> cache_st" where
  "carregar_solicitacoes existe ss s =
     (if cs_cache s = Some ss then s
      else s\<lparr>cs_cache := Some ss,
             cs_vista := (if existe then renderizar_solicitacoes ss else cs_vista s)\<rparr>)"

text \<open>\<open>carregarSolicitacoesCarros()\<close> has the same body over the car requests
  (titles from \<open>carro_nome\<close>) and its own cache.\<close>

definition carregar_solicitacoes_carros :: "bool \<Rightarrow> solicitacao list \<Rightarrow> cache_st \<Rightarrow> cache_st" where
  "carregar_solicitacoes_carros = carregar_solicitacoes"

datatype efeito_sol = PostProcessarSolicitacao string | PostAprovarAtivacaoCarro string
  | ToastAprovada | ToastCarroAprovada | RecarregarSolicitacoes | RecarregarSolicitacoesCarros
  | ToastErroSol string | ToastErroAprovar

definition aprovar_solicitacao :: "string \<Rightarrow> resposta_cad \<Rightarrow> efeito_sol list" where
  "aprovar_solicitacao sid r =
     PostProcessarSolicitacao sid #
     (case r of
        CadSucesso \<Rightarrow> [ToastAprovada, RecarregarSolicitacoes]
      | CadFalha e \<Rightarrow> [ToastErroSol (''Erro: '' @ js_str e)]
      | CadExcecao \<Rightarrow> [ToastErroAprovar])"

definition aprovar_solicitacao_carro :: "string \<Rightarrow> resposta_cad \<Rightarrow> efeito_sol list" where
  "aprovar_solicitacao_carro sid r =
     PostAprovarAtivacaoCarro sid #
     (case r of
        CadSucesso \<Rightarrow> [ToastCarroAprovada, RecarregarSolicitacoesCarros]
      | CadFalha e \<Rightarrow> [ToastErroSol (''Erro: '' @ js_str e)]
      | CadExcecao \<Rightarrow> [ToastErroAprovar])"

definition cache_inicial :: cache_st where
  "cache_inicial = \<lparr>cs_cache = None, cs_vista = SemVista\<rparr>"

definition pedido_1 :: solicitacao where
  "pedido_1 = \<lparr>so_id = ''1'', so_titulo = ''Turbo'', so_equipe = ''Alpha'', so_status = ''pendente''\<rparr>"

subsection \<open>The pending counters\<close>

text \<open>\<open>window.atualizarContadoresSolicitacoesAdmin()\<close> (script.js lines 17--31):
  each answer of \<open>Promise.all\<close> is an array (the \<open>status\<close> of each request), any
  other value (counted as 0), or a thrown request or body, which aborts the
  whole update.  A counter element is its text, \<open>None\<close> when it is missing; the
  text is written only when it differs from \<open>String(n)\<close>.\<close>

datatype resposta_contador = ContadorLista "string option list" | ContadorOutro | ContadorExcecao

definition conta_pendentes :: "resposta_contador \<Rightarrow> nat" where
  "conta_pendentes r = (case r of ContadorLista ss \<Rightarrow> length (filter (\<lambda>st. st = Some ''pendente'') ss) | _ \<Rightarrow> 0)"

definition atualiza_contador :: "nat \<Rightarrow> string option \<Rightarrow> string option" where
  "atualiza_contador n el =
     (case el of None \<Rightarrow> None | Some t \<Rightarrow> (if t \<noteq> string_of_nat n then Some (string_of_nat n) else Some t))"

definition atualizar_contadores ::
  "resposta_contador \<Rightarrow> resposta_contador \<Rightarrow> string option \<Rightarrow> string option \<Rightarrow> string option \<times> string option" where
  "atualizar_contadores rp rc ep ec =
     (if rp = ContadorExcecao \<or> rc = ContadorExcecao then (ep, ec)
      else (atualiza_contador (conta_pendentes rp) ep, atualiza_contador (conta_pendentes rc) ec))"

subsection \<open>Lemmas\<close>

text \<open>The team's car select offers exactly the models with a complete
  variation; the variation select offers every model.\<close>

lemma carros_pra_equipe_completos:
  "carros_pra_equipe (Some cs) = Some (oe, ov) \<Longrightarrow>
   set oe = (\<lambda>c. (ca_id c, rotulo_carro c)) `
              {c \<in> set cs. \<exists>v \<in> set (case ca_variacoes c of Some vs \<Rightarrow> vs | None \<Rightarrow> []). variacao_completa v}
   \<and> ov = map (\<lambda>c. (ca_id c, rotulo_carro c)) cs"
proof -
  assume "carros_pra_equipe (Some cs) = Some (oe, ov)"
  then have "oe = map (\<lambda>c. (ca_id c, rotulo_carro c)) (filter (\<lambda>c. list_ex variacao_completa (case ca_variacoes c of Some vs \<Rightarrow> vs | None \<Rightarrow> [])) cs)"
     and "ov = map (\<lambda>c. (ca_id c, rotulo_carro c)) cs"
    by (simp_all add: carros_pra_equipe_def)
  then show ?thesis unfolding list_ex_iff set_map set_filter by simp
qed

text \<open>A balance typed as an integer is posted as that number; one that is not a
  number is posted as \<open>null\<close>, and so is \<open>Infinity\<close>.\<close>

lemma doricoins_inteiro: "json_float (js_string_int i) = JsonNum (of_int i)"
  by (simp add: json_float_def parse_float_js_string_int json_numero_def)

lemma doricoins_nulos:
  "json_float ''abc'' = JsonNull \<and> json_float ''Infinity'' = JsonNull"
  by (simp add: json_float_def parse_float_def decimal_sem_sinal_def espaco_js_def valor_digito_def json_numero_def)

lemma cadastrar_saldo_invalido:
  "cadastrar_equipe (Some ''Alpha'') (Some ''abc'') (Some ''x'') None None r
     = PostCadastrarEquipe \<lparr>ce_nome = ''Alpha'', ce_doricoins = JsonNull, ce_senha = ''x'', ce_serie = ''A'', ce_carro = None\<rparr>
       # tl (cadastrar_equipe (Some ''Alpha'') (Some ''abc'') (Some ''x'') None None r)"
proof -
  have "trim ''Alpha'' = ''Alpha''" "trim ''x'' = ''x''" by (simp_all add: trim_def espaco_js_def)
  then show ?thesis
    using doricoins_nulos by (simp add: cadastrar_equipe_def dados_cadastro_def valor_campo_def Let_def)
qed

text \<open>The list shows the last requests read as long as it was in the page at
  every load.\<close>

lemma cache_vista_inv:
  "cs_vista s = (case cs_cache s of Some ss \<Rightarrow> renderizar_solicitacoes ss | None \<Rightarrow> SemVista) \<Longrightarrow>
   cs_vista (carregar_solicitacoes True ss s) = renderizar_solicitacoes ss
   \<and> cs_cache (carregar_solicitacoes True ss s) = Some ss"
  by (auto simp: carregar_solicitacoes_def)

lemma cache_mostra_ultima:
  "xs \<noteq> [] \<Longrightarrow>
   cs_vista (foldl (\<lambda>s ss. carregar_solicitacoes True ss s) cache_inicial xs) = renderizar_solicitacoes (last xs)"
proof (induction xs rule: rev_induct)
  case Nil
  then show ?case by simp
next
  case (snoc x xs)
  let ?s = "foldl (\<lambda>s ss. carregar_solicitacoes True ss s) cache_inicial xs"
  have "cs_vista ?s = (case cs_cache ?s of Some ss \<Rightarrow> renderizar_solicitacoes ss | None \<Rightarrow> SemVista)"
  proof (cases "xs = []")
    case True
    then show ?thesis by (simp add: cache_inicial_def)
  next
    case False
    have "cs_cache (foldl (\<lambda>s ss. carregar_solicitacoes True ss s) cache_inicial ys) = (if ys = [] then None else Some (last ys))" for ys
      by (induction ys rule: rev_induct) (auto simp: cache_inicial_def carregar_solicitacoes_def)
    then show ?thesis using snoc.IH False by simp
  qed
  then show ?case using cache_vista_inv by simp
qed

text \<open>Read once while the list is not in the page, the same requests are never
  shown: the second load finds them in the cache and returns.\<close>

lemma cache_sem_container:
  "cs_vista (carregar_solicitacoes True [pedido_1] (carregar_solicitacoes False [pedido_1] cache_inicial)) = SemVista"
  by (simp add: carregar_solicitacoes_def cache_inicial_def)

text \<open>Writing only when the text changed is the same as always writing: after
  an update without error each counter present shows its number of pending
  requests, and a second update with the same answers changes nothing.\<close>

lemma atualiza_contador_escreve: "atualiza_contador n el = map_option (\<lambda>_. string_of_nat n) el"
  by (cases el) (simp_all add: atualiza_contador_def)

lemma contadores_idempotentes:
  assumes "rp \<noteq> ContadorExcecao" "rc \<noteq> ContadorExcecao"
  shows "atualizar_contadores rp rc ep ec = (map_option (\<lambda>_. string_of_nat (conta_pendentes rp)) ep,
                                              map_option (\<lambda>_. string_of_nat (conta_pendentes rc)) ec)
         \<and> (case atualizar_contadores rp rc ep ec of (ep', ec') \<Rightarrow> atualizar_contadores rp rc ep' ec')
             = atualizar_contadores rp rc ep ec"
  using assms by (simp add: atualizar_contadores_def atualiza_contador_escreve option.map_comp o_def)

end
