(* ===== verification/ShopCars.thy ===== *)
theory ShopCars
  imports TeamData ShopListing
begin

text \<open>
  The car listing of the shop (src/static/script.js, lines 502--530 and
  821--995): \<open>carregarCarrosLoja\<close> reads \<open>/api/loja/carros\<close> into the global
  \<open>carros\<close>, skips the drawing when the body equals \<open>_cacheCarrosLoja\<close>, and
  \<open>renderizarCarros\<close> draws one card per variation of a car (or one card for
  a car without variations) whose buy button calls \<open>abrirConfirmacao\<close> of
  PurchaseFlows.  \<open>carregarPecasLoja\<close> is the same loader over the parts and
  \<open>renderizarPecas\<close> of ShopListing.  The bodies are the \<open>corpo\<close> values of
  TeamData.
\<close>

record pecas_variacao =
  pv_motor :: "string option"
  pv_cambio :: "string option"
  pv_suspensao :: "string option"
  pv_kit_angulo :: "string option"
  pv_diferencial :: "string option"

record variacao_loja =
  vl_id :: string
  vl_valor :: money
  vl_pecas :: "pecas_variacao option"

record carro_loja =
  cl_id :: string
  cl_marca :: "string option"
  cl_modelo :: "string option"
  cl_preco :: money
  cl_imagem :: "string option"
  cl_variacoes :: "variacao_loja list option"

text \<open>A line of the parts box: the part's name, or the red text that it is
  missing.\<close>

datatype linha_peca_var = PecaTem string | PecaSem

definition linha_de :: "string option \<Rightarrow> linha_peca_var" where
  "linha_de v = (if js_truthy_str v then PecaTem (the v) else PecaSem)"

definition linhas_pecas :: "pecas_variacao \<Rightarrow> linha_peca_var list" where
  "linhas_pecas p = map linha_de [pv_motor p, pv_cambio p, pv_suspensao p, pv_kit_angulo p, pv_diferencial p]"

text \<open>A card: header, image (source and \<open>alt\<close>), make, parts box, price and the
  arguments its buy button passes to \<open>abrirConfirmacao(id, tipo, nome, preco,
  ehVariacao)\<close>.\<close>

record cartao_carro =
  cc_titulo :: string
  cc_imagem :: "(string \<times> string) option"
  cc_marca :: string
  cc_pecas :: "linha_peca_var list option"
  cc_preco :: money
  cc_compra :: "string \<times> string \<times> string \<times> money \<times> bool"

definition imagem_de :: "carro_loja \<Rightarrow> (string \<times> string) option" where
  "imagem_de c = (if js_truthy_str (cl_imagem c) then Some (the (cl_imagem c), js_str (cl_marca c) @ '' '' @ js_str (cl_modelo c)) else None)"

text \<open>\<open>`${carro.modelo} (V${idxVar + 1})`\<close>.\<close>

definition titulo_variacao :: "carro_loja \<Rightarrow> nat \<Rightarrow> string" where
  "titulo_variacao c i = js_str (cl_modelo c) @ '' (V'' @ string_of_nat (Suc i) @ '')''"

definition cartao_variacao :: "carro_loja \<Rightarrow> nat \<times> variacao_loja \<Rightarrow> cartao_carro" where
  "cartao_variacao c iv =
     (let (i, v) = iv
      in \<lparr>cc_titulo = titulo_variacao c i, cc_imagem = imagem_de c, cc_marca = js_str (cl_marca c),
          cc_pecas = map_option linhas_pecas (vl_pecas v), cc_preco = vl_valor v,
          cc_compra = (vl_id v, ''carro'', titulo_variacao c i, vl_valor v, True)\<rparr>)"

text \<open>A car without variations: \<open>header.textContent = carro.modelo\<close> (an absent
  model gives an empty header), and the button passes \<open>carro.id\<close> and
  \<open>carro.preco\<close>.\<close>

definition cartao_simples :: "carro_loja \<Rightarrow> cartao_carro" where
  "cartao_simples c =
     \<lparr>cc_titulo = (case cl_modelo c of Some m \<Rightarrow> m | None \<Rightarrow> []), cc_imagem = imagem_de c,
      cc_marca = js_str (cl_marca c), cc_pecas = None, cc_preco = cl_preco c,
      cc_compra = (cl_id c, ''carro'', js_str (cl_modelo c), cl_preco c, False)\<rparr>"

definition variacoes_de :: "carro_loja \<Rightarrow> variacao_loja list" where
  "variacoes_de c = (case cl_variacoes c of Some vs \<Rightarrow> vs | None \<Rightarrow> [])"

definition cartoes_carro :: "carro_loja \<Rightarrow> cartao_carro list" where
  "cartoes_carro c = (if variacoes_de c \<noteq> [] then map (cartao_variacao c) (enumerate 0 (variacoes_de c)) else [cartao_simples c])"

datatype vista_carros = NenhumCarro | CartoesCarros "cartao_carro list"
  \<comment> \<open>\<open>Nenhum carro dispon\<acute>ivel\<close>, or the cards\<close>

text \<open>\<open>renderizarCarros()\<close> with \<open>#carrosGrid\<close> in the page; \<open>None\<close> when it
  throws after emptying the grid.  A body that is not an array is read by its
  JSON text: the empty string has \<open>length\<close> 0; every other value throws, in
  \<open>.length\<close> (\<open>null\<close>) or in \<open>.forEach\<close> (objects are taken without a
  \<open>length\<close> field).\<close>

text \<open>The JSON text of the empty string: two double quotes.\<close>

definition json_texto_vazio :: string where
  "json_texto_vazio = [CHR 0x22, CHR 0x22]"

definition renderizar_carros :: "carro_loja corpo \<Rightarrow> vista_carros option" where
  "renderizar_carros b =
     (case b of
        CorpoLista [] \<Rightarrow> Some NenhumCarro
      | CorpoLista cs \<Rightarrow> Some (CartoesCarros (concat (map cartoes_carro cs)))
      | CorpoOutro t \<Rightarrow> (if t = json_texto_vazio then Some NenhumCarro else None))"

text \<open>The JSON texts of the falsy values that are not arrays.\<close>

definition json_falsy :: "string \<Rightarrow> bool" where
  "json_falsy t = (t \<in> {''null'', ''0'', ''false'', json_texto_vazio})"

text \<open>\<open>renderizarPecas()\<close> of ShopListing on the global \<open>pecas\<close>: a falsy body
  shows \<open>Carregando pecas\<close>, another value that is not an array throws in
  \<open>.filter\<close> or \<open>.forEach\<close>.\<close>

definition renderizar_pecas_corpo :: "string \<Rightarrow> carro_garagem list option \<Rightarrow> peca_loja corpo \<Rightarrow> listagem option" where
  "renderizar_pecas_corpo filtro cs b =
     (case b of
        CorpoLista ps \<Rightarrow> Some (renderizar_pecas filtro ps cs)
      | CorpoOutro t \<Rightarrow> (if json_falsy t then Some CarregandoPecas else None))"

datatype 'v grade = GradeInicial | GradeDesenhada 'v | GradeLimpa

record ('b, 'v) grade_loja_st =
  lj_global :: "'b corpo option"     \<comment> \<open>the global \<open>carros\<close> or \<open>pecas\<close>\<close>
  lj_cache :: "'b corpo option"      \<comment> \<open>\<open>_cacheCarrosLoja\<close> or \<open>_cachePecasLoja\<close>\<close>
  lj_grade :: "'v grade"

datatype 'b resposta_loja = LojaOk "'b corpo" | LojaFalha
  \<comment> \<open>\<open>LojaFalha\<close>: a network error or a body that is not JSON\<close>

text \<open>The body of \<open>carregarCarrosLoja()\<close> and \<open>carregarPecasLoja()\<close>:
  \<open>existe\<close> tells whether the grid is in the page (the renderers return
  at once without it); the flag is the error toast.  The global is written
  first, then the cache; a throw of the renderer clears the cache.\<close>

definition carregar_loja ::
  "('b corpo \<Rightarrow> 'v option) \<Rightarrow> bool \<Rightarrow> 'b resposta_loja \<Rightarrow> ('b, 'v) grade_loja_st \<Rightarrow> ('b, 'v) grade_loja_st \<times> bool" where
  "carregar_loja render existe r s =
     (case r of
        LojaFalha \<Rightarrow> (s\<lparr>lj_cache := None\<rparr>, True)
      | LojaOk b \<Rightarrow>
          (let s1 = s\<lparr>lj_global := Some b\<rparr>
           in if lj_cache s = Some b then (s1, False)
              else if \<not> existe then (s1\<lparr>lj_cache := Some b\<rparr>, False)
              else case render b of
                     Some v \<Rightarrow> (s1\<lparr>lj_cache := Some b, lj_grade := GradeDesenhada v\<rparr>, False)
                   | None \<Rightarrow> (s1\<lparr>lj_cache := None, lj_grade := GradeLimpa\<rparr>, True)))"

definition carregar_carros_loja ::
  "bool \<Rightarrow> carro_loja resposta_loja \<Rightarrow> (carro_loja, vista_carros) grade_loja_st \<Rightarrow> (carro_loja, vista_carros) grade_loja_st \<times> bool" where
  "carregar_carros_loja = carregar_loja renderizar_carros"

definition carregar_pecas_loja ::
  "string \<Rightarrow> carro_garagem list option \<Rightarrow> bool \<Rightarrow> peca_loja resposta_loja
   \<Rightarrow> (peca_loja, listagem) grade_loja_st \<Rightarrow> (peca_loja, listagem) grade_loja_st \<times> bool" where
  "carregar_pecas_loja filtro cs = carregar_loja (renderizar_pecas_corpo filtro cs)"

text \<open>Clicking the buy button of a card.\<close>

definition clicar_comprar :: "money option \<Rightarrow> cartao_carro \<Rightarrow> compra_pendente \<Rightarrow> compra_pendente \<times> efeito_compra1 list" where
  "clicar_comprar saldo k cp =
     (let (pid, tipo, nome, preco, var) = cc_compra k in abrir_confirmacao saldo pid tipo nome preco var cp)"

definition compra_de :: "cartao_carro \<Rightarrow> string \<times> money" where
  "compra_de k = (case cc_compra k of (pid, _, _, preco, _) \<Rightarrow> (pid, preco))"

definition de_variacao :: "cartao_carro \<Rightarrow> bool" where
  "de_variacao k = (case cc_compra k of (_, _, _, _, var) \<Rightarrow> var)"

subsection \<open>Lemmas\<close>

lemma cartoes_carro_compras:
  "map compra_de (filter de_variacao (cartoes_carro c)) = map (\<lambda>v. (vl_id v, vl_valor v)) (variacoes_de c)
   \<and> map compra_de (filter (Not \<circ> de_variacao) (cartoes_carro c))
       = (if variacoes_de c = [] then [(cl_id c, cl_preco c)] else [])"
proof -
  have f: "filter de_variacao (map (cartao_variacao c) ps) = map (cartao_variacao c) ps" for ps
    by (induction ps) (auto simp: de_variacao_def cartao_variacao_def split: prod.splits)
  have g: "filter (Not \<circ> de_variacao) (map (cartao_variacao c) ps) = []" for ps
    by (induction ps) (auto simp: de_variacao_def cartao_variacao_def split: prod.splits)
  have h: "map (compra_de \<circ> cartao_variacao c) ps = map (\<lambda>x. (vl_id (snd x), vl_valor (snd x))) ps" for ps
    by (induction ps) (auto simp: compra_de_def cartao_variacao_def split: prod.splits)
  show ?thesis
    using map_enumerate_snd [of "\<lambda>v. (vl_id v, vl_valor v)" 0 "variacoes_de c"]
    by (simp add: cartoes_carro_def f g h de_variacao_def compra_de_def cartao_simples_def)
qed

text \<open>The variation buttons of the grid buy exactly the variations of the
  cars, in order, each at its own price; the other buttons buy exactly the cars
  without variations, at the car's price.\<close>

lemma grade_compras:
  "renderizar_carros (CorpoLista cs) = Some (CartoesCarros ks) \<Longrightarrow>
   map compra_de (filter de_variacao ks) = concat (map (\<lambda>c. map (\<lambda>v. (vl_id v, vl_valor v)) (variacoes_de c)) cs)
   \<and> map compra_de (filter (Not \<circ> de_variacao) ks) = map (\<lambda>c. (cl_id c, cl_preco c)) (filter (\<lambda>c. variacoes_de c = []) cs)"
proof -
  assume r: "renderizar_carros (CorpoLista cs) = Some (CartoesCarros ks)"
  then have "ks = concat (map cartoes_carro cs)"
    by (cases cs) (auto simp: renderizar_carros_def cartoes_carro_def)
  then show ?thesis
    by (induction cs arbitrary: ks) (auto simp: cartoes_carro_compras)
qed

text \<open>Every variation can be bought from a card showing its price: with the
  balance to pay it, the card's button stores that variation as the pending
  purchase.\<close>

lemma comprar_variacao:
  assumes "v \<in> set (variacoes_de c)" and "vl_valor v \<le> saldo"
  shows "\<exists>k \<in> set (cartoes_carro c). cc_preco k = vl_valor v
           \<and> fst (clicar_comprar (Some saldo) k cp)
               = cp\<lparr>cpd_id := Some (vl_id v), cpd_tipo := Some ''carro'', cpd_nome := cc_titulo k,
                    cpd_preco := vl_valor v, cpd_carro := None, cpd_variacao := True, cpd_compat := None\<rparr>"
proof -
  obtain i where i: "(i, v) \<in> set (enumerate 0 (variacoes_de c))"
    using assms(1) by (metis in_set_conv_nth nth_enumerate_eq length_enumerate nth_mem add_0)
  let ?k = "cartao_variacao c (i, v)"
  have "?k \<in> set (cartoes_carro c)" using i assms(1) by (auto simp: cartoes_carro_def)
  moreover have "cc_preco ?k = vl_valor v" by (simp add: cartao_variacao_def)
  moreover have "fst (clicar_comprar (Some saldo) ?k cp)
      = cp\<lparr>cpd_id := Some (vl_id v), cpd_tipo := Some ''carro'', cpd_nome := cc_titulo ?k,
           cpd_preco := vl_valor v, cpd_carro := None, cpd_variacao := True, cpd_compat := None\<rparr>"
    using assms(2) by (simp add: clicar_comprar_def cartao_variacao_def abrir_confirmacao_def not_less)
  ultimately show ?thesis by blast
qed

end
