(* ===== verification/GarageLoad.thy ===== *)
theory GarageLoad
  imports TeamData JsNumbers
begin

text \<open>
  The garage loader \<open>carregarGaragem\<close> (src/static/script.js, lines 544--652)
  with its cache \<open>_cacheGaragem\<close> (line 12): it reads the garage, the
  warehouse and the car and part requests, keeps the requests of the team
  that are pending, stores the garage in \<open>window.garagemAtual\<close> and, when
  the whole payload differs from the cached one, redraws the garage and
  starts \<open>atualizarUICarrinho\<close>, \<open>atualizarUICarrinhoArmazem\<close> and
  \<open>carregarProximaEtapa\<close>.  The team id of the session is the string of
  \<open>localStorage\<close>; the ids of the requests are JSON numbers or strings.
\<close>

datatype id_json = IdNum int | IdTexto string

text \<open>\<open>String(x)\<close> of a JSON id that may be absent.\<close>

definition id_str :: "id_json option \<Rightarrow> string" where
  "id_str x = (case x of Some (IdNum n) \<Rightarrow> js_string_int n | Some (IdTexto t) \<Rightarrow> t | None \<Rightarrow> ''undefined'')"

record solicitacao_eq =
  se_equipe :: "id_json option"
  se_status :: "string option"
  se_nome :: "string option"

datatype resposta_sol = SolOk "solicitacao_eq corpo" | SolNaoOk | SolExcecao

text \<open>The car requests: \<open>sol.equipe_id === equipeId\<close> (strict), in an inner
  \<open>try\<close> that leaves \<open>[]\<close> on any error, a body that is not an array included.\<close>

definition pendentes_carros :: "string \<Rightarrow> resposta_sol \<Rightarrow> solicitacao_eq list" where
  "pendentes_carros eq r =
     (case r of
        SolOk (CorpoLista ss) \<Rightarrow> filter (\<lambda>s. se_equipe s = Some (IdTexto eq) \<and> se_status s = Some ''pendente'') ss
      | _ \<Rightarrow> [])"

text \<open>The part requests: \<open>String(sol.equipe_id) === String(equipeId)\<close>.\<close>

definition pendentes_pecas :: "string \<Rightarrow> resposta_sol \<Rightarrow> solicitacao_eq list" where
  "pendentes_pecas eq r =
     (case r of
        SolOk (CorpoLista ss) \<Rightarrow> filter (\<lambda>s. id_str (se_equipe s) = eq \<and> se_status s = Some ''pendente'') ss
      | _ \<Rightarrow> [])"

record carro_gl =
  cg_dados :: string                   \<comment> \<open>the other fields, as JSON\<close>
  cg_pecas :: "string list option"     \<comment> \<open>\<open>pecas\<close>, absent or \<open>null\<close> as \<open>None\<close>\<close>

datatype resposta_gar = GarObjeto "carro_gl list option" | GarNulo | GarNaoOk | GarExcecao
  \<comment> \<open>an object with \<open>carros\<close> (\<open>None\<close> when it is not an array), a falsy body, a
      status that is not ok, a thrown error\<close>

record armazem_gl =
  ar_pecas :: "string list option"     \<comment> \<open>\<open>pecas_guardadas\<close>\<close>
  ar_total :: "int option"

datatype resposta_arm = ArmOk armazem_gl | ArmNaoOk | ArmExcecao

definition armazem_padrao :: armazem_gl where
  "armazem_padrao = \<lparr>ar_pecas = Some [], ar_total = Some 0\<rparr>"

text \<open>The warehouse: the default when the status is not ok; the body, with
  \<open>total\<close> set to the number of stored parts when there are any.\<close>

definition armazem_de :: "resposta_arm \<Rightarrow> armazem_gl option" where
  "armazem_de r =
     (case r of
        ArmOk a \<Rightarrow> Some (case ar_pecas a of Some (p # ps) \<Rightarrow> a\<lparr>ar_total := Some (int (length (p # ps)))\<rparr> | _ \<Rightarrow> a)
      | ArmNaoOk \<Rightarrow> Some armazem_padrao
      | ArmExcecao \<Rightarrow> None)"

text \<open>\<open>garagem.carros.map(carro => ({...carro, pecas: carro.pecas || []}))\<close>.\<close>

definition normaliza_carros :: "carro_gl list option \<Rightarrow> carro_gl list" where
  "normaliza_carros cs = map (\<lambda>c. c\<lparr>cg_pecas := Some (case cg_pecas c of Some ps \<Rightarrow> ps | None \<Rightarrow> [])\<rparr>)
                              (case cs of Some xs \<Rightarrow> xs | None \<Rightarrow> [])"

type_synonym payload_gar = "carro_gl list \<times> armazem_gl \<times> solicitacao_eq list \<times> solicitacao_eq list"

record garagem_st =
  gs_cache :: "payload_gar option"                   \<comment> \<open>\<open>_cacheGaragem\<close>\<close>
  gs_atual :: "(carro_gl list \<times> armazem_gl) option"  \<comment> \<open>\<open>window.garagemAtual\<close>\<close>

datatype efeito_gar = RenderizarGaragem payload_gar | AtualizarUICarrinho | AtualizarUICarrinhoArmazem
  | CarregarProximaEtapa | ToastErroGaragem

text \<open>\<open>carregarGaragem()\<close> with the session's team id and the four answers.\<close>

definition carregar_garagem ::
  "string option \<Rightarrow> resposta_gar \<Rightarrow> resposta_arm \<Rightarrow> resposta_sol \<Rightarrow> resposta_sol \<Rightarrow> garagem_st
   \<Rightarrow> garagem_st \<times> efeito_gar list" where
  "carregar_garagem sessao rg ra rsc rsp s =
     (if \<not> js_truthy_str sessao then (s, [])
      else
        (let erro = (s\<lparr>gs_cache := None\<rparr>, [ToastErroGaragem]);
             eq = the sessao
         in case rg of
              GarNaoOk \<Rightarrow> erro
            | GarExcecao \<Rightarrow> erro
            | _ \<Rightarrow>
                (case armazem_de ra of
                   None \<Rightarrow> erro
                 | Some a \<Rightarrow>
                     (let cs = normaliza_carros (case rg of GarObjeto x \<Rightarrow> x | _ \<Rightarrow> None);
                          p = (cs, a, pendentes_carros eq rsc, pendentes_pecas eq rsp);
                          s1 = s\<lparr>gs_atual := Some (cs, a)\<rparr>
                      in if gs_cache s = Some p then (s1, [])
                         else (s1\<lparr>gs_cache := Some p\<rparr>,
                               [RenderizarGaragem p, AtualizarUICarrinho, AtualizarUICarrinhoArmazem, CarregarProximaEtapa])))))"

definition pedido_carro_7 :: solicitacao_eq where
  "pedido_carro_7 = \<lparr>se_equipe = Some (IdNum 7), se_status = Some ''pendente'', se_nome = Some ''Turbo''\<rparr>"

subsection \<open>Lemmas\<close>

text \<open>A team whose requests the server identifies by number never sees its
  pending car requests: the strict comparison with the session's string fails;
  the same requests are found among the part requests, compared as strings.\<close>

lemma carros_com_id_numerico:
  "(\<forall>x \<in> set ss. \<exists>n. se_equipe x = Some (IdNum n)) \<Longrightarrow> pendentes_carros eq (SolOk (CorpoLista ss)) = []"
  by (auto simp: pendentes_carros_def filter_empty_conv)

lemma pecas_com_id_numerico:
  "x \<in> set ss \<Longrightarrow> se_equipe x = Some (IdNum n) \<Longrightarrow> se_status x = Some ''pendente'' \<Longrightarrow>
   x \<in> set (pendentes_pecas (js_string_int n) (SolOk (CorpoLista ss)))"
  by (simp add: pendentes_pecas_def id_str_def)

lemma pedido_7_so_nas_pecas:
  "pendentes_carros ''7'' (SolOk (CorpoLista [pedido_carro_7])) = []
   \<and> pendentes_pecas ''7'' (SolOk (CorpoLista [pedido_carro_7])) = [pedido_carro_7]"
proof -
  have "js_string_int 7 = ''7''" by (simp add: js_string_int_def string_of_nat.simps [of 7] char_of_def bit_simps)
  then show ?thesis by (simp add: pendentes_carros_def pendentes_pecas_def pedido_carro_7_def id_str_def)
qed

text \<open>Every car of the garage has a list of parts after the load.\<close>

lemma normaliza_carros_pecas: "c \<in> set (normaliza_carros cs) \<Longrightarrow> cg_pecas c \<noteq> None"
  by (auto simp: normaliza_carros_def split: option.splits)

text \<open>When the warehouse has stored parts, its \<open>total\<close> is their number.\<close>

lemma armazem_total:
  "armazem_de r = Some a \<Longrightarrow> ar_pecas a = Some ps \<Longrightarrow> ps \<noteq> [] \<Longrightarrow> ar_total a = Some (int (length ps))"
  by (auto simp: armazem_de_def armazem_padrao_def split: resposta_arm.splits option.splits list.splits)

definition carga_ok :: "string option \<Rightarrow> resposta_gar \<Rightarrow> resposta_arm \<Rightarrow> bool" where
  "carga_ok se rg ra = (js_truthy_str se \<and> rg \<noteq> GarNaoOk \<and> rg \<noteq> GarExcecao \<and> ra \<noteq> ArmExcecao)"

text \<open>A load that reads what the previous one read redraws nothing; after a
  failed load the next successful one always redraws.\<close>

lemma garagem_sem_mudanca:
  "carga_ok se rg ra \<Longrightarrow>
   snd (carregar_garagem se rg ra rsc rsp (fst (carregar_garagem se rg ra rsc rsp s))) = []"
  by (auto simp: carga_ok_def carregar_garagem_def armazem_de_def Let_def
           split: resposta_gar.splits resposta_arm.splits)

lemma garagem_apos_erro:
  "carga_ok se rg ra \<Longrightarrow>
   hd (snd (carregar_garagem se rg ra rsc rsp (fst (carregar_garagem se GarExcecao ra' rsc' rsp' s))))
     = RenderizarGaragem (normaliza_carros (case rg of GarObjeto x \<Rightarrow> x | _ \<Rightarrow> None), the (armazem_de ra),
                          pendentes_carros (the se) rsc, pendentes_pecas (the se) rsp)"
  by (auto simp: carga_ok_def carregar_garagem_def armazem_de_def Let_def
           split: resposta_gar.splits resposta_arm.splits)

end
