(* ===== verification/RestInstall.thy ===== *)
theory RestInstall
  imports WarehouseModal CartPollers
begin

text \<open>
  The end of a warehouse or cart purchase (src/static/script.js, lines
  3511--3641): \<open>instalarPecasRepouso\<close>, called once per car at rest by the loop
  of \<open>processarPecasParaRepousoModal\<close> (lines 3495--3503), the unused
  \<open>criarSolicitacoesModalPecas\<close>, and the modal of a finished purchase
  (\<open>mostrarModalCompraFinalizada\<close>, \<open>fecharModalCompraFinalizada\<close>), which
  reads and clears \<open>window.tipo_transacao_atual\<close>, the field \<open>tipo_atual\<close> of the
  PIX modals of CartPollers.
\<close>

subsection \<open>Installing parts in a car at rest\<close>

text \<open>The body of the request: \<open>{nome, tipo, pix_id}\<close> of each part.\<close>

definition carga_repouso :: "peca_guardada_m list \<Rightarrow> (string \<times> string \<times> string option) list" where
  "carga_repouso ps = map (\<lambda>p. (pm_nome p, pm_tipo p, pm_pix_id p)) ps"

datatype resposta_inst = InstOk "string option" | InstFalha "string option" | InstExcecao string
  \<comment> \<open>\<open>sucesso\<close> with \<open>pecas_instaladas\<close>; a failure with \<open>erro\<close>; a thrown error's message\<close>

datatype efeito_inst =
    PostRepouso string "(string \<times> string \<times> string option) list"
  | PostSolicitacoesModal string "(string \<times> string \<times> int option \<times> string option) list" bool
  | ToastInstaladas string | ToastSolicitacoesCriadas string | RecarregarGaragemInst
  | ToastErroInst string

definition erro_inst :: "resposta_inst \<Rightarrow> efeito_inst list" where
  "erro_inst r = (case r of InstFalha e \<Rightarrow> [ToastErroInst (''Erro: '' @ js_or_str e ''Erro desconhecido'')]
                          | InstExcecao m \<Rightarrow> [ToastErroInst (''Erro: '' @ m)]
                          | InstOk _ \<Rightarrow> [])"

text \<open>\<open>instalarPecasRepouso(carroId, pecas)\<close>: every error is caught inside.\<close>

definition instalar_pecas_repouso :: "string \<Rightarrow> peca_guardada_m list \<Rightarrow> resposta_inst \<Rightarrow> efeito_inst list" where
  "instalar_pecas_repouso carro ps r =
     PostRepouso carro (carga_repouso ps) #
     (case r of InstOk n \<Rightarrow> [ToastInstaladas (js_str n), RecarregarGaragemInst] | _ \<Rightarrow> erro_inst r)"

text \<open>The loop \<open>for (const [carroId, pecasDoCarrro] of Object.entries(porCarro))
  await instalarPecasRepouso(...)\<close>; \<open>rs i\<close> is the answer to the \<open>i\<close>-th request.\<close>

fun instalar_grupos :: "(nat \<Rightarrow> resposta_inst) \<Rightarrow> nat \<Rightarrow> (string \<times> peca_guardada_m list) list \<Rightarrow> efeito_inst list" where
  "instalar_grupos rs i [] = []"
| "instalar_grupos rs i ((c, ps) # gs) = instalar_pecas_repouso c ps (rs i) @ instalar_grupos rs (Suc i) gs"

text \<open>\<open>criarSolicitacoesModalPecas(carroId, pecas, comPix)\<close>, with
  \<open>{nome, tipo, quantidade, pix_id}\<close> of each part; no code of the repository
  calls it.\<close>

record peca_solicitada =
  ps_nome :: string
  ps_tipo :: string
  ps_quantidade :: "int option"
  ps_pix_id :: "string option"

definition criar_solicitacoes_modal_pecas ::
  "string \<Rightarrow> peca_solicitada list \<Rightarrow> bool \<Rightarrow> resposta_inst \<Rightarrow> efeito_inst list" where
  "criar_solicitacoes_modal_pecas carro ps com_pix r =
     PostSolicitacoesModal carro (map (\<lambda>p. (ps_nome p, ps_tipo p, ps_quantidade p, ps_pix_id p)) ps) com_pix #
     (case r of InstOk n \<Rightarrow> [ToastSolicitacoesCriadas (js_str n), RecarregarGaragemInst] | _ \<Rightarrow> erro_inst r)"

subsection \<open>The modal of a finished purchase\<close>

text \<open>Previous balance, amount spent and new balance.\<close>

datatype finalizada = Finalizada money money money

text \<open>\<open>mostrarModalCompraFinalizada(saldoAnterior, valorGasto)\<close>; \<open>existe\<close> tells
  whether \<open>#compraFinalizadaModal\<close> is in the page.  A regularization mark
  suppresses the modal once and is cleared.\<close>

definition mostrar_modal_compra_finalizada ::
  "bool \<Rightarrow> money \<Rightarrow> money \<Rightarrow> modais_st \<Rightarrow> modais_st \<times> finalizada option" where
  "mostrar_modal_compra_finalizada existe ant gasto s =
     (if tipo_atual s = Some ''regularizacao'' then (s\<lparr>tipo_atual := None\<rparr>, None)
      else if \<not> existe then (s, None)
      else (s, Some (Finalizada ant gasto (ant - gasto))))"

text \<open>\<open>fecharModalCompraFinalizada()\<close> hides the shown modal.\<close>

definition fechar_modal_compra_finalizada :: "finalizada option \<Rightarrow> finalizada option" where
  "fechar_modal_compra_finalizada m = None"

text \<open>The events that leave the mark alone: poller rounds and the cart's PIX
  modal.\<close>

definition mantem_tipo :: "evento_modal \<Rightarrow> bool" where
  "mantem_tipo e = (case e of Rodada _ _ \<Rightarrow> True | AbrirModal MCarrinho _ \<Rightarrow> True | _ \<Rightarrow> False)"

definition dados_tx :: "txid \<Rightarrow> dados_modal" where
  "dados_tx tx = \<lparr>dm_transacao_id = Some tx, dm_equipe_id = Some ''7'', dm_etapa_id = Some ''3''\<rparr>"

subsection \<open>Lemmas\<close>

lemma instalar_grupos_posts:
  "filter (\<lambda>e. case e of PostRepouso _ _ \<Rightarrow> True | _ \<Rightarrow> False) (instalar_grupos rs i gs)
   = map (\<lambda>(c, ps). PostRepouso c (carga_repouso ps)) gs"
  by (induction rs i gs rule: instalar_grupos.induct)
     (auto simp: instalar_pecas_repouso_def erro_inst_def split: resposta_inst.splits option.splits)

text \<open>Each car at rest chosen in the modal receives exactly one request, with
  exactly its parts, whatever the answers to the other cars were.\<close>

lemma repouso_um_post_por_carro:
  "filter (\<lambda>e. case e of PostRepouso _ _ \<Rightarrow> True | _ \<Rightarrow> False) (instalar_grupos rs 0 (agrupa_por_carro xs))
   = map (\<lambda>(c, ps). PostRepouso c (carga_repouso ps)) (agrupa_por_carro xs)
   \<and> distinct (map fst (agrupa_por_carro xs))"
  using instalar_grupos_posts agrupa_distinct by blast

lemma rodada_modal_tipo: "rodada_modal h r s = Some s' \<Longrightarrow> tipo_atual s' = tipo_atual s"
  by (auto simp: rodada_modal_def split: if_splits prod.splits)

lemma executa_modais_tipo:
  "executa_modais s es = Some s' \<Longrightarrow> \<forall>e \<in> set es. mantem_tipo e \<Longrightarrow> tipo_atual s' = tipo_atual s"
proof (induction s es rule: executa_modais.induct)
  case (2 s e es)
  then obtain s1 where s1: "passo_modais s e = Some s1" and r: "executa_modais s1 es = Some s'"
    by (auto split: option.splits)
  have "tipo_atual s1 = tipo_atual s"
    using s1 "2.prems"(2) rodada_modal_tipo
    by (cases e) (auto simp: mantem_tipo_def abrir_modal_def Let_def split: modal_pix.splits)
  then show ?case using "2.IH" [OF s1 r] "2.prems"(2) by simp
qed simp

text \<open>Once the PIX modal of a stage regularization has been opened, whatever
  the poller rounds and cart PIX modals that follow (the regularization poller
  included, approval or not), the next finished purchase shows no modal and only
  clears the mark; the one after it is shown.\<close>

lemma regularizacao_engole_finalizada:
  assumes "executa_modais s (AbrirModal MRegularizacao d # es) = Some s'"
    and "js_truthy_str (dm_transacao_id d)" and "\<forall>e \<in> set es. mantem_tipo e"
  shows "snd (mostrar_modal_compra_finalizada existe ant gasto s') = None
         \<and> snd (mostrar_modal_compra_finalizada True ant2 gasto2 (fst (mostrar_modal_compra_finalizada existe ant gasto s')))
             = Some (Finalizada ant2 gasto2 (ant2 - gasto2))"
proof -
  have "tipo_atual s' = tipo_atual (abrir_modal MRegularizacao d s)"
    using assms(1,3) executa_modais_tipo by auto
  then have "tipo_atual s' = Some ''regularizacao''"
    using assms(2) by (simp add: abrir_modal_def Let_def)
  then show ?thesis by (simp add: mostrar_modal_compra_finalizada_def)
qed

lemma cartao_apos_regularizacao:
  "executa_modais modais_inicial [AbrirModal MRegularizacao (dados_tx ''tx1''), AbrirModal MCarrinho (dados_tx ''tx2'')]
     = Some s' \<Longrightarrow> snd (mostrar_modal_compra_finalizada True 1000 200 s') = None"
  using regularizacao_engole_finalizada [of modais_inicial "dados_tx ''tx1''" "[AbrirModal MCarrinho (dados_tx ''tx2'')]" s']
  by (simp add: dados_tx_def js_truthy_str_def mantem_tipo_def)

end
