(* ===== verification/QualStage.thy ===== *)
theory QualStage
  imports QualRanking
begin

text \<open>
  The stage of the day in the admin page and the pits of a stage
  (src/static/qualificacao.js, lines 274--671 and 1040--1061):
  \<open>carregarEtapaHoje\<close>, \<open>preencherEtapaHoje\<close>, \<open>carregarEquipesETapaHoje\<close>,
  \<open>verificarStatusEtapa\<close>, \<open>preencherTabelaEquipes\<close>, \<open>mostrarPitsEtapa\<close>,
  \<open>exibirSemEtapaHoje\<close> and the \<open>DOMContentLoaded\<close> listener.  The page
  either has all of \<open>#infoEtapaHoje\<close>, \<open>#semEtapaHoje\<close>, \<open>#grupoEtapa\<close> and
  \<open>#botaoIniciarQualificacao\<close> (the admin page) or none of them.  The loads a
  handler starts are returned as effects; their answers are inputs of the
  handler that receives them.
\<close>

subsection \<open>The stage of the day\<close>

record etapa_hoje =
  eh_id :: string
  eh_campeonato :: "string option"
  eh_serie :: "string option"
  eh_numero :: "string option"
  eh_nome :: "string option"
  eh_hora :: "string option"

text \<open>Visibility of \<open>#infoEtapaHoje\<close>, \<open>#semEtapaHoje\<close>, \<open>#grupoEtapa\<close>,
  \<open>#botaoIniciarQualificacao\<close> and \<open>#containerVoltasAdmin\<close>, the texts of the
  stage fields and \<open>#etapaIdAtual\<close>.\<close>

record painel_hoje =
  ph_info :: bool
  ph_sem_etapa :: bool
  ph_grupo :: bool
  ph_botao :: bool
  ph_voltas :: bool
  ph_campos :: "string list"
  ph_etapa_id :: "string option"

datatype carga_hoje = VerificarStatus string | CarregarEquipesHoje string | CarregarTabelaVoltas string

text \<open>\<open>etapa.hora_etapa ? etapa.hora_etapa.substring(0, 5) : '-'\<close>.\<close>

definition hora_curta :: "string option \<Rightarrow> string" where
  "hora_curta h = (if js_truthy_str h then take 5 (the h) else ''-'')"

definition preencher_etapa_hoje :: "bool \<Rightarrow> etapa_hoje \<Rightarrow> painel_hoje \<Rightarrow> painel_hoje \<times> carga_hoje list" where
  "preencher_etapa_hoje admin e p =
     (if \<not> admin then (p, [])
      else (p\<lparr>ph_info := True, ph_sem_etapa := False,
              ph_campos := [js_str (eh_campeonato e), js_str (eh_serie e), js_str (eh_numero e),
                            js_str (eh_nome e), hora_curta (eh_hora e)],
              ph_etapa_id := Some (eh_id e)\<rparr>,
            [VerificarStatus (eh_id e), CarregarEquipesHoje (eh_id e)]))"

definition exibir_sem_etapa_hoje :: "bool \<Rightarrow> painel_hoje \<Rightarrow> painel_hoje" where
  "exibir_sem_etapa_hoje admin p =
     (if \<not> admin then p else p\<lparr>ph_info := False, ph_sem_etapa := True, ph_grupo := False, ph_botao := False\<rparr>)"

datatype resposta_hoje = HojeResp bool "etapa_hoje option" | HojeExcecao
  \<comment> \<open>\<open>data.sucesso\<close> and \<open>data.etapa\<close>; a thrown error\<close>

definition carregar_etapa_hoje :: "bool \<Rightarrow> resposta_hoje \<Rightarrow> painel_hoje \<Rightarrow> painel_hoje \<times> carga_hoje list" where
  "carregar_etapa_hoje admin r p =
     (case r of
        HojeResp True (Some e) \<Rightarrow> preencher_etapa_hoje admin e p
      | _ \<Rightarrow> (exibir_sem_etapa_hoje admin p, []))"

datatype resposta_status = StatusEtapa bool "string option" | StatusExcecao
  \<comment> \<open>\<open>data.sucesso\<close> and \<open>data.evento.etapa.status\<close> (\<open>None\<close> when a level is missing)\<close>

text \<open>\<open>verificarStatusEtapa(etapaId)\<close>: a running stage hides the start button
  and loads the laps table; anything else, errors included, shows the button.\<close>

definition verificar_status_etapa :: "string \<Rightarrow> resposta_status \<Rightarrow> painel_hoje \<Rightarrow> painel_hoje \<times> carga_hoje list" where
  "verificar_status_etapa eid r p =
     (case r of
        StatusEtapa True (Some st) \<Rightarrow>
          (if st = ''em_andamento'' then (p\<lparr>ph_grupo := False, ph_botao := False, ph_voltas := True\<rparr>, [CarregarTabelaVoltas eid])
           else (p\<lparr>ph_grupo := True, ph_botao := True, ph_voltas := False\<rparr>, []))
      | _ \<Rightarrow> (p\<lparr>ph_grupo := True, ph_botao := True, ph_voltas := False\<rparr>, []))"

text \<open>The \<open>DOMContentLoaded\<close> listener and the click on the qualification tab
  (after 100 ms): both run \<open>carregarEtapaHoje\<close>.\<close>

datatype gatilho_hoje = PaginaCarregada | CliqueAbaQualificacao

definition inicia_carga_hoje :: "bool \<Rightarrow> bool \<Rightarrow> gatilho_hoje \<Rightarrow> bool" where
  "inicia_carga_hoje tem_info tem_aba g = (case g of PaginaCarregada \<Rightarrow> tem_info | CliqueAbaQualificacao \<Rightarrow> tem_aba)"

subsection \<open>Pit cards\<close>

record equipe_pit =
  ep_nome :: "string option"
  ep_piloto :: "string option"
  ep_ordem :: "int option"        \<comment> \<open>\<open>ordem_qualificacao\<close>\<close>
  ep_status :: "string option"

definition maiuscula_ascii :: "char \<Rightarrow> char" where
  "maiuscula_ascii c = (if 97 \<le> (of_char c :: nat) \<and> (of_char c :: nat) \<le> 122 then char_of (of_char c - (32::nat)) else c)"

definition to_upper :: "string \<Rightarrow> string" where
  "to_upper s = map maiuscula_ascii s"

text \<open>\<open>eq.ordem_qualificacao ? String(o).padStart(2, '0')\<close>, or the em dash.\<close>

definition ordem_texto :: "int option \<Rightarrow> string" where
  "ordem_texto v = (case v of Some n \<Rightarrow> (if n = 0 then travessao else pad_start 2 CHR ''0'' (js_string_int n))
                            | None \<Rightarrow> travessao)"

text \<open>A pit card: number, qualifying order, team, pilot, status and whether
  the team has a pilot; \<open>None\<close> when \<open>eq.status.toUpperCase()\<close> throws.  The
  admin grid shows the pilot's first name, the modal the whole name.\<close>

definition cartao_pit :: "bool \<Rightarrow> nat \<Rightarrow> equipe_pit \<Rightarrow> (string \<times> string \<times> string \<times> string \<times> string \<times> bool) option" where
  "cartao_pit completo i e =
     (case ep_status e of
        None \<Rightarrow> None
      | Some st \<Rightarrow>
          Some (pad_start 2 CHR ''0'' (string_of_nat (Suc i)), ordem_texto (ep_ordem e), js_str (ep_nome e),
                (if js_truthy_str (ep_piloto e)
                 then (if completo then the (ep_piloto e) else takeWhile (\<lambda>c. c \<noteq> CHR '' '') (the (ep_piloto e)))
                 else ''VAZIO''),
                to_upper st, js_truthy_str (ep_piloto e)))"

text \<open>The cards appended one by one, and whether the loop threw (then the rest
  is missing and \<open>#containerEquipesPilotos\<close> is not shown).\<close>

fun cartoes_pits :: "bool \<Rightarrow> nat \<Rightarrow> equipe_pit list \<Rightarrow> (string \<times> string \<times> string \<times> string \<times> string \<times> bool) list \<times> bool" where
  "cartoes_pits completo i [] = ([], False)"
| "cartoes_pits completo i (e # es) =
     (case cartao_pit completo i e of
        None \<Rightarrow> ([], True)
      | Some k \<Rightarrow> (case cartoes_pits completo (Suc i) es of (ks, t) \<Rightarrow> (k # ks, t)))"

datatype grade_pits = SemGradePits | GradePits "(string \<times> string \<times> string \<times> string \<times> string \<times> bool) list" bool
  \<comment> \<open>the cards and whether \<open>#containerEquipesPilotos\<close> is shown\<close>

text \<open>\<open>preencherTabelaEquipes(equipes)\<close>; \<open>tem_grid\<close> and \<open>tem_container\<close> tell
  whether \<open>#gridEquipesPits\<close> and \<open>#containerEquipesPilotos\<close> exist.\<close>

definition preencher_tabela_equipes :: "bool \<Rightarrow> bool \<Rightarrow> equipe_pit list \<Rightarrow> grade_pits" where
  "preencher_tabela_equipes tem_grid tem_container es =
     (if \<not> tem_grid then SemGradePits
      else case cartoes_pits False 0 es of (ks, lancou) \<Rightarrow> GradePits ks (tem_container \<and> \<not> lancou))"

datatype resposta_equipes_hoje = EquipesHoje bool "equipe_pit list option" | EquipesHojeExcecao

definition carregar_equipes_etapa_hoje :: "bool \<Rightarrow> bool \<Rightarrow> resposta_equipes_hoje \<Rightarrow> grade_pits" where
  "carregar_equipes_etapa_hoje tem_grid tem_container r =
     (case r of EquipesHoje True (Some es) \<Rightarrow> preencher_tabela_equipes tem_grid tem_container es | _ \<Rightarrow> SemGradePits)"

subsection \<open>The pits of a stage\<close>

datatype resposta_evento_pits = EventoPits bool "string option" | EventoPitsExcecao
  \<comment> \<open>\<open>eventoData.sucesso\<close> and \<open>evento.etapa.status\<close>; a thrown error (a missing
      \<open>etapa\<close> included)\<close>

datatype vista_pits = PitsAoVivo string | PitsProcurandoPiloto string
  | ModalPits "(string \<times> string \<times> string \<times> string \<times> string \<times> bool) list" | SemPits | ToastErroPits

text \<open>\<open>mostrarPitsEtapa(etapaId)\<close>: a running stage or one in battles opens the
  live event, a scheduled one the teams looking for a pilot, otherwise the
  static pits modal.  A missing status throws before the modal is shown.\<close>

definition mostrar_pits_etapa :: "string \<Rightarrow> resposta_evento_pits \<Rightarrow> resposta_equipes_hoje \<Rightarrow> vista_pits" where
  "mostrar_pits_etapa eid re rq =
     (case re of
        EventoPitsExcecao \<Rightarrow> ToastErroPits
      | EventoPits suc st \<Rightarrow>
          (if suc \<and> st \<in> {Some ''em_andamento'', Some ''batalhas''} then PitsAoVivo eid
           else if suc \<and> st = Some ''agendada'' then PitsProcurandoPiloto eid
           else case rq of
                  EquipesHoje True (Some es) \<Rightarrow>
                    (case cartoes_pits True 0 es of (ks, lancou) \<Rightarrow> if lancou then ToastErroPits else ModalPits ks)
                | EquipesHoje _ _ \<Rightarrow> SemPits
                | EquipesHojeExcecao \<Rightarrow> ToastErroPits))"

text \<open>script.js declares a second global \<open>mostrarPitsEtapa(etapaId)\<close> (lines
  312--421); on a page that loads both scripts the later declaration replaces
  the earlier.  This one goes straight to the pits: any failure of the load
  shows the error toast, and the cards are those of the modal above.\<close>

definition mostrar_pits_etapa_script :: "resposta_equipes_hoje \<Rightarrow> vista_pits" where
  "mostrar_pits_etapa_script rq =
     (case rq of
        EquipesHoje True (Some es) \<Rightarrow>
          (case cartoes_pits True 0 es of (ks, lancou) \<Rightarrow> if lancou then ToastErroPits else ModalPits ks)
      | _ \<Rightarrow> ToastErroPits)"

definition painel_hoje_vazio :: painel_hoje where
  "painel_hoje_vazio = \<lparr>ph_info = False, ph_sem_etapa = False, ph_grupo = False, ph_botao = False, ph_voltas = False,
                        ph_campos = [], ph_etapa_id = None\<rparr>"

definition pit_alpha :: equipe_pit where
  "pit_alpha = \<lparr>ep_nome = Some ''Alpha'', ep_piloto = Some ''Ana Souza'', ep_ordem = Some 3, ep_status = Some ''inscrita''\<rparr>"

definition pit_sem_status :: equipe_pit where
  "pit_sem_status = \<lparr>ep_nome = Some ''Beta'', ep_piloto = None, ep_ordem = None, ep_status = None\<rparr>"

subsection \<open>Lemmas\<close>

definition sem_piloto :: "string \<times> string \<times> string \<times> string \<times> string \<times> bool \<Rightarrow> string \<times> string \<times> string \<times> string \<times> bool" where
  "sem_piloto k = (case k of (n, ord, e, _, st, t) \<Rightarrow> (n, ord, e, st, t))"

definition piloto_de :: "string \<times> string \<times> string \<times> string \<times> string \<times> bool \<Rightarrow> string" where
  "piloto_de k = (case k of (_, _, _, p, _, _) \<Rightarrow> p)"

text \<open>The admin grid and the pits modal show the same pits, in the same order,
  with the same numbers, orders, teams and statuses, and fail on the same
  team; the grid's pilot is the first word of the modal's.\<close>

lemma grade_igual_modal:
  "cartoes_pits False i es = (ks, t) \<Longrightarrow> cartoes_pits True i es = (ks', t') \<Longrightarrow>
   t = t' \<and> map sem_piloto ks = map sem_piloto ks'
   \<and> list_all2 (\<lambda>a b. piloto_de a = takeWhile (\<lambda>c. c \<noteq> CHR '' '') (piloto_de b) \<or> piloto_de a = ''VAZIO'' \<and> piloto_de b = ''VAZIO'') ks ks'"
proof (induction es arbitrary: i ks t ks' t')
  case Nil
  then show ?case by simp
next
  case (Cons e es)
  show ?case
  proof (cases "ep_status e")
    case None
    then show ?thesis using Cons.prems by (simp add: cartao_pit_def)
  next
    case (Some st)
    obtain ks1 t1 where r1: "cartoes_pits False (Suc i) es = (ks1, t1)" by fastforce
    obtain ks2 t2 where r2: "cartoes_pits True (Suc i) es = (ks2, t2)" by fastforce
    have ih: "t1 = t2 \<and> map sem_piloto ks1 = map sem_piloto ks2
      \<and> list_all2 (\<lambda>a b. piloto_de a = takeWhile (\<lambda>c. c \<noteq> CHR '' '') (piloto_de b) \<or> piloto_de a = ''VAZIO'' \<and> piloto_de b = ''VAZIO'') ks1 ks2"
      using Cons.IH [OF r1 r2] .
    obtain k1 k2 where c1: "cartao_pit False i e = Some k1" and c2: "cartao_pit True i e = Some k2"
      using Some by (simp add: cartao_pit_def)
    have k: "sem_piloto k1 = sem_piloto k2"
      "piloto_de k1 = takeWhile (\<lambda>c. c \<noteq> CHR '' '') (piloto_de k2) \<or> piloto_de k1 = ''VAZIO'' \<and> piloto_de k2 = ''VAZIO''"
      using c1 c2 Some by (auto simp: cartao_pit_def sem_piloto_def piloto_de_def)
    have "ks = k1 # ks1" "t = t1" "ks' = k2 # ks2" "t' = t2"
      using Cons.prems r1 r2 c1 c2 by auto
    then show ?thesis using ih k by simp
  qed
qed

text \<open>A team without a status stops the grid there: the teams before it are
  shown, the rest and the container are not.\<close>

lemma grade_para_sem_status:
  "\<forall>x \<in> set xs. ep_status x \<noteq> None \<Longrightarrow> ep_status e = None \<Longrightarrow>
   cartoes_pits c i (xs @ e # ys) = (fst (cartoes_pits c i xs), True)"
proof (induction xs arbitrary: i)
  case Nil
  then show ?case by (simp add: cartao_pit_def)
next
  case (Cons x xs)
  then obtain st where "ep_status x = Some st" by auto
  then show ?case using Cons by (simp add: cartao_pit_def split: prod.splits)
qed

lemma grade_exemplo:
  "preencher_tabela_equipes True True [pit_alpha, pit_sem_status]
     = GradePits [(''01'', ''03'', ''Alpha'', ''Ana'', ''INSCRITA'', True)] False"
proof -
  have "string_of_nat (Suc 0) = ''1''" "js_string_int 3 = ''3''"
    by (simp_all add: js_string_int_def string_of_nat.simps [of "Suc 0"] string_of_nat.simps [of 3] char_of_def bit_simps)
  then show ?thesis
    by (simp add: preencher_tabela_equipes_def pit_alpha_def pit_sem_status_def cartao_pit_def ordem_texto_def
                  pad_start_def js_truthy_str_def js_str_def to_upper_def maiuscula_ascii_def char_of_def bit_simps)
qed

text \<open>The start button is shown exactly when the status answer does not say the
  stage is running, and the laps table exactly when it does.\<close>

lemma status_botao:
  "ph_botao (fst (verificar_status_etapa eid r p)) = (r \<noteq> StatusEtapa True (Some ''em_andamento''))
   \<and> ph_voltas (fst (verificar_status_etapa eid r p)) = (r = StatusEtapa True (Some ''em_andamento''))"
  by (auto simp: verificar_status_etapa_def split: resposta_status.splits option.splits bool.splits)

text \<open>The two declarations of \<open>mostrarPitsEtapa\<close> show the same modal for a
  stage that is neither running nor scheduled, but for a running stage the one
  of script.js shows the static pits instead of the live event, and a failed
  load is a toast there and silent in qualificacao.js.\<close>

lemma pits_duas_declaracoes:
  "\<not> (suc \<and> st \<in> {Some ''em_andamento'', Some ''batalhas'', Some ''agendada''}) \<Longrightarrow>
   mostrar_pits_etapa eid (EventoPits suc st) (EquipesHoje True (Some es)) = mostrar_pits_etapa_script (EquipesHoje True (Some es))"
  "mostrar_pits_etapa eid (EventoPits True (Some ''em_andamento'')) rq = PitsAoVivo eid"
  "mostrar_pits_etapa_script (EquipesHoje True (Some [pit_alpha])) \<noteq> PitsAoVivo eid"
  "mostrar_pits_etapa eid (EventoPits False None) (EquipesHoje False None) = SemPits"
  "mostrar_pits_etapa_script (EquipesHoje False None) = ToastErroPits"
  by (auto simp: mostrar_pits_etapa_def mostrar_pits_etapa_script_def split: prod.split)

end
