(* ===== verification/PilotSignup.thy ===== *)
theory PilotSignup
  imports GarageView QualResults QualStage
begin

text \<open>
  A pilot joining a team for a scheduled stage (src/static/qualificacao.js,
  lines 673--1035): \<open>mostrarEquipesProcurandoPiloto\<close> lists the teams looking
  for a pilot, each with a button
  \<open>onclick="inscreverPilotoEmEquipe('etapa', 'equipe', 'nome')"\<close> whose
  arguments are written without escaping and read back by the browser as
  JavaScript literals (\<open>le_literal\<close> of GarageView);
  \<open>mostrarPilotosConfirmadosEtapa\<close> groups the confirmed pilots by team (an
  object keyed by \<open>equipe_id\<close>, listed by \<open>Object.values\<close> in the key order of
  QualResults) and sorts the teams with \<open>localeCompare\<close>, a parameter
  \<open>cmp_locale\<close> here; \<open>inscreverPilotoEmEquipe\<close> posts the participation.
\<close>

subsection \<open>Teams looking for a pilot\<close>

record equipe_procura =
  pq_id :: "string option"
  pq_nome :: "string option"
  pq_carro :: "string option option"     \<comment> \<open>\<open>carro_ativo\<close> absent, or its \<open>modelo\<close>\<close>
  pq_tipo :: "string option"             \<comment> \<open>\<open>tipo_participacao\<close>\<close>

datatype info_carro = CarroAtivo string | SemCarroAtivo

definition prefixo_inscricao :: string where
  "prefixo_inscricao = ''inscreverPilotoEmEquipe('' @ [apostrofo]"

definition sep_args :: string where
  "sep_args = [apostrofo] @ '', '' @ [apostrofo]"

definition onclick_inscricao :: "string \<Rightarrow> string \<Rightarrow> string \<Rightarrow> string" where
  "onclick_inscricao etapa eid nome = prefixo_inscricao @ etapa @ sep_args @ eid @ sep_args @ nome @ [apostrofo] @ '')''"

text \<open>A card: team name, car, whether it needs a pilot, and the button's
  handler.\<close>

definition cartao_procura :: "string \<Rightarrow> equipe_procura \<Rightarrow> string \<times> info_carro \<times> bool \<times> string" where
  "cartao_procura etapa e =
     (js_str (pq_nome e),
      (case pq_carro e of Some m \<Rightarrow> CarroAtivo (js_str m) | None \<Rightarrow> SemCarroAtivo),
      pq_tipo e = Some ''precisa_piloto'',
      onclick_inscricao etapa (js_str (pq_id e)) (js_str (pq_nome e)))"

record info_etapa =
  ie_nome :: "string option"
  ie_data :: "string option"
  ie_hora :: "string option"

datatype resposta_procura = ProcuraResp bool "equipe_procura list option" | ProcuraExcecao

datatype vista_procura = SemProcura | ModalProcura "string list" "(string \<times> info_carro \<times> bool \<times> string) list"
  \<comment> \<open>the stage's name, date and time, and the cards\<close>

definition mostrar_equipes_procurando :: "string \<Rightarrow> info_etapa \<Rightarrow> resposta_procura \<Rightarrow> vista_procura" where
  "mostrar_equipes_procurando etapa info r =
     (case r of
        ProcuraResp True (Some (e # es)) \<Rightarrow>
          ModalProcura [js_str (ie_nome info), js_str (ie_data info), js_str (ie_hora info)]
                       (map (cartao_procura etapa) (e # es))
      | _ \<Rightarrow> SemProcura)"

text \<open>The browser's reading of \<open>n\<close> literals separated by \<open>', '\<close>.\<close>

fun le_argumentos :: "nat \<Rightarrow> string \<Rightarrow> (string list \<times> string) option" where
  "le_argumentos 0 t = Some ([], t)"
| "le_argumentos (Suc n) t =
     (case le_literal t of
        None \<Rightarrow> None
      | Some (a, r) \<Rightarrow>
          (if n = 0 then Some ([a], r)
           else if take 3 r \<noteq> '', '' @ [apostrofo] then None
           else map_option (\<lambda>(as, r'). (a # as, r')) (le_argumentos n (drop 3 r))))"

definition argumentos_inscricao :: "string \<Rightarrow> string list option" where
  "argumentos_inscricao t =
     (if take (length prefixo_inscricao) t \<noteq> prefixo_inscricao then None
      else case le_argumentos 3 (drop (length prefixo_inscricao) t) of
             Some (as, r) \<Rightarrow> (if r = '')'' then Some as else None)
           | None \<Rightarrow> None)"

subsection \<open>Confirmed pilots\<close>

record piloto_conf =
  pf_equipe :: string                 \<comment> \<open>\<open>String(equipe_id)\<close>, the property key\<close>
  pf_equipe_nome :: string
  pf_nome :: "string option"
  pf_carro :: "string option"

text \<open>\<open>s.split(' ')\<close>.\<close>

fun divide_espaco :: "string \<Rightarrow> string list" where
  "divide_espaco [] = [[]]"
| "divide_espaco (c # cs) =
     (if c = CHR '' '' then [] # divide_espaco cs
      else (case divide_espaco cs of w # ws \<Rightarrow> (c # w) # ws | [] \<Rightarrow> [[c]]))"

text \<open>A pilot's card: number, first name, last name and car model.\<close>

definition cartao_piloto_conf :: "nat \<Rightarrow> piloto_conf \<Rightarrow> string \<times> string \<times> string \<times> string option" where
  "cartao_piloto_conf i p =
     (let partes = (if js_truthy_str (pf_nome p) then divide_espaco (the (pf_nome p)) else [''Desconhecido''])
      in (pad_start 2 CHR ''0'' (string_of_nat (Suc i)), hd partes,
          (if length partes > 1 then last partes else []),
          (if js_truthy_str (pf_carro p) then pf_carro p else None)))"

text \<open>\<open>Object.values(equipes)\<close>: the groups in the key order of \<open>Object.keys\<close>,
  each with the name of its first pilot.\<close>

definition grupos_pilotos :: "piloto_conf list \<Rightarrow> (string \<times> piloto_conf list) list" where
  "grupos_pilotos ps =
     (let g = agrupar pf_equipe ps
      in map (\<lambda>k. let xs = the (map_of g k) in (pf_equipe_nome (hd xs), xs)) (chaves_objeto (map fst g)))"

definition pilotos_confirmados ::
  "(string \<Rightarrow> string \<Rightarrow> int) \<Rightarrow> piloto_conf list \<Rightarrow> (string \<times> (string \<times> string \<times> string \<times> string option) list) list" where
  "pilotos_confirmados cmp_locale ps =
     map (\<lambda>(n, xs). (n, map (\<lambda>(i, p). cartao_piloto_conf i p) (List.enumerate 0 xs)))
         (ordenar_js (\<lambda>a b. cmp_locale (fst a) (fst b)) (grupos_pilotos ps))"

datatype resposta_confirmados = ConfirmadosResp bool "piloto_conf list option" | ConfirmadosExcecao

datatype vista_confirmados = SemConfirmados
  | ModalConfirmados "string list" "(string \<times> (string \<times> string \<times> string \<times> string option) list) list"

definition mostrar_pilotos_confirmados ::
  "(string \<Rightarrow> string \<Rightarrow> int) \<Rightarrow> info_etapa \<Rightarrow> resposta_confirmados \<Rightarrow> vista_confirmados" where
  "mostrar_pilotos_confirmados cmp_locale info r =
     (case r of
        ConfirmadosResp True (Some (p # ps)) \<Rightarrow>
          ModalConfirmados [js_str (ie_nome info), js_str (ie_data info), js_str (ie_hora info)]
                           (pilotos_confirmados cmp_locale (p # ps))
      | _ \<Rightarrow> SemConfirmados)"

subsection \<open>Joining a team\<close>

datatype resposta_participar = ParticiparResp bool "string option" | ParticiparExcecao string

datatype efeito_inscricao =
    PostParticipar string string | FecharModalProcurando
  | ModalInscricaoSucesso string | ModalInscricaoErro string | AlertaErroInscricao string

text \<open>\<open>inscreverPilotoEmEquipe(etapaId, equipeId, equipeName)\<close>; the modals
  appear after 300 ms.\<close>

definition inscrever_piloto_em_equipe :: "string \<Rightarrow> string \<Rightarrow> string \<Rightarrow> resposta_participar \<Rightarrow> efeito_inscricao list" where
  "inscrever_piloto_em_equipe etapa eid nome r =
     PostParticipar etapa eid #
     (case r of
        ParticiparResp True _ \<Rightarrow> [FecharModalProcurando, ModalInscricaoSucesso nome]
      | ParticiparResp False e \<Rightarrow> [ModalInscricaoErro (js_or_str e ''Falha ao se inscrever'')]
      | ParticiparExcecao m \<Rightarrow> [AlertaErroInscricao (''Erro ao se inscrever: '' @ m)])"

text \<open>Clicking the button of a card: the handler runs with the arguments the
  browser reads, or not at all when they do not parse.\<close>

definition clicar_inscrever :: "string \<times> info_carro \<times> bool \<times> string \<Rightarrow> resposta_participar \<Rightarrow> efeito_inscricao list" where
  "clicar_inscrever k r =
     (case argumentos_inscricao (snd (snd (snd k))) of
        Some [etapa, eid, nome] \<Rightarrow> inscrever_piloto_em_equipe etapa eid nome r
      | _ \<Rightarrow> [])"

definition equipe_dark :: equipe_procura where
  "equipe_dark = \<lparr>pq_id = Some ''9'', pq_nome = Some (''D'' @ [apostrofo] @ ''Ark''), pq_carro = None, pq_tipo = Some ''precisa_piloto''\<rparr>"

subsection \<open>Lemmas\<close>

lemma mset_insere_cmp: "mset (insere_cmp cmp x xs) = add_mset x (mset xs)"
  by (induction xs) auto

lemma mset_ordenar_js: "mset (ordenar_js cmp xs) = mset xs"
  by (induction xs) (simp_all add: mset_insere_cmp)

lemma mset_concat_sum: "mset (concat xs) = (\<Sum>x\<in>#mset xs. mset x)"
  by (induction xs) auto

lemma mset_concat_perm: "mset xs = mset ys \<Longrightarrow> mset (concat (map f xs)) = mset (concat (map f ys))"
  by (simp add: mset_concat_sum)

lemma le_literal_simples:
  "texto_simples s \<Longrightarrow> apostrofo \<notin> set s \<Longrightarrow> le_literal (s @ apostrofo # r) = Some (s, r)"
  using le_literal_escapa escapa_sem_apostrofo by metis

text \<open>The browser reads the three arguments of the signup button back when none
  holds an apostrophe, a backslash or a line break.\<close>

lemma inscricao_roundtrip:
  assumes "texto_simples a" "apostrofo \<notin> set a" "texto_simples b" "apostrofo \<notin> set b"
    and "texto_simples c" "apostrofo \<notin> set c"
  shows "argumentos_inscricao (onclick_inscricao a b c) = Some [a, b, c]"
proof -
  have "le_argumentos 3 (a @ sep_args @ b @ sep_args @ c @ [apostrofo] @ '')'') = Some ([a, b, c], '')'')"
    using le_literal_simples [OF assms(1,2)] le_literal_simples [OF assms(3,4)] le_literal_simples [OF assms(5,6)]
    by (simp add: numeral_3_eq_3 sep_args_def)
  then show ?thesis by (simp add: argumentos_inscricao_def onclick_inscricao_def)
qed

text \<open>Grouping the confirmed pilots by team keeps every pilot exactly once.\<close>

lemma grupos_pilotos_mset: "mset (concat (map snd (grupos_pilotos ps))) = mset ps"
proof -
  let ?g = "agrupar pf_equipe ps"
  have ks: "distinct (chaves_objeto (map fst ?g))" "set (chaves_objeto (map fst ?g)) = pf_equipe ` set ps"
    using agrupar_chaves [of pf_equipe ps] by (simp_all add: distinct_chaves_objeto set_chaves_objeto)
  have "map snd (grupos_pilotos ps) = map (\<lambda>k. filter (\<lambda>p. pf_equipe p = k) ps) (chaves_objeto (map fst ?g))"
    using ks(2) by (auto simp: grupos_pilotos_def Let_def agrupar_grupo)
  then show ?thesis
    using mset_concat_filtros [OF ks(1), of pf_equipe ps] ks(2) by (simp add: filter_True)
qed

text \<open>The confirmed-pilots modal shows one card per pilot of the answer,
  however \<open>localeCompare\<close> orders the team names.\<close>

lemma confirmados_um_cartao_por_piloto:
  "mset (concat (map snd (ordenar_js (\<lambda>a b. cmp_locale (fst a) (fst b)) (grupos_pilotos ps)))) = mset ps
   \<and> sum_list (map (length \<circ> snd) (pilotos_confirmados cmp_locale ps)) = length ps"
proof -
  have m: "mset (concat (map snd (ordenar_js (\<lambda>a b. cmp_locale (fst a) (fst b)) (grupos_pilotos ps)))) = mset ps"
    using grupos_pilotos_mset [of ps] mset_ordenar_js
    by (metis mset_concat_perm)
  have "sum_list (map (length \<circ> snd) (pilotos_confirmados cmp_locale ps))
        = length (concat (map snd (ordenar_js (\<lambda>a b. cmp_locale (fst a) (fst b)) (grupos_pilotos ps))))"
    by (simp add: pilotos_confirmados_def length_concat o_def case_prod_beta)
  also have "\<dots> = length ps" using m by (metis size_mset)
  finally show ?thesis using m by simp
qed

text \<open>Clicking the button of a team whose name and id are plain text posts the
  participation for that stage and team, and on success names the team.\<close>

lemma clicar_procura_simples:
  assumes "texto_simples etapa" "apostrofo \<notin> set etapa"
    and "texto_simples (js_str (pq_id e))" "apostrofo \<notin> set (js_str (pq_id e))"
    and "texto_simples (js_str (pq_nome e))" "apostrofo \<notin> set (js_str (pq_nome e))"
  shows "clicar_inscrever (cartao_procura etapa e) r
         = inscrever_piloto_em_equipe etapa (js_str (pq_id e)) (js_str (pq_nome e)) r"
  using inscricao_roundtrip [OF assms] by (simp add: clicar_inscrever_def cartao_procura_def)

text \<open>A team name with an apostrophe ends the third literal early: the button
  throws a syntax error and no request is made.\<close>

lemma apostrofo_sem_inscricao: "clicar_inscrever (cartao_procura ''5'' equipe_dark) r = []"
  by (simp add: clicar_inscrever_def cartao_procura_def equipe_dark_def argumentos_inscricao_def
                onclick_inscricao_def prefixo_inscricao_def sep_args_def apostrofo_def
                js_str_def numeral_3_eq_3 barra_inv_def)

lemma inscricao_falha_padrao:
  "inscrever_piloto_em_equipe a b c (ParticiparResp False None)
   = [PostParticipar a b, ModalInscricaoErro ''Falha ao se inscrever'']"
  by (simp add: inscrever_piloto_em_equipe_def js_or_str_def)

end
