(* ===== verification/AdminLaps.thy ===== *)
theory AdminLaps
  imports QualStage Notification
begin

text \<open>
  The admin laps table of a qualification (src/static/qualificacao.js):
  the rows of \<open>renderizarVoltasAdmin\<close> (lines 1506--1717) after the ordering
  of QualRanking, with the turn of each team (the first and second teams
  whose three scores sum to 0 are \<open>SUA VEZ\<close> and \<open>PROXIMO\<close>, found by an index
  loop with \<open>break\<close>), the score cells, the finish button and the inline
  result loads; the two handlers that fetch the event and draw it
  (\<open>atualizarTabelaVoltasAdmin\<close>, \<open>carregarTabelaVoltasAdmin\<close>, lines
  1404--1470); and the tail of src/static/sistema_notificacao.js (lines
  312--465): \<open>adicionarEstilosAnimacao\<close>, \<open>carregarTabelaVoltasParaAdmin\<close>
  (which calls \<open>atualizarTabelaVoltasAdmin\<close>) and \<open>verificarEIniciarNotificacao\<close>.
  The rows of the live table (\<open>renderizarPitsEvento\<close>, lines 1271--1350) are
  modelled beside the admin ones.
  The functions a \<open>typeof f === 'function'\<close> test guards are those of the same
  page and are taken to exist.
\<close>

subsection \<open>The turn of each team\<close>

text \<open>\<open>somaCheck === 0\<close>, with \<open>somaCheck\<close> the \<open>parseInt\<close> sum of the scores.\<close>

definition sem_avaliacao :: "equipe_evento \<Rightarrow> bool" where
  "sem_avaliacao e = (soma_notas e = Some 0)"

text \<open>The loop \<open>for (let i = 0; i < equipesOrdenadas.length; i++)\<close> that finds
  \<open>primeiroNaoAvaliado\<close> and \<open>proximoNaoAvaliado\<close> (\<open>-1\<close> is \<open>None\<close>) and breaks
  at the second.\<close>

function busca_nao_avaliados :: "equipe_evento list \<Rightarrow> nat \<Rightarrow> nat option \<Rightarrow> nat option \<times> nat option" where
  "busca_nao_avaliados es i p =
     (if i < length es then
        (if sem_avaliacao (es ! i) then
           (case p of None \<Rightarrow> busca_nao_avaliados es (Suc i) (Some i) | Some a \<Rightarrow> (Some a, Some i))
         else busca_nao_avaliados es (Suc i) p)
      else (p, None))"
  by pat_completeness auto

termination by (relation "measure (\<lambda>(es, i, p). length es - i)") auto

declare busca_nao_avaliados.simps [simp del]

datatype status_volta = SuaVez | ProximoAvaliar | Avaliado | Andando | ProximoStatus | FinalizadoStatus | Aguardando

text \<open>The status cell of row \<open>idx\<close>: the turn first, then a positive sum, then
  \<open>eq.volta_status || 'aguardando'\<close>.\<close>

definition status_da_linha :: "equipe_evento list \<Rightarrow> nat \<Rightarrow> equipe_evento \<Rightarrow> status_volta" where
  "status_da_linha es idx e =
     (case busca_nao_avaliados es 0 None of
        (prim, prox) \<Rightarrow>
          (if prim = Some idx then SuaVez
           else if prox = Some idx then ProximoAvaliar
           else if (case soma_notas e of Some s \<Rightarrow> 0 < s | None \<Rightarrow> False) then Avaliado
           else (let v = js_or_str (volta_status e) ''aguardando''
                 in if v = ''andando'' then Andando
                    else if v = ''proximo'' then ProximoStatus
                    else if v = ''finalizado'' then FinalizadoStatus
                    else Aguardando)))"

subsection \<open>The rows\<close>

text \<open>A score cell: the value as text when the qualification is finished, or
  an input with \<open>value="${nota}"\<close> whose \<open>onchange\<close> calls
  \<open>salvarNotaEquipeAdmin(equipe_id, tipo, this.value)\<close>.\<close>

datatype celula_nota = NotaFixa string | NotaInput string string string

definition celula :: "bool \<Rightarrow> equipe_evento \<Rightarrow> string \<Rightarrow> int option \<Rightarrow> celula_nota" where
  "celula fin e tipo v = (if fin then NotaFixa (js_string_int (nota v)) else NotaInput (js_string_int (nota v)) (ee_id e) tipo)"

text \<open>A row: position, team, pilot (the warning sign of \<open>SEM PILOTO\<close> left out),
  the three score cells, the total and the status.\<close>

definition linha_voltas ::
  "bool \<Rightarrow> equipe_evento list \<Rightarrow> nat \<Rightarrow> equipe_evento
   \<Rightarrow> string \<times> string \<times> string \<times> celula_nota list \<times> int option \<times> status_volta" where
  "linha_voltas fin es idx e =
     ((if fin then pad_start 2 CHR ''0'' (string_of_nat (Suc idx)) else rotulo_ordem e),
      ee_nome e,
      (if js_truthy_str (ee_piloto e) then the (ee_piloto e) else ''SEM PILOTO''),
      [celula fin e ''linha'' (nota_linha e), celula fin e ''angulo'' (nota_angulo e), celula fin e ''estilo'' (nota_estilo e)],
      soma_notas e,
      status_da_linha es idx e)"

datatype carga_inline = CarregarResultadoInline string | CarregarChaveamentoInline string

text \<open>What \<open>renderizarVoltasAdmin\<close> draws: the rows, the finish button's
  visibility (\<open>None\<close> without \<open>#botaoFinalizarQualificacao\<close>), whether the
  finished message is shown, whether the result and bracket sections are shown,
  and the inline loads it starts.\<close>

record vista_voltas =
  vv_linhas :: "(string \<times> string \<times> string \<times> celula_nota list \<times> int option \<times> status_volta) list"
  vv_botao_finalizar :: "bool option"
  vv_mensagem :: bool
  vv_secoes :: bool
  vv_cargas :: "carga_inline list"

text \<open>\<open>renderizarVoltasAdmin(equipes, etapaInfo)\<close>; \<open>tem_tabela\<close> and
  \<open>tem_botao\<close> tell whether \<open>#tabelaVoltasAdmin\<close> and the finish button exist,
  \<open>input\<close> is the value of \<open>#etapaIdAtual\<close>.\<close>

definition renderizar_voltas_admin ::
  "bool \<Rightarrow> bool \<Rightarrow> string option \<Rightarrow> bool \<Rightarrow> string option \<Rightarrow> equipe_evento list \<Rightarrow> vista_voltas option" where
  "renderizar_voltas_admin tem_tabela tem_botao input fin etapa_info_id es =
     (if \<not> tem_tabela then None
      else
        (let ord = ordenar_voltas_admin fin es;
             eid = (if js_truthy_str input then input else etapa_info_id)
         in Some \<lparr>vv_linhas = map (\<lambda>(idx, e). linha_voltas fin ord idx e) (List.enumerate 0 ord),
                  vv_botao_finalizar = (if tem_botao then Some (\<not> fin \<and> list_ex (\<lambda>e. 0 < total_notas e) es) else None),
                  vv_mensagem = fin,
                  vv_secoes = fin,
                  vv_cargas = (if fin \<and> js_truthy_str eid
                               then [CarregarResultadoInline (the eid), CarregarChaveamentoInline (the eid)] else [])\<rparr>))"

subsection \<open>Fetching the table\<close>

datatype resposta_evento_voltas =
    EventoVoltas bool "(equipe_evento list \<times> bool \<times> string option) option"
      \<comment> \<open>\<open>sucesso\<close>, and the event's teams, \<open>qualificacao_finalizada\<close> and stage id\<close>
  | EventoVoltasExcecao

datatype toast_voltas = ToastSemEtapaSelecionada | ToastTabelaAtualizada | ToastErroDadosVoltas
  | ToastErroConexaoVoltas | ToastIdNaoFornecido | ToastQualificacaoFinalizada | ToastInterfacePronta

datatype efeito_voltas = BuscaEvento string | DesenhaVoltas "vista_voltas option" | MostraContainerVoltas
  | ClicaAbaFazerEtapa | ToastVoltas toast_voltas

text \<open>The page: \<open>#tabelaVoltasAdmin\<close>, the finish button, \<open>#containerVoltasAdmin\<close>
  and the \<open>Fazer Etapa\<close> tab.\<close>

record pagina_voltas =
  pv_tabela :: bool
  pv_botao :: bool
  pv_container :: bool
  pv_aba :: bool

definition desenha :: "pagina_voltas \<Rightarrow> string option \<Rightarrow> equipe_evento list \<times> bool \<times> string option \<Rightarrow> efeito_voltas" where
  "desenha pg input d = (case d of (es, fin, eid) \<Rightarrow> DesenhaVoltas (renderizar_voltas_admin (pv_tabela pg) (pv_botao pg) input fin eid es))"

text \<open>\<open>atualizarTabelaVoltasAdmin()\<close>: \<open>input\<close> is \<open>None\<close> when \<open>#etapaIdAtual\<close> is
  missing; reading its \<open>value\<close> then throws before the \<open>try\<close>, and the promise
  rejects (\<open>None\<close>).\<close>

definition atualizar_tabela_voltas_admin ::
  "pagina_voltas \<Rightarrow> string option \<Rightarrow> resposta_evento_voltas \<Rightarrow> efeito_voltas list option" where
  "atualizar_tabela_voltas_admin pg input r =
     (case input of
        None \<Rightarrow> None
      | Some v \<Rightarrow> Some
          (if v = [] then [ToastVoltas ToastSemEtapaSelecionada]
           else BuscaEvento v #
             (case r of
                EventoVoltas True (Some d) \<Rightarrow> [desenha pg input d, ToastVoltas ToastTabelaAtualizada]
              | EventoVoltas _ _ \<Rightarrow> [ToastVoltas ToastErroDadosVoltas]
              | EventoVoltasExcecao \<Rightarrow> [ToastVoltas ToastErroConexaoVoltas])))"

text \<open>\<open>carregarTabelaVoltasAdmin(etapaId)\<close>.\<close>

definition carregar_tabela_voltas_admin ::
  "pagina_voltas \<Rightarrow> string option \<Rightarrow> string option \<Rightarrow> resposta_evento_voltas \<Rightarrow> efeito_voltas list" where
  "carregar_tabela_voltas_admin pg input etapa r =
     (if \<not> js_truthy_str etapa then [ToastVoltas ToastIdNaoFornecido]
      else BuscaEvento (the etapa) #
        (case r of
           EventoVoltas True (Some (es, fin, eid)) \<Rightarrow>
             [desenha pg input (es, fin, eid)]
             @ (if pv_container pg then [MostraContainerVoltas] else [])
             @ (if pv_aba pg then [ClicaAbaFazerEtapa] else [])
             @ [ToastVoltas (if fin then ToastQualificacaoFinalizada else ToastInterfacePronta)]
         | EventoVoltas _ _ \<Rightarrow> [ToastVoltas ToastErroDadosVoltas]
         | EventoVoltasExcecao \<Rightarrow> [ToastVoltas ToastErroConexaoVoltas]))"

subsection \<open>The tail of the notification script\<close>

text \<open>\<open>adicionarEstilosAnimacao()\<close> over the ids of the style elements of the
  document's head.\<close>

definition adicionar_estilos_animacao :: "string list \<Rightarrow> string list" where
  "adicionar_estilos_animacao ids =
     (if ''estilos-notificacao'' \<in> set ids then ids else ids @ [''estilos-notificacao''])"

text \<open>\<open>carregarTabelaVoltasParaAdmin(etapaId)\<close>: shows the container, writes the
  stage into \<open>#etapaIdAtual\<close> when it exists, and awaits
  \<open>atualizarTabelaVoltasAdmin()\<close>, whose rejection is caught.  Returns the new
  value of the input and the effects.  No code of the repository calls it.\<close>

definition carregar_tabela_voltas_para_admin ::
  "pagina_voltas \<Rightarrow> string option \<Rightarrow> string \<Rightarrow> resposta_evento_voltas \<Rightarrow> string option \<times> efeito_voltas list" where
  "carregar_tabela_voltas_para_admin pg input etapa r =
     (if \<not> pv_container pg then (input, [])
      else (let input' = map_option (\<lambda>_. etapa) input
            in (input', MostraContainerVoltas #
                        (case atualizar_tabela_voltas_admin pg input' r of Some efs \<Rightarrow> efs | None \<Rightarrow> []))))"

datatype resposta_admin = AdminNaoOk | AdminResp bool | AdminExcecao
  \<comment> \<open>not OK, the truthiness of \<open>is_admin\<close>, or a thrown request or body\<close>

text \<open>\<open>verificarEIniciarNotificacao()\<close>, run once when the page loads: only a
  confirmed admin is left without the notification system; \<open>admin\<close> and \<open>r\<close>
  are the answers of the first check of \<open>iniciarSistemaNotificacao\<close>.\<close>

definition verificar_e_iniciar_notificacao :: "resposta_admin \<Rightarrow> bool \<Rightarrow> resposta_etapa \<Rightarrow> notif_st \<Rightarrow> notif_st" where
  "verificar_e_iniciar_notificacao ra admin r s =
     (case ra of AdminResp True \<Rightarrow> s | _ \<Rightarrow> iniciar_notificacao admin r s)"

subsection \<open>The rows of the live table\<close>

text \<open>A row of \<open>renderizarPitsEvento\<close> (qualificacao.js lines 1271--1350): order,
  team, pilot, the three inputs (value \<open>${nota || ''}\<close>, disabled for a team
  or pilot session, and the arguments of \<open>salvarNotaEquipe\<close>), the total, and
  whether the team is marked \<open>ANDANDO\<close> (\<open>volta_status === 'em_andamento'\<close>).\<close>

definition linha_evento ::
  "bool \<Rightarrow> equipe_evento
   \<Rightarrow> string \<times> string \<times> string \<times> (string \<times> bool \<times> string \<times> string) list \<times> int option \<times> bool" where
  "linha_evento admin e =
     (rotulo_ordem e, ee_nome e,
      (if js_truthy_str (ee_piloto e) then the (ee_piloto e) else ''SEM PILOTO''),
      [(valor_input (nota (nota_linha e)), \<not> admin, ee_id e, ''linha''),
       (valor_input (nota (nota_angulo e)), \<not> admin, ee_id e, ''angulo''),
       (valor_input (nota (nota_estilo e)), \<not> admin, ee_id e, ''estilo'')],
      soma_notas e,
      volta_status e = Some ''em_andamento'')"

text \<open>The table of \<open>renderizarPitsEvento(equipes, etapaInfo)\<close> in
  \<open>#containerEventoPits\<close> (\<open>None\<close> without it); the session ids are those of
  \<open>localStorage\<close>.\<close>

definition tabela_pits_evento ::
  "bool \<Rightarrow> string option \<Rightarrow> string option \<Rightarrow> bool \<Rightarrow> equipe_evento list
   \<Rightarrow> (string \<times> string \<times> string \<times> (string \<times> bool \<times> string \<times> string) list \<times> int option \<times> bool) list option" where
  "tabela_pits_evento tem_container equipe_ls piloto_ls fin es =
     (if \<not> tem_container then None
      else Some (map (linha_evento (\<not> (js_truthy_str equipe_ls \<or> js_truthy_str piloto_ls))) (ordenar_pits_evento fin es)))"

subsection \<open>Reference and examples\<close>

text \<open>The teams without a score from index \<open>i\<close> on, in order: the reference
  against which the loop with \<open>break\<close> is proved.\<close>

definition nao_avaliados_desde :: "equipe_evento list \<Rightarrow> nat \<Rightarrow> nat list" where
  "nao_avaliados_desde es i = filter (\<lambda>k. sem_avaliacao (es ! k)) [i..<length es]"

definition equipe_volta :: "string \<Rightarrow> int option \<Rightarrow> equipe_evento" where
  "equipe_volta n v = \<lparr>ee_id = n, ee_nome = n, ee_piloto = Some ''Ana'', nota_linha = v, nota_angulo = v,
                       nota_estilo = v, ordem_qualificacao = None, volta_status = None\<rparr>"

definition pagina_admin :: pagina_voltas where
  "pagina_admin = \<lparr>pv_tabela = True, pv_botao = True, pv_container = True, pv_aba = True\<rparr>"

subsection \<open>Lemmas\<close>

text \<open>The loop computes the first two teams of the reference list.\<close>

lemma busca_indices:
  "busca_nao_avaliados es i p =
     (case p of
        None \<Rightarrow> (case nao_avaliados_desde es i of [] \<Rightarrow> (None, None) | [a] \<Rightarrow> (Some a, None) | a # b # _ \<Rightarrow> (Some a, Some b))
      | Some a \<Rightarrow> (Some a, case nao_avaliados_desde es i of [] \<Rightarrow> None | b # _ \<Rightarrow> Some b))"
proof (induction es i p rule: busca_nao_avaliados.induct)
  case (1 es i p)
  show ?case
  proof (cases "i < length es")
    case True
    then show ?thesis using "1.IH"
      by (simp add: busca_nao_avaliados.simps [of es i] nao_avaliados_desde_def upt_conv_Cons
               split: option.split list.split)
  next
    case False
    then show ?thesis
      by (simp add: busca_nao_avaliados.simps [of es i] nao_avaliados_desde_def split: option.split)
  qed
qed

lemma filter_upt_Cons:
  "filter P [i..<n] = m # r \<longleftrightarrow>
   (i \<le> m \<and> m < n \<and> P m \<and> (\<forall>k. i \<le> k \<and> k < m \<longrightarrow> \<not> P k) \<and> r = filter P [Suc m..<n])"
proof (induction "n - i" arbitrary: i m r)
  case 0
  then show ?case by auto
next
  case (Suc d)
  then have i: "i < n" and ih: "\<And>m r. filter P [Suc i..<n] = m # r \<longleftrightarrow>
      (Suc i \<le> m \<and> m < n \<and> P m \<and> (\<forall>k. Suc i \<le> k \<and> k < m \<longrightarrow> \<not> P k) \<and> r = filter P [Suc m..<n])"
    by auto
  have u: "[i..<n] = i # [Suc i..<n]" using i by (simp add: upt_conv_Cons)
  show ?case
  proof (cases "P i")
    case True
    have "(\<forall>k. i \<le> k \<and> k < m \<longrightarrow> \<not> P k) \<and> i \<le> m \<longrightarrow> m = i" using True le_neq_implies_less order_refl by blast
    then show ?thesis using True i u by auto
  next
    case False
    have "i \<le> m \<and> P m \<longleftrightarrow> Suc i \<le> m \<and> P m" using False by (auto simp: Suc_le_eq le_less)
    moreover have "(\<forall>k. i \<le> k \<and> k < m \<longrightarrow> \<not> P k) \<longleftrightarrow> (\<forall>k. Suc i \<le> k \<and> k < m \<longrightarrow> \<not> P k)"
      using False by (metis Suc_leD le_neq_implies_less less_eq_Suc_le)
    ultimately show ?thesis using False u ih by auto
  qed
qed

lemma filter_upt_Cons_sym:
  "m # r = filter P [i..<n] \<longleftrightarrow>
   (i \<le> m \<and> m < n \<and> P m \<and> (\<forall>k. i \<le> k \<and> k < m \<longrightarrow> \<not> P k) \<and> r = filter P [Suc m..<n])"
  by (subst eq_commute) (rule filter_upt_Cons)

lemma status_sua_vez:
  "status_da_linha es j e = SuaVez \<longleftrightarrow> fst (busca_nao_avaliados es 0 None) = Some j"
  by (cases "busca_nao_avaliados es 0 None") (simp add: status_da_linha_def Let_def)

lemma status_proximo:
  "status_da_linha es j e = ProximoAvaliar \<longleftrightarrow>
   fst (busca_nao_avaliados es 0 None) \<noteq> Some j \<and> snd (busca_nao_avaliados es 0 None) = Some j"
  by (cases "busca_nao_avaliados es 0 None") (simp add: status_da_linha_def Let_def)

lemma vez_da_equipe:
  "(status_da_linha es j e = SuaVez \<longleftrightarrow>
      j < length es \<and> sem_avaliacao (es ! j) \<and> (\<forall>k<j. \<not> sem_avaliacao (es ! k)))
   \<and> (status_da_linha es j e = ProximoAvaliar \<longleftrightarrow>
      (\<exists>a<j. sem_avaliacao (es ! a) \<and> (\<forall>k<a. \<not> sem_avaliacao (es ! k))
             \<and> j < length es \<and> sem_avaliacao (es ! j) \<and> (\<forall>k. a < k \<and> k < j \<longrightarrow> \<not> sem_avaliacao (es ! k))))"
proof -
  let ?L = "nao_avaliados_desde es 0"
  have b: "busca_nao_avaliados es 0 None
           = (case ?L of [] \<Rightarrow> (None, None) | [a] \<Rightarrow> (Some a, None) | a # b # _ \<Rightarrow> (Some a, Some b))"
    by (simp add: busca_indices)
  have f: "fst (busca_nao_avaliados es 0 None) = Some j \<longleftrightarrow> (\<exists>r. ?L = j # r)"
    unfolding b by (auto split: list.split)
  have lt: "a < j" if l: "?L = a # j # r" for a r
  proof -
    have "j # r = filter (\<lambda>k. sem_avaliacao (es ! k)) [Suc a..<length es]"
      using l filter_upt_Cons unfolding nao_avaliados_desde_def by blast
    then show ?thesis using filter_upt_Cons_sym [of j r _ "Suc a" "length es"] by (simp add: Suc_le_eq)
  qed
  have s: "fst (busca_nao_avaliados es 0 None) \<noteq> Some j \<and> snd (busca_nao_avaliados es 0 None) = Some j
           \<longleftrightarrow> (\<exists>a r. a < j \<and> ?L = a # j # r)"
  proof (cases ?L)
    case Nil
    then show ?thesis unfolding b by simp
  next
    case (Cons a t)
    show ?thesis
    proof (cases t)
      case Nil
      then show ?thesis unfolding b using Cons by simp
    next
      case (Cons c u)
      then show ?thesis unfolding b using \<open>?L = a # t\<close> lt [of a u] by auto
    qed
  qed
  have c1: "(\<exists>r. ?L = j # r) \<longleftrightarrow> j < length es \<and> sem_avaliacao (es ! j) \<and> (\<forall>k<j. \<not> sem_avaliacao (es ! k))"
    unfolding nao_avaliados_desde_def filter_upt_Cons by auto
  have c2: "(\<exists>a r. a < j \<and> ?L = a # j # r) \<longleftrightarrow>
      (\<exists>a<j. sem_avaliacao (es ! a) \<and> (\<forall>k<a. \<not> sem_avaliacao (es ! k))
             \<and> j < length es \<and> sem_avaliacao (es ! j) \<and> (\<forall>k. a < k \<and> k < j \<longrightarrow> \<not> sem_avaliacao (es ! k)))"
    (is "?l \<longleftrightarrow> ?r")
  proof
    assume ?l
    then obtain a r where a: "a < j" and l: "?L = a # j # r" by blast
    have 1: "sem_avaliacao (es ! a) \<and> (\<forall>k<a. \<not> sem_avaliacao (es ! k))
             \<and> j # r = filter (\<lambda>k. sem_avaliacao (es ! k)) [Suc a..<length es]"
      using l unfolding nao_avaliados_desde_def filter_upt_Cons by simp
    then have "j < length es \<and> sem_avaliacao (es ! j) \<and> (\<forall>k. a < k \<and> k < j \<longrightarrow> \<not> sem_avaliacao (es ! k))"
      unfolding filter_upt_Cons_sym by (auto simp: Suc_le_eq)
    then show ?r using a 1 by blast
  next
    assume ?r
    then obtain a where a: "a < j" "sem_avaliacao (es ! a)" "\<forall>k<a. \<not> sem_avaliacao (es ! k)"
      and j: "j < length es" "sem_avaliacao (es ! j)" "\<forall>k. a < k \<and> k < j \<longrightarrow> \<not> sem_avaliacao (es ! k)" by blast
    have "filter (\<lambda>k. sem_avaliacao (es ! k)) [Suc a..<length es] = j # filter (\<lambda>k. sem_avaliacao (es ! k)) [Suc j..<length es]"
      using a(1) j by (intro filter_upt_Cons [THEN iffD2]) (auto simp: Suc_le_eq)
    then have "?L = a # j # filter (\<lambda>k. sem_avaliacao (es ! k)) [Suc j..<length es]"
      unfolding nao_avaliados_desde_def using a j by (intro filter_upt_Cons [THEN iffD2]) auto
    then show ?l using a(1) by blast
  qed
  have A: "status_da_linha es j e = SuaVez \<longleftrightarrow> j < length es \<and> sem_avaliacao (es ! j) \<and> (\<forall>k<j. \<not> sem_avaliacao (es ! k))"
    using status_sua_vez f c1 by blast
  have B: "status_da_linha es j e = ProximoAvaliar \<longleftrightarrow>
      (\<exists>a<j. sem_avaliacao (es ! a) \<and> (\<forall>k<a. \<not> sem_avaliacao (es ! k))
             \<and> j < length es \<and> sem_avaliacao (es ! j) \<and> (\<forall>k. a < k \<and> k < j \<longrightarrow> \<not> sem_avaliacao (es ! k)))"
    using status_proximo s c2 by blast
  show ?thesis using A B by blast
qed

text \<open>A team is unscored for the turn exactly when its three scores sum to 0,
  so a team scored 0, 0 and 0 cannot be told from one never scored.\<close>

lemma sem_avaliacao_total: "sem_avaliacao e \<longleftrightarrow> total_notas e = 0"
  by (simp add: sem_avaliacao_def soma_notas_total)

lemma zero_igual_sem_nota: "status_da_linha [equipe_volta ''A'' (Some 0), equipe_volta ''B'' None] 0 e = SuaVez
   \<and> status_da_linha [equipe_volta ''A'' (Some 0), equipe_volta ''B'' None] 1 e = ProximoAvaliar"
  by (simp add: busca_nao_avaliados.simps sem_avaliacao_total total_notas_def nota_def equipe_volta_def
                status_da_linha_def)

lemma renderizar_voltas_botao:
  "vv_botao_finalizar (the (renderizar_voltas_admin True True input fin eid es))
   = Some (\<not> fin \<and> (\<exists>e \<in> set es. 0 < total_notas e))"
  by (simp add: renderizar_voltas_admin_def Let_def list_ex_iff)

text \<open>Every score input of a row under way, changed back to the value it
  shows, saves that very score for that team.\<close>

lemma celula_salva_mesma_nota:
  assumes "celula False e tipo v = NotaInput val eq t" and "etapa \<noteq> []"
  shows "hd (salvar_nota_equipe_admin etapa eq t val r) = PostNota etapa (ee_id e) (''nota_'' @ tipo) (nota v)"
  using assms by (auto simp: celula_def salvar_nota_equipe_admin_def js_ou_0_def parse_int_js_string_int)

text \<open>\<open>renderizarVoltasAdmin\<close> loads the inline result and bracket of the stage in
  \<open>#etapaIdAtual\<close>, not of the stage \<open>carregarTabelaVoltasAdmin\<close> fetched.\<close>

lemma voltas_carrega_etapa_do_input:
  "carregar_tabela_voltas_admin pagina_admin (Some ''1'') (Some ''2'') (EventoVoltas True (Some (es, True, Some ''2'')))
   = [BuscaEvento ''2'',
      DesenhaVoltas (Some \<lparr>vv_linhas = map (\<lambda>(idx, e). linha_voltas True (ordenar_voltas_admin True es) idx e)
                                          (List.enumerate 0 (ordenar_voltas_admin True es)),
                           vv_botao_finalizar = Some False, vv_mensagem = True, vv_secoes = True,
                           vv_cargas = [CarregarResultadoInline ''1'', CarregarChaveamentoInline ''1'']\<rparr>),
      MostraContainerVoltas, ClicaAbaFazerEtapa, ToastVoltas ToastQualificacaoFinalizada]"
  by (simp add: carregar_tabela_voltas_admin_def pagina_admin_def desenha_def renderizar_voltas_admin_def
                js_truthy_str_def Let_def)

text \<open>\<open>carregarTabelaVoltasParaAdmin\<close> fetches the stage it is given when the
  container and the input exist; without the input the rejection of
  \<open>atualizarTabelaVoltasAdmin\<close> is swallowed and nothing is fetched.\<close>

lemma para_admin_busca_etapa:
  "pv_container pg \<Longrightarrow> etapa \<noteq> [] \<Longrightarrow>
   carregar_tabela_voltas_para_admin pg (Some v) etapa r
   = (Some etapa, MostraContainerVoltas # the (atualizar_tabela_voltas_admin pg (Some etapa) r))
   \<and> hd (the (atualizar_tabela_voltas_admin pg (Some etapa) r)) = BuscaEvento etapa"
  by (simp add: carregar_tabela_voltas_para_admin_def atualizar_tabela_voltas_admin_def Let_def)

lemma para_admin_sem_input:
  "pv_container pg \<Longrightarrow> carregar_tabela_voltas_para_admin pg None etapa r = (None, [MostraContainerVoltas])"
  by (simp add: carregar_tabela_voltas_para_admin_def atualizar_tabela_voltas_admin_def)

lemma estilos_idempotente:
  "adicionar_estilos_animacao (adicionar_estilos_animacao ids) = adicionar_estilos_animacao ids
   \<and> ''estilos-notificacao'' \<in> set (adicionar_estilos_animacao ids)"
  by (simp add: adicionar_estilos_animacao_def)

text \<open>Only a confirmed admin is left without the notification interval; a
  failed or thrown check starts it.\<close>

lemma iniciar_so_nao_admin:
  "intervalo_notif (verificar_e_iniciar_notificacao ra admin r s)
   = (if ra = AdminResp True then intervalo_notif s else True)"
  by (cases ra) (simp_all add: verificar_e_iniciar_notificacao_def iniciar_notificacao_def)

text \<open>The two tables read the on-track mark from different values of
  \<open>volta_status\<close>: the admin table shows \<open>ANDANDO\<close> only for \<open>'andando'\<close>, the
  live table only for \<open>'em_andamento'\<close>, so no team is ever marked on track in
  both.\<close>

lemma andando_tabelas_divergem:
  "status_da_linha es idx e = Andando \<Longrightarrow> volta_status e = Some ''andando''"
  "status_da_linha es idx e = Andando \<Longrightarrow> \<not> snd (snd (snd (snd (snd (linha_evento admin e)))))"
  by (auto simp: status_da_linha_def js_or_str_def Let_def linha_evento_def
           split: prod.splits if_splits option.splits)

text \<open>A team or pilot session sees the inputs disabled; the admin sees them
  enabled, with a 0 score shown empty.\<close>

lemma evento_inputs_sessao:
  "tabela_pits_evento True equipe_ls piloto_ls fin es = Some ls \<Longrightarrow> l \<in> set ls \<Longrightarrow> c \<in> set (fst (snd (snd (snd l)))) \<Longrightarrow>
   fst (snd c) = (js_truthy_str equipe_ls \<or> js_truthy_str piloto_ls)"
  by (auto simp: tabela_pits_evento_def linha_evento_def)

end
