(* ===== verification/Spec2Isabelle.thy ===== *)
theory Spec2Isabelle
  imports Reconciler PixRefinement CartPollers BatchPurchase WarehouseModal Notification Bracket
    PurchaseFlows AutoRefresh QualRanking BattleModal RemovePart LiveEvent GarageParts WarehouseDropdown ShopListing Transfers BracketActions PilotQueue PilotAllocation
    AdminChampionships AdminTeams TeamData ShopCars GarageLoad RestInstall
    GarageView QualStage PilotSignup AdminLaps
begin

text \<open>
  \<^bold>\<open>GRANPIX: the browser-side payment flows, verified.\<close>

  The repository is the browser code of a motorsport league site
  (src/static/script.js, src/static/qualificacao.js,
  src/static/sistema_notificacao.js).  Its hardest part, and the subject of
  this development, is the payment of purchases by PIX.  A purchase flow asks
  the server for a PIX transaction.  It stores what to do after payment and
  shows a modal.  A poller then queries the transaction status every second
  until a terminal answer or a timeout.  On approval, a reconciler applies the
  purchase: it confirms the transaction, installs or stores the parts, and
  clears the carts.  The development models these parts as shallow
  embeddings: browser state as records, handlers as functions, server answers
  as inputs, and effects (requests, toasts, status texts) as lists of values.

  \<^bold>\<open>Theories and what they model.\<close>
  \<^item> \<open>Prelude\<close>: the JavaScript primitives the code relies on (\<open>||\<close> on
    strings, truthiness, \<open>splice\<close>) and shared list lemmas.
  \<^item> \<open>PixPoller\<close>: one closure of \<open>monitorarTransacaoPix\<close>
    (script.js 2394--2474).  \<open>tick_pix\<close> is the timer callback,
    \<open>resposta_pix\<close> the continuation of the status request, \<open>poll_seq\<close> the
    sequential schedule.  Lemmas C1--C5: the pending-then-approved run of the
    spec, the timeout after exactly 120 requests, the silent stop on a non-OK
    answer, the request bound, and that the poller always stops.
  \<^item> \<open>PixStore\<close>: the page globals \<open>transacaoPixAtual\<close>, \<open>compraPendentePix\<close> and
    \<open>pixPollings\<close>, with all pollers and all requests in flight.
    \<open>mostrarModalPix\<close> is \<open>mostrar_modal_pix\<close>, \<open>confirmarPagamentoManual\<close> is
    \<open>confirmar_manual\<close>.  Ticks and answers interleave freely (\<open>passo_pix\<close>);
    \<open>alcancavel\<close> is the set of states reachable from page load, and
    \<open>inv_pix\<close> its invariant, proved by rule induction.  C6--C8 prove the
    registry consistent, at most 120 requests per poller under every
    interleaving, and that a purchase is processed only for the current
    transaction.  C9: from any state with a live poller of the current
    transaction and two ticks left, two approvals in flight both process the
    purchase; lemmas
    show stale purchase data reused by a later flow, a manual confirmation that does not stop
    the poller and two live pollers of one transaction.
  \<^item> \<open>PixRefinement\<close>: C20, the concurrent page under the spec's sequential
    schedule (\<open>agenda_seq\<close>) refines \<open>poll_seq\<close>.
  \<^item> \<open>WarehouseCart\<close>: \<open>carrinhoArmazem\<close> and its handlers (2608--2745).
    C13--C14: the invariant (no duplicate part, quantities at least 1) and the
    plus/minus round trip; a lemma gives the quantity total.
  \<^item> \<open>Reconciler\<close>: \<open>processarCompraAposPagamento\<close> (2476--2520) and the
    warehouse checkout (2747--2957).  C16--C19: the cart is cleared only after
    a confirmed multi-part purchase; exactly one confirmation is posted; only
    unpaid parts are charged; a cart for the cars at rest is never charged.
    The car-at-rest chooser (\<open>processarCarrinhoArmazemRepouso\<close>, 2847--2915)
    offers exactly the cars at rest, and its buttons send the cart as it is at
    the click, without PIX.
  \<^item> \<open>CartPollers\<close>: the four other pollers (divided cart, cart,
    regularization, registration; 4119--4185, 4455--4780).  \<open>resposta2\<close> is
    the continuation after \<open>await fetch\<close>, \<open>rodada2\<close> a tick followed by its
    answer and \<open>poll2\<close> the sequential schedule; \<open>passo2c\<close> interleaves ticks
    and answers of one poller (reachability \<open>alcanca2c\<close>).  C23: under every
    interleaving each request is answered or in flight, and at most 120 are
    answered while the interval is live (the requests may exceed 120 while
    answers are slow).  C24--C25: approval and the divided poller that never
    times out; lemmas show refusals reported as timeouts and duplicate cart
    pollers.
  \<^item> \<open>ShopCart\<close>: the shop cart and the destination modal (3643--3956).
    C28--C30: the invariant, the split totals, and no duplicate slot on the
    active car; a lemma shows the duplicate warning and the check disagree.
  \<^item> \<open>BatchPurchase\<close>: both active-car checkouts and the part-by-part
    purchase loops (3958--4453).  C33--C34: the balance is not refunded on a
    thrown request, and a partial failure empties the cart; lemmas show that the
    loops reconcile part by part and the two commission readers disagree.
  \<^item> \<open>WarehouseModal\<close>: the modal that adds stored parts to cars
    (\<open>abrirModalAdicionarPecasArmazem\<close>, \<open>selecaoAdicaoPecas\<close>,
    \<open>confirmarAdicaoPecasArmazem\<close>).  C36: a valid selection is split exactly between
    the active car's PIX purchase and one install request per car at rest, and
    the selection is reset.  A lemma shows that a selection left from an
    earlier opening names a part that has left the warehouse, and it is
    submitted again.
  \<^item> \<open>WarehouseDropdown\<close>: the car dropdowns of that modal (3037--3100,
    3137--3304): each part's select as a list of (car, disabled) options,
    filtered by \<open>atualizarCompatibilidadeCarrosArmazem\<close> with the
    \<open>parseInt\<close>/\<open>includes\<close> test of RemovePart (\<open>compativel_js\<close>), cleared by
    \<open>removerFiltroCompatibilidadeArmazem\<close> and rewritten by
    \<open>atualizarDestinoPecasArmazem\<close>.  C26: in the usual flow (tick, "at rest",
    pick a car, confirm) every car at rest is accepted and installed whatever
    the part's compatibilities; a lemma shows the filter does hold right after
    ticking.
  \<^item> \<open>PurchaseFlows\<close>: the purchase of single items (\<open>compraPendente\<close>,
    \<open>abrirEscolherCarro\<close>, \<open>selecionarCarroPeca\<close>, \<open>abrirConfirmacao\<close>,
    \<open>confirmarCompra\<close>, \<open>solicitarMudarCarro\<close>, \<open>instalarPecaDoArmazem\<close>;
    script.js 1442--1833 and 2203--2336).  The flows that pay by PIX return the
    events of PixStore.  Its lemmas show that \<open>split(',')\<close> loses nothing, that
    a part is never bought without its car, that \<open>confirmarCompra\<close> keeps the
    purchase data of an earlier flow (the mechanism of the stale purchase data of PixStore), and that
    \<open>instalarPecaDoArmazem\<close> stores its installation before the modal opens.
  \<^item> \<open>AutoRefresh\<close>: the two refresh intervals, the modal and visibility
    listeners, page load and lazy tab loading (script.js 36--310, 2238--2254).
    The live intervals are kept by handle and kind.  Its lemmas show that every
    handler keeps at most one live interval of each kind, even though each
    opening of the stored-part modal adds one more pair of listeners, that a
    shown modal pauses all refresh and a hidden one resumes exactly one interval
    of each kind, and that each tab's data is loaded once.  The \<open>/admin\<close>
    branch of the page load (169--208) and \<open>obterHeaders\<close> (215--226) are
    values: a present tab loads its data when shown, an inactive one only
    then; the team header is sent exactly for a non-empty session id.
  \<^item> \<open>Notification\<close>: \<open>sistema_notificacao.js\<close>, with the stage variable, the
    interval, the banner and the floating button.  C39: the notification is
    lost after a restore, and the button stays after the event ends.
  \<^item> \<open>Bracket\<close>: \<open>calcularColocacoesBracket\<close> of qualificacao.js.  C40: the
    placings are 1, 2, ..., n when the last phase is one decided final, and a
    last phase with a second decided match hands out places 1 and 2 twice.
  \<^item> \<open>JsNumbers\<close>: \<open>parseInt\<close> as ECMAScript defines it (white space,
    sign, radix and \<open>0x\<close> prefix, longest prefix of digits, \<open>NaN\<close> as \<open>None\<close>),
    the decimal printing of numbers, \<open>padStart\<close> and \<open>trim\<close>, with the round trip
    \<open>parseInt(String(i)) = i\<close>.
  \<^item> \<open>QualRanking\<close>: the order of the live and admin qualification tables
    (qualificacao.js 1226--1270, 1472--1505), their cells and the two handlers
    that save a score (1352--1393, 1719--1751).  \<open>Array.prototype.sort\<close> is the
    stable insertion sort \<open>ordenar_js\<close> on the comparator's sign.  C32: both
    tables sort exactly as \<open>sort_key\<close> on (minus total, minus line score).  Lemmas
    show that a running qualification lists unordered teams last, that the
    TOTAL cell is the sorting total, that a shown score is saved unchanged, and
    that nothing bounds a typed score.
  \<^item> \<open>BattleModal\<close>: the match modal of the battles (\<open>abrirModalPartida\<close>,
    \<open>carregarPilotosNoModal\<close>, \<open>executarPassada\<close>, \<open>formatarVidaPecas\<close>;
    qualificacao.js 1966--2182).  Every modal created is kept, with the
    requests in flight and the runs executed; events interleave freely
    (\<open>passo_batalha\<close>, reachability \<open>alcanca_batalha\<close>, invariant \<open>inv_batalha\<close>
    by rule induction).  C15: at most two runs and one request in flight per
    opening.  C27: from any open modal, a team list fetched for other players
    makes the next run send their ids with the open modal's names (the payload
    of lines 2152--2156 is \<open>payload_de\<close>).  C31: the run count text always reads back as a number (never
    \<open>NaN\<close>); a lemma shows reopening the modal allows four runs of one match.
    \<open>carregarVidaPecasModal\<close> (2079--2106) fills the two life panels: a
    missing car shows no parts, and a failure sets both panels to the error.
  \<^item> \<open>RemovePart\<close>: removing a part from a car (\<open>abrirModalRemoverPeca\<close>,
    \<open>confirmarRemoverPeca\<close>; script.js 4904--5101).  \<open>remocao_st\<close> holds the
    shared \<open>pecaEmRemocao\<close>, button, radios, select and the requests in flight;
    \<open>opcoes_destino\<close> builds the destination list with the code's
    \<open>parseInt\<close>/\<open>includes\<close> compatibility test, where \<open>None\<close> plays \<open>NaN\<close>.  C10:
    within one opening at most one request is in flight (invariant
    \<open>inv_remocao\<close> over every event but a reopening).  Lemmas: across openings
    the error of an old request re-enables the button and the new part is
    posted twice; the origin car is never offered, decimal ids compare by
    value, non-numeric ids all match (\<open>NaN\<close>), and a late success closes a
    modal opened for another part.
  \<^item> This theory: C21, the warehouse purchase end to end (checkout, PIX, n
    pending answers, approval, reconciliation).  C22: from any state holding
    a stored purchase (a refused warehouse checkout, say), the approval of
    another transaction confirms the stored one instead.  A lemma
    shows that an approval in the stored-part modal also empties the
    warehouse cart.
  \<^item> \<open>LiveEvent\<close>: the live event modal (\<open>carregarEvento\<close>,
    \<open>mostrarEventoAoVivo\<close>, its \<open>setInterval\<close> refresher and \<open>hidden.bs.modal\<close>
    listener; qualificacao.js 1065--1225) with the score inputs it renders
    (\<open>salvarNotaEquipe\<close> of QualRanking).  \<open>vivo_st\<close> holds
    \<open>intervaloEventoAtual\<close>, \<open>eventos\<close>, the live intervals with their stage, the
    tick requests in flight and the modals in document order with the stage
    their container shows; \<open>renderizarPitsEvento\<close> writes into the first
    container.  C37: at most one refresher is ever live, and it refreshes the
    stage the scores are saved to (invariant \<open>inv_vivo\<close> by rule induction).
    C38: from any state, a tick answer of stage \<open>e1\<close> shows the teams of
    \<open>e1\<close> in the first modal, whatever its stage, and the next score is saved
    under the current stage \<open>eventos.etapaId\<close>.  Lemmas: one modal opened once always shows its own stage; two
    openings leave the top modal empty; closing the top one of two leaves the
    other unrefreshed.
  \<^item> \<open>GarageParts\<close>: the parts of a car in the garage (\<open>gerarHtmlPecas\<close>,
    \<open>verificarPecasCompletas\<close> and the activation button of a car at rest;
    script.js 1181--1219 and 1834--1993).  \<open>gerar_html_pecas\<close> returns the
    slots in \<open>ordemPecas\<close> order; JSON numbers are \<open>num_js\<close> (number, \<open>null\<close>,
    absent).  Lemmas: a slot shows the last part of its lower-cased type; with
    lower-case types the activation check holds exactly when no slot is
    missing; a type \<open>Motor\<close> breaks that agreement; a \<open>null\<close> durability reads
    as 0\%; the three copies of the button condition agree.  C11 is the
    agreement of the activation check with the list of missing slots, and that
    the check asks each type at least once (not "exactly once" as its comment
    says).
  \<^item> \<open>ShopListing\<close>: the part cards of the shop (\<open>renderizarPecas\<close>, script.js
    997--1080): the type filter, the compatibility text and the buy button,
    enabled for universal parts or when some car of \<open>equipeAtual\<close> has
    \<open>modelo_id === compatibilidade\<close>.  C35: for a part made for one model the
    button is enabled exactly when \<open>abrirEscolherCarro\<close> (PurchaseFlows) finds a
    compatible car.  Lemmas: a part made for a list of models \<open>'m1,m2'\<close> cannot
    be bought from the shop although the car chooser accepts it; a part without
    \<open>compatibilidade\<close> is buyable exactly when a car lacks \<open>modelo_id\<close>.
  \<^item> \<open>JsFloat\<close>: \<open>parseFloat\<close> as ECMAScript defines it (white space, sign,
    \<open>Infinity\<close>, longest \<open>StrDecimalLiteral\<close> prefix with fraction and
    exponent, \<open>NaN\<close> as \<open>None\<close>) on exact reals, \<open>parseFloat(v) || 0\<close>, and
    \<open>JSON.stringify\<close> of a number (a non-finite one is \<open>null\<close>); the round trip
    \<open>parseFloat(String(i)) = i\<close>.
  \<^item> \<open>Transfers\<close>: transfers of doricoins between teams (script.js
    2023--2153): the destination select (\<open>carregarEquipesParaTransferencia\<close>),
    the preview of fee and amount received (\<open>atualizarPreviewTransferencia\<close>) and
    \<open>executarTransferencia\<close> as its list of effects.  Lemmas: a transfer is
    posted once, exactly when a destination is chosen and the amount is
    positive; an integer amount is posted unchanged; fee and received amount add
    up to the amount; typing \<open>Infinity\<close> posts \<open>valor: null\<close>; the own team
    is excluded only when its id is known.  The same theory holds the transfer
    history (\<open>carregarHistoricoTransferencias\<close>, 2154--2199, with
    \<open>formatarMoeda\<close> as a parameter) and the toasts of \<open>mostrarToast\<close> and
    \<open>criarToastContainer\<close> (1784--1797, 1995--2000) as an inductive
    reachability relation over toasts and removal timers: by rule induction
    there is at most one container and each toast shown has exactly one
    pending timer, and once the pending timers fire no toast is left.
  \<^item> \<open>QualFlow\<close>: the handlers that move a stage through its
    qualification (qualificacao.js 1--76, 177--272, 1755--1802, 2314--2332):
    \<open>abrirQualificacao\<close>, \<open>entrarQualificacao\<close>, both declarations of
    \<open>entrarBatalhas\<close> and of \<open>finalizarQualificacao\<close>, each as the list of
    requests, toasts, alerts and timers it issues for given server answers, the
    entry handlers also with their button.  \<open>ambiente_global\<close> models hoisted
    function declarations: the later one of a name is the binding, so a call
    \<open>finalizarQualificacao(id)\<close> runs the admin version, which ignores its
    argument.  Lemmas: the entry button ends enabled exactly when an error was
    shown, with its label back; an accepted registration whose event lacks
    \<open>etapa\<close> is reported as a failure; Challonge is posted to exactly after a
    confirmed successful finalization; an unreadable status starts the stage
    again.
  \<^item> \<open>QualResults\<close>: \<open>escapeHtml\<close> (with its decoding as reference: the
    round trip and the absence of tags), the final classification inline and
    in the modal (1815--1838, 2255--2312), and \<open>renderizarResultadoPassada\<close>
    (2118--2146) with the object \<open>porCarro\<close> as an association list in
    creation order and \<open>Object.keys\<close> listing array-index keys first in
    increasing order.  Lemmas: the two tables agree when names need no
    escaping, but the modal writes a team name as markup; every launch of a run
    is listed exactly once; cars are numbered by id, not by the order they ran;
    the total is summed over \<open>detalhes\<close>.
  \<^item> \<open>BracketActions\<close>: the match cards of \<open>renderizarBracketChallonge\<close>
    (1895--1964) and their \<open>data-match\<close> attribute, the Challonge actions
    (\<open>reportarVencedorPartida\<close>, \<open>desfazerResultadoPartida\<close>,
    \<open>recarregarBracketChallonge\<close>, \<open>enviarParaChallonge\<close>), the bracket
    loaders and the team list of a starting qualification (78--175).  Lemmas:
    the match JSON comes back from the attribute unchanged exactly when it has
    no \<open>&\<close> (a name with \<open>&quot;\<close> breaks \<open>JSON.parse\<close>); both matches of a
    pair announce the same next match; a disabled button is always restored;
    without a button argument the report disables the first close button of
    the document; a registered winner is reported as an error when the modal
    has no instance.  \<open>initBracketCardClicks\<close> (2233--2240) adds one
    listener however often it runs, so a click opens one match modal.
  \<^item> \<open>PilotQueue\<close>: the call queue of \<open>carregarPilotosDisponiveis\<close>
    (script.js 5536--5614): \<open>fila_st\<close> holds \<open>_queue.running\<close>,
    \<open>_queue.pending\<close>, the run in flight, the re-invocations scheduled with
    \<open>setTimeout\<close>, the list last written and the calls and runs so far; calls,
    run ends and timer firings interleave freely (\<open>passo_fila\<close>, reachability
    \<open>alcanca_fila\<close>, invariant \<open>inv_fila\<close> by rule induction).  C12: without
    new calls the queue always runs out, running every scheduled and pending
    call in order.  Lemmas: the flag guards the function (a run is in flight
    exactly when it is set); two calls during one run drop the earlier; a call
    arriving while an older call's re-run is scheduled runs first, so the list
    shown at the end is the older call's.
  \<^item> \<open>PilotAllocation\<close>: the allocation of pilots to teams (script.js
    5616--5987): the team cards and their loader, the drag and drop interface,
    the drag payload, the drop, the confirmation and its two routes
    (participation or reserve) and the allocation requests.  Lemmas: the drop
    recovers the team id from the zone's element id; dragging a pilot onto a
    team and confirming posts that pilot for that team; a pilot without
    \<open>piloto_id\<close> is posted as \<open>undefined\<close>; a team id equal to the
    participation id of an element of the page takes the participation route;
    the list loaded with the teams never offers an allocated pilot.  The
    stage select of \<open>carregarEtapasParaAlocacao\<close> (5515--5533) selects the
    first stage with \<open>autoSelect\<close>.
  \<^item> \<open>AdminChampionships\<close>: championships, stages and inscription in the
    admin pages (script.js 5104--5510): \<open>criarCampeonato\<close>,
    \<open>carregarCampeonatos\<close>, \<open>deletarCampeonato\<close>, \<open>atualizarSerieEtapa\<close>
    (the first match of \<open>/S\<acute>erie ([AB])/\<close> over the UTF-8 bytes of the
    option's text), \<open>cadastrarEtapa\<close>, \<open>carregarEtapasCadastro\<close>,
    \<open>carregarProximaEtapa\<close> and \<open>inscreverEtapa\<close> with the modal of missing
    parts.  Lemmas: the series written into the stage form is the series of
    the selected championship whenever its name holds no series (a round
    trip through the option's text); a name holding \<open>S\<acute>erie B\<close> overrides the
    series; a team is inscribed only after the server validated its parts;
    repeated refusals create the modal once; the modal of missing parts
    (\<open>criarModalPecasFaltando\<close>, \<open>irParaArmazem\<close>, 5234--5272) is shown with
    its list empty whatever parts are missing.
  \<^item> \<open>AdminTeams\<close>: teams, cars and requests in the admin pages (script.js
    6006--6286): \<open>cadastrarEquipe\<close> and its payload, \<open>variacaoCompleta\<close>,
    \<open>carregarCarrosPraEquipe\<close>, \<open>carregarEquipesCadastro\<close>, the two request
    lists with their caches (\<open>cache_st\<close>) and the two approvals.  Lemmas: a
    team is offered exactly the cars with a complete variation; an integer
    balance is posted as that number and a non-numeric one as \<open>null\<close>; while
    the list is in the page it shows the last requests read; requests read
    once while it is not in the page are never shown.  The pending counters
    (\<open>atualizarContadoresSolicitacoesAdmin\<close>, 17--31) write only a changed
    text, which is proved the same as always writing, so an update is
    idempotent.
  \<^item> \<open>TeamData\<close>: the dashboard's team data (script.js 427--819): the
    installation price of the configuration (\<open>obterPrecoInstalacaoWarehouse\<close>),
    \<open>carregarDetalhesEquipe\<close>, \<open>recarregarDadosEquipe\<close>,
    \<open>renderizarDetalhesEquipe\<close> and the lists of parts and cars waiting for
    activation with their caches (\<open>carregar_lista\<close>, \<open>lista_st\<close>).  The
    answers of the loads arrive in any order as events of \<open>passo_painel\<close>
    (reachability \<open>alcanca_painel\<close>, invariant \<open>inv_painel\<close> by rule
    induction); each event is the completion of a \<open>carga\<close> of AutoRefresh.
    C4: once the details are drawn, both lists show the body their last load
    cached (the redraw clears the caches).  Lemmas: a configured price of the
    number 0 is read as 10 and a text that is not a number as \<open>NaN\<close>; a
    repeated body leaves a list unchanged; the price label of the removal
    modal (4919--4937) reads the same key with default 0, so it shows 0 where
    the dashboard uses 10.
  \<^item> \<open>ShopCars\<close>: the car listing of the shop (script.js 502--530,
    821--995): \<open>carregarCarrosLoja\<close> and \<open>carregarPecasLoja\<close> (one generic
    loader over a renderer, \<open>carregar_loja\<close>), \<open>renderizarCarros\<close> with one
    card per variation and the arguments of its buy button.  Lemmas: the
    variation buttons buy exactly the variations of the cars, in order, at
    their own price, and the other buttons exactly the cars without
    variations; every variation can be bought from a card showing its price,
    which stores it as the pending purchase of PurchaseFlows.
  \<^item> \<open>GarageLoad\<close>: \<open>carregarGaragem\<close> (script.js 544--652) with the
    garage, warehouse and request answers, the pending requests of the team,
    \<open>window.garagemAtual\<close> and the cache of the whole payload.  Lemmas: car
    requests identified by number never match the session's string (the part
    requests, compared as strings, do); every car gets a parts list; the
    warehouse total is the number of stored parts; an unchanged load redraws
    nothing and the first good load after an error always redraws.
  \<^item> \<open>RestInstall\<close>: \<open>instalarPecasRepouso\<close> and the loop of
    \<open>processarPecasParaRepousoModal\<close> over the cars at rest, the unused
    \<open>criarSolicitacoesModalPecas\<close>, and \<open>mostrarModalCompraFinalizada\<close>
    over the PIX modal state of CartPollers (script.js 3495--3641).  Lemmas:
    every car at rest gets exactly one request with exactly its parts,
    whatever the other answers; after the PIX modal of a regularization, the
    next finished purchase shows no modal (the mark
    \<open>tipo_transacao_atual\<close> is only cleared there).
  \<^item> \<open>GarageView\<close>: the garage screen (script.js 1082--1438 and
    4785--4901): \<open>renderizarGaragem\<close> (cars split into active and at rest,
    nickname links, activation buttons of GarageParts, the warehouse table),
    \<open>renderizarHistorico\<close>, and the handlers \<open>editarApelidoCarro\<close>,
    \<open>confirmarEditarApelido\<close>, \<open>enviarImagemCarro\<close>, \<open>recuperarPecaVida\<close>.
    The nickname reaches \<open>editarApelidoCarro\<close> through a JavaScript literal
    in an \<open>onclick\<close> attribute, read back by \<open>le_literal\<close>.  Lemmas: the
    literal round-trips every nickname without a backslash or line break, and
    confirming an unedited nickname sends it trimmed for its car; a nickname
    ending in a backslash breaks the handler; every car is drawn once; a car
    at rest is never titled active and its button is enabled exactly when its
    parts are complete and no request is pending; the part recovery posts only
    a positive, confirmed cost.
  \<^item> \<open>QualStage\<close>: the scheduled stage of the qualification screen
    (qualificacao.js 274--671 and 1040--1061): \<open>carregarEtapaHoje\<close>,
    \<open>preencherEtapaHoje\<close>, \<open>verificarStatusEtapa\<close>,
    \<open>carregarEquipesEtapaHoje\<close> with the pit grid of
    \<open>preencherTabelaEquipes\<close>, and the choice of \<open>mostrarPitsEtapa\<close>
    between the live pits, the teams looking for a pilot and the pits modal.
    Lemmas: the grid of the page and that of the modal agree; the grid stops
    at the first team without a status (the cards after it are never drawn).
    The second global \<open>mostrarPitsEtapa\<close> of script.js (312--421) shows the
    same modal for a stage that is neither running nor scheduled, and differs
    otherwise.
  \<^item> \<open>PilotSignup\<close>: \<open>mostrarEquipesProcurandoPiloto\<close>,
    \<open>mostrarPilotosConfirmadosEtapa\<close> and \<open>inscreverPilotoEmEquipe\<close>
    (qualificacao.js 673--1035).  The signup button passes the stage, the
    team id and the team name through unescaped JavaScript literals, read by
    \<open>le_argumentos\<close> over \<open>le_literal\<close> of GarageView; the confirmed pilots
    are grouped by \<open>agrupar\<close> and \<open>chaves_objeto\<close> of QualResults and sorted
    by \<open>ordenar_js\<close> with \<open>localeCompare\<close> as a parameter.  Lemmas: the
    three arguments round-trip when none holds an apostrophe, a backslash or
    a line break, so the click posts that stage and team; a team name with an
    apostrophe makes the click do nothing; the confirmed-pilots modal shows
    every pilot exactly once, whatever the collation.
  \<^item> \<open>AdminLaps\<close>: the rows of \<open>renderizarVoltasAdmin\<close> and its two fetch
    handlers (qualificacao.js 1404--1470 and 1506--1717), and the tail of
    sistema_notificacao.js (312--465: \<open>adicionarEstilosAnimacao\<close>,
    \<open>carregarTabelaVoltasParaAdmin\<close> over \<open>atualizarTabelaVoltasAdmin\<close>,
    \<open>verificarEIniciarNotificacao\<close> over Notification's
    \<open>iniciar_notificacao\<close>).  The turn loop, an index loop with
    \<open>break\<close>, is a \<open>function\<close> with a measure and is proved equal to the first
    two elements of a filter of the indices; hence a row is \<open>SUA VEZ\<close> exactly
    when it is the first team whose scores sum to 0 and \<open>PROXIMO\<close> exactly when
    it is the second.  Lemmas: a team scored 0, 0, 0 keeps the turn; the finish
    button shows exactly when the qualification is open and some team has a
    positive total; an unchanged score input saves the same score; the inline
    results are loaded for the stage of \<open>#etapaIdAtual\<close>; only a confirmed
    admin is left without the notification interval.  The rows of the live
    table (\<open>renderizarPitsEvento\<close>, 1271--1350) are there too: its inputs are
    disabled for a team or pilot session, and it marks a team on track for
    \<open>volta_status = 'em_andamento'\<close> where the admin table needs
    \<open>'andando'\<close>, so no team is ever marked in both.
  \<^item> \<open>PilotAllocation\<close> (drag payload): the text \<open>handlePilotoDragStart\<close> puts in the
    \<open>dataTransfer\<close> (\<open>JSON.stringify\<close> of the card's id and name, with the
    escapes of \<open>QuoteJSONString\<close>) and the \<open>JSON.parse\<close> of
    \<open>handlePilotoDrop\<close> (objects of string members; the member parser has the
    text's length as fuel, one member needing at least five characters), and
    the drop-zone marks of the drag handlers (script.js 5821--5885).  Lemmas:
    every id and name, quotes, backslashes and control characters included,
    parses back unchanged, so a drop acts as \<open>soltar_piloto\<close> of PilotAllocation
    on the dragged card; an element without an id gives the required-fields
    toast and a drag from elsewhere the parse-error toast.

  \<^bold>\<open>Bounds and schedules.\<close> \<open>max_tentativas = 120\<close> is the code's constant.
  Poller runs consume a finite list of server answers, one per tick.  The
  theorems show that the pollers stop within that many answers (C2, C5; C23
  bounds the answers, not the ticks, once ticks and answers interleave), except \<open>iniciarPollingPixDividido\<close>, which provably never stops while
  the server answers (C25).  Loops over parts are structural recursion over
  finite lists.  The one wait loop with a bound in the code,
  \<open>abrirEventoEmAnda\<close>'s 50 checks for \<open>mostrarEventoAoVivo\<close>, is given fuel 50,
  which is its bound, so the fuel never runs out before the code's own limit.

  \<^bold>\<open>Not modelled.\<close> HTML rendering and DOM updates beyond the effects listed;
  the admin screens for pilots, cars, parts and the remaining forms (their
  handlers send one request each and redraw a list);
  the HTML of the qualification tables, the pits, the signup modals and the
  live event views beyond the cells and cards listed; the Bootstrap modal
  objects and z-index adjustments; the layout of the bracket columns and
  connectors; \<open>JSON.stringify\<close> of a match (its text is an input of the
  attribute round trip); floating point in \<open>Math.round\<close> of the part
  life (the model computes exactly); the animation delays of
  the notification (each removal is applied by the handler that schedules it);
  the server, whose answers are free inputs; in \<open>mostrarModalPix\<close>, the
  \<open>carro_id || null\<close> default and a \<open>toFixed\<close> that may throw; \<open>parseFloat\<close>
  of prices and rates (taken as exact numbers, never \<open>NaN\<close>); the
  \<open>Object.entries\<close> and grouping orders, taken as insertion order; a numeric
  \<open>modelo_id\<close> (car models are compared as strings).
\<close>

definition compra_armazem_ativo :: "txid \<Rightarrow> string \<Rightarrow> compra_pix" where
  "compra_armazem_ativo tx carro = \<lparr>cp_transacao_id = Some tx, cp_tipo = Some ''multiplas_pecas_armazem_ativo'',
                                    cp_item_id = None, cp_carro_id = Some carro\<rparr>"

subsection \<open>Lemmas\<close>

lemma checkout_eventos:
  assumes "processar_carrinho_armazem (Some carro) (MultiSucesso tx) rsol w = (w1, efs, evs)"
    and "filter nao_pago (carrinho_arm w) \<noteq> []" "destino_arm w = Some ''ativo''"
  shows "w1 = w \<and> evs = [DefinirCompra (compra_armazem_ativo tx carro),
                          AbrirPix \<lparr>dp_transacao_id = tx, dp_tipo_item = Some ''multiplas_pecas_armazem_ativo'',
                                    dp_item_id = Some carro, dp_carro_id = None\<rparr>]"
proof -
  have "carrinho_arm w \<noteq> []" using assms(2) by auto
  with assms show ?thesis
    by (simp add: processar_carrinho_armazem_def processar_armazem_ativo_def compra_armazem_ativo_def
                  js_truthy_str_def Let_def)
qed

lemma executa_checkout:
  "executa_pix pix_inicial
     [DefinirCompra (compra_armazem_ativo tx carro),
      AbrirPix \<lparr>dp_transacao_id = tx, dp_tipo_item = Some ''multiplas_pecas_armazem_ativo'',
                dp_item_id = Some carro, dp_carro_id = None\<rparr>]
   = Some \<lparr>atual = Some tx, atual_dividido = Some tx, pollings = [tx \<mapsto> 0],
           sessoes = [nova_sessao tx], em_voo = [],
           compra = Some (compra_armazem_ativo tx carro), eventos = []\<rparr>"
  by (simp add: mostrar_modal_pix_def monitorar_pix_def pix_inicial_def compra_armazem_ativo_def
                Let_def js_truthy_str_def)

lemma efeitos_pendentes:
  "concat (map (efeitos_saida tx c h)
      (concat (map (\<lambda>i. [Consulta, Resposta (RPendente (f i))]) xs)))
   = concat (map (\<lambda>i. [Requisicao h, TelaAguardando (f i)]) xs)"
  by (induction xs) simp_all

subsection \<open>End-to-end properties\<close>

text \<open>C21. The warehouse purchase, end to end.  A checkout of a warehouse cart
  for the active car, with unpaid parts, stores the purchase and opens the PIX
  modal; when the server then answers "pendente" \<open>n < 120\<close> times and
  "aprovado", the page shows the countdown, confirms the payment once and hands
  exactly this purchase to \<open>processarCompraAposPagamento\<close>, which posts its
  confirmation and, on success, empties the warehouse cart.\<close>

theorem checkout_pix_aprovado_limpa_carrinho:
  assumes "processar_carrinho_armazem (Some carro) (MultiSucesso tx) rsol w = (w1, efs, evs)"
    and "filter nao_pago (carrinho_arm w) \<noteq> []" "destino_arm w = Some ''ativo''"
    and "tx \<noteq> []" "n < max_tentativas"
  shows "\<exists>s. executa_pix pix_inicial
               (evs @ agenda_seq 0 (replicate n (status_resp ''pendente'') @ [status_resp ''aprovado'']))
             = Some s
           \<and> eventos s = concat (map (\<lambda>i. [Requisicao 0, TelaAguardando (int max_tentativas - int i)])
                                    [1..<Suc n])
                         @ [Requisicao 0, TelaConfirmado tx, ProcessarCompra (Some (compra_armazem_ativo tx carro))]
           \<and> processar_compra (Some (compra_armazem_ativo tx carro)) (ConfResposta True) w1
             = (limpar_armazem w, [PostConfirmacao tx, LimpaArmazem, RecarregaGaragem])"
proof -
  let ?rs = "replicate n (status_resp ''pendente'') @ [status_resp ''aprovado'']"
  let ?S = "\<lparr>atual = Some tx, atual_dividido = Some tx, pollings = [tx \<mapsto> 0],
            sessoes = [nova_sessao tx], em_voo = [],
            compra = Some (compra_armazem_ativo tx carro), eventos = []\<rparr>"
  have ce: "w1 = w \<and> evs = [DefinirCompra (compra_armazem_ativo tx carro),
                          AbrirPix \<lparr>dp_transacao_id = tx, dp_tipo_item = Some ''multiplas_pecas_armazem_ativo'',
                                    dp_item_id = Some carro, dp_carro_id = None\<rparr>]"
    by (rule checkout_eventos [OF assms(1-3)])
  have start: "executa_pix pix_inicial (evs @ agenda_seq 0 ?rs) = executa_pix ?S (agenda_seq 0 ?rs)"
    using ce executa_checkout [of tx carro] executa_pix_append [of pix_inicial evs] by simp
  have ps: "poll_seq (Some tx) (nova_sessao tx) ?rs
            = (\<lparr>sp_tx = tx, tentativas = Suc n, ativo = False\<rparr>,
               concat (map (\<lambda>i. [Consulta, Resposta (RPendente (int max_tentativas - int i))]) [1..<Suc n])
               @ [Consulta, Resposta RAprovado])"
    using poll_seq_pendentes_aprovado_gen [of 0 n tx "[]"] assms(5) by (simp add: nova_sessao_def)
  obtain s where run: "executa_pix ?S (agenda_seq 0 ?rs) = Some s"
      and ev: "eventos s = concat (map (efeitos_saida tx (Some (compra_armazem_ativo tx carro)) 0)
                                       (snd (poll_seq (Some tx) (nova_sessao tx) ?rs)))"
    using agenda_seq_simula [of ?S 0 ?rs] assms(5)
    by (auto simp: nova_sessao_def resposta_continua_def list_all_iff)
  have "processar_compra (Some (compra_armazem_ativo tx carro)) (ConfResposta True) w1
        = (limpar_armazem w, [PostConfirmacao tx, LimpaArmazem, RecarregaGaragem])"
    using ce assms(4)
    by (simp add: processar_compra_def compra_armazem_ativo_def tipos_multiplas_def js_truthy_str_def)
  with start run ev ps show ?thesis by (simp add: efeitos_pendentes)
qed

theorem checkout_pix_aprovado_limpa_carrinho_witness:
  "\<exists>s. executa_pix pix_inicial
         (snd (snd (processar_carrinho_armazem (Some ''c9'') (MultiSucesso ''tx_5'') SolicOk
            \<lparr>carrinho_arm = [\<lparr>ia_nome = ''Cambio'', ia_tipo = ''cambio'', ia_id = ''4'', ia_preco = 80,
                               ia_pix_id = None, ia_quantidade = 2\<rparr>], destino_arm = Some ''ativo''\<rparr>))
          @ agenda_seq 0 (replicate 1 (status_resp ''pendente'') @ [status_resp ''aprovado'']))
       = Some s
     \<and> eventos s = [Requisicao 0, TelaAguardando 119, Requisicao 0, TelaConfirmado ''tx_5'',
                    ProcessarCompra (Some (compra_armazem_ativo ''tx_5'' ''c9''))]
     \<and> processar_compra (Some (compra_armazem_ativo ''tx_5'' ''c9'')) (ConfResposta True)
          \<lparr>carrinho_arm = [\<lparr>ia_nome = ''Cambio'', ia_tipo = ''cambio'', ia_id = ''4'', ia_preco = 80,
                             ia_pix_id = None, ia_quantidade = 2\<rparr>], destino_arm = Some ''ativo''\<rparr>
       = (\<lparr>carrinho_arm = [], destino_arm = None\<rparr>,
          [PostConfirmacao ''tx_5'', LimpaArmazem, RecarregaGaragem])"
proof -
  let ?w = "\<lparr>carrinho_arm = [\<lparr>ia_nome = ''Cambio'', ia_tipo = ''cambio'', ia_id = ''4'', ia_preco = 80,
                              ia_pix_id = None, ia_quantidade = 2\<rparr>], destino_arm = Some ''ativo''\<rparr>"
  obtain w1 efs evs where p: "processar_carrinho_armazem (Some ''c9'') (MultiSucesso ''tx_5'') SolicOk ?w
                              = (w1, efs, evs)"
    by (cases "processar_carrinho_armazem (Some ''c9'') (MultiSucesso ''tx_5'') SolicOk ?w") auto
  have w1: "w1 = ?w"
    using p by (simp add: processar_carrinho_armazem_def processar_armazem_ativo_def nao_pago_def
                          js_truthy_str_def Let_def)
  have f: "filter nao_pago (carrinho_arm ?w) \<noteq> []" by (simp add: nao_pago_def js_truthy_str_def)
  have d: "destino_arm ?w = Some ''ativo''" by simp
  show ?thesis
    using checkout_pix_aprovado_limpa_carrinho [OF p f d, of 1] p w1
    by (simp add: max_tentativas_def limpar_armazem_def)
qed

text \<open>C22. A refused payment poisons the next purchase.  Nothing clears
  \<open>compraPendentePix\<close>, and \<open>mostrarModalPix\<close> keeps a stored purchase that has a
  \<open>tipo\<close>.  So from any state holding such a purchase of transaction \<open>tx1\<close>, when
  a payment of another transaction is opened and approved,
  \<open>processarCompraAposPagamento\<close> receives the old purchase: it never confirms
  the new transaction, it posts the confirmation of \<open>tx1\<close>, and when the old
  purchase was a checkout of the warehouse cart, a successful answer empties that
  cart.\<close>

theorem aprovacao_confirma_compra_recusada:
  assumes c: "compra s = Some c" "js_truthy_str (cp_tipo c)"
    and tx: "cp_transacao_id c = Some tx1" "tx1 \<noteq> []" "dp_transacao_id d \<noteq> tx1"
  shows "map_option (\<lambda>s'. drop (length (eventos s)) (eventos s'))
           (executa_pix s [AbrirPix d, Tique (length (sessoes s)),
                           Chega (length (em_voo s)) (status_resp ''aprovado'')])
         = Some [Requisicao (length (sessoes s)), TelaConfirmado (dp_transacao_id d), ProcessarCompra (Some c)]
     \<and> (\<forall>r w. PostConfirmacao (dp_transacao_id d) \<notin> set (snd (processar_compra (Some c) r w))
            \<and> PostConfirmacao tx1 \<in> set (snd (processar_compra (Some c) r w)))
     \<and> (cp_tipo c \<in> Some ` set tipos_multiplas
        \<longrightarrow> (\<forall>w. fst (processar_compra (Some c) (ConfResposta True) w) = limpar_armazem w))"
proof -
  let ?m = "mostrar_modal_pix d s"
  have m: "length (sessoes ?m) = Suc (length (sessoes s))"
    "sessoes ?m ! length (sessoes s) = nova_sessao (dp_transacao_id d)"
    "em_voo ?m = em_voo s" "eventos ?m = eventos s" "atual ?m = Some (dp_transacao_id d)"
    "compra ?m = Some c"
    using mostrar_modal_pix_formato [of d s] c by simp_all
  have run: "map_option (\<lambda>s'. drop (length (eventos s)) (eventos s'))
           (executa_pix s [AbrirPix d, Tique (length (sessoes s)),
                           Chega (length (em_voo s)) (status_resp ''aprovado'')])
         = Some [Requisicao (length (sessoes s)), TelaConfirmado (dp_transacao_id d), ProcessarCompra (Some c)]"
    using m by (simp add: tique_pix_def tick_pix_def chega_pix_def resposta_pix_def nova_sessao_def
                          max_tentativas_def Let_def nth_append)
  have post: "PostConfirmacao (dp_transacao_id d) \<notin> set (snd (processar_compra (Some c) r w))
            \<and> PostConfirmacao tx1 \<in> set (snd (processar_compra (Some c) r w))" for r w
    using tx by (cases r) (simp_all add: processar_compra_def js_truthy_str_def Let_def)
  have "cp_tipo c \<in> Some ` set tipos_multiplas
        \<Longrightarrow> fst (processar_compra (Some c) (ConfResposta True) w) = limpar_armazem w" for w
    using tx by (simp add: processar_compra_def js_truthy_str_def)
  with run post show ?thesis by blast
qed

theorem aprovacao_confirma_compra_recusada_witness:
  "eventos (the (executa_pix pix_inicial
       [DefinirCompra (compra_armazem_ativo ''tx_1'' ''c9''),
        AbrirPix \<lparr>dp_transacao_id = ''tx_1'', dp_tipo_item = Some ''multiplas_pecas_armazem_ativo'',
                  dp_item_id = Some ''c9'', dp_carro_id = None\<rparr>,
        Tique 0, Chega 0 (status_resp ''recusado'')])) = [Requisicao 0, TelaRecusado]
   \<and> map_option (\<lambda>s'. drop 2 (eventos s'))
       (executa_pix (the (executa_pix pix_inicial
          [DefinirCompra (compra_armazem_ativo ''tx_1'' ''c9''),
           AbrirPix \<lparr>dp_transacao_id = ''tx_1'', dp_tipo_item = Some ''multiplas_pecas_armazem_ativo'',
                     dp_item_id = Some ''c9'', dp_carro_id = None\<rparr>,
           Tique 0, Chega 0 (status_resp ''recusado'')]))
          [AbrirPix (dados_peca ''tx_2''), Tique 1, Chega 0 (status_resp ''aprovado'')])
     = Some [Requisicao 1, TelaConfirmado ''tx_2'', ProcessarCompra (Some (compra_armazem_ativo ''tx_1'' ''c9''))]
   \<and> (\<forall>r w. PostConfirmacao ''tx_2'' \<notin> set (snd (processar_compra (Some (compra_armazem_ativo ''tx_1'' ''c9'')) r w))
            \<and> PostConfirmacao ''tx_1'' \<in> set (snd (processar_compra (Some (compra_armazem_ativo ''tx_1'' ''c9'')) r w)))
   \<and> (\<forall>w. fst (processar_compra (Some (compra_armazem_ativo ''tx_1'' ''c9'')) (ConfResposta True) w)
            = limpar_armazem w)"
proof -
  let ?s = "the (executa_pix pix_inicial
       [DefinirCompra (compra_armazem_ativo ''tx_1'' ''c9''),
        AbrirPix \<lparr>dp_transacao_id = ''tx_1'', dp_tipo_item = Some ''multiplas_pecas_armazem_ativo'',
                  dp_item_id = Some ''c9'', dp_carro_id = None\<rparr>,
        Tique 0, Chega 0 (status_resp ''recusado'')])"
  let ?c = "compra_armazem_ativo ''tx_1'' ''c9''"
  have s: "compra ?s = Some ?c" "js_truthy_str (cp_tipo ?c)" "cp_transacao_id ?c = Some ''tx_1''"
    "length (sessoes ?s) = 1" "length (em_voo ?s) = 0" "length (eventos ?s) = 2"
    "eventos ?s = [Requisicao 0, TelaRecusado]" "cp_tipo ?c \<in> Some ` set tipos_multiplas"
    by (simp_all add: pix_defs compra_armazem_ativo_def Let_def js_truthy_str_def tipos_multiplas_def)
  have h: "''tx_1'' \<noteq> []" "dp_transacao_id (dados_peca ''tx_2'') \<noteq> ''tx_1''" by simp_all
  have th: "map_option (\<lambda>s'. drop 2 (eventos s'))
       (executa_pix ?s [AbrirPix (dados_peca ''tx_2''), Tique 1, Chega 0 (status_resp ''aprovado'')])
     = Some [Requisicao 1, TelaConfirmado (dp_transacao_id (dados_peca ''tx_2'')), ProcessarCompra (Some ?c)]
     \<and> (\<forall>r w. PostConfirmacao (dp_transacao_id (dados_peca ''tx_2'')) \<notin> set (snd (processar_compra (Some ?c) r w))
            \<and> PostConfirmacao ''tx_1'' \<in> set (snd (processar_compra (Some ?c) r w)))
     \<and> (cp_tipo ?c \<in> Some ` set tipos_multiplas
        \<longrightarrow> (\<forall>w. fst (processar_compra (Some ?c) (ConfResposta True) w) = limpar_armazem w))"
    using aprovacao_confirma_compra_recusada [OF s(1) s(2) s(3) h] unfolding s(4) s(5) s(6) .
  then show ?thesis using s(7) s(8) by simp
qed
text \<open>Paying for parts chosen in the "add parts" modal empties the warehouse
  cart.  \<open>processarPecasParaAtivoModal\<close> stores its purchase with the type
  \<open>multiplas_pecas_armazem_ativo_modal\<close>, which the reconciliation treats like a
  checkout of the warehouse cart: after the approval and a successful
  confirmation, \<open>carrinhoArmazem\<close> is cleared, whatever it held, although the
  modal never used it.\<close>

theorem modal_aprovado_limpa_carrinho_armazem:
  assumes "processar_pecas_ativo_modal (Some carro) (AtivoOk tx) ps = (efs, evs)" "tx \<noteq> []"
  shows "\<exists>s c. executa_pix pix_inicial (evs @ agenda_seq 0 [status_resp ''aprovado'']) = Some s
             \<and> eventos s = [Requisicao 0, TelaConfirmado tx, ProcessarCompra (Some c)]
             \<and> processar_compra (Some c) (ConfResposta True) w
               = (\<lparr>carrinho_arm = [], destino_arm = None\<rparr>, [PostConfirmacao tx, LimpaArmazem, RecarregaGaragem])"
proof -
  let ?c = "\<lparr>cp_transacao_id = Some tx, cp_tipo = Some ''multiplas_pecas_armazem_ativo_modal'',
             cp_item_id = None, cp_carro_id = Some carro\<rparr>"
  have ev: "evs = [DefinirCompra ?c, AbrirPix \<lparr>dp_transacao_id = tx,
                     dp_tipo_item = Some ''multiplas_pecas_armazem_ativo_modal'',
                     dp_item_id = Some carro, dp_carro_id = None\<rparr>]"
    using assms(1) by (simp add: processar_pecas_ativo_modal_def)
  have run: "executa_pix pix_inicial (evs @ agenda_seq 0 [status_resp ''aprovado''])
             = Some \<lparr>atual = Some tx, atual_dividido = Some tx, pollings = Map.empty,
                     sessoes = [\<lparr>sp_tx = tx, tentativas = 1, ativo = False\<rparr>], em_voo = [],
                     compra = Some ?c, eventos = [Requisicao 0, TelaConfirmado tx, ProcessarCompra (Some ?c)]\<rparr>"
    using ev by (simp add: pix_defs Let_def js_truthy_str_def)
  have "processar_compra (Some ?c) (ConfResposta True) w
        = (\<lparr>carrinho_arm = [], destino_arm = None\<rparr>, [PostConfirmacao tx, LimpaArmazem, RecarregaGaragem])"
    using assms(2) by (simp add: processar_compra_def tipos_multiplas_def limpar_armazem_def js_truthy_str_def)
  with run show ?thesis by auto
qed

theorem modal_aprovado_limpa_carrinho_armazem_witness:
  "\<exists>s c. executa_pix pix_inicial
           (snd (processar_pecas_ativo_modal (Some ''c1'') (AtivoOk ''tx_9'')
                   [\<lparr>pm_id = Some ''12'', pm_nome = ''Cambio'', pm_tipo = ''cambio'', pm_pix_id = None, pm_compat = []\<rparr>])
            @ agenda_seq 0 [status_resp ''aprovado'']) = Some s
         \<and> eventos s = [Requisicao 0, TelaConfirmado ''tx_9'', ProcessarCompra (Some c)]
         \<and> processar_compra (Some c) (ConfResposta True)
             \<lparr>carrinho_arm = [\<lparr>ia_nome = ''Motor V8'', ia_tipo = ''motor'', ia_id = ''7'', ia_preco = 100,
                                ia_pix_id = None, ia_quantidade = 1\<rparr>], destino_arm = Some ''ativo''\<rparr>
           = (\<lparr>carrinho_arm = [], destino_arm = None\<rparr>, [PostConfirmacao ''tx_9'', LimpaArmazem, RecarregaGaragem])"
proof -
  obtain efs evs where p: "processar_pecas_ativo_modal (Some ''c1'') (AtivoOk ''tx_9'')
                   [\<lparr>pm_id = Some ''12'', pm_nome = ''Cambio'', pm_tipo = ''cambio'', pm_pix_id = None, pm_compat = []\<rparr>] = (efs, evs)"
    by fastforce
  have t: "''tx_9'' \<noteq> []" by simp
  show ?thesis
    using modal_aprovado_limpa_carrinho_armazem [OF p t,
            of "\<lparr>carrinho_arm = [\<lparr>ia_nome = ''Motor V8'', ia_tipo = ''motor'', ia_id = ''7'', ia_preco = 100,
                                  ia_pix_id = None, ia_quantidade = 1\<rparr>], destino_arm = Some ''ativo''\<rparr>"] p
    by simp
qed

end
